(* ===== verification/Prelude.thy ===== *)
theory Prelude
  imports
    Main
    "HOL-Library.Word"
    "HOL-Library.Char_ord"
    "HOL-Library.List_Lexorder"
    "HOL-Library.Sublist"
    "HOL-Library.AList"
    "HOL-Library.Multiset"
begin

text \<open>
  Go values and the parts of Go's standard library that the operator uses, shared by every
  component theory.

  \<^item> Machine integers keep their width: \<open>int32\<close>, \<open>int64\<close> and Go's \<open>int\<close> (64 bits on every
    platform the operator is built for) are words; they are read with \<^const>\<open>sint\<close>, and a
    narrowing conversion \<open>int32(x)\<close> keeps the low bits.
  \<^item> A string is the list of its bytes, a slice is a list (nil and empty slices coincide), a
    pointer is an \<open>option\<close>.
  \<^item> A Go map is an association list with distinct keys, in the order in which a \<open>range\<close> loop
    happens to visit it. Go leaves that order open, so a statement that holds for every such
    list holds for every iteration order.
  \<^item> A panic is a value of its own (\<open>Panic\<close> of the component that can panic), never an
    unspecified result.
\<close>

section \<open>Collections of rules\<close>

text \<open>
  \<open>const_defs\<close>: the definitions of the string constants, to evaluate them.
  \<open>frame\<close>: what an operation leaves unchanged.
  \<open>outcome\<close>: the name, verdict and severity of a validation check.
\<close>

named_theorems const_defs
named_theorems frame
named_theorems outcome

section \<open>Machine integers, maps and time\<close>

type_synonym int32 = "32 word"
type_synonym int64 = "64 word"
type_synonym goint = "64 word"
type_synonym ('k, 'v) gomap = "('k \<times> 'v) list"

text \<open>Instants and durations in nanoseconds (\<open>time.Time\<close>, \<open>time.Duration\<close>).\<close>

type_synonym instant = int
type_synonym duration = int

definition Second :: duration where
  "Second = 1000000000"

definition Minute :: duration where
  "Minute = 60 * Second"

text \<open>The conversions \<open>int32(x)\<close> and \<open>int64(x)\<close> of a value of type \<open>int\<close> or \<open>int32\<close>.\<close>

definition to_int32 :: "goint \<Rightarrow> int32" where
  "to_int32 x = ucast x"

definition int32_to_int64 :: "int32 \<Rightarrow> int64" where
  "int32_to_int64 x = scast x"

lemma sint_to_int32:
  assumes "- (2 ^ 31) \<le> sint x" and "sint x < 2 ^ 31"
  shows "sint (to_int32 x) = sint x"
proof -
  have "sint (ucast x :: int32) = signed_take_bit 31 (sint x)"
    by (simp add: sint_uint signed_take_bit_take_bit unsigned_ucast_eq)
  also have "\<dots> = sint x"
    using assms by (intro signed_take_bit_int_eq_self) auto
  finally show ?thesis
    by (simp add: to_int32_def)
qed

lemma to_int32_of_nat [simp]: "to_int32 (of_nat n) = of_nat n"
  unfolding to_int32_def by (transfer, simp add: take_bit_of_nat)

lemma sint_of_nat32: "n < 2 ^ 31 \<Longrightarrow> sint (of_nat n :: int32) = int n"
  by (simp add: signed_of_nat signed_take_bit_int_eq_self)

definition has_key :: "('k, 'v) gomap \<Rightarrow> 'k \<Rightarrow> bool" where
  "has_key m k \<longleftrightarrow> map_of m k \<noteq> None"

definition map_keys :: "('k, 'v) gomap \<Rightarrow> 'k list" where
  "map_keys m = map fst m"

definition map_wf :: "('k, 'v) gomap \<Rightarrow> bool" where
  "map_wf m \<longleftrightarrow> distinct (map_keys m)"

lemma has_key_iff: "has_key m k \<longleftrightarrow> k \<in> set (map_keys m)"
  by (auto simp: has_key_def map_keys_def map_of_eq_None_iff)

lemma map_wf_update [simp, intro]: "map_wf m \<Longrightarrow> map_wf (AList.update k v m)"
  by (simp add: map_wf_def map_keys_def distinct_update)

lemma map_of_fold_update:
  "map_of (fold (\<lambda>(k, v). AList.update k v) kvs m) = map_of m ++ map_of (rev kvs)"
  by (induction kvs arbitrary: m) (auto simp: update_conv' map_add_def fun_eq_iff split: option.splits)

lemma map_wf_fold_update: "map_wf m \<Longrightarrow> map_wf (fold (\<lambda>(k, v). AList.update k v) kvs m)"
  by (induction kvs arbitrary: m) auto

text \<open>The set-building loop \<open>for _, k := range ks { m[k] = true }\<close>.\<close>

definition key_set :: "'k list \<Rightarrow> ('k, bool) gomap" where
  "key_set ks = fold (\<lambda>k. AList.update k True) ks []"

lemma has_key_fold_update:
  "has_key (fold (\<lambda>k. AList.update k v) ks m) k \<longleftrightarrow> k \<in> set ks \<or> has_key m k"
  by (induction ks arbitrary: m) (auto simp: has_key_def update_conv')

lemma has_key_key_set [simp]: "has_key (key_set ks) k \<longleftrightarrow> k \<in> set ks"
  by (simp add: key_set_def has_key_fold_update) (simp add: has_key_def)

lemma map_of_rev_wf: "map_wf m \<Longrightarrow> map_of (rev m) = map_of m"
  by (metis map_keys_def map_of_eqI map_of_inject_set map_wf_def distinct_rev rev_map set_rev)

lemma set_subseq: "subseq xs ys \<Longrightarrow> set xs \<subseteq> set ys"
  by (induction rule: list_emb.induct) auto

lemma distinct_subseq: "subseq xs ys \<Longrightarrow> distinct ys \<Longrightarrow> distinct xs"
  by (induction rule: list_emb.induct) (auto dest: set_subseq)

section \<open>The package strings\<close>

definition HasPrefix :: "string \<Rightarrow> string \<Rightarrow> bool" where
  "HasPrefix s p \<longleftrightarrow> length p \<le> length s \<and> take (length p) s = p"

definition TrimPrefix :: "string \<Rightarrow> string \<Rightarrow> string" where
  "TrimPrefix s p = (if HasPrefix s p then drop (length p) s else s)"

fun index_from :: "nat \<Rightarrow> string \<Rightarrow> string \<Rightarrow> int" where
  "index_from n [] sub = (if sub = [] then int n else -1)"
| "index_from n (c # s) sub =
     (if HasPrefix (c # s) sub then int n else index_from (Suc n) s sub)"

definition Index :: "string \<Rightarrow> string \<Rightarrow> int" where
  "Index s sub = index_from 0 s sub"

fun last_index_from :: "nat \<Rightarrow> string \<Rightarrow> string \<Rightarrow> int" where
  "last_index_from n [] sub = (if sub = [] then int n else -1)"
| "last_index_from n (c # s) sub =
     (let i = last_index_from (Suc n) s sub
      in if 0 \<le> i then i else if HasPrefix (c # s) sub then int n else -1)"

definition LastIndex :: "string \<Rightarrow> string \<Rightarrow> int" where
  "LastIndex s sub = last_index_from 0 s sub"

definition Contains :: "string \<Rightarrow> string \<Rightarrow> bool" where
  "Contains s sub \<longleftrightarrow> 0 \<le> Index s sub"

definition ContainsAny :: "string \<Rightarrow> string \<Rightarrow> bool" where
  "ContainsAny s chars \<longleftrightarrow> list_ex (\<lambda>c. c \<in> set chars) s"

text \<open>The slices \<open>s[:i]\<close> and \<open>s[i:]\<close>; the code takes them at indices it has tested.\<close>

definition slice_to :: "string \<Rightarrow> int \<Rightarrow> string" where
  "slice_to s i = take (nat i) s"

definition slice_from :: "string \<Rightarrow> int \<Rightarrow> string" where
  "slice_from s i = drop (nat i) s"

text \<open>\<open>strings.Split\<close> at a one-byte separator, \<open>strings.Cut\<close>, \<open>strings.SplitN(s, sep, 2)\<close>.\<close>

fun Split :: "string \<Rightarrow> char \<Rightarrow> string list" where
  "Split [] sep = [[]]"
| "Split (c # s) sep =
     (if c = sep then [] # Split s sep
      else case Split s sep of [] \<Rightarrow> [[c]] | w # ws \<Rightarrow> (c # w) # ws)"

definition Cut :: "string \<Rightarrow> char \<Rightarrow> string \<times> string \<times> bool" where
  "Cut s sep =
     (let before = takeWhile (\<lambda>c. c \<noteq> sep) s
      in if length before < length s then (before, drop (Suc (length before)) s, True)
         else (s, [], False))"

definition SplitN2 :: "string \<Rightarrow> char \<Rightarrow> string list" where
  "SplitN2 s sep = (case Cut s sep of (a, b, found) \<Rightarrow> if found then [a, b] else [a])"

fun Join :: "string list \<Rightarrow> string \<Rightarrow> string" where
  "Join [] sep = []"
| "Join [s] sep = s"
| "Join (s # t # ss) sep = s @ sep @ Join (t # ss) sep"

text \<open>\<open>strings.ReplaceAll\<close> of one byte by another; \<open>strings.TrimRight\<close> with a one-byte cutset.\<close>

definition ReplaceAll1 :: "string \<Rightarrow> char \<Rightarrow> char \<Rightarrow> string" where
  "ReplaceAll1 s old new = map (\<lambda>c. if c = old then new else c) s"

definition TrimRight1 :: "string \<Rightarrow> char \<Rightarrow> string" where
  "TrimRight1 s c = rev (dropWhile (\<lambda>x. x = c) (rev s))"

definition is_space :: "char \<Rightarrow> bool" where
  "is_space c \<longleftrightarrow> c \<in> {CHR 0x09, CHR 0x0A, CHR 0x0B, CHR 0x0C, CHR 0x0D, CHR '' ''}"

definition TrimSpace :: "string \<Rightarrow> string" where
  "TrimSpace s = rev (dropWhile is_space (rev (dropWhile is_space s)))"

subsection \<open>Facts about searching for one byte\<close>

lemma HasPrefix_prefix: "HasPrefix s p \<longleftrightarrow> prefix p s"
  by (metis HasPrefix_def append_eq_conv_conj prefix_def prefix_length_le)

lemma HasPrefix_Nil [simp]: "HasPrefix s []"
  by (simp add: HasPrefix_def)

lemma HasPrefix_one [simp]: "HasPrefix (c # s) [d] \<longleftrightarrow> c = d"
  by (auto simp: HasPrefix_def)

lemma TrimPrefix_append [simp]: "TrimPrefix (p @ s) p = s"
  by (simp add: TrimPrefix_def HasPrefix_def)

lemma TrimPrefix_id: "\<not> HasPrefix s p \<Longrightarrow> TrimPrefix s p = s"
  by (simp add: TrimPrefix_def)

lemma index_from_one:
  "index_from n s [c] =
     (if c \<in> set s then int n + int (length (takeWhile (\<lambda>x. x \<noteq> c) s)) else -1)"
  by (induction s arbitrary: n) auto

lemma Index_one:
  "Index s [c] = (if c \<in> set s then int (length (takeWhile (\<lambda>x. x \<noteq> c) s)) else -1)"
  by (simp add: Index_def index_from_one)

lemma Contains_one [simp]: "Contains s [c] \<longleftrightarrow> c \<in> set s"
  by (simp add: Contains_def Index_one)

lemma takeWhile_until: "c \<notin> set a \<Longrightarrow> takeWhile (\<lambda>x. x \<noteq> c) (a @ c # b) = a"
  by (induction a) auto

lemma takeWhile_none: "c \<notin> set a \<Longrightarrow> takeWhile (\<lambda>x. x \<noteq> c) a = a"
  by (induction a) auto

lemma split_at_first:
  assumes "c \<notin> set a" and "c \<notin> set b" and "a @ c # x = b @ c # y"
  shows "a = b \<and> x = y"
  using assms by (metis append_same_eq list.inject same_append_eq takeWhile_until)

lemma split_at_last:
  assumes "c \<notin> set x" and "c \<notin> set y" and "a @ c # x = b @ c # y"
  shows "a = b \<and> x = y"
proof -
  from assms(3) have "rev x @ c # rev a = rev y @ c # rev b"
    by (metis append.assoc append_Cons append_Nil rev.simps(2) rev_append)
  with assms(1,2) show ?thesis
    using split_at_first[of c "rev x" "rev y" "rev a" "rev b"] by simp
qed

lemma Index_split: "c \<notin> set a \<Longrightarrow> Index (a @ c # b) [c] = int (length a)"
  by (simp add: Index_one takeWhile_until)

lemma last_index_from_bounds:
  "last_index_from n s [c] = -1 \<or> int n \<le> last_index_from n s [c]"
proof (induction s arbitrary: n)
  case (Cons d s)
  from Cons.IH[of "Suc n"] show ?case
    by (auto simp: Let_def)
qed simp

lemma last_index_from_none: "c \<notin> set s \<Longrightarrow> last_index_from n s [c] = -1"
  by (induction s arbitrary: n) (auto simp: Let_def)

lemma last_index_from_split:
  "c \<notin> set b \<Longrightarrow> last_index_from n (a @ c # b) [c] = int n + int (length a)"
  by (induction a arbitrary: n) (auto simp: Let_def last_index_from_none)

lemma LastIndex_none [simp]: "c \<notin> set s \<Longrightarrow> LastIndex s [c] = -1"
  by (simp add: LastIndex_def last_index_from_none)

lemma LastIndex_split: "c \<notin> set b \<Longrightarrow> LastIndex (a @ c # b) [c] = int (length a)"
  by (simp add: LastIndex_def last_index_from_split)

lemma LastIndex_ge: "-1 \<le> LastIndex s [c]"
  using last_index_from_bounds[of 0 s c] by (auto simp: LastIndex_def)

lemma LastIndex_found: "0 \<le> LastIndex s [c] \<longleftrightarrow> c \<in> set s"
proof
  assume "c \<in> set s"
  then obtain a b where "s = a @ c # b" "c \<notin> set b"
    by (metis split_list_last)
  then show "0 \<le> LastIndex s [c]"
    by (simp add: LastIndex_split)
next
  assume "0 \<le> LastIndex s [c]"
  then show "c \<in> set s"
    by (rule contrapos_pp) simp
qed

lemma Cut_split: "c \<notin> set a \<Longrightarrow> Cut (a @ c # b) c = (a, b, True)"
  by (simp add: Cut_def takeWhile_until)

lemma Cut_none: "c \<notin> set a \<Longrightarrow> Cut a c = (a, [], False)"
  by (simp add: Cut_def takeWhile_none)

lemma Split_not_Nil [simp]: "Split s c \<noteq> []"
  by (cases s) (auto split: list.splits)

lemma hd_Split: "hd (Split s c) = takeWhile (\<lambda>x. x \<noteq> c) s"
  by (induction s) (auto split: list.splits)

lemma Join_Split: "Join (Split s c) [c] = s"
proof (induction s)
  case Nil
  then show ?case by simp
next
  case (Cons d s)
  then show ?case
    by (cases "(Split s c, [c])" rule: Join.cases) auto
qed

lemma Split_none: "c \<notin> set s \<Longrightarrow> Split s c = [s]"
  by (induction s) auto

lemma Split_append: "c \<notin> set a \<Longrightarrow> Split (a @ c # s) c = a # Split s c"
  by (induction a) auto

lemma Split_Join: "xs \<noteq> [] \<Longrightarrow> (\<And>x. x \<in> set xs \<Longrightarrow> c \<notin> set x) \<Longrightarrow> Split (Join xs [c]) c = xs"
  by (induction xs "[c]" rule: Join.induct) (auto simp: Split_none Split_append)

section \<open>The package fmt and sorting\<close>

text \<open>\<open>%d\<close> of a signed value.\<close>

fun show_nat :: "nat \<Rightarrow> string" where
  "show_nat n =
     (if n < 10 then [''0123456789'' ! n]
      else show_nat (n div 10) @ [''0123456789'' ! (n mod 10)])"

declare show_nat.simps [simp del]

definition show_int :: "int \<Rightarrow> string" where
  "show_int i = (if i < 0 then CHR ''-'' # show_nat (nat (- i)) else show_nat (nat i))"

text \<open>
  \<open>%q\<close>: a double-quoted Go literal. Control bytes are escaped as Go does; bytes from 0x80 on
  are passed through, which is what Go does for printable UTF-8 text.
\<close>

definition hex_digit :: "nat \<Rightarrow> char" where
  "hex_digit n = ''0123456789abcdef'' ! n"

definition quote_byte :: "char \<Rightarrow> string" where
  "quote_byte c =
     (let n = (of_char c :: nat)
      in if c = CHR 0x22 \<or> c = CHR 0x5C then [CHR 0x5C, c]
         else if n = 7 then [CHR 0x5C, CHR ''a''] else if n = 8 then [CHR 0x5C, CHR ''b'']
         else if n = 12 then [CHR 0x5C, CHR ''f''] else if n = 10 then [CHR 0x5C, CHR ''n'']
         else if n = 13 then [CHR 0x5C, CHR ''r''] else if n = 9 then [CHR 0x5C, CHR ''t'']
         else if n = 11 then [CHR 0x5C, CHR ''v'']
         else if n < 32 \<or> n = 127 then [CHR 0x5C, CHR ''x'', hex_digit (n div 16), hex_digit (n mod 16)]
         else [c])"

definition show_q :: "string \<Rightarrow> string" where
  "show_q s = [CHR 0x22] @ concat (map quote_byte s) @ [CHR 0x22]"

text \<open>\<open>%v\<close> of a slice of \<open>int32\<close>.\<close>

definition show_int32s :: "int32 list \<Rightarrow> string" where
  "show_int32s ps = ''['' @ Join (map (\<lambda>p. show_int (sint p)) ps) '' '' @ '']''"

text \<open>\<open>sort.Strings\<close>: ascending byte order.\<close>

definition sort_Strings :: "string list \<Rightarrow> string list" where
  "sort_Strings ss = sort ss"

lemma set_sort_Strings [simp]: "set (sort_Strings ss) = set ss"
  by (simp add: sort_Strings_def)

lemma sorted_sort_Strings [simp]: "sorted (sort_Strings ss)"
  by (simp add: sort_Strings_def)

lemma sort_Strings_perm: "mset xs = mset ys \<Longrightarrow> sort_Strings xs = sort_Strings ys"
  by (metis properties_for_sort sort_Strings_def mset_sort sorted_sort)

lemma distinct_sort_Strings [simp]: "distinct (sort_Strings ss) = distinct ss"
  by (simp add: sort_Strings_def)

end
