(* ===== verification/Api.thy ===== *)
theory Api
  imports Prelude
begin

text \<open>
  The custom resources of the operator (\<^verbatim>\<open>api/v1alpha1\<close>): the constants of
  \<^verbatim>\<open>conditions.go\<close>, one record per struct of \<^verbatim>\<open>pacto_types.go\<close> and
  \<^verbatim>\<open>pactorevision_types.go\<close>, and the two methods of \<open>Pacto\<close>. A record field carries a short
  prefix for its struct, then the Go field name.
\<close>

section \<open>Constants\<close>

definition LabelPactoName :: string where
  [const_defs]: "LabelPactoName = ''pacto.trianalab.io/pacto''"
definition LabelRevisionVersion :: string where
  [const_defs]: "LabelRevisionVersion = ''pacto.trianalab.io/version''"

subsection \<open>Condition types\<close>

definition ConditionContractValid :: string where
  [const_defs]: "ConditionContractValid = ''ContractValid''"
definition ConditionServiceExists :: string where
  [const_defs]: "ConditionServiceExists = ''ServiceExists''"
definition ConditionWorkloadExists :: string where
  [const_defs]: "ConditionWorkloadExists = ''WorkloadExists''"
definition ConditionPortsValid :: string where
  [const_defs]: "ConditionPortsValid = ''PortsValid''"
definition ConditionHealthEndpointValid :: string where
  [const_defs]: "ConditionHealthEndpointValid = ''HealthEndpointValid''"
definition ConditionMetricsEndpointValid :: string where
  [const_defs]: "ConditionMetricsEndpointValid = ''MetricsEndpointValid''"
definition ConditionWorkloadTypeMatch :: string where
  [const_defs]: "ConditionWorkloadTypeMatch = ''WorkloadTypeMatch''"
definition ConditionStateModelMatch :: string where
  [const_defs]: "ConditionStateModelMatch = ''StateModelMatch''"
definition ConditionUpgradeStrategyMatch :: string where
  [const_defs]: "ConditionUpgradeStrategyMatch = ''UpgradeStrategyMatch''"
definition ConditionGracefulShutdownMatch :: string where
  [const_defs]: "ConditionGracefulShutdownMatch = ''GracefulShutdownMatch''"
definition ConditionImageMatch :: string where
  [const_defs]: "ConditionImageMatch = ''ImageMatch''"
definition ConditionHealthTimingMatch :: string where
  [const_defs]: "ConditionHealthTimingMatch = ''HealthTimingMatch''"
definition ConditionReadinessSatisfied :: string where
  [const_defs]: "ConditionReadinessSatisfied = ''ReadinessSatisfied''"
definition ConditionRuntimeObserved :: string where
  [const_defs]: "ConditionRuntimeObserved = ''RuntimeObserved''"

subsection \<open>Reasons, events, severities, statuses, policies\<close>

definition ReasonContractParsed :: string where
  [const_defs]: "ReasonContractParsed = ''Parsed''"
definition ReasonContractInvalid :: string where
  [const_defs]: "ReasonContractInvalid = ''Invalid''"
definition ReasonFound :: string where
  [const_defs]: "ReasonFound = ''Found''"
definition ReasonNotFound :: string where
  [const_defs]: "ReasonNotFound = ''NotFound''"
definition ReasonPortsMatch :: string where
  [const_defs]: "ReasonPortsMatch = ''AllPortsMatch''"
definition ReasonMissingPorts :: string where
  [const_defs]: "ReasonMissingPorts = ''MissingPorts''"
definition ReasonReferenceOnly :: string where
  [const_defs]: "ReasonReferenceOnly = ''ReferenceOnly''"
definition ReasonEndpointOK :: string where
  [const_defs]: "ReasonEndpointOK = ''OK''"
definition ReasonEndpointConnectionError :: string where
  [const_defs]: "ReasonEndpointConnectionError = ''ConnectionFailed''"
definition ReasonEndpointInvalidStatus :: string where
  [const_defs]: "ReasonEndpointInvalidStatus = ''InvalidStatusCode''"
definition ReasonEndpointEmptyResponse :: string where
  [const_defs]: "ReasonEndpointEmptyResponse = ''EmptyResponse''"
definition ReasonEndpointNotDeclared :: string where
  [const_defs]: "ReasonEndpointNotDeclared = ''NotDeclared''"
definition ReasonEndpointNoPort :: string where
  [const_defs]: "ReasonEndpointNoPort = ''InterfaceHasNoPort''"
definition ReasonEndpointInterfaceMissing :: string where
  [const_defs]: "ReasonEndpointInterfaceMissing = ''InterfaceNotFound''"
definition ReasonMatch :: string where
  [const_defs]: "ReasonMatch = ''Match''"
definition ReasonMismatch :: string where
  [const_defs]: "ReasonMismatch = ''Mismatch''"
definition ReasonMissing :: string where
  [const_defs]: "ReasonMissing = ''Missing''"
definition ReasonSkipped :: string where
  [const_defs]: "ReasonSkipped = ''Skipped''"
definition ReasonObservationFailed :: string where
  [const_defs]: "ReasonObservationFailed = ''ObservationFailed''"
definition ReasonReadinessSatisfied :: string where
  [const_defs]: "ReasonReadinessSatisfied = ''Satisfied''"
definition ReasonReadinessBelowMinScore :: string where
  [const_defs]: "ReasonReadinessBelowMinScore = ''BelowMinScore''"
definition ReasonReadinessExpired :: string where
  [const_defs]: "ReasonReadinessExpired = ''Expired''"

definition EventReadinessGateUnmet :: string where
  [const_defs]: "EventReadinessGateUnmet = ''ReadinessGateUnmet''"
definition EventReadinessRecovered :: string where
  [const_defs]: "EventReadinessRecovered = ''ReadinessRecovered''"

definition SeverityError :: string where
  [const_defs]: "SeverityError = ''error''"
definition SeverityWarning :: string where
  [const_defs]: "SeverityWarning = ''warning''"

definition ContractStatusCompliant :: string where
  [const_defs]: "ContractStatusCompliant = ''Compliant''"
definition ContractStatusWarning :: string where
  [const_defs]: "ContractStatusWarning = ''Warning''"
definition ContractStatusNonCompliant :: string where
  [const_defs]: "ContractStatusNonCompliant = ''NonCompliant''"
definition ContractStatusReference :: string where
  [const_defs]: "ContractStatusReference = ''Reference''"
definition ContractStatusUnknown :: string where
  [const_defs]: "ContractStatusUnknown = ''Unknown''"

definition ResolutionPolicyLatest :: string where
  [const_defs]: "ResolutionPolicyLatest = ''Latest''"
definition ResolutionPolicyPinnedTag :: string where
  [const_defs]: "ResolutionPolicyPinnedTag = ''PinnedTag''"
definition ResolutionPolicyPinnedDigest :: string where
  [const_defs]: "ResolutionPolicyPinnedDigest = ''PinnedDigest''"

text \<open>
  The constants of a group differ pairwise, in both orientations, so the simplifier decides
  every comparison between them.
\<close>

lemma condition_types_distinct:
  "distinct
    [ConditionContractValid, ConditionServiceExists, ConditionWorkloadExists,
     ConditionPortsValid, ConditionHealthEndpointValid, ConditionMetricsEndpointValid,
     ConditionWorkloadTypeMatch, ConditionStateModelMatch, ConditionUpgradeStrategyMatch,
     ConditionGracefulShutdownMatch, ConditionImageMatch, ConditionHealthTimingMatch,
     ConditionReadinessSatisfied, ConditionRuntimeObserved]"
  by (simp add: const_defs)

lemma condition_types_distinct_rev:
  "distinct
    [ConditionRuntimeObserved, ConditionReadinessSatisfied, ConditionHealthTimingMatch,
     ConditionImageMatch, ConditionGracefulShutdownMatch, ConditionUpgradeStrategyMatch,
     ConditionStateModelMatch, ConditionWorkloadTypeMatch, ConditionMetricsEndpointValid,
     ConditionHealthEndpointValid, ConditionPortsValid, ConditionWorkloadExists,
     ConditionServiceExists, ConditionContractValid]"
  by (simp add: const_defs)

lemmas condition_types_neq [simp] =
  condition_types_distinct [simplified]
  condition_types_distinct_rev [simplified]

lemma contract_statuses_distinct:
  "distinct
    [ContractStatusCompliant, ContractStatusWarning, ContractStatusNonCompliant,
     ContractStatusReference, ContractStatusUnknown]"
  by (simp add: const_defs)

lemma contract_statuses_distinct_rev:
  "distinct
    [ContractStatusUnknown, ContractStatusReference, ContractStatusNonCompliant,
     ContractStatusWarning, ContractStatusCompliant]"
  by (simp add: const_defs)

lemmas contract_statuses_neq [simp] =
  contract_statuses_distinct [simplified]
  contract_statuses_distinct_rev [simplified]

lemma severities_distinct:
  "distinct
    [SeverityError, SeverityWarning, '''']"
  by (simp add: const_defs)

lemma severities_distinct_rev:
  "distinct
    ['''', SeverityWarning, SeverityError]"
  by (simp add: const_defs)

lemmas severities_neq [simp] =
  severities_distinct [simplified]
  severities_distinct_rev [simplified]

lemma resolution_policies_distinct:
  "distinct
    [ResolutionPolicyLatest, ResolutionPolicyPinnedTag, ResolutionPolicyPinnedDigest, '''']"
  by (simp add: const_defs)

lemma resolution_policies_distinct_rev:
  "distinct
    ['''', ResolutionPolicyPinnedDigest, ResolutionPolicyPinnedTag, ResolutionPolicyLatest]"
  by (simp add: const_defs)

lemmas resolution_policies_neq [simp] =
  resolution_policies_distinct [simplified]
  resolution_policies_distinct_rev [simplified]

lemma readiness_reasons_distinct:
  "distinct
    [ReasonReadinessSatisfied, ReasonReadinessBelowMinScore, ReasonReadinessExpired]"
  by (simp add: const_defs)

lemma readiness_reasons_distinct_rev:
  "distinct
    [ReasonReadinessExpired, ReasonReadinessBelowMinScore, ReasonReadinessSatisfied]"
  by (simp add: const_defs)

lemmas readiness_reasons_neq [simp] =
  readiness_reasons_distinct [simplified]
  readiness_reasons_distinct_rev [simplified]


section \<open>The Pacto resource: specification\<close>

record ObjectMeta =
  om_Name :: string
  om_Namespace :: string
  om_Generation :: int64
  om_Labels :: "(string, string) gomap"

record ContractRef =
  cr_OCI :: string
  cr_Inline :: string
  cr_PullSecretRef :: string

record WorkloadRef =
  wr_Name :: string
  wr_Kind :: string

record TargetRef =
  tr_ServiceName :: string
  tr_WorkloadRef :: "WorkloadRef option"

record ConfigurationOverride =
  co_Name :: string
  co_Values :: "(string, string) gomap"

record ContractOverrides =
  ov_Configurations :: "ConfigurationOverride list"

record PactoSpec =
  ps_ContractRef :: ContractRef
  ps_Target :: TargetRef
  ps_Overrides :: "ContractOverrides option"
  ps_CheckIntervalSeconds :: int32

section \<open>The Pacto resource: status\<close>

record ResourceStatus =
  rs_Name :: string
  rs_Kind :: string
  rs_Exists :: bool

record PortStatus =
  pt_Expected :: "int32 list"
  pt_Observed :: "int32 list"
  pt_Missing :: "int32 list"
  pt_Unexpected :: "int32 list"

record CheckSummary =
  cs_Total :: int32
  cs_Passed :: int32
  cs_Failed :: int32

record ReadinessRevisionStatus =
  rr_Date :: string
  rr_Version :: string
  rr_Author :: string
  rr_Description :: string

record ReadinessCheckStatus =
  rc_ID :: string
  rc_Type :: string
  rc_Category :: string
  rc_Status :: string
  rc_Evidence :: string
  rc_Description :: string
  rc_Weight :: int32
  rc_EarnedWeight :: int32
  rc_Excluded :: bool

record ReadinessStatus =
  rd_Score :: int32
  rd_MinScore :: int32
  rd_Passing :: bool
  rd_TotalWeight :: int32
  rd_EarnedWeight :: int32
  rd_Expires :: string
  rd_Expired :: bool
  rd_DaysRemaining :: "int32 option"
  rd_DoneCount :: int32
  rd_PartialCount :: int32
  rd_NotDoneCount :: int32
  rd_DeferredCount :: int32
  rd_Revisions :: "ReadinessRevisionStatus list"
  rd_Checks :: "ReadinessCheckStatus list"

record ResourcesStatus =
  rss_Service :: "ResourceStatus option"
  rss_Workload :: "ResourceStatus option"

record OwnerContact =
  oc_Type :: string
  oc_Value :: string
  oc_Purpose :: string

record OwnerInfo =
  oi_Team :: string
  oi_DRI :: string
  oi_Contacts :: "OwnerContact list"

record ContractInfo =
  ci_ServiceName :: string
  ci_Version :: string
  ci_Owner :: "OwnerInfo option"
  ci_OwnerDisplay :: string
  ci_ImageRef :: string
  ci_ResolvedRef :: string

record InterfaceInfo =
  ii_Name :: string
  ii_Type :: string
  ii_Port :: "int32 option"
  ii_Visibility :: string
  ii_HasContractFile :: bool

record SchemaProperty =
  sp_Key :: string
  sp_Value :: string
  sp_Type :: string

record ConfigurationInfo =
  cfi_Name :: string
  cfi_HasSchema :: bool
  cfi_Ref :: string
  cfi_ValueKeys :: "string list"
  cfi_SecretKeys :: "string list"
  cfi_OverriddenKeys :: "string list"
  cfi_Properties :: "SchemaProperty list"

record DependencyInfo =
  di_Name :: string
  di_Ref :: string
  di_Required :: bool
  di_Compatibility :: string

record PolicyInfo =
  pi_Name :: string
  pi_HasSchema :: bool
  pi_Schema :: string
  pi_Ref :: string
  pi_Title :: string
  pi_Description :: string
  pi_Properties :: "SchemaProperty list"

record RuntimeInfo =
  ri_Workload :: string
  ri_StateType :: string
  ri_PersistenceScope :: string
  ri_PersistenceDurability :: string
  ri_DataCriticality :: string
  ri_UpgradeStrategy :: string
  ri_GracefulShutdownSeconds :: "int32 option"
  ri_HealthInterface :: string
  ri_HealthPath :: string
  ri_MetricsInterface :: string
  ri_MetricsPath :: string
  ri_HealthInitialDelaySeconds :: "int32 option"

record ObservedRuntime =
  or_WorkloadKind :: string
  or_DeploymentStrategy :: string
  or_PodManagementPolicy :: string
  or_TerminationGracePeriodSeconds :: "int64 option"
  or_ContainerImages :: "string list"
  or_HasPVC :: bool
  or_HasEmptyDir :: bool
  or_HealthProbeInitialDelaySeconds :: "int32 option"

record ScalingInfo =
  si_Replicas :: "int32 option"
  si_Min :: "int32 option"
  si_Max :: "int32 option"

record EndpointCheckResult =
  ep_URL :: string
  ep_Reachable :: bool
  ep_StatusCode :: int32
  ep_LatencyMs :: int64
  ep_Error :: string

record EndpointsStatus =
  es_Health :: "EndpointCheckResult option"
  es_Metrics :: "EndpointCheckResult option"

record ValidationIssue =
  vi_Code :: string
  vi_Path :: string
  vi_Message :: string

record ValidationResult =
  vr_Valid :: bool
  vr_Errors :: "ValidationIssue list"
  vr_Warnings :: "ValidationIssue list"

text \<open>
  \<open>metav1.Condition\<close> of the Kubernetes API, with the fields the operator writes
  (\<open>LastTransitionTime\<close> is maintained by the library and read by nobody here), and its three
  values of \<open>ConditionStatus\<close>.
\<close>

datatype ConditionStatus = ConditionTrue | ConditionFalse | ConditionUnknown

record Condition =
  cond_Type :: string
  cond_Status :: ConditionStatus
  cond_ObservedGeneration :: int64
  cond_Reason :: string
  cond_Message :: string

record PactoStatus =
  st_ContractStatus :: string
  st_ResolutionPolicy :: string
  st_Summary :: "CheckSummary option"
  st_ContractVersion :: string
  st_Contract :: "ContractInfo option"
  st_Validation :: "ValidationResult option"
  st_Resources :: "ResourcesStatus option"
  st_Ports :: "PortStatus option"
  st_Endpoints :: "EndpointsStatus option"
  st_Interfaces :: "InterfaceInfo list"
  st_Configurations :: "ConfigurationInfo list"
  st_Dependencies :: "DependencyInfo list"
  st_Policies :: "PolicyInfo list"
  st_Runtime :: "RuntimeInfo option"
  st_ObservedRuntime :: "ObservedRuntime option"
  st_Scaling :: "ScalingInfo option"
  st_Readiness :: "ReadinessStatus option"
  st_Metadata :: "(string, string) gomap"
  st_Conditions :: "Condition list"
  st_CurrentRevision :: string
  st_LastReconciledAt :: "instant option"
  st_ObservedGeneration :: int64

record Pacto =
  p_Meta :: ObjectMeta
  p_Spec :: PactoSpec
  p_Status :: PactoStatus

section \<open>The PactoRevision resource\<close>

record RevisionSource =
  src_OCI :: string
  src_Digest :: string
  src_Inline :: bool

record PactoRevisionSpec =
  rsp_Version :: string
  rsp_Source :: RevisionSource
  rsp_PactoRef :: string
  rsp_ServiceName :: string

record PactoRevisionStatus =
  rst_Resolved :: bool
  rst_ContractHash :: string
  rst_CreatedAt :: "instant option"

record PactoRevision =
  rv_Meta :: ObjectMeta
  rv_Spec :: PactoRevisionSpec
  rv_Status :: PactoRevisionStatus

section \<open>Methods of Pacto\<close>

definition IsReference :: "Pacto \<Rightarrow> bool" where
  "IsReference p \<longleftrightarrow>
     tr_ServiceName (ps_Target (p_Spec p)) = '''' \<and> tr_WorkloadRef (ps_Target (p_Spec p)) = None"

definition ResolvedWorkload :: "Pacto \<Rightarrow> string \<times> string" where
  "ResolvedWorkload p =
     (let tgt = ps_Target (p_Spec p)
      in case tr_WorkloadRef tgt of
           Some wr \<Rightarrow>
             (let kind = (if wr_Kind wr = '''' then ''Deployment'' else wr_Kind wr)
              in (wr_Name wr, kind))
         | None \<Rightarrow>
             if tr_ServiceName tgt \<noteq> '''' then (tr_ServiceName tgt, ''Deployment'')
             else ('''', ''''))"

text \<open>
  A reference-only Pacto is exactly one for which no workload kind is resolved; every other one
  has a kind, and one without an explicit workload observes the Deployment of its Service's name.
\<close>

lemma ResolvedWorkload_kind: "snd (ResolvedWorkload p) = '''' \<longleftrightarrow> IsReference p"
  by (auto simp: ResolvedWorkload_def IsReference_def Let_def split: option.splits)

lemma ResolvedWorkload_default:
  "tr_WorkloadRef (ps_Target (p_Spec p)) = None \<Longrightarrow> \<not> IsReference p \<Longrightarrow>
     ResolvedWorkload p = (tr_ServiceName (ps_Target (p_Spec p)), ''Deployment'')"
  by (auto simp: ResolvedWorkload_def IsReference_def)

end
