(* ===== verification/Contract.thy ===== *)
theory Contract
  imports Api
begin

text \<open>
  What the operator uses of third-party packages, as data and as parameters.

  The records are the types of \<^verbatim>\<open>github.com/trianalab/pacto/v2\<close> (\<open>contract\<close>, \<open>validation\<close>,
  \<open>readiness\<close>, \<open>schemax\<close>) with the fields that the operator reads. The functions of those
  packages, of \<^verbatim>\<open>k8s.io/apimachinery/pkg/api/meta\<close> and of \<^verbatim>\<open>crypto/sha256\<close> are not part of the
  repository: they are the fields of the record \<open>externals\<close>, an argument of every definition
  that calls one of them. What the operator relies on is stated as the named predicates
  \<open>condition_api\<close> and \<open>hash_api\<close>; \<open>documented\<close> is an instance that satisfies both, used to
  evaluate the model on concrete inputs.
\<close>

section \<open>Contract data\<close>

text \<open>
  The values of a \<open>map[string]any\<close> decoded from YAML, with the text that \<open>%v\<close> prints for them
  (a float carries its shortest decimal text). \<open>fmt\<close> prints maps in key order.
\<close>

datatype any =
    AnyString string
  | AnyInt int
  | AnyBool bool
  | AnyNil
  | AnyFloat string
  | AnySeq "any list"
  | AnyMap "(string \<times> any) list"

fun show_any :: "any \<Rightarrow> string" where
  "show_any (AnyString s) = s"
| "show_any (AnyInt i) = show_int i"
| "show_any (AnyBool b) = (if b then ''true'' else ''false'')"
| "show_any AnyNil = ''<nil>''"
| "show_any (AnyFloat t) = t"
| "show_any (AnySeq vs) = ''['' @ Join (map show_any vs) '' '' @ '']''"
| "show_any (AnyMap m) =
     ''map['' @ Join (map (\<lambda>kv. fst kv @ '':'' @ snd kv)
       (sort_key fst (map (\<lambda>kv. (fst kv, show_any (snd kv))) m))) '' '' @ '']''"

record Owner =
  ow_Team :: string
  ow_DRI :: string
  ow_Contacts :: "OwnerContact list"

record Image =
  im_Ref :: string

record ServiceIdentity =
  sv_Name :: string
  sv_Version :: string
  sv_Owner :: Owner
  sv_Image :: "Image option"

record Interface =
  if_Name :: string
  if_Type :: string
  if_Visibility :: string
  if_Contract :: string
  if_Port :: "goint option"

record ConfigurationSource =
  cf_Name :: string
  cf_Schema :: string
  cf_Ref :: string
  cf_Values :: "(string, any) gomap option"

record Dependency =
  dp_Name :: string
  dp_Ref :: string
  dp_Required :: bool
  dp_Compatibility :: string

record PolicySource =
  pl_Name :: string
  pl_Schema :: string
  pl_Ref :: string

record StateModel =
  sm_Type :: string
  sm_Scope :: string
  sm_Durability :: string
  sm_DataCriticality :: string

record Lifecycle =
  lc_UpgradeStrategy :: string
  lc_GracefulShutdownSeconds :: "goint option"

record Health =
  hl_Interface :: string
  hl_Path :: string
  hl_InitialDelaySeconds :: "goint option"

record MetricsDecl =
  mt_Interface :: string
  mt_Path :: string

record Runtime =
  rt_Workload :: string
  rt_State :: StateModel
  rt_Lifecycle :: "Lifecycle option"
  rt_Health :: "Health option"
  rt_Metrics :: "MetricsDecl option"

record Scaling =
  sc_Replicas :: "goint option"
  sc_Min :: goint
  sc_Max :: goint

record ReadinessRevision =
  hv_Date :: string
  hv_Version :: string
  hv_Author :: string
  hv_Description :: string

record ReadinessDecl =
  rn_History :: "ReadinessRevision list"
  rn_Declared :: string \<comment> \<open>the declared checks, read by the evaluator only\<close>

record ContractDoc =
  c_Service :: ServiceIdentity
  c_Interfaces :: "Interface list"
  c_Configurations :: "ConfigurationSource list"
  c_Dependencies :: "Dependency list"
  c_Policies :: "PolicySource list"
  c_Runtime :: "Runtime option"
  c_Scaling :: "Scaling option"
  c_Metadata :: "(string, any) gomap"
  c_Readiness :: "ReadinessDecl option"

text \<open>\<open>validation.ValidationResult\<close>, \<open>readiness.Result\<close> and \<open>schemax.Property\<close>.\<close>

record ValidationError =
  ve_Code :: string
  ve_Path :: string
  ve_Message :: string

record ContractValidation =
  cv_Errors :: "ValidationError list"
  cv_Warnings :: "ValidationError list"

record EvalCheck =
  ec_ID :: string
  ec_Type :: string
  ec_Category :: string
  ec_Status :: string
  ec_Evidence :: string
  ec_Description :: string
  ec_Weight :: goint
  ec_EarnedWeight :: goint
  ec_Excluded :: bool

record EvalResult =
  ev_Score :: goint
  ev_MinScore :: goint
  ev_Passing :: bool
  ev_TotalWeight :: goint
  ev_EarnedWeight :: goint
  ev_Expires :: string
  ev_Expired :: bool
  ev_DaysRemaining :: "goint option"
  ev_DoneCount :: goint
  ev_PartialCount :: goint
  ev_NotDoneCount :: goint
  ev_DeferredCount :: goint
  ev_Checks :: "EvalCheck list"

record SchemaEntry =
  se_Key :: string
  se_Value :: string
  se_Type :: string

text \<open>
  A bundle file system (\<open>io/fs.FS\<close>) as the operator uses it: \<open>fs.ReadFile\<close> gives the bytes of a
  path, or fails. A nil file system is \<^const>\<open>None\<close>.
\<close>

type_synonym bundle_fs = "string \<rightharpoonup> string"

section \<open>Third-party functions\<close>

record externals =
  x_SetStatusCondition :: "Condition list \<Rightarrow> Condition \<Rightarrow> Condition list"
  x_FindStatusCondition :: "Condition list \<Rightarrow> string \<Rightarrow> Condition option"
  x_OwnerIsEmpty :: "Owner \<Rightarrow> bool"
  x_OwnerDisplayString :: "Owner \<Rightarrow> string"
  x_SchemaValues :: "(string, any) gomap \<Rightarrow> SchemaEntry list"
  x_SchemaProperties :: "string \<Rightarrow> string \<Rightarrow> SchemaEntry list"
  x_SchemaMeta :: "string \<Rightarrow> string \<Rightarrow> string \<times> string"
  x_Validate :: "ContractDoc \<Rightarrow> string \<Rightarrow> bundle_fs option \<Rightarrow> ContractValidation"
  x_HasExplicitTag :: "string \<Rightarrow> bool"
  x_Evaluate :: "ReadinessDecl option \<Rightarrow> instant \<Rightarrow> EvalResult option"
  x_Sum256Hex :: "string \<Rightarrow> string"

text \<open>
  \<open>meta.SetStatusCondition\<close> keeps one condition per type: it replaces the condition of the new
  one's type, or adds it, and leaves the other types alone. \<open>meta.FindStatusCondition\<close> returns
  the condition of a type, nil if there is none.
\<close>

definition types_distinct :: "Condition list \<Rightarrow> bool" where
  "types_distinct cs \<longleftrightarrow> distinct (map cond_Type cs)"

definition condition_api :: "externals \<Rightarrow> bool" where
  "condition_api x \<longleftrightarrow>
     (\<forall>cs c. types_distinct cs \<longrightarrow>
        types_distinct (x_SetStatusCondition x cs c) \<and>
        set (x_SetStatusCondition x cs c) = insert c {d \<in> set cs. cond_Type d \<noteq> cond_Type c}) \<and>
     (\<forall>cs t. x_FindStatusCondition x cs t = List.find (\<lambda>c. cond_Type c = t) cs)"

text \<open>\<open>sha256.Sum256\<close> printed with \<open>%x\<close> has 64 hexadecimal digits.\<close>

definition hash_api :: "externals \<Rightarrow> bool" where
  "hash_api x \<longleftrightarrow>
     (\<forall>b. length (x_Sum256Hex x b) = 64 \<and> set (x_Sum256Hex x b) \<subseteq> set ''0123456789abcdef'')"

subsection \<open>An instance that follows the documentation\<close>

fun set_status_condition :: "Condition list \<Rightarrow> Condition \<Rightarrow> Condition list" where
  "set_status_condition [] c = [c]"
| "set_status_condition (d # cs) c =
     (if cond_Type d = cond_Type c then c # cs else d # set_status_condition cs c)"

lemma types_set_status_condition:
  "cond_Type ` set (set_status_condition cs c) = insert (cond_Type c) (cond_Type ` set cs)"
  by (induction cs) auto

lemma set_status_condition_correct:
  "types_distinct cs \<Longrightarrow>
     types_distinct (set_status_condition cs c) \<and>
     set (set_status_condition cs c) = insert c {d \<in> set cs. cond_Type d \<noteq> cond_Type c}"
proof (induction cs)
  case Nil
  then show ?case by (simp add: types_distinct_def)
next
  case (Cons d cs)
  then show ?case
    using types_set_status_condition[of cs c]
    by (auto simp: types_distinct_def) (metis imageI)
qed

text \<open>
  Outside the laws above, \<open>documented\<close> takes simple choices: contracts validate, no readiness
  is declared unless the declaration says \<open>met\<close> or \<open>unmet\<close>, and the hash is a constant digest.
\<close>

definition sample_eval :: "bool \<Rightarrow> EvalResult" where
  "sample_eval ok =
     \<lparr>ev_Score = (if ok then 100 else 60), ev_MinScore = 100, ev_Passing = ok, ev_TotalWeight = 100,
      ev_EarnedWeight = (if ok then 100 else 60), ev_Expires = ''2030-01-01'', ev_Expired = False,
      ev_DaysRemaining = Some 30, ev_DoneCount = 1, ev_PartialCount = 0,
      ev_NotDoneCount = (if ok then 0 else 1), ev_DeferredCount = 0, ev_Checks = []\<rparr>"

definition documented :: externals where
  "documented =
     \<lparr>x_SetStatusCondition = set_status_condition,
      x_FindStatusCondition = (\<lambda>cs t. List.find (\<lambda>c. cond_Type c = t) cs),
      x_OwnerIsEmpty = (\<lambda>w. ow_Team w = '''' \<and> ow_DRI w = '''' \<and> ow_Contacts w = []),
      x_OwnerDisplayString = (\<lambda>w. if ow_Team w \<noteq> '''' then ow_Team w else ow_DRI w),
      x_SchemaValues = (\<lambda>m. map (\<lambda>kv. \<lparr>se_Key = fst kv, se_Value = show_any (snd kv), se_Type = ''string''\<rparr>) m),
      x_SchemaProperties = (\<lambda>_ _. []),
      x_SchemaMeta = (\<lambda>_ _. ('''', '''')),
      x_Validate = (\<lambda>c _ _.
        if sv_Name (c_Service c) = '''' then
          \<lparr>cv_Errors = [\<lparr>ve_Code = ''REQUIRED'', ve_Path = ''service.name'', ve_Message = ''name is required''\<rparr>],
           cv_Warnings = []\<rparr>
        else \<lparr>cv_Errors = [], cv_Warnings = []\<rparr>),
      x_HasExplicitTag = (\<lambda>ref. Contains ref ''@'' \<or> LastIndex ref '':'' > LastIndex ref ''/''),
      x_Evaluate = (\<lambda>r _. case r of None \<Rightarrow> None | Some d \<Rightarrow> Some (sample_eval (rn_Declared d = ''met''))),
      x_Sum256Hex = (\<lambda>_. replicate 64 (CHR ''a''))\<rparr>"

lemma condition_api_documented: "condition_api documented"
  by (simp add: condition_api_def documented_def set_status_condition_correct)

lemma hash_api_documented: "hash_api documented"
  by (simp add: hash_api_def documented_def)

section \<open>Consequences of the condition API\<close>

lemma types_distinct_Nil [simp]: "types_distinct []"
  by (simp add: types_distinct_def)

lemma SetStatusCondition_distinct:
  "condition_api x \<Longrightarrow> types_distinct cs \<Longrightarrow> types_distinct (x_SetStatusCondition x cs c)"
  by (simp add: condition_api_def)

lemma SetStatusCondition_set:
  "condition_api x \<Longrightarrow> types_distinct cs \<Longrightarrow>
     set (x_SetStatusCondition x cs c) = insert c {d \<in> set cs. cond_Type d \<noteq> cond_Type c}"
  by (simp add: condition_api_def)

lemma types_distinct_inj:
  "types_distinct cs \<Longrightarrow> c \<in> set cs \<Longrightarrow> d \<in> set cs \<Longrightarrow> cond_Type c = cond_Type d \<Longrightarrow> c = d"
  by (auto simp: types_distinct_def distinct_map dest: inj_onD)

lemma FindStatusCondition_iff:
  assumes "condition_api x" and "types_distinct cs"
  shows "x_FindStatusCondition x cs t = Some c \<longleftrightarrow> c \<in> set cs \<and> cond_Type c = t"
proof -
  have "x_FindStatusCondition x cs t = List.find (\<lambda>c. cond_Type c = t) cs"
    using assms(1) by (simp add: condition_api_def)
  moreover have "List.find (\<lambda>c. cond_Type c = t) cs = Some c \<longleftrightarrow> c \<in> set cs \<and> cond_Type c = t"
    using assms(2) by (induction cs) (auto simp: types_distinct_def)
  ultimately show ?thesis by simp
qed

lemma FindStatusCondition_set:
  assumes "condition_api x" and "types_distinct cs"
  shows "x_FindStatusCondition x (x_SetStatusCondition x cs c) t =
           (if t = cond_Type c then Some c else x_FindStatusCondition x cs t)"
proof -
  have "x_FindStatusCondition x (x_SetStatusCondition x cs c) t = Some d \<longleftrightarrow>
        (if t = cond_Type c then Some c else x_FindStatusCondition x cs t) = Some d" for d
    using assms by (auto simp: FindStatusCondition_iff SetStatusCondition_distinct SetStatusCondition_set)
  then show ?thesis
    by (metis option.exhaust)
qed

end
