(* ===== verification/Observer.thy ===== *)
theory Observer
  imports Contract
begin

text \<open>
  The observer (\<^verbatim>\<open>internal/observer/runtime.go\<close>): it reads the target Service and workload through
  the Kubernetes client and produces a \<open>RuntimeSnapshot\<close>. The client's \<open>Get\<close> is a parameter, the
  record \<open>reader\<close>, one field per kind of object; the objects carry the fields the observer reads.
\<close>

section \<open>Kubernetes objects and the client\<close>

text \<open>An error of the API client with its text; \<open>IsNotFound\<close> and \<open>IsAlreadyExists\<close> test its kind.\<close>

datatype api_error = NotFound string | AlreadyExists string | OtherError string

fun error_text :: "api_error \<Rightarrow> string" where
  "error_text (NotFound m) = m"
| "error_text (AlreadyExists m) = m"
| "error_text (OtherError m) = m"

fun IsNotFound :: "api_error \<Rightarrow> bool" where
  "IsNotFound (NotFound m) = True"
| "IsNotFound (AlreadyExists m) = False"
| "IsNotFound (OtherError m) = False"

fun IsAlreadyExists :: "api_error \<Rightarrow> bool" where
  "IsAlreadyExists (NotFound m) = False"
| "IsAlreadyExists (AlreadyExists m) = True"
| "IsAlreadyExists (OtherError m) = False"

record Container =
  ct_Image :: string
  ct_ReadinessProbe :: "int32 option" \<comment> \<open>its initialDelaySeconds\<close>
  ct_LivenessProbe :: "int32 option" \<comment> \<open>its initialDelaySeconds\<close>

record Volume =
  vl_PersistentVolumeClaim :: bool \<comment> \<open>the source is set\<close>
  vl_EmptyDir :: bool \<comment> \<open>the source is set\<close>

record PodSpec =
  pod_TerminationGracePeriodSeconds :: "int64 option"
  pod_Containers :: "Container list"
  pod_Volumes :: "Volume list"

record Service =
  svc_Ports :: "int32 list"

record Deployment =
  dep_StrategyType :: string
  dep_Pod :: PodSpec

record StatefulSet =
  sts_PodManagementPolicy :: string
  sts_VolumeClaimTemplates :: nat \<comment> \<open>how many there are\<close>
  sts_Pod :: PodSpec

text \<open>ReplicaSets, Jobs and CronJobs are read for their pod template only.\<close>

type_synonym key = "string \<times> string"

record reader =
  get_Service :: "key \<Rightarrow> api_error + Service"
  get_Deployment :: "key \<Rightarrow> api_error + Deployment"
  get_StatefulSet :: "key \<Rightarrow> api_error + StatefulSet"
  get_ReplicaSet :: "key \<Rightarrow> api_error + PodSpec"
  get_Job :: "key \<Rightarrow> api_error + PodSpec"
  get_CronJob :: "key \<Rightarrow> api_error + PodSpec"

section \<open>Snapshot and operations\<close>

record RuntimeSnapshot =
  sn_ServiceExists :: bool
  sn_WorkloadExists :: bool
  sn_WorkloadKind :: string
  sn_ServicePorts :: "int32 list"
  sn_DeploymentStrategy :: string
  sn_PodManagementPolicy :: string
  sn_TerminationGracePeriod :: "int64 option"
  sn_ContainerImages :: "string list"
  sn_HasPVC :: bool
  sn_HasEmptyDir :: bool
  sn_HealthProbeInitialDelay :: "int32 option"

definition empty_snapshot :: "string \<Rightarrow> RuntimeSnapshot" where
  "empty_snapshot kind =
     \<lparr>sn_ServiceExists = False, sn_WorkloadExists = False, sn_WorkloadKind = kind,
      sn_ServicePorts = [], sn_DeploymentStrategy = '''', sn_PodManagementPolicy = '''',
      sn_TerminationGracePeriod = None, sn_ContainerImages = [], sn_HasPVC = False,
      sn_HasEmptyDir = False, sn_HealthProbeInitialDelay = None\<rparr>"

fun scan_volumes :: "Volume list \<Rightarrow> RuntimeSnapshot \<Rightarrow> RuntimeSnapshot" where
  "scan_volumes [] snap = snap"
| "scan_volumes (v # vs) snap =
     (let snap = (if vl_PersistentVolumeClaim v then snap\<lparr>sn_HasPVC := True\<rparr> else snap);
          snap = (if vl_EmptyDir v then snap\<lparr>sn_HasEmptyDir := True\<rparr> else snap)
      in scan_volumes vs snap)"

definition extractPodTemplateInfo :: "PodSpec \<Rightarrow> RuntimeSnapshot \<Rightarrow> RuntimeSnapshot" where
  "extractPodTemplateInfo podSpec snap =
     (let snap = snap\<lparr>sn_TerminationGracePeriod := pod_TerminationGracePeriodSeconds podSpec\<rparr>;
          snap = snap\<lparr>sn_ContainerImages := sn_ContainerImages snap @ map ct_Image (pod_Containers podSpec)\<rparr>;
          snap = (case pod_Containers podSpec of
                    [] \<Rightarrow> snap
                  | c # _ \<Rightarrow>
                      (case ct_ReadinessProbe c of
                         Some delay \<Rightarrow> snap\<lparr>sn_HealthProbeInitialDelay := Some delay\<rparr>
                       | None \<Rightarrow>
                           (case ct_LivenessProbe c of
                              Some delay \<Rightarrow> snap\<lparr>sn_HealthProbeInitialDelay := Some delay\<rparr>
                            | None \<Rightarrow> snap)))
      in scan_volumes (pod_Volumes podSpec) snap)"

definition get_failed :: "string \<Rightarrow> string \<Rightarrow> api_error \<Rightarrow> string" where
  "get_failed kind name e = ''failed to get '' @ kind @ '' '' @ name @ '': '' @ error_text e"

definition observeDeployment :: "reader \<Rightarrow> key \<Rightarrow> RuntimeSnapshot \<Rightarrow> string + RuntimeSnapshot" where
  "observeDeployment r k snap =
     (case get_Deployment r k of
        Inl e \<Rightarrow> if \<not> IsNotFound e then Inl (get_failed ''Deployment'' (snd k) e) else Inr snap
      | Inr dep \<Rightarrow>
          let snap = snap\<lparr>sn_WorkloadExists := True\<rparr>;
              snap = (if dep_StrategyType dep \<noteq> '''' then snap\<lparr>sn_DeploymentStrategy := dep_StrategyType dep\<rparr> else snap)
          in Inr (extractPodTemplateInfo (dep_Pod dep) snap))"

definition observeStatefulSet :: "reader \<Rightarrow> key \<Rightarrow> RuntimeSnapshot \<Rightarrow> string + RuntimeSnapshot" where
  "observeStatefulSet r k snap =
     (case get_StatefulSet r k of
        Inl e \<Rightarrow> if \<not> IsNotFound e then Inl (get_failed ''StatefulSet'' (snd k) e) else Inr snap
      | Inr sts \<Rightarrow>
          let snap = snap\<lparr>sn_WorkloadExists := True\<rparr>;
              snap = snap\<lparr>sn_PodManagementPolicy := sts_PodManagementPolicy sts\<rparr>;
              snap = (if sts_VolumeClaimTemplates sts > 0 then snap\<lparr>sn_HasPVC := True\<rparr> else snap)
          in Inr (extractPodTemplateInfo (sts_Pod sts) snap))"

definition observeReplicaSet :: "reader \<Rightarrow> key \<Rightarrow> RuntimeSnapshot \<Rightarrow> string + RuntimeSnapshot" where
  "observeReplicaSet r k snap =
     (case get_ReplicaSet r k of
        Inl e \<Rightarrow> if \<not> IsNotFound e then Inl (get_failed ''ReplicaSet'' (snd k) e) else Inr snap
      | Inr pod \<Rightarrow> Inr (extractPodTemplateInfo pod (snap\<lparr>sn_WorkloadExists := True\<rparr>)))"

definition observeJob :: "reader \<Rightarrow> key \<Rightarrow> RuntimeSnapshot \<Rightarrow> string + RuntimeSnapshot" where
  "observeJob r k snap =
     (case get_Job r k of
        Inl e \<Rightarrow> if \<not> IsNotFound e then Inl (get_failed ''Job'' (snd k) e) else Inr snap
      | Inr pod \<Rightarrow> Inr (extractPodTemplateInfo pod (snap\<lparr>sn_WorkloadExists := True\<rparr>)))"

definition observeCronJob :: "reader \<Rightarrow> key \<Rightarrow> RuntimeSnapshot \<Rightarrow> string + RuntimeSnapshot" where
  "observeCronJob r k snap =
     (case get_CronJob r k of
        Inl e \<Rightarrow> if \<not> IsNotFound e then Inl (get_failed ''CronJob'' (snd k) e) else Inr snap
      | Inr pod \<Rightarrow> Inr (extractPodTemplateInfo pod (snap\<lparr>sn_WorkloadExists := True\<rparr>)))"

definition observeWorkload :: "reader \<Rightarrow> string \<Rightarrow> string \<Rightarrow> string \<Rightarrow> RuntimeSnapshot \<Rightarrow> string + RuntimeSnapshot" where
  "observeWorkload r namespace name kind snap =
     (let k = (namespace, name)
      in if kind = ''Deployment'' then observeDeployment r k snap
         else if kind = ''StatefulSet'' then observeStatefulSet r k snap
         else if kind = ''ReplicaSet'' then observeReplicaSet r k snap
         else if kind = ''Job'' then observeJob r k snap
         else if kind = ''CronJob'' then observeCronJob r k snap
         else observeDeployment r k snap)"

definition Observe :: "reader \<Rightarrow> string \<Rightarrow> string \<Rightarrow> string \<Rightarrow> string \<Rightarrow> string + RuntimeSnapshot" where
  "Observe r namespace serviceName workloadName workloadKind =
     (let snapshot = empty_snapshot workloadKind;
          svc = (if serviceName \<noteq> '''' then
                   (case get_Service r (namespace, serviceName) of
                      Inl e \<Rightarrow> if \<not> IsNotFound e then Inl (get_failed ''service'' serviceName e) else Inr snapshot
                    | Inr s \<Rightarrow> Inr (snapshot\<lparr>sn_ServiceExists := True, sn_ServicePorts := svc_Ports s\<rparr>))
                 else Inr snapshot)
      in case svc of
           Inl e \<Rightarrow> Inl e
         | Inr snapshot \<Rightarrow>
             if workloadName \<noteq> '''' then observeWorkload r namespace workloadName workloadKind snapshot
             else Inr snapshot)"

section \<open>What is read from a pod template\<close>

text \<open>
  The probe whose delay counts: the first container's readiness probe, else its liveness probe.
\<close>

definition probe_delay :: "PodSpec \<Rightarrow> int32 option" where
  "probe_delay pod =
     (case pod_Containers pod of
        [] \<Rightarrow> None
      | c # _ \<Rightarrow> if ct_ReadinessProbe c \<noteq> None then ct_ReadinessProbe c else ct_LivenessProbe c)"

lemma scan_volumes_eq:
  "scan_volumes vs snap =
     snap\<lparr>sn_HasPVC := sn_HasPVC snap \<or> list_ex vl_PersistentVolumeClaim vs,
          sn_HasEmptyDir := sn_HasEmptyDir snap \<or> list_ex vl_EmptyDir vs\<rparr>"
  by (induction vs arbitrary: snap) (auto simp: Let_def)

lemma extractPodTemplateInfo_eq:
  "extractPodTemplateInfo pod snap =
     snap\<lparr>sn_TerminationGracePeriod := pod_TerminationGracePeriodSeconds pod,
          sn_ContainerImages := sn_ContainerImages snap @ map ct_Image (pod_Containers pod),
          sn_HealthProbeInitialDelay :=
            (if probe_delay pod \<noteq> None then probe_delay pod else sn_HealthProbeInitialDelay snap),
          sn_HasPVC := sn_HasPVC snap \<or> list_ex vl_PersistentVolumeClaim (pod_Volumes pod),
          sn_HasEmptyDir := sn_HasEmptyDir snap \<or> list_ex vl_EmptyDir (pod_Volumes pod)\<rparr>"
  by (auto simp: extractPodTemplateInfo_def scan_volumes_eq probe_delay_def Let_def
      split: list.splits option.splits)

section \<open>The contract shared by the five workload observers\<close>

text \<open>What a snapshot says of a pod template, and what the workload part leaves alone.\<close>

definition describes_pod :: "PodSpec \<Rightarrow> RuntimeSnapshot \<Rightarrow> bool" where
  "describes_pod pod snap \<longleftrightarrow>
     sn_TerminationGracePeriod snap = pod_TerminationGracePeriodSeconds pod \<and>
     sn_ContainerImages snap = map ct_Image (pod_Containers pod) \<and>
     sn_HealthProbeInitialDelay snap = probe_delay pod \<and>
     (list_ex vl_PersistentVolumeClaim (pod_Volumes pod) \<longrightarrow> sn_HasPVC snap) \<and>
     (sn_HasEmptyDir snap \<longleftrightarrow> list_ex vl_EmptyDir (pod_Volumes pod))"

definition workload_blank :: "RuntimeSnapshot \<Rightarrow> bool" where
  "workload_blank snap \<longleftrightarrow>
     (\<exists>b ps. snap = (empty_snapshot (sn_WorkloadKind snap))\<lparr>sn_ServiceExists := b, sn_ServicePorts := ps\<rparr>)"

definition same_service :: "RuntimeSnapshot \<Rightarrow> RuntimeSnapshot \<Rightarrow> bool" where
  "same_service s t \<longleftrightarrow>
     sn_ServiceExists t = sn_ServiceExists s \<and> sn_ServicePorts t = sn_ServicePorts s \<and>
     sn_WorkloadKind t = sn_WorkloadKind s"

lemma same_service_refl [simp]: "same_service s s"
  by (simp add: same_service_def)

lemma workload_blank_fields:
  assumes "workload_blank s"
  shows "\<not> sn_WorkloadExists s" and "sn_ContainerImages s = []"
    and "sn_HealthProbeInitialDelay s = None" and "\<not> sn_HasEmptyDir s"
proof -
  from assms obtain b ps
    where s: "s = (empty_snapshot (sn_WorkloadKind s))\<lparr>sn_ServiceExists := b, sn_ServicePorts := ps\<rparr>"
    by (auto simp: workload_blank_def)
  show "\<not> sn_WorkloadExists s" by (subst s) (simp add: empty_snapshot_def)
  show "sn_ContainerImages s = []" by (subst s) (simp add: empty_snapshot_def)
  show "sn_HealthProbeInitialDelay s = None" by (subst s) (simp add: empty_snapshot_def)
  show "\<not> sn_HasEmptyDir s" by (subst s) (simp add: empty_snapshot_def)
qed

lemma workload_blank_empty [simp]:
  "workload_blank (empty_snapshot kind)"
  "workload_blank ((empty_snapshot kind)\<lparr>sn_ServiceExists := b, sn_ServicePorts := ps\<rparr>)"
  by (auto simp: workload_blank_def empty_snapshot_def)

text \<open>
  An observer of one kind of workload: \<open>get\<close> is the client call it makes and \<open>pod\<close> the pod
  template of what it reads. A missing object leaves the snapshot as it is, any other error is
  reported, and an object that is found is described.
\<close>

locale workload_observer =
  fixes observe :: "reader \<Rightarrow> key \<Rightarrow> RuntimeSnapshot \<Rightarrow> string + RuntimeSnapshot"
    and get :: "reader \<Rightarrow> key \<Rightarrow> api_error + 'o"
    and pod :: "'o \<Rightarrow> PodSpec"
    and kind :: string
  assumes missing: "get r k = Inl e \<Longrightarrow> IsNotFound e \<Longrightarrow> observe r k s = Inr s"
    and failed: "get r k = Inl e \<Longrightarrow> \<not> IsNotFound e \<Longrightarrow> observe r k s = Inl (get_failed kind (snd k) e)"
    and found: "get r k = Inr w \<Longrightarrow> workload_blank s \<Longrightarrow>
      \<exists>t. observe r k s = Inr t \<and> sn_WorkloadExists t \<and> same_service s t \<and> describes_pod (pod w) t"
begin

lemma observed:
  assumes "workload_blank s"
  shows "observe r k s = Inr t \<Longrightarrow>
           same_service s t \<and>
           (case get r k of
              Inl e \<Rightarrow> IsNotFound e \<and> t = s
            | Inr w \<Rightarrow> sn_WorkloadExists t \<and> describes_pod (pod w) t)"
  using assms missing[of r k _ s] failed[of r k _ s] found[of r k _ s]
  by (cases "get r k") (fastforce)+

lemma error_iff:
  assumes "workload_blank s"
  shows "observe r k s = Inl m \<longleftrightarrow>
           (\<exists>e. get r k = Inl e \<and> \<not> IsNotFound e \<and> m = get_failed kind (snd k) e)"
  using assms missing[of r k _ s] failed[of r k _ s] found[of r k _ s]
  by (cases "get r k") (fastforce)+

lemma exists_iff:
  assumes "workload_blank s" and "observe r k s = Inr t"
  shows "sn_WorkloadExists t \<longleftrightarrow> (\<exists>w. get r k = Inr w)"
  using observed[OF assms] workload_blank_fields(1)[OF assms(1)]
  by (auto split: sum.splits)

end

lemmas observe_defs =
  observeDeployment_def observeStatefulSet_def observeReplicaSet_def observeJob_def observeCronJob_def

lemmas observed_simps =
  observe_defs extractPodTemplateInfo_eq describes_pod_def same_service_def workload_blank_fields Let_def

interpretation dep: workload_observer observeDeployment get_Deployment dep_Pod "''Deployment''"
  by unfold_locales (auto simp: observed_simps)

interpretation sts: workload_observer observeStatefulSet get_StatefulSet sts_Pod "''StatefulSet''"
  by unfold_locales (auto simp: observed_simps)

interpretation rset: workload_observer observeReplicaSet get_ReplicaSet "\<lambda>pod. pod" "''ReplicaSet''"
  by unfold_locales (auto simp: observed_simps)

interpretation job: workload_observer observeJob get_Job "\<lambda>pod. pod" "''Job''"
  by unfold_locales (auto simp: observed_simps)

interpretation cron: workload_observer observeCronJob get_CronJob "\<lambda>pod. pod" "''CronJob''"
  by unfold_locales (auto simp: observed_simps)

section \<open>Observe\<close>

text \<open>
  What the client answers for the workload of a kind: its pod template, or an error. A kind the
  operator does not know is looked up as a Deployment.
\<close>

definition workload_pod :: "reader \<Rightarrow> key \<Rightarrow> string \<Rightarrow> api_error + PodSpec" where
  "workload_pod r k kind =
     (if kind = ''StatefulSet'' then map_sum id sts_Pod (get_StatefulSet r k)
      else if kind = ''ReplicaSet'' then get_ReplicaSet r k
      else if kind = ''Job'' then get_Job r k
      else if kind = ''CronJob'' then get_CronJob r k
      else map_sum id dep_Pod (get_Deployment r k))"

lemma observeWorkload_observed:
  assumes "workload_blank s" and "observeWorkload r ns name kind s = Inr t"
  shows "same_service s t \<and>
         (case workload_pod r (ns, name) kind of
            Inl e \<Rightarrow> IsNotFound e \<and> t = s
          | Inr pod \<Rightarrow> sn_WorkloadExists t \<and> describes_pod pod t)"
  using assms dep.observed[OF assms(1), of r "(ns, name)" t] sts.observed[OF assms(1), of r "(ns, name)" t]
    rset.observed[OF assms(1), of r "(ns, name)" t] job.observed[OF assms(1), of r "(ns, name)" t]
    cron.observed[OF assms(1), of r "(ns, name)" t]
  by (auto simp: observeWorkload_def workload_pod_def Let_def split: if_splits sum.splits)

lemma observeWorkload_error_iff:
  assumes "workload_blank s"
  shows "(\<exists>m. observeWorkload r ns name kind s = Inl m) \<longleftrightarrow>
           (\<exists>e. workload_pod r (ns, name) kind = Inl e \<and> \<not> IsNotFound e)"
  using dep.error_iff[OF assms] sts.error_iff[OF assms] rset.error_iff[OF assms]
    job.error_iff[OF assms] cron.error_iff[OF assms]
  by (auto simp: observeWorkload_def workload_pod_def Let_def map_sum_def split: sum.splits)

text \<open>The client could not answer: an error other than that the object does not exist.\<close>

definition get_broken :: "api_error + 'a \<Rightarrow> bool" where
  "get_broken g = (case g of Inl e \<Rightarrow> \<not> IsNotFound e | Inr _ \<Rightarrow> False)"

text \<open>The snapshot after the Service has been looked up.\<close>

definition service_snapshot :: "reader \<Rightarrow> string \<Rightarrow> string \<Rightarrow> string \<Rightarrow> RuntimeSnapshot" where
  "service_snapshot r ns svc kind =
     (if svc \<noteq> '''' \<and> \<not> isl (get_Service r (ns, svc)) then
        (empty_snapshot kind)\<lparr>sn_ServiceExists := True,
          sn_ServicePorts := svc_Ports (projr (get_Service r (ns, svc)))\<rparr>
      else empty_snapshot kind)"

lemma empty_snapshot_fields [simp]:
  "sn_WorkloadKind (empty_snapshot kind) = kind"
  "\<not> sn_ServiceExists (empty_snapshot kind)"
  "sn_ServicePorts (empty_snapshot kind) = []"
  by (simp_all add: empty_snapshot_def)

lemma service_snapshot_fields:
  "workload_blank (service_snapshot r ns svc kind)"
  "sn_WorkloadKind (service_snapshot r ns svc kind) = kind"
  "sn_ServiceExists (service_snapshot r ns svc kind) \<longleftrightarrow> svc \<noteq> '''' \<and> \<not> isl (get_Service r (ns, svc))"
  "sn_ServicePorts (service_snapshot r ns svc kind) =
     (if svc \<noteq> '''' \<and> \<not> isl (get_Service r (ns, svc)) then svc_Ports (projr (get_Service r (ns, svc))) else [])"
  by (auto simp: service_snapshot_def)

lemma Observe_cases:
  "Observe r ns svc wl kind =
     (if svc \<noteq> '''' \<and> get_broken (get_Service r (ns, svc)) then
        Inl (get_failed ''service'' svc (projl (get_Service r (ns, svc))))
      else if wl \<noteq> '''' then observeWorkload r ns wl kind (service_snapshot r ns svc kind)
      else Inr (service_snapshot r ns svc kind))"
  by (auto simp: Observe_def get_broken_def service_snapshot_def Let_def split: sum.splits)


text \<open>
  \<open>Observe\<close> fails exactly when a lookup it makes is answered by an error other than
  \<open>NotFound\<close>: a missing Service or workload is an observation, not a failure.
\<close>

lemma Observe_fails_iff:
  "isl (Observe r ns svc wl kind) \<longleftrightarrow>
     svc \<noteq> '''' \<and> get_broken (get_Service r (ns, svc)) \<or>
     wl \<noteq> '''' \<and> get_broken (workload_pod r (ns, wl) kind)"
proof -
  have "isl (observeWorkload r ns wl kind (service_snapshot r ns svc kind)) \<longleftrightarrow>
        get_broken (workload_pod r (ns, wl) kind)"
    using observeWorkload_error_iff[OF service_snapshot_fields(1), of r ns wl kind r ns svc kind]
    by (auto simp: isl_def get_broken_def split: sum.splits)
  then show ?thesis
    by (auto simp: Observe_cases)
qed

section \<open>A concrete cluster\<close>

text \<open>One namespace with a Service and the Deployment behind it.\<close>

definition sample_pod :: PodSpec where
  "sample_pod =
     \<lparr>pod_TerminationGracePeriodSeconds = Some 30,
      pod_Containers = [\<lparr>ct_Image = ''ghcr.io/org/svc:1.0.0'', ct_ReadinessProbe = Some 5, ct_LivenessProbe = None\<rparr>],
      pod_Volumes = [\<lparr>vl_PersistentVolumeClaim = False, vl_EmptyDir = True\<rparr>]\<rparr>"

definition sample_reader :: reader where
  "sample_reader =
     \<lparr>get_Service = (\<lambda>k. if k = (''ns'', ''svc'') then Inr \<lparr>svc_Ports = [80, 9090]\<rparr> else Inl (NotFound ''no service'')),
      get_Deployment = (\<lambda>k. if k = (''ns'', ''svc'') then Inr \<lparr>dep_StrategyType = ''RollingUpdate'', dep_Pod = sample_pod\<rparr>
                            else Inl (NotFound ''no deployment'')),
      get_StatefulSet = (\<lambda>k. Inl (NotFound ''no statefulset'')),
      get_ReplicaSet = (\<lambda>k. Inl (NotFound ''no replicaset'')),
      get_Job = (\<lambda>k. Inl (OtherError ''connection refused'')),
      get_CronJob = (\<lambda>k. Inl (NotFound ''no cronjob''))\<rparr>"

definition sample_snapshot :: RuntimeSnapshot where
  "sample_snapshot =
     \<lparr>sn_ServiceExists = True, sn_WorkloadExists = True, sn_WorkloadKind = ''Deployment'',
      sn_ServicePorts = [80, 9090], sn_DeploymentStrategy = ''RollingUpdate'', sn_PodManagementPolicy = '''',
      sn_TerminationGracePeriod = Some 30, sn_ContainerImages = [''ghcr.io/org/svc:1.0.0''],
      sn_HasPVC = False, sn_HasEmptyDir = True, sn_HealthProbeInitialDelay = Some 5\<rparr>"

lemma Observe_sample: "Observe sample_reader ''ns'' ''svc'' ''svc'' ''Deployment'' = Inr sample_snapshot"
  by (simp add: Observe_def sample_reader_def sample_pod_def sample_snapshot_def empty_snapshot_def
      observeWorkload_def observeDeployment_def extractPodTemplateInfo_def)


end
