(* ===== verification/Image_Ref.thy ===== *)
theory Image_Ref
  imports Prelude
begin

text \<open>
  Comparison of container image references
  (\<^verbatim>\<open>internal/validator/runtime_checks.go\<close>, \<open>imageMatches\<close> and \<open>normalizeImageRef\<close>), and its
  specification over references split into repository, tag and digest.
\<close>

section \<open>The code\<close>

definition normalizeImageRef :: "string \<Rightarrow> string" where
  "normalizeImageRef ref =
     (if Contains ref ''/'' \<and> ContainsAny (hd (Split ref (CHR ''/''))) ''.:'' then ref
      else if \<not> Contains ref ''/'' then ''docker.io/library/'' @ ref
      else ''docker.io/'' @ ref)"

definition imageMatches :: "string \<Rightarrow> string \<Rightarrow> bool" where
  "imageMatches expected actual =
     (if expected = actual then True
      else
        let expected = normalizeImageRef expected;
            actual = normalizeImageRef actual
        in if expected = actual then True
           else
             let i = LastIndex expected ''/'';
                 expectedTail = (if 0 \<le> i then slice_from expected (i + 1) else expected)
             in if Contains expectedTail '':'' \<or> Contains expectedTail ''@'' then False
                else
                  let idx = LastIndex actual '':'';
                      actualRepo = (if idx > LastIndex actual ''/'' then slice_to actual idx else actual);
                      idx = Index actual ''@'';
                      actualRepo = (if idx > 0 then slice_to actual idx else actualRepo)
                  in expected = actualRepo)"

section \<open>References in parts\<close>

text \<open>
  The part after the last slash, and the last slash seen from the code's indices.
\<close>

definition last_segment :: "string \<Rightarrow> string" where
  "last_segment s = rev (takeWhile (\<lambda>c. c \<noteq> CHR ''/'') (rev s))"

lemma last_segment_append [simp]:
  "last_segment (a @ CHR ''/'' # b) = last_segment b"
  by (simp add: last_segment_def takeWhile_tail)

lemma last_segment_no_slash: "CHR ''/'' \<notin> set s \<Longrightarrow> last_segment s = s"
  by (simp add: last_segment_def takeWhile_none)

text \<open>A reference \<^verbatim>\<open>repo[:tag][@digest]\<close>.\<close>

definition image_ref :: "string \<Rightarrow> string option \<Rightarrow> string option \<Rightarrow> string" where
  "image_ref repo tag digest =
     repo @ (case tag of None \<Rightarrow> [] | Some t \<Rightarrow> '':'' @ t) @ (case digest of None \<Rightarrow> [] | Some d \<Rightarrow> ''@'' @ d)"

definition wf_repo :: "string \<Rightarrow> bool" where
  "wf_repo r \<longleftrightarrow> r \<noteq> [] \<and> CHR ''@'' \<notin> set r \<and> CHR '':'' \<notin> set (last_segment r)"

definition wf_tag :: "string \<Rightarrow> bool" where
  "wf_tag t \<longleftrightarrow> CHR ''/'' \<notin> set t \<and> CHR '':'' \<notin> set t \<and> CHR ''@'' \<notin> set t"

definition wf_digest :: "string \<Rightarrow> bool" where
  "wf_digest d \<longleftrightarrow> CHR ''/'' \<notin> set d \<and> CHR ''@'' \<notin> set d"

lemma tail_is_last_segment:
  "(if 0 \<le> LastIndex s ''/'' then slice_from s (LastIndex s ''/'' + 1) else s) = last_segment s"
proof (cases "CHR ''/'' \<in> set s")
  case True
  then obtain a b where s: "s = a @ CHR ''/'' # b" "CHR ''/'' \<notin> set b"
    by (metis split_list_last)
  then show ?thesis
    by (simp add: LastIndex_split slice_from_def last_segment_no_slash nat_add_distrib)
next
  case False
  then show ?thesis
    by (simp add: last_segment_no_slash)
qed

lemma hd_Split_append:
  "c \<in> set r \<Longrightarrow> hd (Split (r @ suf) c) = hd (Split r c)"
  by (simp add: hd_Split takeWhile_append1)

lemma normalizeImageRef_append:
  "CHR ''/'' \<notin> set suf \<Longrightarrow> normalizeImageRef (r @ suf) = normalizeImageRef r @ suf"
  by (auto simp: normalizeImageRef_def hd_Split_append)

lemma normalizeImageRef_slash [simp]: "CHR ''/'' \<in> set (normalizeImageRef r)"
  by (simp add: normalizeImageRef_def)

lemma docker_prefix:
  "''docker.io/'' @ r = ''docker.io'' @ CHR ''/'' # r"
  "''docker.io/library/'' @ r = ''docker.io/library'' @ CHR ''/'' # r"
  by simp_all

lemma last_segment_normalize [simp]: "last_segment (normalizeImageRef r) = last_segment r"
  unfolding normalizeImageRef_def docker_prefix by (simp del: append.simps)

lemma normalizeImageRef_chars:
  "c \<in> set (normalizeImageRef r) \<Longrightarrow> c \<in> set r \<or> c \<in> set ''docker.io/library/''"
  by (auto simp: normalizeImageRef_def split: if_splits)

lemma wf_repo_normalize: "wf_repo r \<Longrightarrow> wf_repo (normalizeImageRef r)"
  using normalizeImageRef_chars[of "CHR ''@''" r] normalizeImageRef_slash[of r]
  by (auto simp: wf_repo_def simp del: normalizeImageRef_slash)

lemma normalizeImageRef_idem: "normalizeImageRef (normalizeImageRef r) = normalizeImageRef r"
  by (auto simp: normalizeImageRef_def hd_Split ContainsAny_def)

lemma normalize_image_ref:
  assumes "\<And>t. tag = Some t \<Longrightarrow> wf_tag t" and "\<And>d. digest = Some d \<Longrightarrow> wf_digest d"
  shows "normalizeImageRef (image_ref r tag digest) = image_ref (normalizeImageRef r) tag digest"
  using assms unfolding image_ref_def
  by (intro normalizeImageRef_append) (auto simp: wf_tag_def wf_digest_def split: option.splits)

lemma image_ref_tail:
  assumes "\<And>t. tag = Some t \<Longrightarrow> wf_tag t" and "\<And>d. digest = Some d \<Longrightarrow> wf_digest d"
  shows "last_segment (image_ref r tag digest) = image_ref (last_segment r) tag digest"
proof (cases "CHR ''/'' \<in> set r")
  case True
  then obtain a b where "r = a @ CHR ''/'' # b" "CHR ''/'' \<notin> set b"
    by (metis split_list_last)
  then show ?thesis
    using assms by (auto simp: image_ref_def last_segment_no_slash wf_tag_def wf_digest_def split: option.splits)
next
  case False
  then show ?thesis
    using assms by (auto simp: image_ref_def last_segment_no_slash wf_tag_def wf_digest_def split: option.splits)
qed

section \<open>Which repository the code takes from the actual image\<close>

definition actual_repo :: "string \<Rightarrow> string" where
  "actual_repo actual =
     (let idx = LastIndex actual '':'';
          actualRepo = (if idx > LastIndex actual ''/'' then slice_to actual idx else actual);
          idx = Index actual ''@''
      in if idx > 0 then slice_to actual idx else actualRepo)"

lemma imageMatches_eq:
  "imageMatches expected actual \<longleftrightarrow>
     normalizeImageRef expected = normalizeImageRef actual \<or>
     CHR '':'' \<notin> set (last_segment expected) \<and> CHR ''@'' \<notin> set (last_segment expected) \<and>
     normalizeImageRef expected = actual_repo (normalizeImageRef actual)"
  by (simp add: imageMatches_def Let_def tail_is_last_segment actual_repo_def)

lemma actual_repo_digest:
  assumes "wf_repo r" and "\<And>t. tag = Some t \<Longrightarrow> wf_tag t"
  shows "actual_repo (image_ref r tag (Some d)) = image_ref r tag None"
proof -
  have "CHR ''@'' \<notin> set (image_ref r tag None)"
    using assms by (auto simp: image_ref_def wf_repo_def wf_tag_def split: option.splits)
  then have "Index (image_ref r tag (Some d)) ''@'' = int (length (image_ref r tag None))"
    using Index_split[of "CHR ''@''" "image_ref r tag None" d]
    by (simp add: image_ref_def)
  moreover have "length (image_ref r tag None) > 0"
    using assms(1) by (auto simp: image_ref_def wf_repo_def)
  ultimately show ?thesis
    by (simp add: actual_repo_def slice_to_def) (simp add: image_ref_def)
qed

lemma actual_repo_tag:
  assumes "wf_repo r" and "wf_tag t" and "CHR ''/'' \<in> set r"
  shows "actual_repo (image_ref r (Some t) None) = r"
proof -
  obtain a b where r: "r = a @ CHR ''/'' # b" "CHR ''/'' \<notin> set b"
    using assms(3) by (metis split_list_last)
  have "LastIndex (r @ CHR '':'' # t) '':'' = int (length r)"
    using assms(2) by (intro LastIndex_split) (simp add: wf_tag_def)
  moreover have "LastIndex (r @ CHR '':'' # t) ''/'' = int (length a)"
    using r assms(2) LastIndex_split[of "CHR ''/''" "b @ CHR '':'' # t" a] by (simp add: wf_tag_def)
  moreover have "length a < length r"
    using r by simp
  moreover have "CHR ''@'' \<notin> set (r @ CHR '':'' # t)"
    using assms(1,2) by (simp add: wf_repo_def wf_tag_def)
  ultimately show ?thesis
    by (simp add: actual_repo_def image_ref_def slice_to_def Index_one)
qed

lemma actual_repo_plain:
  assumes "wf_repo r" and "CHR ''/'' \<in> set r"
  shows "actual_repo r = r"
proof -
  obtain a b where r: "r = a @ CHR ''/'' # b" "CHR ''/'' \<notin> set b"
    using assms(2) by (metis split_list_last)
  then have b: "CHR '':'' \<notin> set b"
    using assms(1) by (simp add: wf_repo_def last_segment_no_slash)
  have slash: "LastIndex r ''/'' = int (length a)"
    using r by (simp add: LastIndex_split)
  have "LastIndex r '':'' \<le> LastIndex r ''/''"
  proof (cases "CHR '':'' \<in> set a")
    case True
    then obtain a1 a2 where "a = a1 @ CHR '':'' # a2" "CHR '':'' \<notin> set a2"
      by (metis split_list_last)
    then have "LastIndex r '':'' = int (length a1)" "length a1 \<le> length a"
      using r b LastIndex_split[of "CHR '':''" "a2 @ CHR ''/'' # b" a1] by auto
    then show ?thesis
      using slash by simp
  next
    case False
    then show ?thesis
      using r b LastIndex_ge[of r "CHR ''/''"] by simp
  qed
  then show ?thesis
    using assms(1) by (simp add: actual_repo_def wf_repo_def Index_one)
qed

lemma actual_repo_image_ref:
  assumes "wf_repo r" and "CHR ''/'' \<in> set r" and "\<And>t. tag = Some t \<Longrightarrow> wf_tag t"
  shows "actual_repo (image_ref r tag dig) = (if dig = None then r else image_ref r tag None)"
  using assms actual_repo_digest[of r tag] actual_repo_tag[of r] actual_repo_plain[of r]
  by (cases tag; cases dig) (auto simp: image_ref_def)

section \<open>References are determined by their parts\<close>

lemma image_ref_tag_inject:
  assumes "wf_repo r" and "wf_repo r'"
    and "\<And>t. tag = Some t \<Longrightarrow> wf_tag t" and "\<And>t. tag' = Some t \<Longrightarrow> wf_tag t"
    and eq: "image_ref r tag None = image_ref r' tag' None"
  shows "r = r' \<and> tag = tag'"
proof -
  have no_tag: "image_ref q (Some t) None \<noteq> q'" if "wf_repo q'" "wf_tag t" for q q' t
    using image_ref_tail[of "Some t" None q] that by (auto simp: image_ref_def wf_repo_def)
  show ?thesis
  proof (cases tag; cases tag')
    fix t t'
    assume tags: "tag = Some t" "tag' = Some t'"
    then have "r @ CHR '':'' # t = r' @ CHR '':'' # t'"
      using eq by (simp add: image_ref_def)
    then show ?thesis
      using tags split_at_last[of "CHR '':''" t t' r r'] assms(3,4) by (simp add: wf_tag_def)
  qed (use assms no_tag in \<open>auto simp: image_ref_def\<close>)
qed

lemma image_ref_inject:
  assumes wf: "wf_repo r" "wf_repo r'"
    and tags: "\<And>t. tag = Some t \<Longrightarrow> wf_tag t" "\<And>t. tag' = Some t \<Longrightarrow> wf_tag t"
    and eq: "image_ref r tag dig = image_ref r' tag' dig'"
  shows "r = r' \<and> tag = tag' \<and> dig = dig'"
proof -
  have at: "CHR ''@'' \<notin> set (image_ref q t None)" if "wf_repo q" "\<And>u. t = Some u \<Longrightarrow> wf_tag u" for q t
    using that by (auto simp: image_ref_def wf_repo_def wf_tag_def split: option.splits)
  have split: "image_ref q t d = image_ref q t None @ (case d of None \<Rightarrow> [] | Some d \<Rightarrow> CHR ''@'' # d)" for q t d
    by (auto simp: image_ref_def split: option.splits)
  define a b where "a = image_ref r tag None" and "b = image_ref r' tag' None"
  have ab: "CHR ''@'' \<notin> set a" "CHR ''@'' \<notin> set b"
    unfolding a_def b_def by (intro at wf tags; assumption)+
  have eq': "a @ (case dig of None \<Rightarrow> [] | Some d \<Rightarrow> CHR ''@'' # d) =
      b @ (case dig' of None \<Rightarrow> [] | Some d \<Rightarrow> CHR ''@'' # d)"
    using eq unfolding split[of r tag dig] split[of r' tag' dig'] a_def b_def .
  have "a = b \<and> dig = dig'"
  proof (cases dig; cases dig')
    fix d d'
    assume "dig = Some d" "dig' = Some d'"
    then show ?thesis
      using eq' split_at_first[OF ab, of d d'] by simp
  qed (use ab eq' in auto)
  then show ?thesis
    unfolding a_def b_def using image_ref_tag_inject[OF wf tags] by blast
qed

section \<open>What imageMatches decides\<close>

text \<open>
  C23. On well-formed references, \<open>imageMatches\<close> compares repositories up to the
  \<^verbatim>\<open>docker.io\<close> normalisation. A declared image that carries a tag or a digest must
  be met exactly. A declared image without either accepts any tag and any digest of the same
  repository, but not an image that carries both: of \<^verbatim>\<open>repo:tag@digest\<close> the code cuts
  the digest only, and compares the declared repository with \<^verbatim>\<open>repo:tag\<close>.
\<close>

theorem imageMatches_spec:
  assumes "wf_repo r" and "wf_repo r'"
    and "\<And>t. tag = Some t \<Longrightarrow> wf_tag t" and "\<And>d. dig = Some d \<Longrightarrow> wf_digest d"
    and "\<And>t. tag' = Some t \<Longrightarrow> wf_tag t" and "\<And>d. dig' = Some d \<Longrightarrow> wf_digest d"
  shows "imageMatches (image_ref r tag dig) (image_ref r' tag' dig') \<longleftrightarrow>
           normalizeImageRef r = normalizeImageRef r' \<and>
           (if tag = None \<and> dig = None then tag' = None \<or> dig' = None
            else tag = tag' \<and> dig = dig')"
proof -
  let ?n = "normalizeImageRef r" and ?n' = "normalizeImageRef r'"
  have n: "wf_repo ?n" "wf_repo ?n'"
    using assms(1,2) by (auto intro: wf_repo_normalize)
  have exact: "image_ref ?n tag dig = image_ref ?n' tag' dig' \<longleftrightarrow> ?n = ?n' \<and> tag = tag' \<and> dig = dig'"
  proof
    assume "image_ref ?n tag dig = image_ref ?n' tag' dig'"
    then show "?n = ?n' \<and> tag = tag' \<and> dig = dig'"
      by (intro image_ref_inject[OF n] assms(3,5))
  qed simp
  have pinned: "CHR '':'' \<in> set (last_segment (image_ref r tag dig)) \<or>
      CHR ''@'' \<in> set (last_segment (image_ref r tag dig))" if "\<not> (tag = None \<and> dig = None)"
    using that image_ref_tail[where r = r, OF assms(3,4)] by (auto simp: image_ref_def split: option.splits)
  have free: "CHR '':'' \<notin> set (last_segment r) \<and> CHR ''@'' \<notin> set (last_segment r)"
    using assms(1) by (auto simp: wf_repo_def last_segment_def dest: set_takeWhileD)
  have repo: "actual_repo (image_ref ?n' tag' dig') = (if dig' = None then ?n' else image_ref ?n' tag' None)"
    by (intro actual_repo_image_ref n(2) assms(5) normalizeImageRef_slash)
  have plain: "?n = image_ref ?n' tag' None \<longleftrightarrow> ?n = ?n' \<and> tag' = None"
    using image_ref_tag_inject[OF n, of None tag'] assms(5) by (auto simp: image_ref_def)
  have norm: "normalizeImageRef (image_ref r tag dig) = image_ref ?n tag dig"
    by (intro normalize_image_ref assms(3,4))
  have norm': "normalizeImageRef (image_ref r' tag' dig') = image_ref ?n' tag' dig'"
    by (intro normalize_image_ref assms(5,6))
  show ?thesis
  proof (cases "tag = None \<and> dig = None")
    case True
    then have "image_ref r tag dig = r" "image_ref ?n tag dig = ?n"
      by (auto simp: image_ref_def)
    then show ?thesis
      unfolding imageMatches_eq norm norm' exact repo using True free plain by auto
  next
    case False
    then show ?thesis
      unfolding imageMatches_eq norm norm' exact using pinned by auto
  qed
qed

theorem imageMatches_spec_witness:
  "imageMatches (image_ref ''nginx'' None None) (image_ref ''docker.io/library/nginx'' (Some ''1.27'') None) \<and>
   \<not> imageMatches (image_ref ''nginx'' None None)
       (image_ref ''docker.io/library/nginx'' (Some ''1.27'') (Some ''sha256:0a1b''))"
proof -
  have wf: "wf_repo ''nginx''" "wf_repo ''docker.io/library/nginx''" "wf_tag ''1.27''" "wf_digest ''sha256:0a1b''"
    by code_simp+
  have n: "normalizeImageRef ''nginx'' = normalizeImageRef ''docker.io/library/nginx''"
    by code_simp
  show ?thesis
    using imageMatches_spec[OF wf(1,2), of None None "Some ''1.27''" None]
      imageMatches_spec[OF wf(1,2), of None None "Some ''1.27''" "Some ''sha256:0a1b''"] wf n
    by simp
qed

end
