(* ===== verification/Compliance.thy ===== *)
theory Compliance
  imports Api
begin

text \<open>
  The abstract compliance verdict. The repository computes a contract status twice, with the same
  two-flag loop: over the validator's checks (\<open>computeContractStatus\<close>) and over the conditions of
  the resource (\<open>computeFinalContractStatus\<close>). The locale \<open>compliance_scan\<close> is the contract that
  both loops meet: the status is the worst verdict of the items scanned, whatever their order and
  repetition.
\<close>

section \<open>Verdicts, ordered by how bad they are\<close>

datatype verdict = VCompliant | VWarning | VNonCompliant

fun verdict_rank :: "verdict \<Rightarrow> nat" where
  "verdict_rank VCompliant = 0"
| "verdict_rank VWarning = 1"
| "verdict_rank VNonCompliant = 2"

lemma verdict_rank_inj [simp]: "verdict_rank v = verdict_rank w \<longleftrightarrow> v = w"
  by (cases v; cases w) auto

instantiation verdict :: linorder
begin

definition less_eq_verdict :: "verdict \<Rightarrow> verdict \<Rightarrow> bool" where
  "less_eq_verdict v w \<longleftrightarrow> verdict_rank v \<le> verdict_rank w"

definition less_verdict :: "verdict \<Rightarrow> verdict \<Rightarrow> bool" where
  "less_verdict v w \<longleftrightarrow> verdict_rank v < verdict_rank w"

instance
  by standard (auto simp: less_eq_verdict_def less_verdict_def)

end

lemma VCompliant_least [simp]: "VCompliant \<le> v"
  by (simp add: less_eq_verdict_def)

lemma VNonCompliant_greatest [simp]: "v \<le> VNonCompliant"
  by (cases v) (simp_all add: less_eq_verdict_def)

fun status_of_verdict :: "verdict \<Rightarrow> string" where
  "status_of_verdict VCompliant = ContractStatusCompliant"
| "status_of_verdict VWarning = ContractStatusWarning"
| "status_of_verdict VNonCompliant = ContractStatusNonCompliant"

lemma status_of_verdict_inj [simp]: "status_of_verdict v = status_of_verdict w \<longleftrightarrow> v = w"
  by (cases v; cases w) auto

text \<open>A failed existence check is fatal; any other failure is a warning.\<close>

definition is_resource :: "string \<Rightarrow> bool" where
  "is_resource t \<longleftrightarrow> t = ConditionServiceExists \<or> t = ConditionWorkloadExists"

definition verdict_of :: "bool \<Rightarrow> string \<Rightarrow> verdict" where
  "verdict_of failed t =
     (if \<not> failed then VCompliant else if is_resource t then VNonCompliant else VWarning)"

definition worst :: "verdict set \<Rightarrow> verdict" where
  "worst V = Max (insert VCompliant V)"

lemma worst_empty [simp]: "worst {} = VCompliant"
  by (simp add: worst_def)

lemma worst_insert [simp]: "finite V \<Longrightarrow> worst (insert v V) = max v (worst V)"
  by (simp add: worst_def insert_commute[of VCompliant])

lemma worst_Un: "finite V \<Longrightarrow> finite W \<Longrightarrow> worst (V \<union> W) = max (worst V) (worst W)"
  by (induction V rule: finite_induct) (simp_all add: max.assoc)

lemma worst_mono: "V \<subseteq> W \<Longrightarrow> finite W \<Longrightarrow> worst V \<le> worst W"
  unfolding worst_def by (intro Max_mono) auto

lemma worst_ge_iff:
  assumes "finite V" and "VCompliant < v"
  shows "v \<le> worst V \<longleftrightarrow> (\<exists>w\<in>V. v \<le> w)"
  using assms by (auto simp: worst_def Max_ge_iff)

section \<open>The contract of the two status loops\<close>

locale compliance_scan =
  fixes compute :: "'a list \<Rightarrow> string"
    and failed :: "'a \<Rightarrow> bool"
    and type_of :: "'a \<Rightarrow> string"
  assumes two_flags:
    "compute xs =
       (if \<exists>x\<in>set xs. failed x \<and> is_resource (type_of x) then ContractStatusNonCompliant
        else if \<exists>x\<in>set xs. failed x then ContractStatusWarning
        else ContractStatusCompliant)"
begin

lemma worst_verdict:
  "compute xs = status_of_verdict (worst ((\<lambda>x. verdict_of (failed x) (type_of x)) ` set xs))"
proof (cases "\<exists>x\<in>set xs. failed x \<and> is_resource (type_of x)")
  case True
  then have "VNonCompliant \<le> worst ((\<lambda>x. verdict_of (failed x) (type_of x)) ` set xs)"
    by (subst worst_ge_iff) (auto simp: verdict_of_def less_verdict_def)
  then have "worst ((\<lambda>x. verdict_of (failed x) (type_of x)) ` set xs) = VNonCompliant"
    by (simp add: order.antisym)
  with True show ?thesis by (simp add: two_flags)
next
  case False
  then have "(\<lambda>x. verdict_of (failed x) (type_of x)) ` set xs =
      (if \<exists>x\<in>set xs. failed x then insert VWarning else id)
        (if \<exists>x\<in>set xs. \<not> failed x then {VCompliant} else {})"
    by (auto simp: verdict_of_def image_iff)
  with False show ?thesis
    by (auto simp: two_flags max_def less_eq_verdict_def)
qed

lemma order_irrelevant: "set xs = set ys \<Longrightarrow> compute xs = compute ys"
  by (simp add: worst_verdict)

lemma compliant_iff: "compute xs = ContractStatusCompliant \<longleftrightarrow> (\<forall>x\<in>set xs. \<not> failed x)"
  by (auto simp: two_flags)

lemma noncompliant_iff:
  "compute xs = ContractStatusNonCompliant \<longleftrightarrow> (\<exists>x\<in>set xs. failed x \<and> is_resource (type_of x))"
  by (simp add: two_flags)

lemma extend:
  "compute (xs @ ys) =
     status_of_verdict (max (worst ((\<lambda>x. verdict_of (failed x) (type_of x)) ` set xs))
                            (worst ((\<lambda>x. verdict_of (failed x) (type_of x)) ` set ys)))"
  by (simp add: worst_verdict image_Un worst_Un)

end

end
