(* ===== verification/Validator.thy ===== *)
theory Validator
  imports Observer Image_Ref Compliance
begin

text \<open>
  The validator (\<^verbatim>\<open>internal/validator\<close>): a pure function from a contract, a snapshot and the flag
  that a Service was targeted to a list of checks and a port comparison. A check that reads an
  optional section of the contract receives that section: \<open>Validate\<close> tests the pointers first, as
  the code does.
\<close>

section \<open>Results\<close>

record Check =
  ck_Name :: string
  ck_Passed :: bool
  ck_Reason :: string
  ck_Message :: string
  ck_Severity :: string

record PortsResult =
  pr_Expected :: "int32 list"
  pr_Observed :: "int32 list"
  pr_Missing :: "int32 list"
  pr_Unexpected :: "int32 list"

record ValidatorResult =
  res_Checks :: "Check list"
  res_Ports :: PortsResult

section \<open>Existence and ports\<close>

definition checkServiceExists :: "RuntimeSnapshot \<Rightarrow> Check" where
  "checkServiceExists snap =
     (if sn_ServiceExists snap then
        \<lparr>ck_Name = ConditionServiceExists, ck_Passed = True, ck_Reason = ReasonFound,
         ck_Message = ''Service exists'', ck_Severity = ''''\<rparr>
      else
        \<lparr>ck_Name = ConditionServiceExists, ck_Passed = False, ck_Reason = ReasonNotFound,
         ck_Message = ''Service not found'', ck_Severity = ''''\<rparr>)"

definition checkWorkloadExists :: "RuntimeSnapshot \<Rightarrow> Check" where
  "checkWorkloadExists snap =
     (if sn_WorkloadExists snap then
        \<lparr>ck_Name = ConditionWorkloadExists, ck_Passed = True, ck_Reason = ReasonFound,
         ck_Message = sn_WorkloadKind snap @ '' exists'', ck_Severity = ''''\<rparr>
      else
        \<lparr>ck_Name = ConditionWorkloadExists, ck_Passed = False, ck_Reason = ReasonNotFound,
         ck_Message = sn_WorkloadKind snap @ '' not found'', ck_Severity = ''''\<rparr>)"

fun contract_ports_of :: "Interface list \<Rightarrow> int32 list" where
  "contract_ports_of [] = []"
| "contract_ports_of (iface # ifaces) =
     (case if_Port iface of
        None \<Rightarrow> contract_ports_of ifaces
      | Some p \<Rightarrow> to_int32 p # contract_ports_of ifaces)"

definition contractPorts :: "ContractDoc \<Rightarrow> int32 list" where
  "contractPorts c = contract_ports_of (c_Interfaces c)"

definition checkPorts :: "ContractDoc \<Rightarrow> RuntimeSnapshot \<Rightarrow> Check \<times> PortsResult" where
  "checkPorts c snap =
     (let expected = contractPorts c;
          observed = sn_ServicePorts snap;
          observedSet = key_set observed;
          expectedSet = key_set expected;
          missing = filter (\<lambda>p. \<not> has_key observedSet p) expected;
          unexpected = filter (\<lambda>p. \<not> has_key expectedSet p) observed;
          ports = \<lparr>pr_Expected = expected, pr_Observed = observed,
                   pr_Missing = missing, pr_Unexpected = unexpected\<rparr>
      in if length missing = 0 then
           (\<lparr>ck_Name = ConditionPortsValid, ck_Passed = True, ck_Reason = ReasonPortsMatch,
             ck_Message = ''All declared ports are present on the Service'', ck_Severity = ''''\<rparr>, ports)
         else
           (\<lparr>ck_Name = ConditionPortsValid, ck_Passed = False, ck_Reason = ReasonMissingPorts,
             ck_Message = ''Missing ports: '' @ show_int32s missing, ck_Severity = ''''\<rparr>, ports))"

section \<open>Runtime checks\<close>

definition checkWorkloadType :: "Runtime \<Rightarrow> RuntimeSnapshot \<Rightarrow> Check" where
  "checkWorkloadType rt snap =
     (let expected = rt_Workload rt;
          actual = sn_WorkloadKind snap;
          match = (if expected = ''service'' then actual = ''Deployment'' \<or> actual = ''StatefulSet''
                   else if expected = ''job'' then actual = ''Job''
                   else if expected = ''scheduled'' then actual = ''CronJob''
                   else False)
      in if match then
           \<lparr>ck_Name = ConditionWorkloadTypeMatch, ck_Passed = True, ck_Reason = ReasonMatch,
            ck_Message = ''Workload type '' @ show_q expected @ '' matches '' @ actual,
            ck_Severity = SeverityError\<rparr>
         else
           \<lparr>ck_Name = ConditionWorkloadTypeMatch, ck_Passed = False, ck_Reason = ReasonMismatch,
            ck_Message = ''Contract declares workload '' @ show_q expected @ '' but found '' @ actual,
            ck_Severity = SeverityError\<rparr>)"

definition state_model_check :: "bool \<Rightarrow> string \<Rightarrow> string \<Rightarrow> string \<Rightarrow> Check" where
  "state_model_check passed reason message severity =
     \<lparr>ck_Name = ConditionStateModelMatch, ck_Passed = passed, ck_Reason = reason,
      ck_Message = message, ck_Severity = severity\<rparr>"

definition checkStateModel :: "Runtime \<Rightarrow> RuntimeSnapshot \<Rightarrow> Check" where
  "checkStateModel rt snap =
     (let stateType = sm_Type (rt_State rt);
          durability = sm_Durability (rt_State rt);
          matches = state_model_check True ReasonMatch
            (''State model '' @ stateType @ ''/'' @ durability @ '' matches workload configuration'') SeverityError
      in if stateType = ''stateful'' then
           (if sn_WorkloadKind snap \<noteq> ''StatefulSet'' then
              state_model_check False ReasonMismatch
                (''Contract declares stateful service but workload is '' @ sn_WorkloadKind snap @ '' (expected StatefulSet)'')
                SeverityError
            else if durability = ''persistent'' \<and> \<not> sn_HasPVC snap then
              state_model_check False ReasonMissing
                ''Contract declares persistent storage but no PVC found on StatefulSet'' SeverityError
            else matches)
         else if stateType = ''stateless'' then
           (if sn_HasPVC snap then
              state_model_check False ReasonMismatch
                ''Contract declares stateless service but PVC found on workload'' SeverityWarning
            else matches)
         else if stateType = ''hybrid'' then
           (if durability = ''persistent'' \<and> \<not> sn_HasPVC snap then
              state_model_check False ReasonMissing
                ''Contract declares hybrid with persistent storage but no PVC found'' SeverityError
            else matches)
         else matches)"

definition checkUpgradeStrategy :: "Lifecycle \<Rightarrow> RuntimeSnapshot \<Rightarrow> Check" where
  "checkUpgradeStrategy lc snap =
     (let expected = lc_UpgradeStrategy lc
      in if sn_DeploymentStrategy snap = '''' \<and> sn_PodManagementPolicy snap = '''' then
           \<lparr>ck_Name = ConditionUpgradeStrategyMatch, ck_Passed = True, ck_Reason = ReasonSkipped,
            ck_Message = ''No deployment strategy to validate (workload type does not support strategies)'',
            ck_Severity = SeverityWarning\<rparr>
         else
           let actual = (if sn_DeploymentStrategy snap \<noteq> '''' then sn_DeploymentStrategy snap
                         else sn_PodManagementPolicy snap);
               match = (if expected = ''rolling'' then actual = ''RollingUpdate''
                        else if expected = ''recreate'' then actual = ''Recreate''
                        else if expected = ''ordered'' then actual = ''OrderedReady''
                        else False)
           in if match then
                \<lparr>ck_Name = ConditionUpgradeStrategyMatch, ck_Passed = True, ck_Reason = ReasonMatch,
                 ck_Message = ''Upgrade strategy '' @ show_q expected @ '' matches '' @ actual,
                 ck_Severity = SeverityWarning\<rparr>
              else
                \<lparr>ck_Name = ConditionUpgradeStrategyMatch, ck_Passed = False, ck_Reason = ReasonMismatch,
                 ck_Message = ''Contract declares upgrade strategy '' @ show_q expected @ '' but found '' @ actual,
                 ck_Severity = SeverityWarning\<rparr>)"

definition checkGracefulShutdown :: "goint \<Rightarrow> RuntimeSnapshot \<Rightarrow> Check" where
  "checkGracefulShutdown expected snap =
     (case sn_TerminationGracePeriod snap of
        None \<Rightarrow>
          \<lparr>ck_Name = ConditionGracefulShutdownMatch, ck_Passed = False, ck_Reason = ReasonMissing,
           ck_Message = ''Contract declares gracefulShutdownSeconds='' @ show_int (sint expected) @
             '' but no terminationGracePeriodSeconds set on pod'',
           ck_Severity = SeverityWarning\<rparr>
      | Some actual \<Rightarrow>
          if expected = actual then
            \<lparr>ck_Name = ConditionGracefulShutdownMatch, ck_Passed = True, ck_Reason = ReasonMatch,
             ck_Message = ''Graceful shutdown period matches ('' @ show_int (sint expected) @ ''s)'',
             ck_Severity = SeverityWarning\<rparr>
          else
            \<lparr>ck_Name = ConditionGracefulShutdownMatch, ck_Passed = False, ck_Reason = ReasonMismatch,
             ck_Message = ''Contract declares gracefulShutdownSeconds='' @ show_int (sint expected) @
               '' but pod has terminationGracePeriodSeconds='' @ show_int (sint actual),
             ck_Severity = SeverityWarning\<rparr>)"

definition checkImage :: "Image \<Rightarrow> RuntimeSnapshot \<Rightarrow> Check" where
  "checkImage im snap =
     (let expected = im_Ref im
      in case sn_ContainerImages snap of
           [] \<Rightarrow>
             \<lparr>ck_Name = ConditionImageMatch, ck_Passed = False, ck_Reason = ReasonMissing,
              ck_Message = ''No container images found on workload'', ck_Severity = SeverityError\<rparr>
         | actual # _ \<Rightarrow>
             if imageMatches expected actual then
               \<lparr>ck_Name = ConditionImageMatch, ck_Passed = True, ck_Reason = ReasonMatch,
                ck_Message = ''Container image matches contract ('' @ actual @ '')'',
                ck_Severity = SeverityError\<rparr>
             else
               \<lparr>ck_Name = ConditionImageMatch, ck_Passed = False, ck_Reason = ReasonMismatch,
                ck_Message = ''Contract declares image '' @ show_q expected @ '' but container has '' @ show_q actual,
                ck_Severity = SeverityError\<rparr>)"

definition checkHealthTiming :: "goint \<Rightarrow> RuntimeSnapshot \<Rightarrow> Check" where
  "checkHealthTiming declared snap =
     (let expected = to_int32 declared
      in case sn_HealthProbeInitialDelay snap of
           None \<Rightarrow>
             \<lparr>ck_Name = ConditionHealthTimingMatch, ck_Passed = False, ck_Reason = ReasonMissing,
              ck_Message = ''Contract declares health initialDelaySeconds='' @ show_int (sint expected) @
                '' but no probe configured on container'',
              ck_Severity = SeverityWarning\<rparr>
         | Some actual \<Rightarrow>
             if expected = actual then
               \<lparr>ck_Name = ConditionHealthTimingMatch, ck_Passed = True, ck_Reason = ReasonMatch,
                ck_Message = ''Health probe initialDelaySeconds matches ('' @ show_int (sint expected) @ ''s)'',
                ck_Severity = SeverityWarning\<rparr>
             else
               \<lparr>ck_Name = ConditionHealthTimingMatch, ck_Passed = False, ck_Reason = ReasonMismatch,
                ck_Message = ''Contract declares health initialDelaySeconds='' @ show_int (sint expected) @
                  '' but probe has '' @ show_int (sint actual),
                ck_Severity = SeverityWarning\<rparr>)"

section \<open>Validate\<close>

definition no_ports :: PortsResult where
  "no_ports = \<lparr>pr_Expected = [], pr_Observed = [], pr_Missing = [], pr_Unexpected = []\<rparr>"

text \<open>The runtime reconciliation checks, run when the workload exists and a runtime is declared.\<close>

definition runtime_checks :: "ContractDoc \<Rightarrow> Runtime \<Rightarrow> RuntimeSnapshot \<Rightarrow> Check list" where
  "runtime_checks c rt snap =
     [checkWorkloadType rt snap, checkStateModel rt snap] @
     (case rt_Lifecycle rt of
        None \<Rightarrow> []
      | Some lc \<Rightarrow>
          (if lc_UpgradeStrategy lc \<noteq> '''' then [checkUpgradeStrategy lc snap] else []) @
          (case lc_GracefulShutdownSeconds lc of None \<Rightarrow> [] | Some g \<Rightarrow> [checkGracefulShutdown g snap])) @
     (case sv_Image (c_Service c) of
        None \<Rightarrow> []
      | Some im \<Rightarrow> if im_Ref im \<noteq> '''' then [checkImage im snap] else []) @
     (case rt_Health rt of
        None \<Rightarrow> []
      | Some h \<Rightarrow>
          (case hl_InitialDelaySeconds h of None \<Rightarrow> [] | Some d \<Rightarrow> [checkHealthTiming d snap]))"

definition Validate :: "ContractDoc \<Rightarrow> RuntimeSnapshot \<Rightarrow> bool \<Rightarrow> ValidatorResult" where
  "Validate c snap hasService =
     (let checks = (if hasService then [checkServiceExists snap] else []);
          checks = checks @ [checkWorkloadExists snap];
          (checks, ports) =
            (if hasService \<and> sn_ServiceExists snap then
               (let (portsCheck, ports) = checkPorts c snap in (checks @ [portsCheck], ports))
             else if hasService then (checks, no_ports\<lparr>pr_Expected := contractPorts c\<rparr>)
             else (checks, no_ports));
          checks =
            (if sn_WorkloadExists snap then
               (case c_Runtime c of None \<Rightarrow> checks | Some rt \<Rightarrow> checks @ runtime_checks c rt snap)
             else checks)
      in \<lparr>res_Checks = checks, res_Ports = ports\<rparr>)"

fun scan_checks :: "Check list \<Rightarrow> bool \<Rightarrow> bool \<Rightarrow> bool \<times> bool" where
  "scan_checks [] hasResourceFailure hasOtherFailure = (hasResourceFailure, hasOtherFailure)"
| "scan_checks (c # cs) hasResourceFailure hasOtherFailure =
     (if ck_Passed c then scan_checks cs hasResourceFailure hasOtherFailure
      else if ck_Name c = ConditionServiceExists \<or> ck_Name c = ConditionWorkloadExists then
        scan_checks cs True hasOtherFailure
      else scan_checks cs hasResourceFailure True)"

definition computeContractStatus :: "Check list \<Rightarrow> string" where
  "computeContractStatus checks =
     (case scan_checks checks False False of
        (hasResourceFailure, hasOtherFailure) \<Rightarrow>
          if hasResourceFailure then ContractStatusNonCompliant
          else if hasOtherFailure then ContractStatusWarning
          else ContractStatusCompliant)"

section \<open>The contract of a single check\<close>

text \<open>
  Every check function of the package meets the same contract: whatever it is applied to, it
  reports under one condition type, it passes exactly when its requirement holds, and the
  severity of a failure is one that the metrics know.
\<close>

locale runtime_check =
  fixes check :: "'a \<Rightarrow> RuntimeSnapshot \<Rightarrow> Check"
    and type_name :: string
    and requirement :: "'a \<Rightarrow> RuntimeSnapshot \<Rightarrow> bool"
  assumes check_name: "ck_Name (check a snap) = type_name"
    and check_passed: "ck_Passed (check a snap) \<longleftrightarrow> requirement a snap"
    and check_severity: "ck_Severity (check a snap) \<in> {'''', SeverityError, SeverityWarning}"
begin

lemma check_verdict:
  "verdict_of (\<not> ck_Passed (check a snap)) (ck_Name (check a snap)) =
     (if requirement a snap then VCompliant
      else if is_resource type_name then VNonCompliant else VWarning)"
  by (simp add: verdict_of_def check_name check_passed)

end

text \<open>The requirements, stated over the contract and the snapshot.\<close>

definition ports_ok :: "ContractDoc \<Rightarrow> RuntimeSnapshot \<Rightarrow> bool" where
  "ports_ok c snap \<longleftrightarrow> set (contractPorts c) \<subseteq> set (sn_ServicePorts snap)"

definition workload_type_ok :: "Runtime \<Rightarrow> RuntimeSnapshot \<Rightarrow> bool" where
  "workload_type_ok rt snap \<longleftrightarrow>
     (rt_Workload rt, sn_WorkloadKind snap) \<in>
       {(''service'', ''Deployment''), (''service'', ''StatefulSet''), (''job'', ''Job''), (''scheduled'', ''CronJob'')}"

definition state_model_ok :: "Runtime \<Rightarrow> RuntimeSnapshot \<Rightarrow> bool" where
  "state_model_ok rt snap \<longleftrightarrow>
     (let st = rt_State rt; persistent = (sm_Durability st = ''persistent'')
      in (sm_Type st = ''stateful'' \<longrightarrow> sn_WorkloadKind snap = ''StatefulSet'') \<and>
         (sm_Type st \<in> {''stateful'', ''hybrid''} \<and> persistent \<longrightarrow> sn_HasPVC snap) \<and>
         (sm_Type st = ''stateless'' \<longrightarrow> \<not> sn_HasPVC snap))"

definition strategy_ok :: "Lifecycle \<Rightarrow> RuntimeSnapshot \<Rightarrow> bool" where
  "strategy_ok lc snap \<longleftrightarrow>
     (let actual = (if sn_DeploymentStrategy snap \<noteq> '''' then sn_DeploymentStrategy snap
                    else sn_PodManagementPolicy snap)
      in actual = '''' \<or>
         (lc_UpgradeStrategy lc, actual) \<in>
           {(''rolling'', ''RollingUpdate''), (''recreate'', ''Recreate''), (''ordered'', ''OrderedReady'')})"

definition grace_ok :: "goint \<Rightarrow> RuntimeSnapshot \<Rightarrow> bool" where
  "grace_ok g snap \<longleftrightarrow> sn_TerminationGracePeriod snap = Some g"

definition image_ok :: "Image \<Rightarrow> RuntimeSnapshot \<Rightarrow> bool" where
  "image_ok im snap \<longleftrightarrow>
     sn_ContainerImages snap \<noteq> [] \<and> imageMatches (im_Ref im) (hd (sn_ContainerImages snap))"

definition timing_ok :: "goint \<Rightarrow> RuntimeSnapshot \<Rightarrow> bool" where
  "timing_ok d snap \<longleftrightarrow> sn_HealthProbeInitialDelay snap = Some (to_int32 d)"

interpretation svc_chk: runtime_check "\<lambda>_ :: unit. checkServiceExists" ConditionServiceExists "\<lambda>_. sn_ServiceExists"
  by unfold_locales (simp_all add: checkServiceExists_def)

interpretation wl_chk: runtime_check "\<lambda>_ :: unit. checkWorkloadExists" ConditionWorkloadExists "\<lambda>_. sn_WorkloadExists"
  by unfold_locales (simp_all add: checkWorkloadExists_def)

interpretation ports_chk: runtime_check "\<lambda>c snap. fst (checkPorts c snap)" ConditionPortsValid ports_ok
  by unfold_locales (auto simp: checkPorts_def ports_ok_def Let_def filter_empty_conv)

interpretation type_chk: runtime_check checkWorkloadType ConditionWorkloadTypeMatch workload_type_ok
  by unfold_locales (auto simp: checkWorkloadType_def workload_type_ok_def Let_def)

interpretation state_chk: runtime_check checkStateModel ConditionStateModelMatch state_model_ok
  by unfold_locales (auto simp: checkStateModel_def state_model_check_def state_model_ok_def Let_def)

interpretation strategy_chk: runtime_check checkUpgradeStrategy ConditionUpgradeStrategyMatch strategy_ok
  by unfold_locales (auto simp: checkUpgradeStrategy_def strategy_ok_def Let_def)

interpretation grace_chk: runtime_check checkGracefulShutdown ConditionGracefulShutdownMatch grace_ok
  by unfold_locales (auto simp: checkGracefulShutdown_def grace_ok_def split: option.splits)

interpretation image_chk: runtime_check checkImage ConditionImageMatch image_ok
  by unfold_locales (auto simp: checkImage_def image_ok_def Let_def split: list.splits)

interpretation timing_chk: runtime_check checkHealthTiming ConditionHealthTimingMatch timing_ok
  by unfold_locales (auto simp: checkHealthTiming_def timing_ok_def Let_def split: option.splits)

lemmas check_names [outcome] =
  svc_chk.check_name wl_chk.check_name ports_chk.check_name type_chk.check_name state_chk.check_name
  strategy_chk.check_name grace_chk.check_name image_chk.check_name timing_chk.check_name

lemmas check_outcomes [outcome] =
  svc_chk.check_passed wl_chk.check_passed ports_chk.check_passed type_chk.check_passed
  state_chk.check_passed strategy_chk.check_passed grace_chk.check_passed image_chk.check_passed
  timing_chk.check_passed

section \<open>The status of a list of checks\<close>

lemma scan_checks_eq:
  "scan_checks cs r f =
     (r \<or> (\<exists>c\<in>set cs. \<not> ck_Passed c \<and> is_resource (ck_Name c)),
      f \<or> (\<exists>c\<in>set cs. \<not> ck_Passed c \<and> \<not> is_resource (ck_Name c)))"
  by (induction cs r f rule: scan_checks.induct) (auto simp: is_resource_def)

interpretation check_scan: compliance_scan computeContractStatus "\<lambda>c. \<not> ck_Passed c" ck_Name
  by unfold_locales (auto simp: computeContractStatus_def scan_checks_eq)

section \<open>What Validate decides\<close>

text \<open>The workload meets the declared runtime section, and the cluster meets the contract.\<close>

definition runtime_conforms :: "ContractDoc \<Rightarrow> Runtime \<Rightarrow> RuntimeSnapshot \<Rightarrow> bool" where
  "runtime_conforms c rt snap \<longleftrightarrow>
     workload_type_ok rt snap \<and> state_model_ok rt snap \<and>
     (case rt_Lifecycle rt of
        None \<Rightarrow> True
      | Some lc \<Rightarrow>
          (lc_UpgradeStrategy lc \<noteq> '''' \<longrightarrow> strategy_ok lc snap) \<and>
          (case lc_GracefulShutdownSeconds lc of None \<Rightarrow> True | Some g \<Rightarrow> grace_ok g snap)) \<and>
     (case sv_Image (c_Service c) of
        None \<Rightarrow> True
      | Some im \<Rightarrow> im_Ref im \<noteq> '''' \<longrightarrow> image_ok im snap) \<and>
     (case rt_Health rt of
        None \<Rightarrow> True
      | Some h \<Rightarrow> (case hl_InitialDelaySeconds h of None \<Rightarrow> True | Some d \<Rightarrow> timing_ok d snap))"

definition resources_missing :: "RuntimeSnapshot \<Rightarrow> bool \<Rightarrow> bool" where
  "resources_missing snap hasService \<longleftrightarrow> hasService \<and> \<not> sn_ServiceExists snap \<or> \<not> sn_WorkloadExists snap"

definition conforms :: "ContractDoc \<Rightarrow> RuntimeSnapshot \<Rightarrow> bool \<Rightarrow> bool" where
  "conforms c snap hasService \<longleftrightarrow>
     \<not> resources_missing snap hasService \<and> (hasService \<longrightarrow> ports_ok c snap) \<and>
     (case c_Runtime c of None \<Rightarrow> True | Some rt \<Rightarrow> runtime_conforms c rt snap)"

definition spec_status :: "ContractDoc \<Rightarrow> RuntimeSnapshot \<Rightarrow> bool \<Rightarrow> string" where
  "spec_status c snap hasService =
     (if resources_missing snap hasService then ContractStatusNonCompliant
      else if conforms c snap hasService then ContractStatusCompliant
      else ContractStatusWarning)"

lemma runtime_checks_pass:
  "list_all ck_Passed (runtime_checks c rt snap) \<longleftrightarrow> runtime_conforms c rt snap"
  by (auto simp: runtime_checks_def runtime_conforms_def outcome split: option.splits)

lemma runtime_checks_not_resource:
  "k \<in> set (runtime_checks c rt snap) \<Longrightarrow> \<not> is_resource (ck_Name k)"
  by (auto simp: runtime_checks_def is_resource_def outcome split: option.splits if_splits)

definition runtime_types :: "string list" where
  "runtime_types =
     [ConditionWorkloadTypeMatch, ConditionStateModelMatch, ConditionUpgradeStrategyMatch,
      ConditionGracefulShutdownMatch, ConditionImageMatch, ConditionHealthTimingMatch]"

lemma runtime_checks_names: "subseq (map ck_Name (runtime_checks c rt snap)) runtime_types"
  by (auto simp: runtime_checks_def runtime_types_def outcome split: option.split)

lemma runtime_check_types:
  "distinct runtime_types"
  "set runtime_types \<inter> {ConditionServiceExists, ConditionWorkloadExists, ConditionPortsValid} = {}"
  by (simp_all add: runtime_types_def)

lemma Validate_checks:
  "res_Checks (Validate c snap hasService) =
     (if hasService then [checkServiceExists snap] else []) @ [checkWorkloadExists snap] @
     (if hasService \<and> sn_ServiceExists snap then [fst (checkPorts c snap)] else []) @
     (if sn_WorkloadExists snap then
        (case c_Runtime c of None \<Rightarrow> [] | Some rt \<Rightarrow> runtime_checks c rt snap) else [])"
  by (auto simp: Validate_def Let_def split: option.splits prod.splits)

lemma Validate_mem:
  "k \<in> set (res_Checks (Validate c snap hasService)) \<longleftrightarrow>
     hasService \<and> k = checkServiceExists snap \<or> k = checkWorkloadExists snap \<or>
     hasService \<and> sn_ServiceExists snap \<and> k = fst (checkPorts c snap) \<or>
     sn_WorkloadExists snap \<and> (\<exists>rt. c_Runtime c = Some rt \<and> k \<in> set (runtime_checks c rt snap))"
  unfolding Validate_checks
  by (cases hasService; cases "sn_ServiceExists snap"; cases "sn_WorkloadExists snap"; cases "c_Runtime c") auto

lemma Validate_all_pass:
  "list_all ck_Passed (res_Checks (Validate c snap hasService)) \<longleftrightarrow> conforms c snap hasService"
  by (auto simp: Validate_checks conforms_def resources_missing_def outcome runtime_checks_pass
       split: option.splits)

lemma Validate_resource_failure:
  "(\<exists>k\<in>set (res_Checks (Validate c snap hasService)). \<not> ck_Passed k \<and> is_resource (ck_Name k)) \<longleftrightarrow>
     resources_missing snap hasService"
  using runtime_checks_not_resource
  by (auto simp: Bex_def Validate_mem resources_missing_def is_resource_def outcome)


lemma names_distinct:
  "distinct (map ck_Name (res_Checks (Validate c snap hasService)))"
proof (cases "c_Runtime c")
  case (Some rt)
  have "distinct (map ck_Name (runtime_checks c rt snap)) \<and>
      set (map ck_Name (runtime_checks c rt snap)) \<inter>
        {ConditionServiceExists, ConditionWorkloadExists, ConditionPortsValid} = {}"
    using runtime_check_types set_subseq[OF runtime_checks_names[of c rt snap]]
      distinct_subseq[OF runtime_checks_names[of c rt snap]]
    by blast
  with Some show ?thesis
    unfolding Validate_checks
    by (cases hasService; cases "sn_ServiceExists snap"; cases "sn_WorkloadExists snap") (auto simp: outcome)
qed (cases hasService; cases "sn_ServiceExists snap"; cases "sn_WorkloadExists snap";
     simp add: Validate_checks outcome)

text \<open>
  The port comparison is exact: for a targeted Service that exists, the missing ports are the
  declared ports the Service lacks and the unexpected ports are the Service's ports that are not
  declared, each in its list's order; the check passes exactly when none is missing, and extra
  ports never fail it. Without the Service only the expected ports are reported.
\<close>

lemma Validate_ports:
  "res_Ports (Validate c snap hasService) =
     (if hasService \<and> sn_ServiceExists snap then
        \<lparr>pr_Expected = contractPorts c, pr_Observed = sn_ServicePorts snap,
         pr_Missing = filter (\<lambda>p. p \<notin> set (sn_ServicePorts snap)) (contractPorts c),
         pr_Unexpected = filter (\<lambda>p. p \<notin> set (contractPorts c)) (sn_ServicePorts snap)\<rparr>
      else if hasService then no_ports\<lparr>pr_Expected := contractPorts c\<rparr>
      else no_ports) \<and>
   (\<exists>k\<in>set (res_Checks (Validate c snap hasService)). ck_Name k = ConditionPortsValid \<and> \<not> ck_Passed k) =
     (hasService \<and> sn_ServiceExists snap \<and> pr_Missing (res_Ports (Validate c snap hasService)) \<noteq> [])"
proof -
  have ports: "res_Ports (Validate c snap hasService) =
      (if hasService \<and> sn_ServiceExists snap then snd (checkPorts c snap)
       else if hasService then no_ports\<lparr>pr_Expected := contractPorts c\<rparr> else no_ports)"
    by (auto simp: Validate_def Let_def split: option.splits prod.splits)
  have names: "ck_Name k \<noteq> ConditionPortsValid" if "k \<in> set (runtime_checks c rt snap)" for k rt
    using that by (auto simp: runtime_checks_def outcome split: option.splits if_splits)
  have "(\<exists>k\<in>set (res_Checks (Validate c snap hasService)). ck_Name k = ConditionPortsValid \<and> \<not> ck_Passed k) =
      (hasService \<and> sn_ServiceExists snap \<and> \<not> ports_ok c snap)"
    using names by (auto simp: Bex_def Validate_mem outcome)
  then show ?thesis
    by (auto simp: ports checkPorts_def ports_ok_def Let_def filter_empty_conv)
qed


section \<open>A concrete contract\<close>

text \<open>A contract that the service of \<^const>\<open>sample_snapshot\<close> meets.\<close>

definition sample_contract :: ContractDoc where
  "sample_contract =
     \<lparr>c_Service = \<lparr>sv_Name = ''svc'', sv_Version = ''1.0.0'',
        sv_Owner = \<lparr>ow_Team = ''core'', ow_DRI = '''', ow_Contacts = []\<rparr>,
        sv_Image = Some \<lparr>im_Ref = ''ghcr.io/org/svc:1.0.0''\<rparr>\<rparr>,
      c_Interfaces =
        [\<lparr>if_Name = ''http'', if_Type = ''http'', if_Visibility = ''public'', if_Contract = '''', if_Port = Some 80\<rparr>,
         \<lparr>if_Name = ''events'', if_Type = ''event'', if_Visibility = '''', if_Contract = '''', if_Port = None\<rparr>],
      c_Configurations =
        [\<lparr>cf_Name = ''app'', cf_Schema = '''', cf_Ref = '''', cf_Values = Some [(''level'', AnyString ''info'')]\<rparr>],
      c_Dependencies = [], c_Policies = [],
      c_Runtime = Some
        \<lparr>rt_Workload = ''service'',
         rt_State = \<lparr>sm_Type = ''stateless'', sm_Scope = '''', sm_Durability = ''ephemeral'', sm_DataCriticality = ''low''\<rparr>,
         rt_Lifecycle = Some \<lparr>lc_UpgradeStrategy = ''rolling'', lc_GracefulShutdownSeconds = Some 30\<rparr>,
         rt_Health = Some \<lparr>hl_Interface = ''http'', hl_Path = ''healthz'', hl_InitialDelaySeconds = Some 5\<rparr>,
         rt_Metrics = Some \<lparr>mt_Interface = ''events'', mt_Path = ''/metrics''\<rparr>\<rparr>,
      c_Scaling = Some \<lparr>sc_Replicas = Some 2, sc_Min = 0, sc_Max = 4\<rparr>,
      c_Metadata = [(''tier'', AnyString ''gold'')],
      c_Readiness = Some \<lparr>rn_History = [], rn_Declared = ''unmet''\<rparr>\<rparr>"

lemma sample_ports: "contractPorts sample_contract = [80]"
  by (simp add: contractPorts_def sample_contract_def to_int32_def)

lemma sample_image: "imageMatches ''ghcr.io/org/svc:1.0.0'' ''ghcr.io/org/svc:1.0.0''"
  by (simp add: imageMatches_def)

lemma sample_conforms: "conforms sample_contract sample_snapshot True"
  using sample_image
  by (simp add: conforms_def resources_missing_def ports_ok_def sample_ports sample_snapshot_def)
     (simp add: sample_contract_def runtime_conforms_def workload_type_ok_def state_model_ok_def
        strategy_ok_def grace_ok_def image_ok_def timing_ok_def to_int32_def)

section \<open>Narrowing\<close>

lemma to_int32_of_sint: "to_int32 d = word_of_int (sint d)"
  unfolding to_int32_def by transfer (simp add: take_bit_signed_take_bit)

lemma to_int32_eq_iff: "to_int32 d = a \<longleftrightarrow> (sint d - sint a) mod 2 ^ 32 = 0"
proof -
  have words: "(word_of_int i :: int32) = word_of_int j \<longleftrightarrow> i mod 2 ^ 32 = j mod 2 ^ 32" for i j
    by (simp add: word_of_int_eq_iff take_bit_eq_mod)
  have "a = word_of_int (sint a)"
    by simp
  then have "to_int32 d = a \<longleftrightarrow> sint d mod 2 ^ 32 = sint a mod 2 ^ 32"
    unfolding to_int32_of_sint by (metis words)
  then show ?thesis
    by (metis mod_eq_dvd_iff dvd_eq_mod_eq_0)
qed

text \<open>
  C8. The declared health delay is narrowed to 32 bits before it is compared: the check passes exactly
  when the delay of the probe equals the declared one modulo 2^32. For a declaration that fits into
  32 bits this is equality; a larger one is accepted for a probe with another delay.
\<close>

theorem health_timing_narrowed:
  "(ck_Passed (checkHealthTiming d snap) \<longleftrightarrow>
      (\<exists>a. sn_HealthProbeInitialDelay snap = Some a \<and> (sint d - sint a) mod 2 ^ 32 = 0)) \<and>
   (- (2 ^ 31) \<le> sint d \<and> sint d < 2 ^ 31 \<longrightarrow>
      (ck_Passed (checkHealthTiming d snap) \<longleftrightarrow> map_option sint (sn_HealthProbeInitialDelay snap) = Some (sint d)))"
proof -
  have pass: "ck_Passed (checkHealthTiming d snap) \<longleftrightarrow> sn_HealthProbeInitialDelay snap = Some (to_int32 d)"
    by (auto simp: checkHealthTiming_def Let_def split: option.split)
  have inject: "a = b" if "sint a = sint b" for a b :: int32
    using that by (rule signed_word_eqI[where ?'a = int])
  have "ck_Passed (checkHealthTiming d snap) \<longleftrightarrow> map_option sint (sn_HealthProbeInitialDelay snap) = Some (sint d)"
    if "- (2 ^ 31) \<le> sint d \<and> sint d < 2 ^ 31"
    using sint_to_int32[of d] that by (auto simp: pass intro!: inject)
  moreover have "ck_Passed (checkHealthTiming d snap) \<longleftrightarrow>
      (\<exists>a. sn_HealthProbeInitialDelay snap = Some a \<and> (sint d - sint a) mod 2 ^ 32 = 0)"
    unfolding pass to_int32_eq_iff[symmetric] by auto
  ultimately show ?thesis
    by blast
qed

text \<open>A contract that declares 2^32 + 5 seconds is met by a probe with 5 seconds.\<close>

theorem health_timing_narrowed_witness:
  "ck_Passed (checkHealthTiming 4294967301 (sample_snapshot\<lparr>sn_HealthProbeInitialDelay := Some 5\<rparr>)) \<and>
   ck_Passed (checkHealthTiming 5 (sample_snapshot\<lparr>sn_HealthProbeInitialDelay := Some 5\<rparr>))"
  using health_timing_narrowed[of 4294967301 "sample_snapshot\<lparr>sn_HealthProbeInitialDelay := Some 5\<rparr>"]
    health_timing_narrowed[of 5 "sample_snapshot\<lparr>sn_HealthProbeInitialDelay := Some 5\<rparr>"]
  by simp

end
