(* ===== verification/Conditions.thy ===== *)
theory Conditions
  imports Validator
begin

text \<open>
  The status-writing helpers of the reconciler (\<^verbatim>\<open>internal/controller/pacto_controller.go\<close>): the
  reset of the derived fields, the conditions, the mapping of a validation result to the status,
  the summary counters (Go \<open>int32\<close>) and the final contract status. The lemmas describe the list of
  conditions as a set: \<open>meta.SetStatusCondition\<close> is known only through \<open>condition_api\<close>.
\<close>

section \<open>Writing the status\<close>

definition upd_status :: "(PactoStatus \<Rightarrow> PactoStatus) \<Rightarrow> Pacto \<Rightarrow> Pacto" where
  "upd_status f pacto = pacto\<lparr>p_Status := f (p_Status pacto)\<rparr>"

definition setCondition :: "externals \<Rightarrow> Pacto \<Rightarrow> string \<Rightarrow> ConditionStatus \<Rightarrow> string \<Rightarrow> string \<Rightarrow> Pacto" where
  "setCondition x pacto condType status reason message =
     upd_status (\<lambda>st. st\<lparr>st_Conditions :=
       x_SetStatusCondition x (st_Conditions st)
         \<lparr>cond_Type = condType, cond_Status = status,
          cond_ObservedGeneration = om_Generation (p_Meta pacto),
          cond_Reason = reason, cond_Message = message\<rparr>\<rparr>) pacto"

definition resetDerivedStatus :: "Pacto \<Rightarrow> Pacto" where
  "resetDerivedStatus pacto =
     upd_status (\<lambda>st. st\<lparr>
       st_ContractStatus := '''', st_ResolutionPolicy := '''', st_Summary := None,
       st_ContractVersion := '''', st_Contract := None, st_Validation := None,
       st_Resources := None, st_Ports := None, st_Endpoints := None, st_Interfaces := [],
       st_Configurations := [], st_Dependencies := [], st_Policies := [], st_Runtime := None,
       st_ObservedRuntime := None, st_Scaling := None, st_Readiness := None, st_Metadata := [],
       st_Conditions := []\<rparr>) pacto"

fun scan_conditions :: "Condition list \<Rightarrow> bool \<Rightarrow> bool \<Rightarrow> bool \<times> bool" where
  "scan_conditions [] hasResourceFailure hasOtherFailure = (hasResourceFailure, hasOtherFailure)"
| "scan_conditions (cond # conds) hasResourceFailure hasOtherFailure =
     (if cond_Status cond = ConditionTrue then scan_conditions conds hasResourceFailure hasOtherFailure
      else if cond_Type cond = ConditionServiceExists \<or> cond_Type cond = ConditionWorkloadExists then
        scan_conditions conds True hasOtherFailure
      else scan_conditions conds hasResourceFailure True)"

definition final_status_of :: "Condition list \<Rightarrow> string" where
  "final_status_of conds =
     (case scan_conditions conds False False of
        (hasResourceFailure, hasOtherFailure) \<Rightarrow>
          if hasResourceFailure then ContractStatusNonCompliant
          else if hasOtherFailure then ContractStatusWarning
          else ContractStatusCompliant)"

definition computeFinalContractStatus :: "Pacto \<Rightarrow> string" where
  "computeFinalContractStatus pacto = final_status_of (st_Conditions (p_Status pacto))"

definition check_status :: "Check \<Rightarrow> ConditionStatus" where
  "check_status check = (if \<not> ck_Passed check then ConditionFalse else ConditionTrue)"

definition set_check_condition :: "externals \<Rightarrow> Check \<Rightarrow> Pacto \<Rightarrow> Pacto" where
  "set_check_condition x check pacto =
     setCondition x pacto (ck_Name check) (check_status check) (ck_Reason check) (ck_Message check)"

definition applyCheck :: "externals \<Rightarrow> Pacto \<Rightarrow> Check \<Rightarrow> Pacto" where
  "applyCheck x pacto check =
     upd_status (\<lambda>st.
       (let s = (case st_Summary st of
                   None \<Rightarrow> \<lparr>cs_Total = 0, cs_Passed = 0, cs_Failed = 0\<rparr> | Some s \<Rightarrow> s);
            s = s\<lparr>cs_Total := cs_Total s + 1\<rparr>;
            s = (if ck_Passed check then s\<lparr>cs_Passed := cs_Passed s + 1\<rparr>
                 else s\<lparr>cs_Failed := cs_Failed s + 1\<rparr>)
        in st\<lparr>st_Summary := Some s\<rparr>)) (set_check_condition x check pacto)"

fun count_checks :: "Check list \<Rightarrow> int32 \<Rightarrow> int32 \<Rightarrow> int32 \<times> int32" where
  "count_checks [] passed failed = (passed, failed)"
| "count_checks (check # checks) passed failed =
     (if ck_Passed check then count_checks checks (passed + 1) failed
      else count_checks checks passed (failed + 1))"

definition applyValidationResult ::
  "externals \<Rightarrow> Pacto \<Rightarrow> ValidatorResult \<Rightarrow> RuntimeSnapshot \<Rightarrow> string \<Rightarrow> string \<Rightarrow> string \<Rightarrow> Pacto" where
  "applyValidationResult x pacto result snapshot serviceName workloadName workloadKind =
     (let resources =
            \<lparr>rss_Service =
               (if serviceName \<noteq> '''' then
                  Some \<lparr>rs_Name = serviceName, rs_Kind = '''', rs_Exists = sn_ServiceExists snapshot\<rparr>
                else None),
             rss_Workload =
               (if workloadName \<noteq> '''' then
                  Some \<lparr>rs_Name = workloadName, rs_Kind = workloadKind, rs_Exists = sn_WorkloadExists snapshot\<rparr>
                else None)\<rparr>;
          pacto = upd_status (\<lambda>st. st\<lparr>st_Resources := Some resources\<rparr>) pacto;
          ports = res_Ports result;
          pacto =
            (if 0 < length (pr_Expected ports) \<or> 0 < length (pr_Observed ports) then
               upd_status (\<lambda>st. st\<lparr>st_Ports := Some
                 \<lparr>pt_Expected = pr_Expected ports, pt_Observed = pr_Observed ports,
                  pt_Missing = pr_Missing ports, pt_Unexpected = pr_Unexpected ports\<rparr>\<rparr>) pacto
             else pacto);
          pacto = fold (set_check_condition x) (res_Checks result) pacto;
          (passed, failed) = count_checks (res_Checks result) 1 0
      in upd_status (\<lambda>st. st\<lparr>st_Summary := Some
           \<lparr>cs_Total = to_int32 (of_nat (length (res_Checks result))) + 1,
            cs_Passed = passed, cs_Failed = failed\<rparr>\<rparr>) pacto)"

section \<open>What the helpers leave alone\<close>

lemma upd_status_sel [simp]:
  "p_Meta (upd_status f p) = p_Meta p" "p_Spec (upd_status f p) = p_Spec p"
  "p_Status (upd_status f p) = f (p_Status p)"
  by (simp_all add: upd_status_def)

lemma upd_status_upd_status [simp]: "upd_status f (upd_status g p) = upd_status (f \<circ> g) p"
  by (simp add: upd_status_def)

lemma IsReference_upd_status [simp]: "IsReference (upd_status f p) = IsReference p"
  by (simp add: IsReference_def)

lemma ResolvedWorkload_upd_status [simp]: "ResolvedWorkload (upd_status f p) = ResolvedWorkload p"
  by (simp add: ResolvedWorkload_def)

text \<open>
  A Pacto object without its conditions and summary: what the condition writers leave unchanged.
\<close>

definition frame_of :: "Pacto \<Rightarrow> Pacto" where
  "frame_of p = upd_status (\<lambda>st. st\<lparr>st_Conditions := [], st_Summary := None\<rparr>) p"

lemma frame_setCondition [frame]: "frame_of (setCondition x p t s r m) = frame_of p"
  by (simp add: frame_of_def setCondition_def upd_status_def)

lemma frame_set_check_condition [frame]: "frame_of (set_check_condition x ck p) = frame_of p"
  by (simp add: set_check_condition_def frame)

lemma frame_set_check_conditions [frame]: "frame_of (fold (set_check_condition x) cks p) = frame_of p"
  by (induction cks arbitrary: p) (simp_all add: frame)

lemma frame_applyCheck [frame]: "frame_of (applyCheck x p ck) = frame_of p"
  using frame_set_check_condition[of x ck p]
  by (simp add: applyCheck_def frame_of_def upd_status_def Let_def)

lemma frame_of_sel:
  "p_Meta (frame_of p) = p_Meta p" "p_Spec (frame_of p) = p_Spec p"
  "st_Contract (p_Status (frame_of p)) = st_Contract (p_Status p)"
  "st_Readiness (p_Status (frame_of p)) = st_Readiness (p_Status p)"
  "st_Resources (p_Status (frame_of p)) = st_Resources (p_Status p)"
  "st_Ports (p_Status (frame_of p)) = st_Ports (p_Status p)"
  "st_ContractStatus (p_Status (frame_of p)) = st_ContractStatus (p_Status p)"
  "st_CurrentRevision (p_Status (frame_of p)) = st_CurrentRevision (p_Status p)"
  "st_Validation (p_Status (frame_of p)) = st_Validation (p_Status p)"
  by (simp_all add: frame_of_def)

lemma frame_fields:
  assumes "frame_of p = frame_of q"
  shows "p_Meta p = p_Meta q" "p_Spec p = p_Spec q"
    "st_Contract (p_Status p) = st_Contract (p_Status q)"
    "st_Readiness (p_Status p) = st_Readiness (p_Status q)"
    "st_Resources (p_Status p) = st_Resources (p_Status q)"
    "st_Ports (p_Status p) = st_Ports (p_Status q)"
    "st_ContractStatus (p_Status p) = st_ContractStatus (p_Status q)"
    "st_CurrentRevision (p_Status p) = st_CurrentRevision (p_Status q)"
    "st_Validation (p_Status p) = st_Validation (p_Status q)"
  by (metis assms frame_of_sel)+

section \<open>Conditions as a set\<close>

abbreviation conditions :: "Pacto \<Rightarrow> Condition list" where
  "conditions p \<equiv> st_Conditions (p_Status p)"

definition condition_of :: "int64 \<Rightarrow> Check \<Rightarrow> Condition" where
  "condition_of gen ck =
     \<lparr>cond_Type = ck_Name ck, cond_Status = check_status ck, cond_ObservedGeneration = gen,
      cond_Reason = ck_Reason ck, cond_Message = ck_Message ck\<rparr>"

lemma condition_of_sel [simp]:
  "cond_Type (condition_of g ck) = ck_Name ck"
  "cond_Status (condition_of g ck) = ConditionTrue \<longleftrightarrow> ck_Passed ck"
  "cond_Status (condition_of g ck) = ConditionFalse \<longleftrightarrow> \<not> ck_Passed ck"
  by (simp_all add: condition_of_def check_status_def)

lemma conditions_setCondition:
  "conditions (setCondition x p t s r m) =
     x_SetStatusCondition x (conditions p)
       \<lparr>cond_Type = t, cond_Status = s, cond_ObservedGeneration = om_Generation (p_Meta p),
        cond_Reason = r, cond_Message = m\<rparr>"
  by (simp add: setCondition_def)

lemma conditions_set_check_condition:
  "conditions (set_check_condition x ck p) =
     x_SetStatusCondition x (conditions p) (condition_of (om_Generation (p_Meta p)) ck)"
  by (simp add: set_check_condition_def conditions_setCondition condition_of_def)

lemma setCondition_meta [simp]:
  "p_Meta (setCondition x p t s r m) = p_Meta p" "p_Spec (setCondition x p t s r m) = p_Spec p"
  by (simp_all add: setCondition_def)

lemma set_check_condition_meta [simp]:
  "p_Meta (set_check_condition x ck p) = p_Meta p" "p_Spec (set_check_condition x ck p) = p_Spec p"
  by (simp_all add: set_check_condition_def)

lemma set_check_conditions_meta [simp]:
  "p_Meta (fold (set_check_condition x) cks p) = p_Meta p"
  "p_Spec (fold (set_check_condition x) cks p) = p_Spec p"
  by (induction cks arbitrary: p) simp_all

lemma set_check_conditions:
  assumes "condition_api x" "types_distinct (conditions p)" "distinct (map ck_Name cks)"
  shows "types_distinct (conditions (fold (set_check_condition x) cks p)) \<and>
    set (conditions (fold (set_check_condition x) cks p)) =
      {c \<in> set (conditions p). cond_Type c \<notin> ck_Name ` set cks} \<union>
      condition_of (om_Generation (p_Meta p)) ` set cks"
  using assms
proof (induction cks arbitrary: p)
  case (Cons ck cks)
  have "types_distinct (conditions (set_check_condition x ck p))"
    using Cons.prems by (simp add: conditions_set_check_condition SetStatusCondition_distinct)
  from Cons.IH[OF Cons.prems(1) this] Cons.prems show ?case
    by (auto simp: conditions_set_check_condition SetStatusCondition_set)
qed simp

section \<open>The summary counters\<close>

lemma count_checks_eq:
  "count_checks cks p f =
     (p + of_nat (length (filter ck_Passed cks)), f + of_nat (length (filter (Not \<circ> ck_Passed) cks)))"
  by (induction cks p f rule: count_checks.induct) (simp_all add: algebra_simps)

text \<open>A summary that counts a list of checks exactly, without overflow.\<close>

definition counts :: "CheckSummary option \<Rightarrow> Check list \<Rightarrow> bool" where
  "counts s cks \<longleftrightarrow>
     (\<exists>t. s = Some t \<and> length cks < 2 ^ 31 \<and>
        cs_Total t = of_nat (length cks) \<and> cs_Passed t = of_nat (length (filter ck_Passed cks)) \<and>
        cs_Failed t = of_nat (length (filter (Not \<circ> ck_Passed) cks)))"

lemma counts_sint:
  assumes "counts (Some t) cks"
  shows "sint (cs_Total t) = int (length cks)"
    "sint (cs_Passed t) = int (length (filter ck_Passed cks))"
    "sint (cs_Failed t) = int (length (filter (Not \<circ> ck_Passed) cks))"
    "sint (cs_Total t) = sint (cs_Passed t) + sint (cs_Failed t)"
proof -
  have small: "sint (of_nat n :: int32) = int n" if "n < 2 ^ 31" for n
    using that by (rule sint_of_nat32)
  have split: "length (filter ck_Passed cks) + length (filter (Not \<circ> ck_Passed) cks) = length cks"
    using sum_length_filter_compl[of ck_Passed cks] by (simp add: comp_def)
  with assms small show "sint (cs_Total t) = int (length cks)"
    "sint (cs_Passed t) = int (length (filter ck_Passed cks))"
    "sint (cs_Failed t) = int (length (filter (Not \<circ> ck_Passed) cks))"
    by (auto simp: counts_def)
  with split show "sint (cs_Total t) = sint (cs_Passed t) + sint (cs_Failed t)"
    by simp
qed

lemma counts_applyCheck:
  assumes "counts (st_Summary (p_Status p)) cks" "length cks + 1 < 2 ^ 31"
  shows "counts (st_Summary (p_Status (applyCheck x p ck))) (cks @ [ck])"
  using assms
  by (auto simp: counts_def applyCheck_def set_check_condition_def setCondition_def Let_def algebra_simps)


section \<open>The final status\<close>

lemma scan_conditions_eq:
  "scan_conditions cs r f =
     (r \<or> (\<exists>c\<in>set cs. cond_Status c \<noteq> ConditionTrue \<and> is_resource (cond_Type c)),
      f \<or> (\<exists>c\<in>set cs. cond_Status c \<noteq> ConditionTrue \<and> \<not> is_resource (cond_Type c)))"
  by (induction cs r f rule: scan_conditions.induct) (auto simp: is_resource_def)

interpretation cond_scan: compliance_scan final_status_of "\<lambda>c. cond_Status c \<noteq> ConditionTrue" cond_Type
  by unfold_locales (auto simp: final_status_of_def scan_conditions_eq)

lemma set_check_conditions_cong:
  "conditions p = conditions q \<Longrightarrow> p_Meta p = p_Meta q \<Longrightarrow>
     conditions (fold (set_check_condition x) cks p) = conditions (fold (set_check_condition x) cks q)"
  by (induction cks arbitrary: p q) (simp_all add: conditions_set_check_condition)

lemma conditions_applyValidationResult:
  "conditions (applyValidationResult x p result snap s w k) =
     conditions (fold (set_check_condition x) (res_Checks result) p)"
  unfolding applyValidationResult_def Let_def
  by (auto split: prod.splits intro!: set_check_conditions_cong)

text \<open>The condition types that the reconciler has written before it validates.\<close>

definition pre_runtime_types :: "string set" where
  "pre_runtime_types = {ConditionContractValid, ConditionReadinessSatisfied}"

lemma Validate_fresh_names:
  "k \<in> set (res_Checks (Validate c snap hs)) \<Longrightarrow>
     ck_Name k \<notin> pre_runtime_types \<and> ck_Name k \<notin> {ConditionHealthEndpointValid, ConditionMetricsEndpointValid}"
  using set_subseq[OF runtime_checks_names]
  by (fastforce simp: Validate_mem outcome pre_runtime_types_def runtime_types_def)

lemma status_of_union:
  assumes "set (conditions q) = set (conditions p) \<union> condition_of g ` set cks"
    and "cond_Type ` set (conditions p) \<subseteq> pre_runtime_types"
  shows "computeFinalContractStatus q =
    (if \<exists>k\<in>set cks. \<not> ck_Passed k \<and> is_resource (ck_Name k) then ContractStatusNonCompliant
     else if (\<forall>k\<in>set cks. ck_Passed k) \<and> (\<forall>d\<in>set (conditions p). cond_Status d = ConditionTrue)
       then ContractStatusCompliant
     else ContractStatusWarning)"
proof -
  have "(\<exists>d\<in>set (conditions q). cond_Status d \<noteq> ConditionTrue \<and> is_resource (cond_Type d)) \<longleftrightarrow>
      (\<exists>k\<in>set cks. \<not> ck_Passed k \<and> is_resource (ck_Name k))"
    using assms(2) by (auto simp: assms(1) bex_Un is_resource_def pre_runtime_types_def)
  moreover have "(\<exists>d\<in>set (conditions q). cond_Status d \<noteq> ConditionTrue) \<longleftrightarrow>
      \<not> ((\<forall>k\<in>set cks. ck_Passed k) \<and> (\<forall>d\<in>set (conditions p). cond_Status d = ConditionTrue))"
    by (auto simp: assms(1) bex_Un)
  ultimately show ?thesis
    using cond_scan.two_flags[of "conditions q"] by (simp add: computeFinalContractStatus_def)
qed

section \<open>The summary of a validation\<close>

definition contract_valid_check :: Check where
  "contract_valid_check =
     \<lparr>ck_Name = ConditionContractValid, ck_Passed = True, ck_Reason = '''', ck_Message = '''',
      ck_Severity = SeverityError\<rparr>"

lemma summary_applyValidationResult:
  "Suc (length (res_Checks result)) < 2 ^ 31 \<Longrightarrow>
   counts (st_Summary (p_Status (applyValidationResult x p result snap s w k)))
     (contract_valid_check # res_Checks result)"
  unfolding applyValidationResult_def Let_def counts_def
  by (simp add: count_checks_eq contract_valid_check_def split: prod.splits)

lemma runtime_checks_length: "length (runtime_checks c rt snap) \<le> 6"
  by (auto simp: runtime_checks_def split: option.split)

lemma Validate_length: "length (res_Checks (Validate c snap hs)) \<le> 9"
proof (cases "c_Runtime c")
  case (Some rt)
  then show ?thesis
    using runtime_checks_length[of c rt snap] unfolding Validate_checks by auto
qed (simp add: Validate_checks)


section \<open>A concrete resource\<close>

definition blank_status :: PactoStatus where
  "blank_status =
     \<lparr>st_ContractStatus = '''', st_ResolutionPolicy = '''', st_Summary = None, st_ContractVersion = '''',
      st_Contract = None, st_Validation = None, st_Resources = None, st_Ports = None, st_Endpoints = None,
      st_Interfaces = [], st_Configurations = [], st_Dependencies = [], st_Policies = [], st_Runtime = None,
      st_ObservedRuntime = None, st_Scaling = None, st_Readiness = None, st_Metadata = [],
      st_Conditions = [], st_CurrentRevision = '''', st_LastReconciledAt = None, st_ObservedGeneration = 0\<rparr>"

definition sample_pacto :: Pacto where
  "sample_pacto =
     \<lparr>p_Meta = \<lparr>om_Name = ''svc'', om_Namespace = ''ns'', om_Generation = 3, om_Labels = []\<rparr>,
      p_Spec = \<lparr>ps_ContractRef = \<lparr>cr_OCI = ''oci://ghcr.io/org/svc-pacto'', cr_Inline = '''', cr_PullSecretRef = ''''\<rparr>,
                ps_Target = \<lparr>tr_ServiceName = ''svc'', tr_WorkloadRef = None\<rparr>,
                ps_Overrides = None, ps_CheckIntervalSeconds = 60\<rparr>,
      p_Status = blank_status\<rparr>"

end
