(* ===== verification/Prober.thy ===== *)
theory Prober
  imports Api
begin

text \<open>
  The endpoint prober (\<^verbatim>\<open>internal/prober/prober.go\<close>). The HTTP client and the clock are
  parameters (\<open>http_env\<close>) over an abstract world that they may change; a response is its status
  code and the bytes of its body that can be read before the end or an error.
\<close>

section \<open>HTTP as a parameter\<close>

record http_response =
  hr_StatusCode :: goint
  hr_Body :: string

text \<open>The \<open>http.Client\<close> of a prober: its timeout, and that it does not follow redirects.\<close>

record Prober =
  pc_Timeout :: duration
  pc_FollowRedirects :: bool

record 'w http_env =
  h_NewRequest :: "string \<Rightarrow> string option"
  h_Do :: "Prober \<Rightarrow> string \<Rightarrow> 'w \<Rightarrow> (string + http_response) \<times> 'w"
  h_Now :: "'w \<Rightarrow> instant \<times> 'w"

section \<open>Probing\<close>

definition defaultTimeout :: duration where
  "defaultTimeout = 5 * Second"

definition maxBodyRead :: nat where
  "maxBodyRead = 4096"

record ProbeResult =
  pb_URL :: string
  pb_Reachable :: bool
  pb_StatusCode :: int32
  pb_LatencyMs :: int64
  pb_Error :: string
  pb_ContentPresent :: bool
  pb_PrometheusLike :: bool

definition new_prober :: "duration \<Rightarrow> Prober" where
  "new_prober timeout =
     (let timeout = (if timeout \<le> 0 then defaultTimeout else timeout)
      in \<lparr>pc_Timeout = timeout, pc_FollowRedirects = False\<rparr>)"

definition sanitizeError :: "string \<Rightarrow> string" where
  "sanitizeError msg =
     (let idx = LastIndex msg '': ''
      in if 0 < idx then
           (let suffix = slice_from msg (idx + 2) in if 0 < length suffix then suffix else msg)
         else msg)"

text \<open>\<open>Duration.Milliseconds\<close>: division truncates towards zero.\<close>

definition Milliseconds :: "duration \<Rightarrow> int64" where
  "Milliseconds d = word_of_int (if d < 0 then - (- d div 1000000) else d div 1000000)"

definition Probe :: "'w http_env \<Rightarrow> Prober \<Rightarrow> string \<Rightarrow> 'w \<Rightarrow> ProbeResult \<times> 'w" where
  "Probe h p url w =
     (let result = \<lparr>pb_URL = url, pb_Reachable = False, pb_StatusCode = 0, pb_LatencyMs = 0,
                    pb_Error = '''', pb_ContentPresent = False, pb_PrometheusLike = False\<rparr>
      in case h_NewRequest h url of
           Some err \<Rightarrow> (result\<lparr>pb_Error := ''invalid URL: '' @ err\<rparr>, w)
         | None \<Rightarrow>
             (let (start, w) = h_Now h w;
                  (resp, w) = h_Do h p url w;
                  (done_at, w) = h_Now h w;
                  result = result\<lparr>pb_LatencyMs := Milliseconds (done_at - start)\<rparr>
              in case resp of
                   Inl err \<Rightarrow> (result\<lparr>pb_Error := sanitizeError err\<rparr>, w)
                 | Inr r \<Rightarrow>
                     (let result = result\<lparr>pb_Reachable := True, pb_StatusCode := to_int32 (hr_StatusCode r)\<rparr>;
                          body = take maxBodyRead (hr_Body r);
                          result = result\<lparr>pb_ContentPresent := 0 < length body\<rparr>;
                          result = (if pb_ContentPresent result then
                                      result\<lparr>pb_PrometheusLike := Contains body ''# HELP'' \<or> Contains body ''# TYPE''\<rparr>
                                    else result)
                      in (result, w))))"

definition BuildURL :: "string \<Rightarrow> string \<Rightarrow> int32 \<Rightarrow> string \<Rightarrow> string" where
  "BuildURL serviceName namespace port path =
     (let path = (if \<not> HasPrefix path ''/'' then ''/'' @ path else path)
      in ''http://'' @ serviceName @ ''.'' @ namespace @ ''.svc:'' @ show_int (sint port) @ path)"

section \<open>What a probe reports\<close>

lemma Probe_url [simp]: "pb_URL (fst (Probe h p url w)) = url"
  by (simp add: Probe_def Let_def split: option.split prod.split sum.split)

text \<open>The response that the world gives to a probe, if there is one.\<close>

definition http_answer :: "'w http_env \<Rightarrow> Prober \<Rightarrow> string \<Rightarrow> 'w \<Rightarrow> http_response option" where
  "http_answer h p url w =
     (case h_NewRequest h url of
        Some _ \<Rightarrow> None
      | None \<Rightarrow> (case fst (h_Do h p url (snd (h_Now h w))) of Inl _ \<Rightarrow> None | Inr r \<Rightarrow> Some r))"

lemma Probe_answer:
  "http_answer h p url w = Some r \<Longrightarrow>
     pb_Reachable (fst (Probe h p url w)) \<and> pb_Error (fst (Probe h p url w)) = '''' \<and>
     pb_StatusCode (fst (Probe h p url w)) = to_int32 (hr_StatusCode r) \<and>
     pb_ContentPresent (fst (Probe h p url w)) = (hr_Body r \<noteq> [])"
  by (auto simp: Probe_def http_answer_def Let_def maxBodyRead_def split: option.splits prod.splits sum.splits)

lemma Probe_no_answer:
  "http_answer h p url w = None \<Longrightarrow>
     \<not> pb_Reachable (fst (Probe h p url w)) \<and> pb_StatusCode (fst (Probe h p url w)) = 0 \<and>
     \<not> pb_ContentPresent (fst (Probe h p url w))"
  by (auto simp: Probe_def http_answer_def Let_def split: option.splits prod.splits sum.splits)

section \<open>The address of an endpoint\<close>

text \<open>Reading back the decimal text of a number.\<close>

definition digit_value :: "char \<Rightarrow> nat" where
  "digit_value c = of_char c - 48"

definition read_nat :: "string \<Rightarrow> nat" where
  "read_nat s = foldl (\<lambda>n c. n * 10 + digit_value c) 0 s"

lemma digit_facts:
  "n < 10 \<Longrightarrow> digit_value (''0123456789'' ! n) = n \<and> ''0123456789'' ! n \<in> set ''0123456789''"
  by (auto simp: less_Suc_eq numeral_eq_Suc digit_value_def)

lemma read_show_nat: "read_nat (show_nat n) = n"
proof (induction n rule: show_nat.induct)
  case (1 n)
  then show ?case
    by (subst show_nat.simps) (auto simp: read_nat_def digit_facts)
qed

lemma show_nat_digits: "set (show_nat n) \<subseteq> set ''0123456789''"
proof (induction n rule: show_nat.induct)
  case (1 n)
  then show ?case
    by (subst show_nat.simps) (use digit_facts[of n] digit_facts[of "n mod 10"] in auto)
qed

lemma show_nat_no_minus: "CHR ''-'' # s \<noteq> show_nat n"
proof
  assume "CHR ''-'' # s = show_nat n"
  then have "CHR ''-'' \<in> set (show_nat n)"
    by (metis list.set_intros(1))
  then show False
    using show_nat_digits[of n] by auto
qed

lemma show_nat_inj: "show_nat m = show_nat n \<longleftrightarrow> m = n"
  by (metis read_show_nat)

lemma show_int_inj: "show_int i = show_int j \<longleftrightarrow> i = j"
  by (cases "i < 0"; cases "j < 0")
     (auto simp: show_int_def show_nat_inj show_nat_no_minus show_nat_no_minus[symmetric])

lemma show_int_chars: "set (show_int i) \<subseteq> insert (CHR ''-'') (set ''0123456789'')"
  using show_nat_digits[of "nat i"] show_nat_digits[of "nat (- i)"]
  unfolding show_int_def by (cases "i < 0") (simp_all only: if_True if_False list.set insert_mono subset_insertI2 simp_thms)

definition absolute :: "string \<Rightarrow> string" where
  "absolute path = (if HasPrefix path ''/'' then path else ''/'' @ path)"

lemma absolute_Cons: "\<exists>rest. absolute path = CHR ''/'' # rest"
  by (cases path) (auto simp: absolute_def HasPrefix_def)

lemma BuildURL_eq:
  "BuildURL s n port path =
     ''http://'' @ s @ CHR ''.'' # n @ CHR ''.'' # ''svc:'' @ show_int (sint port) @ absolute path"
  by (simp add: BuildURL_def absolute_def Let_def)

text \<open>
  The probed address identifies the endpoint: for Service and namespace names without dots
  (Kubernetes requires DNS labels for both), two endpoints have the same URL exactly when they
  agree on the Service, the namespace, the port (over the whole range of \<open>int32\<close>) and the path up
  to its leading slash.
\<close>

lemma BuildURL_inject:
  assumes "CHR ''.'' \<notin> set s" "CHR ''.'' \<notin> set s'" "CHR ''.'' \<notin> set n" "CHR ''.'' \<notin> set n'"
  shows "BuildURL s n port path = BuildURL s' n' port' path' \<longleftrightarrow>
    s = s' \<and> n = n' \<and> port = port' \<and> absolute path = absolute path'"
proof
  assume "BuildURL s n port path = BuildURL s' n' port' path'"
  then have "s @ CHR ''.'' # n @ CHR ''.'' # ''svc:'' @ show_int (sint port) @ absolute path =
      s' @ CHR ''.'' # n' @ CHR ''.'' # ''svc:'' @ show_int (sint port') @ absolute path'"
    by (simp add: BuildURL_eq)
  then have s: "s = s'" and "n @ CHR ''.'' # ''svc:'' @ show_int (sint port) @ absolute path =
      n' @ CHR ''.'' # ''svc:'' @ show_int (sint port') @ absolute path'"
    using split_at_first[OF assms(1,2)] by blast+
  then have n: "n = n'" and "show_int (sint port) @ absolute path = show_int (sint port') @ absolute path'"
    using split_at_first[OF assms(3,4)] by blast+
  moreover obtain r r' where r: "absolute path = CHR ''/'' # r" "absolute path' = CHR ''/'' # r'"
    using absolute_Cons by metis
  moreover have "CHR ''/'' \<notin> set (show_int i)" for i
    using show_int_chars[of i] by auto
  ultimately have "show_int (sint port) = show_int (sint port') \<and> r = r'"
    by (metis split_at_first)
  with s n r show "s = s' \<and> n = n' \<and> port = port' \<and> absolute path = absolute path'"
    by (auto simp: show_int_inj intro: signed_word_eqI)
qed (simp add: BuildURL_eq)

end
