(* ===== verification/Endpoints.thy ===== *)
theory Endpoints
  imports Conditions Prober
begin

text \<open>
  Endpoint probing by the reconciler (\<open>probeEndpoints\<close>, \<open>probeOneEndpoint\<close>,
  \<open>evaluateProbeResult\<close> of \<^verbatim>\<open>internal/controller/pacto_controller.go\<close>).
\<close>

section \<open>One endpoint\<close>

record probeSpec =
  sp_conditionType :: string
  sp_label :: string
  sp_interfaceName :: string
  sp_path :: string
  sp_serviceName :: string
  sp_namespace :: string
  sp_ifaceExists :: "(string, bool) gomap"
  sp_ifacePort :: "(string, int32) gomap"
  sp_requireBody :: bool

definition endpoint_check :: "probeSpec \<Rightarrow> bool \<Rightarrow> string \<Rightarrow> string \<Rightarrow> Check" where
  "endpoint_check spec passed reason message =
     \<lparr>ck_Name = sp_conditionType spec, ck_Passed = passed, ck_Reason = reason, ck_Message = message,
      ck_Severity = ''''\<rparr>"

definition evaluateProbeResult :: "ProbeResult \<Rightarrow> string \<Rightarrow> probeSpec \<Rightarrow> Check \<times> EndpointCheckResult" where
  "evaluateProbeResult result url spec =
     (let epResult = \<lparr>ep_URL = url, ep_Reachable = pb_Reachable result, ep_StatusCode = pb_StatusCode result,
                      ep_LatencyMs = pb_LatencyMs result, ep_Error = pb_Error result\<rparr>;
          code = sint (pb_StatusCode result);
          endpoint = sp_label spec @ '' endpoint '' @ url
      in if \<not> pb_Reachable result then
           (endpoint_check spec False ReasonEndpointConnectionError
              (endpoint @ '' is unreachable: '' @ pb_Error result), epResult)
         else if sp_requireBody spec \<and> code \<noteq> 200 then
           (endpoint_check spec False ReasonEndpointInvalidStatus
              (endpoint @ '' returned HTTP '' @ show_int code @ '', expected 200''), epResult)
         else if sp_requireBody spec \<and> \<not> pb_ContentPresent result then
           (endpoint_check spec False ReasonEndpointEmptyResponse
              (endpoint @ '' returned empty response body''), epResult)
         else if \<not> sp_requireBody spec \<and> (code < 200 \<or> 400 \<le> code) then
           (endpoint_check spec False ReasonEndpointInvalidStatus
              (endpoint @ '' returned HTTP '' @ show_int code @ '', expected 2xx/3xx''), epResult)
         else
           (endpoint_check spec True ReasonEndpointOK
              (endpoint @ '' responded with HTTP '' @ show_int code @ '' ('' @
               show_int (sint (pb_LatencyMs result)) @ ''ms)''), epResult))"

definition probeOneEndpoint ::
  "'w http_env \<Rightarrow> Prober \<Rightarrow> probeSpec \<Rightarrow> 'w \<Rightarrow> (Check \<times> EndpointCheckResult option) \<times> 'w" where
  "probeOneEndpoint h p spec w =
     (if map_of (sp_ifaceExists spec) (sp_interfaceName spec) \<noteq> Some True then
        ((endpoint_check spec False ReasonEndpointInterfaceMissing
            (''Interface '' @ show_q (sp_interfaceName spec) @ '' referenced by '' @ sp_label spec @
             '' not found in contract''), None), w)
      else
        case map_of (sp_ifacePort spec) (sp_interfaceName spec) of
          None \<Rightarrow>
            ((endpoint_check spec False ReasonEndpointNoPort
                (''Interface '' @ show_q (sp_interfaceName spec) @ '' referenced by '' @ sp_label spec @
                 '' has no port declared''), None), w)
        | Some port \<Rightarrow>
            (let url = BuildURL (sp_serviceName spec) (sp_namespace spec) port (sp_path spec);
                 (result, w) = Probe h p url w;
                 (check, ep) = evaluateProbeResult result url spec
             in ((check, Some ep), w)))"

section \<open>The declared endpoints\<close>

fun iface_maps :: "Interface list \<Rightarrow> (string, bool) gomap \<Rightarrow> (string, int32) gomap \<Rightarrow>
  (string, bool) gomap \<times> (string, int32) gomap" where
  "iface_maps [] ex po = (ex, po)"
| "iface_maps (iface # ifaces) ex po =
     iface_maps ifaces (AList.update (if_Name iface) True ex)
       (case if_Port iface of None \<Rightarrow> po | Some p \<Rightarrow> AList.update (if_Name iface) (to_int32 p) po)"

definition probeEndpoints ::
  "externals \<Rightarrow> 'w http_env \<Rightarrow> Pacto \<Rightarrow> ContractDoc \<Rightarrow> string \<Rightarrow> 'w \<Rightarrow> (Check list \<times> Pacto) \<times> 'w" where
  "probeEndpoints x h pacto c serviceName w =
     (case c_Runtime c of
        None \<Rightarrow> (([], pacto), w)
      | Some rt \<Rightarrow>
          (let (ifaceExists, ifacePort) = iface_maps (c_Interfaces c) [] [];
               p = new_prober 0;
               ns = om_Namespace (p_Meta pacto);
               (health, checks1, pacto, w) =
                 (case rt_Health rt of
                    None \<Rightarrow> (None, [], pacto, w)
                  | Some hl \<Rightarrow>
                      if hl_Interface hl \<noteq> '''' then
                        (let ((check, result), w) = probeOneEndpoint h p
                               \<lparr>sp_conditionType = ConditionHealthEndpointValid, sp_label = ''health'',
                                sp_interfaceName = hl_Interface hl, sp_path = hl_Path hl,
                                sp_serviceName = serviceName, sp_namespace = ns,
                                sp_ifaceExists = ifaceExists, sp_ifacePort = ifacePort,
                                sp_requireBody = False\<rparr> w
                         in (result, [check], applyCheck x pacto check, w))
                      else (None, [], pacto, w));
               (metrics, checks2, pacto, w) =
                 (case rt_Metrics rt of
                    None \<Rightarrow> (None, [], pacto, w)
                  | Some mt \<Rightarrow>
                      if mt_Interface mt \<noteq> '''' then
                        (let ((check, result), w) = probeOneEndpoint h p
                               \<lparr>sp_conditionType = ConditionMetricsEndpointValid, sp_label = ''metrics'',
                                sp_interfaceName = mt_Interface mt, sp_path = mt_Path mt,
                                sp_serviceName = serviceName, sp_namespace = ns,
                                sp_ifaceExists = ifaceExists, sp_ifacePort = ifacePort,
                                sp_requireBody = True\<rparr> w
                         in (result, [check], applyCheck x pacto check, w))
                      else (None, [], pacto, w));
               pacto =
                 (if health \<noteq> None \<or> metrics \<noteq> None then
                    upd_status (\<lambda>st. st\<lparr>st_Endpoints := Some \<lparr>es_Health = health, es_Metrics = metrics\<rparr>\<rparr>) pacto
                  else pacto)
           in ((checks1 @ checks2, pacto), w)))"

section \<open>Interface tables\<close>

lemma iface_maps_exists:
  "map_of (fst (iface_maps ifaces ex po)) n = Some True \<longleftrightarrow>
     n \<in> if_Name ` set ifaces \<or> map_of ex n = Some True"
  by (induction ifaces ex po rule: iface_maps.induct) (auto simp: update_conv' split: if_splits)

text \<open>The port of a name is that of the last interface of that name that declares one.\<close>

definition declared_port :: "ContractDoc \<Rightarrow> string \<Rightarrow> int32 option" where
  "declared_port c n =
     map_option (\<lambda>i. to_int32 (the (if_Port i)))
       (List.find (\<lambda>i. if_Name i = n \<and> if_Port i \<noteq> None) (rev (c_Interfaces c)))"

lemma find_append:
  "List.find P (xs @ ys) = (case List.find P xs of None \<Rightarrow> List.find P ys | Some z \<Rightarrow> Some z)"
  by (induction xs) auto

lemma iface_maps_port:
  "map_of (snd (iface_maps ifaces ex po)) n =
     (case List.find (\<lambda>i. if_Name i = n \<and> if_Port i \<noteq> None) (rev ifaces) of
        None \<Rightarrow> map_of po n | Some i \<Rightarrow> Some (to_int32 (the (if_Port i))))"
  by (induction ifaces ex po rule: iface_maps.induct)
     (auto simp: find_append update_conv' split: option.splits)

lemma iface_maps_declared:
  "map_of (snd (iface_maps (c_Interfaces c) [] [])) n = declared_port c n"
  by (simp add: iface_maps_port declared_port_def split: option.split)

section \<open>When a probe passes\<close>

definition response_ok :: "bool \<Rightarrow> http_response \<Rightarrow> bool" where
  "response_ok requireBody r \<longleftrightarrow>
     (if requireBody then to_int32 (hr_StatusCode r) = 200 \<and> hr_Body r \<noteq> []
      else 200 \<le> sint (to_int32 (hr_StatusCode r)) \<and> sint (to_int32 (hr_StatusCode r)) < 400)"

lemma evaluateProbeResult_passed:
  "ck_Passed (fst (evaluateProbeResult r url spec)) \<longleftrightarrow>
     pb_Reachable r \<and>
     (if sp_requireBody spec then pb_StatusCode r = 200 \<and> pb_ContentPresent r
      else 200 \<le> sint (pb_StatusCode r) \<and> sint (pb_StatusCode r) < 400)"
proof -
  have "sint (pb_StatusCode r) = 200 \<longleftrightarrow> pb_StatusCode r = 200"
    using signed_word_eqI[of "pb_StatusCode r" 200] by auto
  then show ?thesis
    by (auto simp: evaluateProbeResult_def endpoint_check_def Let_def)
qed

lemma evaluateProbeResult_name [simp]:
  "ck_Name (fst (evaluateProbeResult r url spec)) = sp_conditionType spec"
  "ck_Severity (fst (evaluateProbeResult r url spec)) = ''''"
  by (simp_all add: evaluateProbeResult_def endpoint_check_def Let_def)

lemma evaluateProbeResult_url [simp]: "ep_URL (snd (evaluateProbeResult r url spec)) = url"
  by (simp add: evaluateProbeResult_def Let_def)


section \<open>Specification of the probing phase\<close>

text \<open>
  A declared endpoint: condition type, interface, path, and whether a body is required. An
  endpoint is probed when its interface is declared with a port; it is fine when the world then
  answers with an acceptable response.
\<close>

type_synonym endpoint = "string \<times> string \<times> string \<times> bool"

definition declared_endpoints :: "ContractDoc \<Rightarrow> endpoint list" where
  "declared_endpoints c =
     (case c_Runtime c of
        None \<Rightarrow> []
      | Some rt \<Rightarrow>
          (case rt_Health rt of
             None \<Rightarrow> []
           | Some hl \<Rightarrow> if hl_Interface hl = '''' then []
                        else [(ConditionHealthEndpointValid, hl_Interface hl, hl_Path hl, False)]) @
          (case rt_Metrics rt of
             None \<Rightarrow> []
           | Some mt \<Rightarrow> if mt_Interface mt = '''' then []
                        else [(ConditionMetricsEndpointValid, mt_Interface mt, mt_Path mt, True)]))"

definition endpoint_url :: "ContractDoc \<Rightarrow> string \<Rightarrow> string \<Rightarrow> endpoint \<Rightarrow> string option" where
  "endpoint_url c s ns e =
     (case e of (t, iface, path, body) \<Rightarrow>
        if iface \<in> if_Name ` set (c_Interfaces c)
        then map_option (\<lambda>port. BuildURL s ns port path) (declared_port c iface) else None)"

definition endpoint_ok :: "'w http_env \<Rightarrow> ContractDoc \<Rightarrow> string \<Rightarrow> string \<Rightarrow> endpoint \<Rightarrow> 'w \<Rightarrow> bool" where
  "endpoint_ok h c s ns e w =
     (case endpoint_url c s ns e of
        None \<Rightarrow> False
      | Some url \<Rightarrow>
          (case http_answer h (new_prober 0) url w of
             None \<Rightarrow> False | Some r \<Rightarrow> response_ok (snd (snd (snd e))) r))"

definition after_probe :: "'w http_env \<Rightarrow> ContractDoc \<Rightarrow> string \<Rightarrow> string \<Rightarrow> endpoint \<Rightarrow> 'w \<Rightarrow> 'w" where
  "after_probe h c s ns e w =
     (case endpoint_url c s ns e of None \<Rightarrow> w | Some url \<Rightarrow> snd (Probe h (new_prober 0) url w))"

fun probe_run ::
  "'w http_env \<Rightarrow> ContractDoc \<Rightarrow> string \<Rightarrow> string \<Rightarrow> endpoint list \<Rightarrow> 'w \<Rightarrow> (string \<times> bool) list \<times> 'w" where
  "probe_run h c s ns [] w = ([], w)"
| "probe_run h c s ns (e # es) w =
     (let (oks, w') = probe_run h c s ns es (after_probe h c s ns e w)
      in ((fst e, endpoint_ok h c s ns e w) # oks, w'))"

definition spec_of :: "ContractDoc \<Rightarrow> string \<Rightarrow> string \<Rightarrow> string \<Rightarrow> endpoint \<Rightarrow> probeSpec" where
  "spec_of c s ns label e =
     (case e of (t, iface, path, body) \<Rightarrow>
        \<lparr>sp_conditionType = t, sp_label = label, sp_interfaceName = iface, sp_path = path,
         sp_serviceName = s, sp_namespace = ns,
         sp_ifaceExists = fst (iface_maps (c_Interfaces c) [] []),
         sp_ifacePort = snd (iface_maps (c_Interfaces c) [] []), sp_requireBody = body\<rparr>)"

lemma spec_of_sel [simp]:
  "sp_conditionType (spec_of c s ns label e) = fst e"
  "sp_requireBody (spec_of c s ns label e) = snd (snd (snd e))"
  by (simp_all add: spec_of_def split: prod.split)

lemma probeOneEndpoint_probed:
  "endpoint_url c s ns e = Some url \<Longrightarrow>
     probeOneEndpoint h p (spec_of c s ns label e) w =
       ((fst (evaluateProbeResult (fst (Probe h p url w)) url (spec_of c s ns label e)),
         Some (snd (evaluateProbeResult (fst (Probe h p url w)) url (spec_of c s ns label e)))),
        snd (Probe h p url w))"
  using iface_maps_exists[of "c_Interfaces c" "[]" "[]"] iface_maps_declared[of c]
  by (auto simp: probeOneEndpoint_def spec_of_def endpoint_url_def Let_def
      split: option.splits prod.splits if_splits)

lemma probeOneEndpoint_unprobed:
  "endpoint_url c s ns e = None \<Longrightarrow>
     \<exists>reason msg. probeOneEndpoint h p (spec_of c s ns label e) w =
       ((endpoint_check (spec_of c s ns label e) False reason msg, None), w)"
  using iface_maps_exists[of "c_Interfaces c" "[]" "[]"] iface_maps_declared[of c]
  by (auto simp: probeOneEndpoint_def spec_of_def endpoint_url_def Let_def
      split: option.splits prod.splits if_splits)

lemma probeOneEndpoint_outcome:
  "ck_Name (fst (fst (probeOneEndpoint h (new_prober 0) (spec_of c s ns label e) w))) = fst e \<and>
   ck_Passed (fst (fst (probeOneEndpoint h (new_prober 0) (spec_of c s ns label e) w))) =
     endpoint_ok h c s ns e w \<and>
   snd (probeOneEndpoint h (new_prober 0) (spec_of c s ns label e) w) = after_probe h c s ns e w \<and>
   map_option ep_URL (snd (fst (probeOneEndpoint h (new_prober 0) (spec_of c s ns label e) w))) =
     endpoint_url c s ns e"
proof (cases "endpoint_url c s ns e")
  case None
  then show ?thesis
    using probeOneEndpoint_unprobed[OF None, of h "new_prober 0" label w]
    by (auto simp: endpoint_ok_def after_probe_def endpoint_check_def)
next
  case (Some url)
  have "ck_Passed (fst (evaluateProbeResult (fst (Probe h (new_prober 0) url w)) url (spec_of c s ns label e))) =
      endpoint_ok h c s ns e w"
  proof (cases "http_answer h (new_prober 0) url w")
    case None
    then show ?thesis
      using Probe_no_answer[OF None] by (simp add: evaluateProbeResult_passed endpoint_ok_def Some)
  next
    case (Some r)
    then show ?thesis
      using Probe_answer[OF Some] \<open>endpoint_url c s ns e = Some url\<close>
      by (simp add: evaluateProbeResult_passed endpoint_ok_def response_ok_def)
  qed
  then show ?thesis
    by (simp add: probeOneEndpoint_probed[OF Some] after_probe_def Some)
qed

section \<open>The probing phase meets its specification\<close>

definition apply_checks :: "externals \<Rightarrow> Check list \<Rightarrow> Pacto \<Rightarrow> Pacto" where
  "apply_checks x cks p = fold (\<lambda>ck p. applyCheck x p ck) cks p"

lemma applyCheck_conditions:
  "conditions (applyCheck x p ck) = conditions (set_check_condition x ck p)"
  "p_Meta (applyCheck x p ck) = p_Meta p" "p_Spec (applyCheck x p ck) = p_Spec p"
  by (simp_all add: applyCheck_def Let_def)

lemma apply_checks_conditions:
  "conditions (apply_checks x cks p) = conditions (fold (set_check_condition x) cks p)"
  unfolding apply_checks_def
proof (induction cks arbitrary: p)
  case (Cons ck cks)
  then show ?case
    by (simp add: set_check_conditions_cong[OF applyCheck_conditions(1)] applyCheck_conditions)
qed simp

lemma frame_apply_checks [frame]: "frame_of (apply_checks x cks p) = frame_of p"
  unfolding apply_checks_def by (induction cks arbitrary: p) (simp_all add: frame)

lemma counts_apply_checks:
  "counts (st_Summary (p_Status p)) cks \<Longrightarrow> length cks + length cks2 < 2 ^ 31 \<Longrightarrow>
     counts (st_Summary (p_Status (apply_checks x cks2 p))) (cks @ cks2)"
  unfolding apply_checks_def
proof (induction cks2 arbitrary: p cks)
  case (Cons ck cks2)
  then show ?case
    using Cons.IH[OF counts_applyCheck[OF Cons.prems(1)]] by simp
qed simp

text \<open>The label of an endpoint in messages, and the probing of a list of endpoints.\<close>

fun probe_list ::
  "'w http_env \<Rightarrow> ContractDoc \<Rightarrow> string \<Rightarrow> string \<Rightarrow> (string \<times> endpoint) list \<Rightarrow> 'w \<Rightarrow>
     (Check \<times> EndpointCheckResult option) list \<times> 'w" where
  "probe_list h c s ns [] w = ([], w)"
| "probe_list h c s ns ((label, e) # es) w =
     (let (r, w) = probeOneEndpoint h (new_prober 0) (spec_of c s ns label e) w;
          (rs, w) = probe_list h c s ns es w
      in (r # rs, w))"

lemma probe_list_run:
  "map (\<lambda>r. (ck_Name (fst r), ck_Passed (fst r))) (fst (probe_list h c s ns es w)) =
     fst (probe_run h c s ns (map snd es) w) \<and>
   snd (probe_list h c s ns es w) = snd (probe_run h c s ns (map snd es) w)"
proof (induction es arbitrary: w)
  case (Cons le es)
  obtain label e where le: "le = (label, e)"
    by (cases le)
  obtain r w' where one: "probeOneEndpoint h (new_prober 0) (spec_of c s ns label e) w = (r, w')"
    by fastforce
  have "ck_Name (fst r) = fst e" "ck_Passed (fst r) = endpoint_ok h c s ns e w" "w' = after_probe h c s ns e w"
    using probeOneEndpoint_outcome[of h c s ns label e w] by (simp_all add: one)
  with Cons.IH[of w'] show ?case
    by (auto simp: le one split: prod.splits)
qed simp


definition labelled :: "endpoint list \<Rightarrow> (string \<times> endpoint) list" where
  "labelled es =
     map (\<lambda>e. (if fst e = ConditionHealthEndpointValid then ''health'' else ''metrics'', e)) es"

lemma map_snd_labelled [simp]: "map snd (labelled es) = es"
  by (simp add: labelled_def comp_def)

lemma probeEndpoints_list:
  assumes "probe_list h c s (om_Namespace (p_Meta p)) (labelled (declared_endpoints c)) w = (rs, w')"
  shows "\<exists>e. probeEndpoints x h p c s w =
    ((map fst rs, upd_status (\<lambda>st. st\<lparr>st_Endpoints := e\<rparr>) (apply_checks x (map fst rs) p)), w')"
proof (cases "c_Runtime c")
  case None
  with assms show ?thesis
    by (auto simp: probeEndpoints_def declared_endpoints_def labelled_def apply_checks_def upd_status_def
        intro!: exI[of _ "st_Endpoints (p_Status p)"])
next
  case (Some rt)
  have keep: "\<exists>e. q = upd_status (\<lambda>st. st\<lparr>st_Endpoints := e\<rparr>) q" for q
    by (rule exI[of _ "st_Endpoints (p_Status q)"]) (simp add: upd_status_def)
  show ?thesis
    using assms Some
    by (auto simp: probeEndpoints_def declared_endpoints_def labelled_def spec_of_def apply_checks_def Let_def
        applyCheck_conditions keep split: option.splits prod.splits if_splits)
qed

lemma probeEndpoints_run:
  "map (\<lambda>k. (ck_Name k, ck_Passed k)) (fst (fst (probeEndpoints x h p c s w))) =
     fst (probe_run h c s (om_Namespace (p_Meta p)) (declared_endpoints c) w) \<and>
   snd (probeEndpoints x h p c s w) =
     snd (probe_run h c s (om_Namespace (p_Meta p)) (declared_endpoints c) w)"
proof -
  obtain rs w' where rs: "probe_list h c s (om_Namespace (p_Meta p)) (labelled (declared_endpoints c)) w = (rs, w')"
    by fastforce
  with probeEndpoints_list[OF rs, of x] probe_list_run[of h c s "om_Namespace (p_Meta p)" "labelled (declared_endpoints c)" w]
  show ?thesis
    by (auto simp: comp_def)
qed


text \<open>
  C22. The probing phase as a whole: it yields exactly one check per declared endpoint, in order,
  named after its condition. A check passes exactly when the referenced interface is declared with
  a port and the world answers the probe of the endpoint's address with an acceptable response
  (health: any code from 200 to 399; metrics: code 200 and a non-empty body). Nothing is sent for
  an endpoint whose interface is unknown or has no port.
\<close>

theorem probeEndpoints_spec:
  "map (\<lambda>k. (ck_Name k, ck_Passed k)) (fst (fst (probeEndpoints x h p c s w))) =
     fst (probe_run h c s (om_Namespace (p_Meta p)) (declared_endpoints c) w) \<and>
   snd (probeEndpoints x h p c s w) =
     snd (probe_run h c s (om_Namespace (p_Meta p)) (declared_endpoints c) w)"
  by (rule probeEndpoints_run)

section \<open>The status and the summary after validation and probing\<close>

lemma declared_endpoint_names:
  "distinct (map fst (declared_endpoints c))"
  "fst ` set (declared_endpoints c) \<subseteq> {ConditionHealthEndpointValid, ConditionMetricsEndpointValid}"
  unfolding declared_endpoints_def
  by (cases "c_Runtime c"; auto split: option.splits)+

lemma probe_run_names: "map fst (fst (probe_run h c s ns es w)) = map fst es"
  by (induction es arbitrary: w) (simp_all add: Let_def case_prod_unfold)

lemma probe_names:
  "map ck_Name (fst (fst (probeEndpoints x h p c s w))) = map fst (declared_endpoints c)"
proof -
  have "map ck_Name (fst (fst (probeEndpoints x h p c s w))) =
      map fst (map (\<lambda>k. (ck_Name k, ck_Passed k)) (fst (fst (probeEndpoints x h p c s w))))"
    by (simp add: comp_def)
  then show ?thesis
    by (simp only: probeEndpoints_run probe_run_names)
qed


text \<open>The checks of the runtime phase: those of the validator and those of the probes.\<close>

definition all_checks :: "ContractDoc \<Rightarrow> RuntimeSnapshot \<Rightarrow> bool \<Rightarrow> Check list \<Rightarrow> Check list" where
  "all_checks c snap hs probes = res_Checks (Validate c snap hs) @ probes"

text \<open>
  An object after validation and the given probes: every probe check carries the name of an
  endpoint condition, no name twice, and has been written as a condition.
\<close>

definition probed :: "externals \<Rightarrow> Check list \<Rightarrow> Pacto \<Rightarrow> Pacto \<Rightarrow> bool" where
  "probed x probes q r \<longleftrightarrow>
     distinct (map ck_Name probes) \<and>
     ck_Name ` set probes \<subseteq> {ConditionHealthEndpointValid, ConditionMetricsEndpointValid} \<and>
     conditions r = conditions (fold (set_check_condition x) probes q)"

lemma probed_none: "probed x [] q q"
  by (simp add: probed_def)

lemma probed_endpoints:
  assumes "probeEndpoints x h q c s w = ((probes, r), w')"
  shows "probed x probes q r"
proof -
  obtain rs w'' where rs: "probe_list h c s (om_Namespace (p_Meta q)) (labelled (declared_endpoints c)) w = (rs, w'')"
    by fastforce
  have "map ck_Name probes = map fst (declared_endpoints c)"
    using probe_names[of x h q c s w] by (simp add: assms)
  then have "distinct (map ck_Name probes)" "ck_Name ` set probes = fst ` set (declared_endpoints c)"
    using declared_endpoint_names(1) by (metis, metis set_map)
  with declared_endpoint_names(2)[of c] probeEndpoints_list[OF rs, of x] assms show ?thesis
    by (auto simp: probed_def apply_checks_conditions)
qed

lemma filter_disjoint_types:
  "f ` A \<subseteq> T \<Longrightarrow> (\<And>k. k \<in> B \<Longrightarrow> g k \<notin> T) \<Longrightarrow> {d \<in> A. f d \<notin> g ` B} = A"
  by auto

lemma all_checks_names:
  assumes "probed x probes q r"
  shows "distinct (map ck_Name (all_checks c snap hs probes))"
    and "k \<in> set (all_checks c snap hs probes) \<Longrightarrow> ck_Name k \<notin> pre_runtime_types"
proof -
  have probe: "ck_Name k \<in> {ConditionHealthEndpointValid, ConditionMetricsEndpointValid}" if "k \<in> set probes" for k
    using assms that by (auto simp: probed_def)
  have "ck_Name k \<noteq> ck_Name k'" if "k \<in> set (res_Checks (Validate c snap hs))" "k' \<in> set probes" for k k'
    using Validate_fresh_names[OF that(1)] probe[OF that(2)] by metis
  then have "ck_Name ` set (res_Checks (Validate c snap hs)) \<inter> ck_Name ` set probes = {}"
    by blast
  with assms names_distinct[of c snap hs] show "distinct (map ck_Name (all_checks c snap hs probes))"
    by (simp add: all_checks_def probed_def)
  show "ck_Name k \<notin> pre_runtime_types" if "k \<in> set (all_checks c snap hs probes)"
    using that Validate_fresh_names[of k c snap hs] probe[of k]
    by (cases "k \<in> set probes") (auto simp: all_checks_def pre_runtime_types_def)
qed

lemma applyValidationResult_meta [simp]:
  "p_Meta (applyValidationResult x p result snap s wn wk) = p_Meta p"
  "p_Spec (applyValidationResult x p result snap s wn wk) = p_Spec p"
  by (auto simp: applyValidationResult_def Let_def split: prod.splits)

lemma runtime_conditions:
  assumes "condition_api x" "types_distinct (conditions p)"
    and "cond_Type ` set (conditions p) \<subseteq> pre_runtime_types"
    and q: "q = applyValidationResult x p (Validate c snap hs) snap s wn wk"
    and r: "probed x probes q r"
  shows "types_distinct (conditions r)"
    and "set (conditions r) =
      set (conditions p) \<union> condition_of (om_Generation (p_Meta p)) ` set (all_checks c snap hs probes)"
proof -
  let ?cks = "all_checks c snap hs probes"
  have "conditions r = conditions (fold (set_check_condition x) probes q)"
    using r by (simp add: probed_def)
  also have "\<dots> = conditions (fold (set_check_condition x) ?cks p)"
    unfolding all_checks_def fold_append comp_def
    by (rule set_check_conditions_cong) (simp_all add: q conditions_applyValidationResult)
  finally have conds: "conditions r = conditions (fold (set_check_condition x) ?cks p)" .
  have "{d \<in> set (conditions p). cond_Type d \<notin> ck_Name ` set ?cks} = set (conditions p)"
    using assms(3) all_checks_names(2)[OF r] by (rule filter_disjoint_types)
  with set_check_conditions[OF assms(1,2) all_checks_names(1)[OF r]]
  show "types_distinct (conditions r)"
    "set (conditions r) = set (conditions p) \<union> condition_of (om_Generation (p_Meta p)) ` set ?cks"
    by (simp_all add: conds)
qed

text \<open>
  The status after validation and probing: \<open>NonCompliant\<close> exactly when a targeted resource is
  missing, \<open>Compliant\<close> exactly when the cluster meets the contract, every probe passed and no
  earlier condition is unmet, and \<open>Warning\<close> otherwise.
\<close>

lemma runtime_status:
  assumes "condition_api x" "types_distinct (conditions p)"
    and "cond_Type ` set (conditions p) \<subseteq> pre_runtime_types"
    and "q = applyValidationResult x p (Validate c snap hs) snap s wn wk"
    and "probed x probes q r"
  shows "computeFinalContractStatus r =
    (if resources_missing snap hs then ContractStatusNonCompliant
     else if conforms c snap hs \<and> (\<forall>d\<in>set (conditions p). cond_Status d = ConditionTrue) \<and>
       (\<forall>k\<in>set probes. ck_Passed k) then ContractStatusCompliant
     else ContractStatusWarning)"
proof -
  have "\<not> is_resource (ck_Name k)" if "k \<in> set probes" for k
    using that assms(5) by (auto simp: probed_def is_resource_def)
  then show ?thesis
    unfolding status_of_union[OF runtime_conditions(2)[OF assms] assms(3)]
    using Validate_resource_failure[of c snap hs] Validate_all_pass[of c snap hs]
    by (auto simp: all_checks_def list_all_iff ball_Un bex_Un)
qed

lemma probes_all_pass:
  assumes "probeEndpoints x h q c s w = ((probes, r), w')"
  shows "(\<forall>k\<in>set probes. ck_Passed k) \<longleftrightarrow>
    (\<forall>e\<in>set (fst (probe_run h c s (om_Namespace (p_Meta q)) (declared_endpoints c) w)). snd e)"
proof -
  have run: "map (\<lambda>k. (ck_Name k, ck_Passed k)) probes =
      fst (probe_run h c s (om_Namespace (p_Meta q)) (declared_endpoints c) w)"
    using probeEndpoints_run[of x h q c s w] by (simp add: assms)
  show ?thesis
    by (simp flip: run)
qed

lemma probeEndpoints_meta:
  assumes "probeEndpoints x h q c s w = ((probes, r), w')"
  shows "p_Meta r = p_Meta q" "p_Spec r = p_Spec q"
proof -
  obtain rs w'' where rs: "probe_list h c s (om_Namespace (p_Meta q)) (labelled (declared_endpoints c)) w = (rs, w'')"
    by fastforce
  show "p_Meta r = p_Meta q" "p_Spec r = p_Spec q"
    using probeEndpoints_list[OF rs, of x] frame_fields(1,2)[OF frame_apply_checks, of x _ q] assms by auto
qed

lemma probed_summary:
  assumes "counts (st_Summary (p_Status q)) cks" "length cks \<le> 10"
    and "probeEndpoints x h q c s w = ((probes, r), w')"
  shows "counts (st_Summary (p_Status r)) (cks @ probes)"
proof -
  obtain rs w'' where rs: "probe_list h c s (om_Namespace (p_Meta q)) (labelled (declared_endpoints c)) w = (rs, w'')"
    by fastforce
  have "length probes = length (declared_endpoints c)"
    using arg_cong[OF probe_names[of x h q c s w], of length] assms(3) by simp
  moreover have "length (declared_endpoints c) \<le> 2"
    by (auto simp: declared_endpoints_def split: option.split)
  ultimately have "counts (st_Summary (p_Status (apply_checks x probes q))) (cks @ probes)"
    using assms(1,2) by (intro counts_apply_checks) auto
  with probeEndpoints_list[OF rs, of x] assms(3) show ?thesis
    by auto
qed

text \<open>The summary counts \<open>ContractValid\<close>, the checks of the validator and the probes, exactly.\<close>

lemma validated_summary:
  "counts (st_Summary (p_Status (applyValidationResult x p (Validate c snap hs) snap s wn wk)))
     (contract_valid_check # res_Checks (Validate c snap hs))"
  using Validate_length[of c snap hs] by (intro summary_applyValidationResult) simp

lemma runtime_summary:
  assumes "q = applyValidationResult x p (Validate c snap hs) snap s wn wk"
    and "probeEndpoints x h q c s w = ((probes, r), w')"
  shows "counts (st_Summary (p_Status r)) (contract_valid_check # all_checks c snap hs probes)"
  using probed_summary[OF validated_summary _ assms(2)[unfolded assms(1)]] Validate_length[of c snap hs]
  by (simp add: all_checks_def)

section \<open>The endpoints of the sample contract\<close>

lemma sample_endpoints:
  "declared_endpoints sample_contract =
     [(ConditionHealthEndpointValid, ''http'', ''healthz'', False),
      (ConditionMetricsEndpointValid, ''events'', ''/metrics'', True)]"
  by (simp add: declared_endpoints_def sample_contract_def)

lemma sample_declared_ports:
  "declared_port sample_contract ''http'' = Some 80" "declared_port sample_contract ''events'' = None"
  by (simp_all add: declared_port_def sample_contract_def to_int32_def)

text \<open>
  An HTTP client that gets the answer 204 without a body to every request satisfies the health check
  of the sample contract; its metrics endpoint refers to an interface without port.
\<close>

lemma sample_probe_run:
  assumes "h_NewRequest h = (\<lambda>_. None)"
    and "\<And>p url w. fst (h_Do h p url w) = Inr \<lparr>hr_StatusCode = 204, hr_Body = ''''\<rparr>"
  shows "fst (probe_run h sample_contract ''svc'' ''ns'' (declared_endpoints sample_contract) w) =
     [(ConditionHealthEndpointValid, True), (ConditionMetricsEndpointValid, False)]"
proof -
  have "''http'' \<in> if_Name ` set (c_Interfaces sample_contract)"
    by (simp add: sample_contract_def)
  then show ?thesis
    by (simp add: sample_endpoints endpoint_ok_def endpoint_url_def sample_declared_ports
        http_answer_def assms response_ok_def to_int32_def Let_def case_prod_unfold)
qed

end
