(* ===== verification/Metrics.thy ===== *)
theory Metrics
  imports Validator
begin

text \<open>
  The metrics (\<^verbatim>\<open>internal/metrics/metrics.go\<close>). An OpenTelemetry gauge keeps the last value
  recorded per set of attributes, so the store is a map from gauge name and attribute set to an
  \<open>int64\<close>. The gauges are named by the variables of the package with their exported names.
\<close>

section \<open>Gauges\<close>

definition complianceStatus :: string where
  "complianceStatus = ''pacto_contract_compliance_status''"
definition validationErrors :: string where
  "validationErrors = ''pacto_contract_validation_errors''"
definition validationWarns :: string where
  "validationWarns = ''pacto_contract_validation_warnings''"
definition validationResult :: string where
  "validationResult = ''pacto_contract_validation_result''"
definition contractStatus :: string where
  "contractStatus = ''pacto_contract_status''"
definition readinessScore :: string where
  "readinessScore = ''pacto_readiness_score''"
definition readinessGate :: string where
  "readinessGate = ''pacto_readiness_gate''"
definition readinessStatus :: string where
  "readinessStatus = ''pacto_readiness_status''"
definition readinessChecks :: string where
  "readinessChecks = ''pacto_readiness_checks''"

lemmas gauge_defs =
  complianceStatus_def validationErrors_def validationWarns_def validationResult_def
  contractStatus_def readinessScore_def readinessGate_def readinessStatus_def readinessChecks_def

lemma gauges_distinct:
  "distinct [complianceStatus, validationErrors, validationWarns, validationResult, contractStatus,
     readinessScore, readinessGate, readinessStatus, readinessChecks]"
  by (simp add: gauge_defs)

lemma gauges_distinct_rev:
  "distinct [readinessChecks, readinessStatus, readinessGate, readinessScore, contractStatus,
     validationResult, validationWarns, validationErrors, complianceStatus]"
  by (simp add: gauge_defs)

lemmas gauges_neq [simp] = gauges_distinct [simplified] gauges_distinct_rev [simplified]

type_synonym attribute = "string \<times> string"
type_synonym series = "string \<times> attribute set"
type_synonym gauges = "series \<rightharpoonup> int64"

definition Record :: "string \<Rightarrow> attribute list \<Rightarrow> int64 \<Rightarrow> gauges \<Rightarrow> gauges" where
  "Record g attrs v m = m((g, set attrs) \<mapsto> v)"

section \<open>Recording\<close>

definition allStatuses :: "string list" where
  "allStatuses =
     [ContractStatusCompliant, ContractStatusWarning, ContractStatusNonCompliant,
      ContractStatusReference, ContractStatusUnknown]"

definition allReadinessStatuses :: "string list" where
  "allReadinessStatuses =
     [ReasonReadinessSatisfied, ReasonReadinessBelowMinScore, ReasonReadinessExpired]"

definition readinessCheckStatuses :: "string list" where
  "readinessCheckStatuses = [''done'', ''partial'', ''not-done'', ''deferred'']"

definition status_attrs :: "string \<Rightarrow> string \<Rightarrow> string \<Rightarrow> attribute list" where
  "status_attrs namespace name s = [(''name'', name), (''namespace'', namespace), (''status'', s)]"

definition RecordContractStatus :: "string \<Rightarrow> string \<Rightarrow> string \<Rightarrow> gauges \<Rightarrow> gauges" where
  "RecordContractStatus namespace name status m =
     fold (\<lambda>s. Record contractStatus (status_attrs namespace name s) (if s = status then 1 else 0))
       allStatuses m"

fun record_checks ::
  "attribute list \<Rightarrow> Check list \<Rightarrow> int64 \<Rightarrow> int64 \<Rightarrow> bool \<Rightarrow> gauges \<Rightarrow> int64 \<times> int64 \<times> bool \<times> gauges" where
  "record_checks baseAttrs [] errors warnings allPassed m = (errors, warnings, allPassed, m)"
| "record_checks baseAttrs (check # checks) errors warnings allPassed m =
     (let val = (if ck_Passed check then 1 else 0);
          severity = (if ck_Severity check = '''' then SeverityError else ck_Severity check);
          m = Record validationResult (baseAttrs @ [(''check'', ck_Name check)]) val m
      in if ck_Passed check then record_checks baseAttrs checks errors warnings allPassed m
         else if severity = SeverityError then record_checks baseAttrs checks (errors + 1) warnings False m
         else record_checks baseAttrs checks errors (warnings + 1) False m)"

definition RecordValidation :: "string \<Rightarrow> string \<Rightarrow> Check list \<Rightarrow> gauges \<Rightarrow> gauges" where
  "RecordValidation namespace service checks m =
     (let baseAttrs = [(''service'', service), (''namespace'', namespace)];
          (errors, warnings, allPassed, m) = record_checks baseAttrs checks 0 0 True m;
          m = (if allPassed then Record complianceStatus baseAttrs 1 m
               else Record complianceStatus baseAttrs 0 m);
          m = Record validationErrors baseAttrs errors m
      in Record validationWarns baseAttrs warnings m)"

definition RecordReadiness :: "string \<Rightarrow> string \<Rightarrow> ReadinessStatus option \<Rightarrow> string \<Rightarrow> gauges \<Rightarrow> gauges" where
  "RecordReadiness namespace name rs gateReason m =
     (case rs of
        None \<Rightarrow> m
      | Some rs \<Rightarrow>
          (let idAttrs = [(''name'', name), (''namespace'', namespace)];
               m = Record readinessScore idAttrs (int32_to_int64 (rd_Score rs)) m;
               gate = (if rd_Passing rs then 1 else 0);
               m = Record readinessGate idAttrs gate m;
               m = fold (\<lambda>s. Record readinessStatus (status_attrs namespace name s)
                                (if s = gateReason then 1 else 0)) allReadinessStatuses m;
               counts = [(''done'', int32_to_int64 (rd_DoneCount rs)),
                         (''partial'', int32_to_int64 (rd_PartialCount rs)),
                         (''not-done'', int32_to_int64 (rd_NotDoneCount rs)),
                         (''deferred'', int32_to_int64 (rd_DeferredCount rs))]
           in fold (\<lambda>s. Record readinessChecks (status_attrs namespace name s)
                           (case map_of counts s of None \<Rightarrow> 0 | Some n \<Rightarrow> n)) readinessCheckStatuses m))"

section \<open>One-hot gauges\<close>

lemma status_attrs_inj:
  "set (status_attrs a b s) = set (status_attrs a' b' s') \<longleftrightarrow> a = a' \<and> b = b' \<and> s = s'"
proof
  assume eq: "set (status_attrs a b s) = set (status_attrs a' b' s')"
  have "(''name'', b) \<in> set (status_attrs a' b' s')" "(''namespace'', a) \<in> set (status_attrs a' b' s')"
    "(''status'', s) \<in> set (status_attrs a' b' s')"
    unfolding eq[symmetric] by (simp_all add: status_attrs_def)
  then show "a = a' \<and> b = b' \<and> s = s'"
    by (simp add: status_attrs_def)
qed simp

lemma Record_same [simp]: "A = set attrs \<Longrightarrow> Record g attrs v m (g, A) = Some v"
  by (simp add: Record_def)

lemma Record_other_gauge [simp]: "g \<noteq> g' \<Longrightarrow> Record g' attrs v m (g, A) = m (g, A)"
  by (simp add: Record_def)

lemma fold_Record_other:
  "(\<And>s. s \<in> set ds \<Longrightarrow> (g, A) \<noteq> (gauge, set (attrs s))) \<Longrightarrow>
     fold (\<lambda>s. Record gauge (attrs s) (val s)) ds m (g, A) = m (g, A)"
  by (induction ds arbitrary: m) (auto simp: Record_def)

lemma fold_Record_value:
  assumes "s \<in> set ds" and "\<And>s s'. set (attrs s) = set (attrs s') \<Longrightarrow> s = s'"
  shows "fold (\<lambda>s. Record gauge (attrs s) (val s)) ds m (gauge, set (attrs s)) = Some (val s)"
  using assms(1)
proof (induction ds arbitrary: m)
  case (Cons d ds)
  show ?case
  proof (cases "s \<in> set ds")
    case True
    then show ?thesis
      using Cons.IH by simp
  next
    case False
    then have "fold (\<lambda>s. Record gauge (attrs s) (val s)) ds m' (gauge, set (attrs s)) = m' (gauge, set (attrs s))" for m'
      using assms(2) by (intro fold_Record_other) auto
    then show ?thesis
      using False Cons.prems by simp
  qed
qed simp

lemma fold_status_value:
  "s \<in> set ds \<Longrightarrow>
     fold (\<lambda>s. Record gauge (status_attrs ns n s) (val s)) ds m (gauge, set (status_attrs ns' n' s)) =
       (if ns' = ns \<and> n' = n then Some (val s) else m (gauge, set (status_attrs ns' n' s)))"
  by (auto simp: status_attrs_inj intro!: fold_Record_value fold_Record_other)

lemma fold_status_other:
  "g \<noteq> gauge \<Longrightarrow> fold (\<lambda>s. Record gauge (attrs s) (val s)) ds m (g, A) = m (g, A)"
  by (intro fold_Record_other) simp

text \<open>
  The contract of a recorder that writes one series per value of a fixed list: for the object it is
  called for, the current value's series is 1 and the others 0; the series of other objects stay.
\<close>

locale one_hot_recorder =
  fixes gauge :: string
    and domain :: "string list"
    and record_for :: "string \<Rightarrow> string \<Rightarrow> 'a \<Rightarrow> gauges \<Rightarrow> gauges"
    and value_of :: "'a \<Rightarrow> string"
  assumes domain_distinct: "distinct domain"
    and record_value:
      "s \<in> set domain \<Longrightarrow>
         record_for ns n a m (gauge, set (status_attrs ns' n' s)) =
           (if ns' = ns \<and> n' = n then Some (if s = value_of a then 1 else 0)
            else m (gauge, set (status_attrs ns' n' s)))"
begin

lemma history_value:
  assumes "s \<in> set domain"
  shows "fold (\<lambda>(ns, n, a). record_for ns n a) hist m (gauge, set (status_attrs ns n s)) =
    (case map_of (rev (map (\<lambda>(ns, n, a). ((ns, n), a)) hist)) (ns, n) of
       None \<Rightarrow> m (gauge, set (status_attrs ns n s))
     | Some a \<Rightarrow> Some (if s = value_of a then 1 else 0))"
proof (induction hist rule: rev_induct)
  case (snoc e hist)
  obtain ns' n' a where e: "e = (ns', n', a)"
    by (cases e)
  show ?case
    using record_value[OF assms, of ns' n' a "fold (\<lambda>(ns, n, a). record_for ns n a) hist m" ns n] snoc
    by (simp add: e split: option.split)
qed simp

lemma exactly_one:
  assumes "value_of a \<in> set domain"
    and "map_of (rev (map (\<lambda>(ns, n, a). ((ns, n), a)) hist)) (ns, n) = Some a"
  shows "s \<in> set domain \<Longrightarrow>
    fold (\<lambda>(ns, n, a). record_for ns n a) hist m (gauge, set (status_attrs ns n s)) = Some 1 \<longleftrightarrow>
      s = value_of a"
  by (simp add: history_value assms)

end

interpretation status_gauge: one_hot_recorder contractStatus allStatuses RecordContractStatus id
  by unfold_locales (simp_all add: allStatuses_def[THEN arg_cong[of _ _ distinct]] RecordContractStatus_def fold_status_value)

interpretation gate_gauge: one_hot_recorder readinessStatus allReadinessStatuses
  "\<lambda>ns n (rs, reason). RecordReadiness ns n (Some rs) reason" snd
proof unfold_locales
  show "distinct allReadinessStatuses"
    by (simp add: allReadinessStatuses_def)
next
  fix s ns n and a :: "ReadinessStatus \<times> string" and m ns' n'
  assume s: "s \<in> set allReadinessStatuses"
  obtain rs reason where a: "a = (rs, reason)"
    by (cases a)
  show "(case a of (rs, reason) \<Rightarrow> RecordReadiness ns n (Some rs) reason) m
      (readinessStatus, set (status_attrs ns' n' s)) =
    (if ns' = ns \<and> n' = n then Some (if s = snd a then 1 else 0)
     else m (readinessStatus, set (status_attrs ns' n' s)))"
    by (simp add: a RecordReadiness_def Let_def fold_status_other fold_status_value[OF s])
qed


text \<open>
  C37. Whatever the history of status recordings for any number of Pacto objects, an object that was
  last recorded with one of the five statuses has exactly that status's series of
  \<open>pacto_contract_status\<close> at 1 and every other series at 0: no stale status stays active, and
  recording one object never touches another.
\<close>

theorem contract_status_one_hot:
  assumes "status \<in> set allStatuses" and "s \<in> set allStatuses"
    and "map_of (rev (map (\<lambda>(ns, n, st). ((ns, n), st)) hist)) (ns, n) = Some status"
  shows "fold (\<lambda>(ns, n, st). RecordContractStatus ns n st) hist m
           (contractStatus, set (status_attrs ns n s)) = Some (if s = status then 1 else 0)"
  using status_gauge.history_value[OF assms(2), of hist m ns n] assms(3) by simp

theorem contract_status_one_hot_witness:
  "fold (\<lambda>(ns, n, st). RecordContractStatus ns n st)
     [(''ns'', ''a'', ContractStatusCompliant), (''ns'', ''b'', ContractStatusWarning),
      (''ns'', ''a'', ContractStatusNonCompliant)] Map.empty
     (contractStatus, set (status_attrs ''ns'' ''a'' ContractStatusCompliant)) = Some 0"
proof -
  let ?hist = "[(''ns'', ''a'', ContractStatusCompliant), (''ns'', ''b'', ContractStatusWarning),
      (''ns'', ''a'', ContractStatusNonCompliant)]"
  have "ContractStatusNonCompliant \<in> set allStatuses" "ContractStatusCompliant \<in> set allStatuses"
    "map_of (rev (map (\<lambda>(ns, n, st). ((ns, n), st)) ?hist)) (''ns'', ''a'') = Some ContractStatusNonCompliant"
    by (simp_all add: allStatuses_def)
  from contract_status_one_hot[OF this] show ?thesis
    by simp
qed

section \<open>Validation metrics\<close>

definition is_error :: "Check \<Rightarrow> bool" where
  "is_error k \<longleftrightarrow> \<not> ck_Passed k \<and> (ck_Severity k = '''' \<or> ck_Severity k = SeverityError)"

definition is_warning :: "Check \<Rightarrow> bool" where
  "is_warning k \<longleftrightarrow> \<not> ck_Passed k \<and> ck_Severity k \<noteq> '''' \<and> ck_Severity k \<noteq> SeverityError"

lemma record_checks_counts:
  "fst (record_checks attrs cks e w ok m) = e + of_nat (length (filter is_error cks)) \<and>
   fst (snd (record_checks attrs cks e w ok m)) = w + of_nat (length (filter is_warning cks)) \<and>
   fst (snd (snd (record_checks attrs cks e w ok m))) = (ok \<and> list_all ck_Passed cks)"
  by (induction attrs cks e w ok m rule: record_checks.induct)
     (auto simp: Let_def is_error_def is_warning_def)

lemma record_checks_gauges:
  "snd (snd (snd (record_checks attrs cks e w ok m))) =
     fold (\<lambda>k. Record validationResult (attrs @ [(''check'', ck_Name k)]) (if ck_Passed k then 1 else 0)) cks m"
  by (induction attrs cks e w ok m rule: record_checks.induct) (auto simp: Let_def)

definition base_attrs :: "string \<Rightarrow> string \<Rightarrow> attribute list" where
  "base_attrs ns service = [(''service'', service), (''namespace'', ns)]"

lemma check_attrs_inj [simp]:
  "insert (''check'', a) (set (base_attrs ns sv)) = insert (''check'', b) (set (base_attrs ns sv)) \<longleftrightarrow> a = b"
proof
  assume eq: "insert (''check'', a) (set (base_attrs ns sv)) = insert (''check'', b) (set (base_attrs ns sv))"
  have "(''check'', a) \<in> insert (''check'', b) (set (base_attrs ns sv))"
    unfolding eq[symmetric] by simp
  then show "a = b"
    by (simp add: base_attrs_def)
qed simp

lemma fold_check_value:
  assumes "k \<in> set cks" "distinct (map ck_Name cks)"
  shows "fold (\<lambda>k. Record validationResult (base_attrs ns sv @ [(''check'', ck_Name k)]) (v k)) cks m
      (validationResult, set (base_attrs ns sv @ [(''check'', ck_Name k)])) = Some (v k)"
  using assms
proof (induction cks arbitrary: m)
  case (Cons c cks)
  show ?case
  proof (cases "k \<in> set cks")
    case False
    then have "fold (\<lambda>k. Record validationResult (base_attrs ns sv @ [(''check'', ck_Name k)]) (v k)) cks m'
        (validationResult, set (base_attrs ns sv @ [(''check'', ck_Name k)])) =
        m' (validationResult, set (base_attrs ns sv @ [(''check'', ck_Name k)]))" for m'
      using Cons.prems by (intro fold_Record_other) auto
    with False Cons.prems show ?thesis
      by simp
  qed (use Cons in simp)
qed simp

text \<open>
  The validation gauges of a service after a recording: the compliance gauge is 1 exactly when
  every check passed; the error and warning gauges split the failed checks by severity, an unset
  severity counting as error, so together they count every failed check; and, the names being
  distinct, the result gauge of each check is 1 exactly when it passed.
\<close>

lemma RecordValidation_gauges:
  assumes "distinct (map ck_Name checks)"
  shows "RecordValidation ns sv checks m (complianceStatus, set (base_attrs ns sv)) =
      Some (if list_all ck_Passed checks then 1 else 0) \<and>
    RecordValidation ns sv checks m (validationErrors, set (base_attrs ns sv)) =
      Some (of_nat (length (filter is_error checks))) \<and>
    RecordValidation ns sv checks m (validationWarns, set (base_attrs ns sv)) =
      Some (of_nat (length (filter is_warning checks))) \<and>
    length (filter is_error checks) + length (filter is_warning checks) =
      length (filter (Not \<circ> ck_Passed) checks) \<and>
    (\<forall>k\<in>set checks.
       RecordValidation ns sv checks m (validationResult, set (base_attrs ns sv @ [(''check'', ck_Name k)])) =
         Some (if ck_Passed k then 1 else 0))"
proof -
  have split: "length (filter is_error checks) + length (filter is_warning checks) =
      length (filter (Not \<circ> ck_Passed) checks)"
    by (induction checks) (auto simp: is_error_def is_warning_def)
  obtain e w ok m' where run: "record_checks (base_attrs ns sv) checks 0 0 True m = (e, w, ok, m')"
    by (metis prod.collapse)
  have vals: "e = of_nat (length (filter is_error checks))" "w = of_nat (length (filter is_warning checks))"
    "ok = list_all ck_Passed checks"
    using record_checks_counts[of "base_attrs ns sv" checks 0 0 True m] by (simp_all add: run)
  have m': "m' (validationResult, set (base_attrs ns sv @ [(''check'', ck_Name k)])) =
      Some (if ck_Passed k then 1 else 0)" if "k \<in> set checks" for k
    using fold_check_value[OF that assms, of ns sv "\<lambda>k. if ck_Passed k then 1 else 0" m]
      record_checks_gauges[of "base_attrs ns sv" checks 0 0 True m] by (simp add: run)
  have rv: "RecordValidation ns sv checks m =
      Record validationWarns (base_attrs ns sv) w (Record validationErrors (base_attrs ns sv) e
        (Record complianceStatus (base_attrs ns sv) (if ok then 1 else 0) m'))"
    using run by (simp add: RecordValidation_def base_attrs_def Let_def)
  show ?thesis
    using split vals m' by (simp add: rv)
qed

text \<open>
  The readiness gauges of an object after a recording: the score and the gate, exactly one
  active series among the three gate states when the reason is one of them, and the four declared
  check counts; a nil status records nothing.
\<close>

lemma RecordReadiness_gauges:
  assumes "reason \<in> set allReadinessStatuses"
  shows "RecordReadiness ns n None reason m = m \<and>
    RecordReadiness ns n (Some rs) reason m (readinessScore, {(''name'', n), (''namespace'', ns)}) =
      Some (scast (rd_Score rs)) \<and>
    RecordReadiness ns n (Some rs) reason m (readinessGate, {(''name'', n), (''namespace'', ns)}) =
      Some (if rd_Passing rs then 1 else 0) \<and>
    (\<forall>s\<in>set allReadinessStatuses.
       RecordReadiness ns n (Some rs) reason m (readinessStatus, set (status_attrs ns n s)) =
         Some (if s = reason then 1 else 0)) \<and>
    (\<forall>(s, v)\<in>set [(''done'', rd_DoneCount rs), (''partial'', rd_PartialCount rs),
        (''not-done'', rd_NotDoneCount rs), (''deferred'', rd_DeferredCount rs)].
       RecordReadiness ns n (Some rs) reason m (readinessChecks, set (status_attrs ns n s)) = Some (scast v))"
proof -
  have gate: "RecordReadiness ns n (Some rs) reason m (readinessStatus, set (status_attrs ns n s)) =
      Some (if s = reason then 1 else 0)" if "s \<in> set allReadinessStatuses" for s
    using gate_gauge.record_value[OF that, of ns n "(rs, reason)" m ns n] by simp
  have counts: "RecordReadiness ns n (Some rs) reason m (readinessChecks, set (status_attrs ns n s)) = Some (scast v)"
    if "(s, v) \<in> set [(''done'', rd_DoneCount rs), (''partial'', rd_PartialCount rs),
        (''not-done'', rd_NotDoneCount rs), (''deferred'', rd_DeferredCount rs)]" for s v
  proof -
    have s: "s \<in> set readinessCheckStatuses"
      using that by (auto simp: readinessCheckStatuses_def)
    show ?thesis
      using that by (auto simp: RecordReadiness_def Let_def fold_status_value[OF s] int32_to_int64_def)
  qed
  have "set [(''name'', n), (''namespace'', ns)] = {(''name'', n), (''namespace'', ns)}"
    by simp
  then have "RecordReadiness ns n (Some rs) reason m (readinessScore, {(''name'', n), (''namespace'', ns)}) =
      Some (scast (rd_Score rs))"
    "RecordReadiness ns n (Some rs) reason m (readinessGate, {(''name'', n), (''namespace'', ns)}) =
      Some (if rd_Passing rs then 1 else 0)"
    by (simp_all add: RecordReadiness_def Let_def fold_status_other int32_to_int64_def Record_def)
  with gate counts show ?thesis
    by (auto simp: RecordReadiness_def)
qed


definition sample_readiness :: ReadinessStatus where
  "sample_readiness =
     \<lparr>rd_Score = 60, rd_MinScore = 100, rd_Passing = False, rd_TotalWeight = 100, rd_EarnedWeight = 60,
      rd_Expires = ''2030-01-01'', rd_Expired = False, rd_DaysRemaining = Some 30, rd_DoneCount = 1,
      rd_PartialCount = 0, rd_NotDoneCount = 1, rd_DeferredCount = 0, rd_Revisions = [], rd_Checks = []\<rparr>"

end
