(* ===== verification/Readiness.thy ===== *)
theory Readiness
  imports Conditions Metrics
begin

text \<open>
  Readiness (\<^verbatim>\<open>internal/controller/readiness.go\<close>) and the operator's outputs: the events sent to the
  recorder, in order, and the gauges. The evaluation of a readiness declaration is third-party code
  (\<open>x_Evaluate\<close>).
\<close>

section \<open>Events and gauges\<close>

datatype event_type = EventTypeNormal | EventTypeWarning

record event =
  evt_Object :: "string \<times> string"
  evt_Type :: event_type
  evt_Reason :: string
  evt_Message :: string

record outputs =
  out_Events :: "event list"
  out_Gauges :: gauges

definition Event :: "Pacto \<Rightarrow> event_type \<Rightarrow> string \<Rightarrow> string \<Rightarrow> outputs \<Rightarrow> outputs" where
  "Event pacto typ reason message out =
     out\<lparr>out_Events := out_Events out @
       [\<lparr>evt_Object = (om_Namespace (p_Meta pacto), om_Name (p_Meta pacto)), evt_Type = typ,
         evt_Reason = reason, evt_Message = message\<rparr>]\<rparr>"

definition upd_gauges :: "(gauges \<Rightarrow> gauges) \<Rightarrow> outputs \<Rightarrow> outputs" where
  "upd_gauges f out = out\<lparr>out_Gauges := f (out_Gauges out)\<rparr>"

lemma Event_gauges [simp]: "out_Gauges (Event p t r m out) = out_Gauges out"
  by (simp add: Event_def)

lemma upd_gauges_sel [simp]:
  "out_Events (upd_gauges f out) = out_Events out" "out_Gauges (upd_gauges f out) = f (out_Gauges out)"
  by (simp_all add: upd_gauges_def)

section \<open>Mapping an evaluation to the status\<close>

definition readinessCondition :: "EvalResult \<Rightarrow> ConditionStatus \<times> string \<times> string" where
  "readinessCondition eval =
     (let score = show_int (sint (ev_Score eval)); minScore = show_int (sint (ev_MinScore eval))
      in if ev_Passing eval then
           (ConditionTrue, ReasonReadinessSatisfied,
            ''readiness score '' @ score @ '' meets minScore '' @ minScore)
         else if ev_Expired eval then
           (ConditionFalse, ReasonReadinessExpired,
            ''readiness assessment expired (expires '' @ ev_Expires eval @ ''); score '' @ score @
            '' below minScore '' @ minScore)
         else
           (ConditionFalse, ReasonReadinessBelowMinScore,
            ''readiness score '' @ score @ '' below minScore '' @ minScore @ '' ('' @
            show_int (sint (ev_DoneCount eval)) @ '' done, '' @ show_int (sint (ev_PartialCount eval)) @
            '' partial, '' @ show_int (sint (ev_NotDoneCount eval)) @ '' not-done, '' @
            show_int (sint (ev_DeferredCount eval)) @ '' deferred)''))"

definition readiness_check :: "EvalCheck \<Rightarrow> ReadinessCheckStatus" where
  "readiness_check ch =
     \<lparr>rc_ID = ec_ID ch, rc_Type = ec_Type ch, rc_Category = ec_Category ch, rc_Status = ec_Status ch,
      rc_Evidence = ec_Evidence ch, rc_Description = ec_Description ch, rc_Weight = to_int32 (ec_Weight ch),
      rc_EarnedWeight = to_int32 (ec_EarnedWeight ch), rc_Excluded = ec_Excluded ch\<rparr>"

definition readiness_revision :: "ReadinessRevision \<Rightarrow> ReadinessRevisionStatus" where
  "readiness_revision h =
     \<lparr>rr_Date = hv_Date h, rr_Version = hv_Version h, rr_Author = hv_Author h,
      rr_Description = hv_Description h\<rparr>"

definition buildReadinessStatus :: "EvalResult \<Rightarrow> ReadinessDecl option \<Rightarrow> ReadinessStatus" where
  "buildReadinessStatus eval decl =
     \<lparr>rd_Score = to_int32 (ev_Score eval), rd_MinScore = to_int32 (ev_MinScore eval),
      rd_Passing = ev_Passing eval, rd_TotalWeight = to_int32 (ev_TotalWeight eval),
      rd_EarnedWeight = to_int32 (ev_EarnedWeight eval), rd_Expires = ev_Expires eval,
      rd_Expired = ev_Expired eval, rd_DaysRemaining = map_option to_int32 (ev_DaysRemaining eval),
      rd_DoneCount = to_int32 (ev_DoneCount eval), rd_PartialCount = to_int32 (ev_PartialCount eval),
      rd_NotDoneCount = to_int32 (ev_NotDoneCount eval), rd_DeferredCount = to_int32 (ev_DeferredCount eval),
      rd_Revisions = (case decl of None \<Rightarrow> [] | Some d \<Rightarrow> map readiness_revision (rn_History d)),
      rd_Checks = map readiness_check (ev_Checks eval)\<rparr>"

definition reconcileReadiness ::
  "externals \<Rightarrow> instant \<Rightarrow> Pacto \<Rightarrow> ContractDoc \<Rightarrow> bool \<Rightarrow> outputs \<Rightarrow> Pacto \<times> outputs" where
  "reconcileReadiness x readinessClock pacto c wasUnmet out =
     (case x_Evaluate x (c_Readiness c) readinessClock of
        None \<Rightarrow> (pacto, out)
      | Some eval \<Rightarrow>
          (let rs = buildReadinessStatus eval (c_Readiness c);
               pacto = upd_status (\<lambda>st. st\<lparr>st_Readiness := Some rs\<rparr>) pacto;
               (status, reason, msg) = readinessCondition eval;
               pacto = setCondition x pacto ConditionReadinessSatisfied status reason msg;
               out = upd_gauges (RecordReadiness (om_Namespace (p_Meta pacto)) (om_Name (p_Meta pacto))
                                   (Some rs) reason) out;
               out = (if status = ConditionFalse \<and> \<not> wasUnmet then
                        Event pacto EventTypeWarning EventReadinessGateUnmet msg out
                      else if status = ConditionTrue \<and> wasUnmet then
                        Event pacto EventTypeNormal EventReadinessRecovered msg out
                      else out)
           in (pacto, out)))"

text \<open>The prior state of the gate, read by \<open>Reconcile\<close> before it resets the status.\<close>

definition readinessWasUnmet :: "externals \<Rightarrow> Pacto \<Rightarrow> bool" where
  "readinessWasUnmet x pacto =
     (case x_FindStatusCondition x (st_Conditions (p_Status pacto)) ConditionReadinessSatisfied of
        None \<Rightarrow> False
      | Some prev \<Rightarrow> cond_Status prev = ConditionFalse)"

section \<open>The condition\<close>

lemma readinessCondition_eq:
  "fst (readinessCondition eval) = (if ev_Passing eval then ConditionTrue else ConditionFalse)"
  "fst (snd (readinessCondition eval)) =
     (if ev_Passing eval then ReasonReadinessSatisfied
      else if ev_Expired eval then ReasonReadinessExpired else ReasonReadinessBelowMinScore)"
  by (simp_all add: readinessCondition_def Let_def)

lemma readiness_reason_known: "fst (snd (readinessCondition eval)) \<in> set allReadinessStatuses"
  by (simp add: readinessCondition_eq allReadinessStatuses_def)

lemma reconcileReadiness_frame:
  "frame_of (upd_status (\<lambda>st. st\<lparr>st_Readiness := None\<rparr>) (fst (reconcileReadiness x now p c wu out))) =
   frame_of (upd_status (\<lambda>st. st\<lparr>st_Readiness := None\<rparr>) p)"
  by (auto simp: reconcileReadiness_def setCondition_def frame_of_def upd_status_def Let_def
      split: option.splits prod.splits)


section \<open>Transition events\<close>

lemma reconcileReadiness_events:
  assumes "x_Evaluate x (c_Readiness c) now = Some eval"
  shows "map evt_Reason (out_Events (snd (reconcileReadiness x now p c wasUnmet out))) =
    map evt_Reason (out_Events out) @
      (if \<not> ev_Passing eval \<and> \<not> wasUnmet then [EventReadinessGateUnmet]
       else if ev_Passing eval \<and> wasUnmet then [EventReadinessRecovered] else [])"
  using readinessCondition_eq[of eval]
  by (auto simp: reconcileReadiness_def assms Let_def Event_def split: prod.split if_splits)

lemma wasUnmet_after:
  assumes "condition_api x" "types_distinct (conditions p)"
    and "x_Evaluate x (c_Readiness c) now = Some eval"
  shows "readinessWasUnmet x (fst (reconcileReadiness x now p c wu out)) \<longleftrightarrow> \<not> ev_Passing eval"
  using assms readinessCondition_eq[of eval]
  by (auto simp: reconcileReadiness_def readinessWasUnmet_def setCondition_def Let_def
      FindStatusCondition_set split: prod.split)

text \<open>
  A run of successful reconciliations, as far as readiness is concerned: each one reads the gate's
  prior state, resets the derived status and evaluates readiness.
\<close>

definition gate_step :: "externals \<Rightarrow> ContractDoc \<times> instant \<Rightarrow> Pacto \<times> outputs \<Rightarrow> Pacto \<times> outputs" where
  "gate_step x step s =
     (case (step, s) of ((c, now), (p, out)) \<Rightarrow>
        reconcileReadiness x now (resetDerivedStatus p) c (readinessWasUnmet x p) out)"

fun alternates :: "bool \<Rightarrow> string list \<Rightarrow> bool" where
  "alternates unmet [] = True"
| "alternates unmet (r # rs) =
     (r = (if unmet then EventReadinessRecovered else EventReadinessGateUnmet) \<and> alternates (\<not> unmet) rs)"

lemma gate_step_events:
  assumes "condition_api x" "x_Evaluate x (c_Readiness c) now = Some eval"
  obtains p' out' where "gate_step x (c, now) (p, out) = (p', out')"
    "readinessWasUnmet x p' \<longleftrightarrow> \<not> ev_Passing eval"
    "map evt_Reason (out_Events out') = map evt_Reason (out_Events out) @
       (if readinessWasUnmet x p = readinessWasUnmet x p' then []
        else [if readinessWasUnmet x p then EventReadinessRecovered else EventReadinessGateUnmet])"
proof -
  let ?q = "resetDerivedStatus p"
  obtain p' out' where step: "gate_step x (c, now) (p, out) = (p', out')"
    by fastforce
  then have rec: "reconcileReadiness x now ?q c (readinessWasUnmet x p) out = (p', out')"
    by (simp add: gate_step_def)
  have "types_distinct (conditions ?q)"
    by (simp add: resetDerivedStatus_def)
  from wasUnmet_after[OF assms(1) this assms(2), of "readinessWasUnmet x p" out]
  have after: "readinessWasUnmet x p' \<longleftrightarrow> \<not> ev_Passing eval"
    by (simp add: rec)
  show thesis
    using that[OF step after] reconcileReadiness_events[OF assms(2), of ?q "readinessWasUnmet x p" out] after
    by (auto simp: rec split: if_splits)
qed



section \<open>A concrete run\<close>

definition contract_ready :: "bool \<Rightarrow> ContractDoc" where
  "contract_ready ok =
     sample_contract\<lparr>c_Readiness := Some \<lparr>rn_History = [], rn_Declared = if ok then ''met'' else ''unmet''\<rparr>\<rparr>"

definition no_outputs :: outputs where
  "no_outputs = \<lparr>out_Events = [], out_Gauges = Map.empty\<rparr>"

lemma evaluate_ready: "x_Evaluate documented (c_Readiness (contract_ready ok)) now = Some (sample_eval ok)"
  by (cases ok) (simp_all add: documented_def contract_ready_def)



end
