(* ===== verification/Overrides.thy ===== *)
theory Overrides
  imports Contract
begin

text \<open>
  Configuration overrides (\<open>applyConfigurationOverrides\<close> of
  \<^verbatim>\<open>internal/controller/pacto_controller.go\<close>), modelled twice: over values, as the reconciler uses the
  result, and over a store of map objects, where the claim that the loaded contract is never
  mutated (it may sit in the loader's cache) can be stated. The second model refines the first.
\<close>

section \<open>Overrides over values\<close>

definition config_by_name :: "ConfigurationSource list \<Rightarrow> (string, nat) gomap" where
  "config_by_name cfgs = fold (\<lambda>(i, cfg). AList.update (cf_Name cfg) i) (enumerate 0 cfgs) []"

definition merge_values :: "(string, string) gomap \<Rightarrow> (string, any) gomap \<Rightarrow> (string, any) gomap" where
  "merge_values vals m = fold (\<lambda>(k, v). AList.update k (AnyString v)) vals m"

definition go_index :: "(string, nat) gomap \<Rightarrow> string \<Rightarrow> nat" where
  "go_index m n = (case map_of m n of None \<Rightarrow> 0 | Some i \<Rightarrow> i)"

definition merge_override ::
  "(string, nat) gomap \<Rightarrow> ConfigurationOverride \<Rightarrow> ConfigurationSource list \<Rightarrow> ConfigurationSource list" where
  "merge_override byName ov cfgs =
     (let idx = go_index byName (co_Name ov);
          m = (case cf_Values (cfgs ! idx) of None \<Rightarrow> [] | Some m \<Rightarrow> m)
      in cfgs[idx := (cfgs ! idx)\<lparr>cf_Values := Some (merge_values (co_Values ov) m)\<rparr>])"

definition overridden_keys :: "ConfigurationOverride list \<Rightarrow> (string, string list) gomap" where
  "overridden_keys ovs =
     fold (\<lambda>ov. AList.update (co_Name ov) (sort_Strings (map_keys (co_Values ov)))) ovs []"

definition unknown_override :: "(string, nat) gomap \<Rightarrow> ConfigurationOverride list \<Rightarrow> ConfigurationOverride option" where
  "unknown_override byName ovs = List.find (\<lambda>ov. \<not> has_key byName (co_Name ov)) ovs"

definition applyConfigurationOverrides ::
  "ContractDoc \<Rightarrow> ContractOverrides option \<Rightarrow> string + ContractDoc \<times> (string, string list) gomap" where
  "applyConfigurationOverrides c overrides =
     (case overrides of
        None \<Rightarrow> Inr (c, [])
      | Some overrides \<Rightarrow>
          if length (ov_Configurations overrides) = 0 then Inr (c, [])
          else
            (let configByName = config_by_name (c_Configurations c)
             in case unknown_override configByName (ov_Configurations overrides) of
                  Some ov \<Rightarrow> Inl (''configuration '' @ show_q (co_Name ov) @ '' not found in contract'')
                | None \<Rightarrow>
                    Inr (c\<lparr>c_Configurations :=
                           fold (merge_override configByName) (ov_Configurations overrides) (c_Configurations c)\<rparr>,
                         overridden_keys (ov_Configurations overrides))))"

section \<open>Overrides over a store\<close>

text \<open>
  A store of map objects; addresses from \<open>vh_next\<close> on are free. A configuration refers to its
  values by address, so two configurations (or a cached contract and a copy) may share a map.
\<close>

record vheap =
  vh_next :: nat
  vh_maps :: "nat \<Rightarrow> (string, any) gomap"

record hconfig =
  hc_Base :: ConfigurationSource
  hc_Values :: "nat option"

definition alloc :: "(string, any) gomap \<Rightarrow> vheap \<Rightarrow> nat \<times> vheap" where
  "alloc m h = (vh_next h, h\<lparr>vh_next := Suc (vh_next h), vh_maps := (vh_maps h)(vh_next h := m)\<rparr>)"

fun copy_configs :: "hconfig list \<Rightarrow> vheap \<Rightarrow> hconfig list \<times> vheap" where
  "copy_configs [] h = ([], h)"
| "copy_configs (cfg # cfgs) h =
     (case hc_Values cfg of
        None \<Rightarrow> (let (cfgs, h) = copy_configs cfgs h in (cfg # cfgs, h))
      | Some a \<Rightarrow>
          (let (a', h) = alloc (vh_maps h a) h;
               (cfgs, h) = copy_configs cfgs h
           in (cfg\<lparr>hc_Values := Some a'\<rparr> # cfgs, h)))"

definition store_override ::
  "(string, nat) gomap \<Rightarrow> ConfigurationOverride \<Rightarrow> hconfig list \<times> vheap \<Rightarrow> hconfig list \<times> vheap" where
  "store_override byName ov s =
     (case s of (cfgs, h) \<Rightarrow>
        (let idx = go_index byName (co_Name ov);
             (a, cfgs, h) =
               (case hc_Values (cfgs ! idx) of
                  Some a \<Rightarrow> (a, cfgs, h)
                | None \<Rightarrow>
                    (let (a, h) = alloc [] h in (a, cfgs[idx := (cfgs ! idx)\<lparr>hc_Values := Some a\<rparr>], h)))
         in (cfgs, h\<lparr>vh_maps := (vh_maps h)(a := merge_values (co_Values ov) (vh_maps h a))\<rparr>)))"

definition applyConfigurationOverrides_store ::
  "hconfig list \<Rightarrow> ConfigurationOverride list \<Rightarrow> vheap \<Rightarrow> hconfig list \<times> vheap" where
  "applyConfigurationOverrides_store cfgs ovs h =
     fold (store_override (config_by_name (map hc_Base cfgs))) ovs (copy_configs cfgs h)"

section \<open>Lookup tables\<close>

lemma config_by_name_snoc:
  "map_of (config_by_name (cfgs @ [cfg])) n =
     (if n = cf_Name cfg then Some (length cfgs) else map_of (config_by_name cfgs) n)"
  by (simp add: config_by_name_def enumerate_append_eq update_conv')

lemma config_by_name_Some:
  "map_of (config_by_name cfgs) n = Some i \<Longrightarrow> i < length cfgs \<and> cf_Name (cfgs ! i) = n"
proof (induction cfgs rule: rev_induct)
  case Nil
  then show ?case
    by (simp add: config_by_name_def)
next
  case (snoc cfg cfgs)
  then show ?case
    by (auto simp: config_by_name_snoc nth_append split: if_splits)
qed

lemma config_by_name_None: "has_key (config_by_name cfgs) n \<longleftrightarrow> n \<in> cf_Name ` set cfgs"
proof (induction cfgs rule: rev_induct)
  case Nil
  then show ?case
    by (simp add: config_by_name_def has_key_def)
next
  case (snoc cfg cfgs)
  then show ?case
    by (auto simp: has_key_def config_by_name_snoc)
qed

lemma go_index_known:
  assumes "n \<in> cf_Name ` set cfgs"
  shows "go_index (config_by_name cfgs) n < length cfgs" "cf_Name (cfgs ! go_index (config_by_name cfgs) n) = n"
proof -
  from assms obtain i where "map_of (config_by_name cfgs) n = Some i"
    by (metis config_by_name_None has_key_def not_None_eq)
  with config_by_name_Some[OF this] show "go_index (config_by_name cfgs) n < length cfgs"
    "cf_Name (cfgs ! go_index (config_by_name cfgs) n) = n"
    by (simp_all add: go_index_def)
qed

lemma unknown_override_None:
  "unknown_override (config_by_name cfgs) ovs = None \<longleftrightarrow> co_Name ` set ovs \<subseteq> cf_Name ` set cfgs"
  by (auto simp: unknown_override_def find_None_iff config_by_name_None)

section \<open>What an override does\<close>

lemma map_of_merge_values:
  "map_of (merge_values vals m) k =
     (case map_of (rev vals) k of Some v \<Rightarrow> Some (AnyString v) | None \<Rightarrow> map_of m k)"
  unfolding merge_values_def
  by (induction vals arbitrary: m) (auto simp: update_conv' map_add_def split: option.splits)

lemma map_of_merge_values_wf:
  "map_wf vals \<Longrightarrow> map_of (merge_values vals m) k =
     (case map_of vals k of Some v \<Rightarrow> Some (AnyString v) | None \<Rightarrow> map_of m k)"
  by (simp add: map_of_merge_values map_of_rev_wf)

text \<open>The values of a configuration by key, and the value that the overrides of a name give to a key.\<close>

definition config_value :: "ConfigurationSource \<Rightarrow> string \<Rightarrow> any option" where
  "config_value cfg k = (case cf_Values cfg of None \<Rightarrow> None | Some m \<Rightarrow> map_of m k)"

fun override_value :: "ConfigurationOverride list \<Rightarrow> string \<Rightarrow> string \<Rightarrow> string option" where
  "override_value [] n k = None"
| "override_value (ov # ovs) n k =
     (case override_value ovs n k of
        Some v \<Rightarrow> Some v
      | None \<Rightarrow> if co_Name ov = n then map_of (co_Values ov) k else None)"

definition same_but_values :: "ConfigurationSource \<Rightarrow> ConfigurationSource \<Rightarrow> bool" where
  "same_but_values a b \<longleftrightarrow> a\<lparr>cf_Values := None\<rparr> = b\<lparr>cf_Values := None\<rparr>"

lemma same_but_values_refl [simp]: "same_but_values a a"
  by (simp add: same_but_values_def)

lemma same_but_values_name: "same_but_values a b \<Longrightarrow> cf_Name a = cf_Name b"
  unfolding same_but_values_def by (metis ConfigurationSource.ext_inject ConfigurationSource.surjective ConfigurationSource.update_convs(4))

lemma merge_override_length [simp]: "length (merge_override m ov cfgs) = length cfgs"
  by (simp add: merge_override_def Let_def)

lemma merge_override_nth:
  assumes "i < length cfgs" "map_wf (co_Values ov)"
  shows "same_but_values (merge_override m ov cfgs ! i) (cfgs ! i) \<and>
    config_value (merge_override m ov cfgs ! i) k =
      (if i = go_index m (co_Name ov)
       then (case map_of (co_Values ov) k of Some v \<Rightarrow> Some (AnyString v) | None \<Rightarrow> config_value (cfgs ! i) k)
       else config_value (cfgs ! i) k)"
  using assms
  by (auto simp: merge_override_def Let_def nth_list_update config_value_def same_but_values_def
      map_of_merge_values_wf split: option.split)

lemma merge_overrides_nth:
  assumes "\<forall>ov\<in>set ovs. map_wf (co_Values ov)"
    and "distinct (map cf_Name cfgs0)" "co_Name ` set ovs \<subseteq> cf_Name ` set cfgs0"
    and "i < length cfgs0" "length cfgs = length cfgs0"
  shows "same_but_values (fold (merge_override (config_by_name cfgs0)) ovs cfgs ! i) (cfgs ! i) \<and>
    config_value (fold (merge_override (config_by_name cfgs0)) ovs cfgs ! i) k =
      (case override_value ovs (cf_Name (cfgs0 ! i)) k of
         Some v \<Rightarrow> Some (AnyString v) | None \<Rightarrow> config_value (cfgs ! i) k)"
  using assms(1,3,5)
proof (induction ovs arbitrary: cfgs)
  case (Cons ov ovs)
  let ?m = "config_by_name cfgs0" and ?cfgs = "merge_override (config_by_name cfgs0) ov cfgs"
  have idx: "i = go_index ?m (co_Name ov) \<longleftrightarrow> cf_Name (cfgs0 ! i) = co_Name ov"
    using go_index_known[of "co_Name ov" cfgs0] Cons.prems(2) assms(2,4)
    by (auto simp: distinct_conv_nth) (metis (no_types, lifting) distinct_conv_nth length_map nth_map assms(2))
  have step: "same_but_values (?cfgs ! i) (cfgs ! i)"
    "config_value (?cfgs ! i) k =
      (if i = go_index ?m (co_Name ov)
       then (case map_of (co_Values ov) k of Some v \<Rightarrow> Some (AnyString v) | None \<Rightarrow> config_value (cfgs ! i) k)
       else config_value (cfgs ! i) k)"
    using merge_override_nth[of i cfgs ov ?m k] Cons.prems assms(4) by simp_all
  have rest: "same_but_values (fold (merge_override ?m) ovs ?cfgs ! i) (?cfgs ! i)"
    "config_value (fold (merge_override ?m) ovs ?cfgs ! i) k =
      (case override_value ovs (cf_Name (cfgs0 ! i)) k of
         Some v \<Rightarrow> Some (AnyString v) | None \<Rightarrow> config_value (?cfgs ! i) k)"
    using Cons.IH[of ?cfgs] Cons.prems by simp_all
  show ?case
    using step rest idx by (auto simp: same_but_values_def split: option.splits)
qed simp

lemma merge_overrides_length [simp]: "length (fold (merge_override m) ovs cfgs) = length cfgs"
  by (induction ovs arbitrary: cfgs) simp_all


text \<open>
  C32. Overrides by value. An override set is rejected exactly when one of its names is not a
  configuration of the contract, and the error quotes the first such name. Otherwise, for a contract
  with distinct configuration names, only the values of configurations change: the value of a key is
  that of the last override of the configuration's name that gives one, and the contract's own value
  where none does.
\<close>

theorem override_effective:
  assumes "distinct (map cf_Name (c_Configurations c))"
    and "\<forall>ov\<in>set ovs. map_wf (co_Values ov)"
  shows "case applyConfigurationOverrides c (Some \<lparr>ov_Configurations = ovs\<rparr>) of
      Inl err \<Rightarrow>
        \<exists>ov. List.find (\<lambda>ov. co_Name ov \<notin> cf_Name ` set (c_Configurations c)) ovs = Some ov \<and>
          err = ''configuration '' @ show_q (co_Name ov) @ '' not found in contract''
    | Inr (c', keys) \<Rightarrow>
        co_Name ` set ovs \<subseteq> cf_Name ` set (c_Configurations c) \<and>
        c'\<lparr>c_Configurations := []\<rparr> = c\<lparr>c_Configurations := []\<rparr> \<and>
        length (c_Configurations c') = length (c_Configurations c) \<and>
        (\<forall>i < length (c_Configurations c).
           same_but_values (c_Configurations c' ! i) (c_Configurations c ! i) \<and>
           (\<forall>k. config_value (c_Configurations c' ! i) k =
              (case override_value ovs (cf_Name (c_Configurations c ! i)) k of
                 Some v \<Rightarrow> Some (AnyString v) | None \<Rightarrow> config_value (c_Configurations c ! i) k)))"
proof (cases "co_Name ` set ovs \<subseteq> cf_Name ` set (c_Configurations c)")
  case True
  then have "unknown_override (config_by_name (c_Configurations c)) ovs = None"
    by (simp add: unknown_override_None)
  then show ?thesis
    using True merge_overrides_nth[OF assms(2,1) True]
    by (auto simp: applyConfigurationOverrides_def Let_def)
next
  case False
  then obtain ov where ov: "unknown_override (config_by_name (c_Configurations c)) ovs = Some ov"
    by (metis not_None_eq unknown_override_None)
  moreover have "List.find (\<lambda>ov. co_Name ov \<notin> cf_Name ` set (c_Configurations c)) ovs = Some ov"
    using ov by (simp add: unknown_override_def config_by_name_None)
  moreover have "ovs \<noteq> []"
    using False by auto
  ultimately show ?thesis
    by (simp add: applyConfigurationOverrides_def Let_def)
qed

section \<open>The store model refines the value model\<close>

definition read_config :: "vheap \<Rightarrow> hconfig \<Rightarrow> ConfigurationSource" where
  "read_config h cfg = (hc_Base cfg)\<lparr>cf_Values := map_option (vh_maps h) (hc_Values cfg)\<rparr>"

text \<open>The maps of a list of configurations are pairwise different objects, allocated from \<open>lo\<close> on.\<close>

definition owned :: "nat \<Rightarrow> vheap \<Rightarrow> hconfig list \<Rightarrow> bool" where
  "owned lo h cfgs \<longleftrightarrow>
     (\<forall>i < length cfgs. \<forall>a. hc_Values (cfgs ! i) = Some a \<longrightarrow>
        lo \<le> a \<and> a < vh_next h \<and> (\<forall>j < length cfgs. hc_Values (cfgs ! j) = Some a \<longrightarrow> i = j))"

definition keeps :: "nat \<Rightarrow> vheap \<Rightarrow> vheap \<Rightarrow> bool" where
  "keeps lo h h' \<longleftrightarrow> vh_next h \<le> vh_next h' \<and> (\<forall>a < lo. vh_maps h' a = vh_maps h a)"

lemma keeps_trans: "keeps lo h h' \<Longrightarrow> keeps lo h' h'' \<Longrightarrow> keeps lo h h''"
  by (auto simp: keeps_def)

lemma keeps_mono: "keeps hi h h' \<Longrightarrow> lo \<le> hi \<Longrightarrow> keeps lo h h'"
  by (auto simp: keeps_def)

lemma read_config_keeps:
  "keeps lo h h' \<Longrightarrow> (\<And>a. hc_Values cfg = Some a \<Longrightarrow> a < lo) \<Longrightarrow> read_config h' cfg = read_config h cfg"
  by (cases "hc_Values cfg") (auto simp: read_config_def keeps_def)

lemma owned_Cons_fresh:
  assumes "owned (Suc lo) h cfgs" "lo < vh_next h"
  shows "owned lo h (cfg\<lparr>hc_Values := Some lo\<rparr> # cfgs)"
  using assms by (auto simp: owned_def nth_Cons split: nat.splits)

lemma owned_Cons_nil: "owned lo h cfgs \<Longrightarrow> hc_Values cfg = None \<Longrightarrow> owned lo h (cfg # cfgs)"
  by (auto simp: owned_def nth_Cons split: nat.splits)

lemma copy_configs_correct:
  assumes "\<forall>cfg\<in>set cfgs. \<forall>a. hc_Values cfg = Some a \<longrightarrow> a < vh_next h"
    and "copy_configs cfgs h = (cfgs', h')"
  shows "map (read_config h') cfgs' = map (read_config h) cfgs \<and> keeps (vh_next h) h h' \<and>
    owned (vh_next h) h' cfgs' \<and> length cfgs' = length cfgs"
  using assms
proof (induction cfgs h arbitrary: cfgs' h' rule: copy_configs.induct)
  case (1 h)
  then show ?case
    by (simp add: keeps_def owned_def)
next
  case (2 cfg cfgs h)
  show ?case
  proof (cases "hc_Values cfg")
    case None
    with 2 show ?thesis
      by (auto simp: owned_Cons_nil read_config_def split: prod.splits)
  next
    case (Some a)
    define h1 where "h1 = snd (alloc (vh_maps h a) h)"
    obtain cfgs1 h2 where rec: "copy_configs cfgs h1 = (cfgs1, h2)"
      by fastforce
    have h1: "vh_next h1 = Suc (vh_next h)" "keeps (vh_next h) h h1" "vh_maps h1 (vh_next h) = vh_maps h a"
      by (simp_all add: h1_def alloc_def keeps_def)
    have res: "cfgs' = cfg\<lparr>hc_Values := Some (vh_next h)\<rparr> # cfgs1" "h' = h2"
      using 2(4) rec Some by (auto simp: h1_def alloc_def)
    have "map (read_config h2) cfgs1 = map (read_config h1) cfgs \<and> keeps (Suc (vh_next h)) h1 h2 \<and>
        owned (Suc (vh_next h)) h2 cfgs1 \<and> length cfgs1 = length cfgs"
      using 2(2)[of a "(vh_next h, h1)" "vh_next h" h1 cfgs1 h2] Some rec 2(3) h1(1)
      by (auto simp: h1_def alloc_def less_Suc_eq)
    moreover have "map (read_config h1) cfgs = map (read_config h) cfgs"
      using 2(3) read_config_keeps[OF h1(2)] by auto
    moreover have "read_config h2 (cfg\<lparr>hc_Values := Some (vh_next h)\<rparr>) = read_config h cfg"
      using calculation(1) h1(3) Some by (simp add: read_config_def keeps_def)
    ultimately show ?thesis
      using h1(1,2) keeps_trans[OF h1(2) keeps_mono] owned_Cons_fresh[of "vh_next h" h2 cfgs1 cfg]
      by (auto simp: res keeps_def)
  qed
qed


lemma owned_update_fresh:
  assumes "owned lo h cfgs" "lo \<le> vh_next h"
  shows "owned lo (h\<lparr>vh_next := Suc (vh_next h), vh_maps := M\<rparr>) (cfgs[i := c\<lparr>hc_Values := Some (vh_next h)\<rparr>])"
proof -
  have old: "lo \<le> a \<and> a < vh_next h" if "j < length cfgs" "hc_Values (cfgs ! j) = Some a" for j a
    using assms(1) that by (simp add: owned_def)
  have inj: "j = k" if "j < length cfgs" "k < length cfgs" "hc_Values (cfgs ! j) = Some a" "hc_Values (cfgs ! k) = Some a" for j k a
    using assms(1) that by (simp add: owned_def)
  show ?thesis
    unfolding owned_def
  proof (intro allI impI)
    fix j a
    assume j: "j < length (cfgs[i := c\<lparr>hc_Values := Some (vh_next h)\<rparr>])"
      "hc_Values (cfgs[i := c\<lparr>hc_Values := Some (vh_next h)\<rparr>] ! j) = Some a"
    have look: "k = i \<and> a = vh_next h \<or> k \<noteq> i \<and> k < length cfgs \<and> hc_Values (cfgs ! k) = Some a"
      if "k < length cfgs" "hc_Values (cfgs[i := c\<lparr>hc_Values := Some (vh_next h)\<rparr>] ! k) = Some a" for k
      using that by (cases "k = i") auto
    show "lo \<le> a \<and> a < vh_next (h\<lparr>vh_next := Suc (vh_next h), vh_maps := M\<rparr>) \<and>
      (\<forall>k<length (cfgs[i := c\<lparr>hc_Values := Some (vh_next h)\<rparr>]).
         hc_Values (cfgs[i := c\<lparr>hc_Values := Some (vh_next h)\<rparr>] ! k) = Some a \<longrightarrow> j = k)"
      using look j old inj assms(2) by (simp add: less_Suc_eq) (metis less_irrefl)
  qed
qed

lemma store_override_correct:
  assumes "owned lo h cfgs" "lo \<le> vh_next h" "go_index m (co_Name ov) < length cfgs"
    and "store_override m ov (cfgs, h) = (cfgs', h')"
  shows "map (read_config h') cfgs' = merge_override m ov (map (read_config h) cfgs) \<and>
    keeps lo h h' \<and> owned lo h' cfgs' \<and> length cfgs' = length cfgs"
proof -
  let ?i = "go_index m (co_Name ov)"
  show ?thesis
  proof (cases "hc_Values (cfgs ! ?i)")
    case None
    let ?cfgs = "cfgs[?i := (cfgs ! ?i)\<lparr>hc_Values := Some (vh_next h)\<rparr>]"
    have res: "cfgs' = ?cfgs"
      "h' = h\<lparr>vh_next := Suc (vh_next h), vh_maps := (vh_maps h)(vh_next h := merge_values (co_Values ov) [])\<rparr>"
      using assms(4) None by (auto simp: store_override_def alloc_def Let_def)
    have "read_config h' (?cfgs ! j) = merge_override m ov (map (read_config h) cfgs) ! j" if "j < length cfgs" for j
    proof (cases "j = ?i")
      case True
      then show ?thesis
        using assms(3) None by (simp add: res read_config_def merge_override_def Let_def)
    next
      case False
      then show ?thesis
        using that assms(1,3) by (cases "hc_Values (cfgs ! j)")
          (auto simp: res read_config_def merge_override_def Let_def owned_def)
    qed
    then have "map (read_config h') cfgs' = merge_override m ov (map (read_config h) cfgs)"
      by (intro nth_equalityI) (simp_all add: res)
    moreover have "owned lo h' cfgs'"
      unfolding res by (rule owned_update_fresh[OF assms(1,2)])
    ultimately show ?thesis
      using assms(2) by (simp add: res keeps_def)
  next
    case (Some a)
    have res: "cfgs' = cfgs"
      "h' = h\<lparr>vh_maps := (vh_maps h)(a := merge_values (co_Values ov) (vh_maps h a))\<rparr>"
      using assms(4) Some by (auto simp: store_override_def Let_def)
    have a: "lo \<le> a" "\<And>j. j < length cfgs \<Longrightarrow> hc_Values (cfgs ! j) = Some a \<Longrightarrow> ?i = j"
      using assms(1,3) Some by (auto simp: owned_def)
    have "read_config h' (cfgs ! j) = merge_override m ov (map (read_config h) cfgs) ! j" if "j < length cfgs" for j
    proof (cases "j = ?i")
      case True
      then show ?thesis
        using assms(3) Some by (simp add: res read_config_def merge_override_def Let_def)
    next
      case False
      then show ?thesis
        using that a(2)[OF that] by (cases "hc_Values (cfgs ! j)")
          (auto simp: res read_config_def merge_override_def Let_def)
    qed
    then have "map (read_config h') cfgs' = merge_override m ov (map (read_config h) cfgs)"
      by (intro nth_equalityI) (simp_all add: res)
    then show ?thesis
      using assms(1) a(1) by (auto simp: res keeps_def owned_def)
  qed
qed

lemma store_overrides_correct:
  assumes "owned lo h cfgs" "lo \<le> vh_next h" "\<forall>ov\<in>set ovs. go_index m (co_Name ov) < length cfgs"
    and "fold (store_override m) ovs (cfgs, h) = (cfgs', h')"
  shows "map (read_config h') cfgs' = fold (merge_override m) ovs (map (read_config h) cfgs) \<and> keeps lo h h'"
  using assms
proof (induction ovs arbitrary: cfgs h)
  case Nil
  then show ?case
    by (simp add: keeps_def)
next
  case (Cons ov ovs)
  obtain cfgs1 h1 where step: "store_override m ov (cfgs, h) = (cfgs1, h1)"
    by fastforce
  from store_override_correct[OF Cons.prems(1,2) _ step] Cons.prems(3)
  have s: "map (read_config h1) cfgs1 = merge_override m ov (map (read_config h) cfgs)" "keeps lo h h1"
    "owned lo h1 cfgs1" "length cfgs1 = length cfgs"
    by simp_all
  have "map (read_config h') cfgs' = fold (merge_override m) ovs (map (read_config h1) cfgs1) \<and> keeps lo h1 h'"
    using Cons.IH[OF s(3)] Cons.prems step s(2,4) by (simp add: keeps_def)
  with s keeps_trans show ?case
    by auto
qed

text \<open>
  C13. The loaded contract is never mutated: whatever maps the contract's configurations share with
  each other or with anything else in the store, applying overrides leaves every map object that
  existed before as it was, and the configurations it returns read, through the new store, exactly
  as the value-level specification of the overrides says.
\<close>

theorem overrides_never_mutate:
  assumes "\<forall>cfg\<in>set cfgs. \<forall>a. hc_Values cfg = Some a \<longrightarrow> a < vh_next h"
    and "co_Name ` set ovs \<subseteq> cf_Name ` hc_Base ` set cfgs"
    and "applyConfigurationOverrides_store cfgs ovs h = (cfgs', h')"
  shows "(\<forall>a < vh_next h. vh_maps h' a = vh_maps h a) \<and>
    map (read_config h') cfgs' =
      fold (merge_override (config_by_name (map hc_Base cfgs))) ovs (map (read_config h) cfgs)"
proof -
  let ?m = "config_by_name (map hc_Base cfgs)"
  obtain cfgs1 h1 where copy: "copy_configs cfgs h = (cfgs1, h1)"
    by fastforce
  from copy_configs_correct[OF assms(1) copy] have c:
    "map (read_config h1) cfgs1 = map (read_config h) cfgs" "keeps (vh_next h) h h1"
    "owned (vh_next h) h1 cfgs1" "length cfgs1 = length cfgs"
    by simp_all
  have "\<forall>ov\<in>set ovs. go_index ?m (co_Name ov) < length cfgs1"
    using assms(2) go_index_known(1)[of _ "map hc_Base cfgs"] c(4) by (auto simp: image_subset_iff)
  from store_overrides_correct[OF c(3) _ this] c(2) assms(3) copy
  have "map (read_config h') cfgs' = fold (merge_override ?m) ovs (map (read_config h1) cfgs1)"
    "keeps (vh_next h) h1 h'"
    by (simp_all add: applyConfigurationOverrides_store_def keeps_def)
  with c keeps_trans show ?thesis
    by (auto simp: keeps_def)
qed


section \<open>Concrete overrides\<close>

definition sample_overrides :: "ConfigurationOverride list" where
  "sample_overrides = [\<lparr>co_Name = ''app'', co_Values = [(''level'', ''debug''), (''mode'', ''x'')]\<rparr>]"

definition sample_configs :: "ConfigurationSource list" where
  "sample_configs = [\<lparr>cf_Name = ''app'', cf_Schema = '''', cf_Ref = '''', cf_Values = Some [(''level'', AnyString ''info'')]\<rparr>]"

definition empty_contract :: ContractDoc where
  "empty_contract =
     \<lparr>c_Service = \<lparr>sv_Name = ''svc'', sv_Version = ''1.0.0'', sv_Owner = \<lparr>ow_Team = '''', ow_DRI = '''', ow_Contacts = []\<rparr>,
        sv_Image = None\<rparr>,
      c_Interfaces = [], c_Configurations = sample_configs, c_Dependencies = [], c_Policies = [],
      c_Runtime = None, c_Scaling = None, c_Metadata = [], c_Readiness = None\<rparr>"

theorem override_effective_witness:
  "\<exists>c' keys. applyConfigurationOverrides empty_contract (Some \<lparr>ov_Configurations = sample_overrides\<rparr>) = Inr (c', keys) \<and>
     config_value (c_Configurations c' ! 0) ''level'' = Some (AnyString ''debug'')"
proof -
  have "distinct (map cf_Name (c_Configurations empty_contract))" "\<forall>ov\<in>set sample_overrides. map_wf (co_Values ov)"
    by (simp_all add: empty_contract_def sample_configs_def sample_overrides_def map_wf_def map_keys_def)
  note eff = override_effective[OF this]
  moreover have "List.find (\<lambda>ov. co_Name ov \<notin> cf_Name ` set (c_Configurations empty_contract)) sample_overrides = None"
    "cf_Name (c_Configurations empty_contract ! 0) = ''app''" "length (c_Configurations empty_contract) = 1"
    "override_value sample_overrides ''app'' ''level'' = Some ''debug''"
    by (simp_all add: empty_contract_def sample_configs_def sample_overrides_def)
  ultimately show ?thesis
    by (auto split: sum.splits)
qed

definition sample_heap :: vheap where
  "sample_heap = \<lparr>vh_next = 1, vh_maps = (\<lambda>_. [(''level'', AnyString ''info'')])\<rparr>"

definition shared_config :: hconfig where
  "shared_config = \<lparr>hc_Base = hd sample_configs, hc_Values = Some 0\<rparr>"

theorem overrides_never_mutate_witness:
  "vh_maps (snd (applyConfigurationOverrides_store [shared_config, shared_config] sample_overrides sample_heap)) 0 =
     [(''level'', AnyString ''info'')]"
proof -
  obtain cfgs' h' where run:
    "applyConfigurationOverrides_store [shared_config, shared_config] sample_overrides sample_heap = (cfgs', h')"
    by fastforce
  have "\<forall>cfg\<in>set [shared_config, shared_config]. \<forall>a. hc_Values cfg = Some a \<longrightarrow> a < vh_next sample_heap"
    "co_Name ` set sample_overrides \<subseteq> cf_Name ` hc_Base ` set [shared_config, shared_config]"
    by (simp_all add: shared_config_def sample_heap_def sample_overrides_def sample_configs_def)
  from overrides_never_mutate[OF this run] show ?thesis
    unfolding run by (simp add: sample_heap_def)
qed

end
