(* ===== verification/Loader.thy ===== *)
theory Loader
  imports Contract Image_Ref
begin

text \<open>
  The contract loader (\<^verbatim>\<open>internal/loader/contract.go\<close>, \<^verbatim>\<open>oci.go\<close>): reference normalisation, OCI
  pulling and the two time-bounded caches. The OCI client, the contract parser and the clock are
  parameters (\<open>oci_env\<close>) over an abstract world. Here a call runs from its start to its end, as when the
  controller works on one request at a time; calls that overlap are the subject of \<^verbatim>\<open>Loader_Concurrent\<close>.
\<close>

section \<open>Data\<close>

record LoadResult =
  lr_Contract :: ContractDoc
  lr_RawYAML :: string
  lr_BundleFS :: "bundle_fs option"
  lr_ResolvedRef :: string
  lr_ResolvedDigest :: string

text \<open>\<open>authn.AuthConfig\<close>, with the fields the operator sets, and the keychains it builds.\<close>

record AuthConfig =
  au_Username :: string
  au_Password :: string
  au_RegistryToken :: string

datatype keychain = DefaultKeychain | StaticKeychain AuthConfig | MultiKeychain "keychain list"

text \<open>\<open>oci.Bundle\<close> of the pacto library.\<close>

record Bundle =
  bd_Contract :: ContractDoc
  bd_RawYAML :: string
  bd_FS :: "bundle_fs option"

record 'w oci_env =
  o_ResolveRef :: "keychain \<Rightarrow> string \<Rightarrow> 'w \<Rightarrow> (string + string) \<times> 'w"
  o_Pull :: "keychain \<Rightarrow> string \<Rightarrow> 'w \<Rightarrow> (string + Bundle) \<times> 'w"
  o_Resolve :: "keychain \<Rightarrow> string \<Rightarrow> 'w \<Rightarrow> (string + string) \<times> 'w"
  o_ListTags :: "keychain \<Rightarrow> string \<Rightarrow> 'w \<Rightarrow> (string + string list) \<times> 'w"
  o_FilterSemverTags :: "string list \<Rightarrow> string list"
  o_Parse :: "string \<Rightarrow> string + ContractDoc"
  o_Now :: "'w \<Rightarrow> instant \<times> 'w"

record cacheEntry =
  ce_result :: "string + LoadResult"
  ce_expiresAt :: instant

record tagCacheEntry =
  te_tags :: "string + string list"
  te_expiresAt :: instant

record Loader =
  ld_cache :: "(string, cacheEntry) gomap"
  ld_cacheTTL :: duration
  ld_tagCache :: "(string, tagCacheEntry) gomap"
  ld_tagCacheTTL :: duration

definition new_loader :: Loader where
  "new_loader =
     \<lparr>ld_cache = [], ld_cacheTTL = 30 * Second, ld_tagCache = [], ld_tagCacheTTL = 5 * Minute\<rparr>"

section \<open>References and keys\<close>

text \<open>\<open>url.QueryUnescape\<close>: percent-decoding with \<open>+\<close> for a space; a malformed escape is an error.\<close>

definition hex_value :: "char \<Rightarrow> nat option" where
  "hex_value c =
     (let n = (of_char c :: nat)
      in if 48 \<le> n \<and> n \<le> 57 then Some (n - 48)
         else if 97 \<le> n \<and> n \<le> 102 then Some (n - 87)
         else if 65 \<le> n \<and> n \<le> 70 then Some (n - 55) else None)"

fun QueryUnescape :: "string \<Rightarrow> string option" where
  "QueryUnescape [] = Some []"
| "QueryUnescape (c # s) =
     (if c = CHR ''%'' then
        (case s of
           a # b # rest \<Rightarrow>
             (case (hex_value a, hex_value b, QueryUnescape rest) of
                (Some h, Some l, Some t) \<Rightarrow> Some (char_of (16 * h + l) # t)
              | _ \<Rightarrow> None)
         | _ \<Rightarrow> None)
      else if c = CHR ''+'' then map_option ((#) (CHR '' '')) (QueryUnescape s)
      else map_option ((#) c) (QueryUnescape s))"

definition normalizeOCIRef :: "string \<Rightarrow> string" where
  "normalizeOCIRef ref =
     (let ref = (if Contains ref ''%'' then
                   (case QueryUnescape ref of Some decoded \<Rightarrow> decoded | None \<Rightarrow> ref)
                 else ref)
      in TrimPrefix ref ''oci://'')"

definition cacheKey :: "externals \<Rightarrow> string \<Rightarrow> string \<Rightarrow> string" where
  "cacheKey x ociRef inline =
     (if inline \<noteq> '''' then ''inline:'' @ take 16 (x_Sum256Hex x inline)
      else ''oci:'' @ normalizeOCIRef ociRef)"

text \<open>Strip a tag, and a digest then a tag; shared by \<open>tagCacheKey\<close> and \<open>OCIPuller.ListTags\<close>.\<close>

definition strip_tag :: "string \<Rightarrow> string" where
  "strip_tag ref =
     (let idx = LastIndex ref '':'' in if LastIndex ref ''/'' < idx then slice_to ref idx else ref)"

definition strip_ref :: "string \<Rightarrow> string" where
  "strip_ref ref =
     (let idx = Index ref ''@'' in strip_tag (if 0 \<le> idx then slice_to ref idx else ref))"

definition tagCacheKey :: "string \<Rightarrow> string" where
  "tagCacheKey ref = ''tags:'' @ strip_ref ref"

section \<open>Pulling\<close>

definition effectiveKeychain :: "AuthConfig option \<Rightarrow> keychain" where
  "effectiveKeychain authOverride =
     (case authOverride of
        None \<Rightarrow> DefaultKeychain
      | Some auth \<Rightarrow> MultiKeychain [StaticKeychain auth, DefaultKeychain])"

definition puller_Pull ::
  "'w oci_env \<Rightarrow> string \<Rightarrow> AuthConfig option \<Rightarrow> 'w \<Rightarrow> (string + LoadResult) \<times> 'w" where
  "puller_Pull oc ref authOverride w =
     (let ref = TrimPrefix ref ''oci://'';
          kc = effectiveKeychain authOverride;
          (resolved, w) = o_ResolveRef oc kc ref w;
          resolvedRef = (case resolved of Inl err \<Rightarrow> ref | Inr r \<Rightarrow> r);
          (pulled, w) = o_Pull oc kc resolvedRef w
      in case pulled of
           Inl err \<Rightarrow> (Inl (''failed to pull '' @ show_q resolvedRef @ '': '' @ err), w)
         | Inr bundle \<Rightarrow>
             (let (d, w) = o_Resolve oc kc resolvedRef w;
                  digest = (case d of Inl _ \<Rightarrow> '''' | Inr d \<Rightarrow> d);
                  rawYAML =
                    (if length (bd_RawYAML bundle) = 0 then
                       (case bd_FS bundle of
                          None \<Rightarrow> bd_RawYAML bundle
                        | Some fsys \<Rightarrow> (case fsys ''pacto.yaml'' of None \<Rightarrow> bd_RawYAML bundle | Some data \<Rightarrow> data))
                     else bd_RawYAML bundle)
              in (Inr \<lparr>lr_Contract = bd_Contract bundle, lr_RawYAML = rawYAML, lr_BundleFS = bd_FS bundle,
                       lr_ResolvedRef = resolvedRef, lr_ResolvedDigest = digest\<rparr>, w)))"

definition puller_ListTags ::
  "'w oci_env \<Rightarrow> string \<Rightarrow> AuthConfig option \<Rightarrow> 'w \<Rightarrow> (string + string list) \<times> 'w" where
  "puller_ListTags oc ref authOverride w =
     (let ref = strip_ref (TrimPrefix ref ''oci://'');
          (tags, w) = o_ListTags oc (effectiveKeychain authOverride) ref w
      in case tags of
           Inl err \<Rightarrow> (Inl (''failed to list tags for '' @ show_q ref @ '': '' @ err), w)
         | Inr ts \<Rightarrow> (Inr (o_FilterSemverTags oc ts), w))"

definition loadInline :: "'w oci_env \<Rightarrow> string \<Rightarrow> string + LoadResult" where
  "loadInline oc yaml =
     (case o_Parse oc yaml of
        Inl err \<Rightarrow> Inl (''failed to parse inline contract: '' @ err)
      | Inr c \<Rightarrow> Inr \<lparr>lr_Contract = c, lr_RawYAML = yaml, lr_BundleFS = None,
                      lr_ResolvedRef = '''', lr_ResolvedDigest = ''''\<rparr>)"

definition loadUncached ::
  "'w oci_env \<Rightarrow> string \<Rightarrow> string \<Rightarrow> AuthConfig option \<Rightarrow> 'w \<Rightarrow> (string + LoadResult) \<times> 'w" where
  "loadUncached oc ociRef inline authOverride w =
     (if inline \<noteq> '''' then (loadInline oc inline, w)
      else if ociRef \<noteq> '''' then puller_Pull oc (normalizeOCIRef ociRef) authOverride w
      else (Inl ''no contract source specified: set either spec.contractRef.oci or spec.contractRef.inline'', w))"

section \<open>Caching\<close>

text \<open>
  The two caches follow one pattern: return an entry that has not expired; otherwise do the work,
  store the outcome with its expiry and, when the cache has grown beyond 100 entries, drop those
  that have expired.
\<close>

definition fresh_entry ::
  "('w \<Rightarrow> instant \<times> 'w) \<Rightarrow> ('e \<Rightarrow> instant) \<Rightarrow> (string, 'e) gomap \<Rightarrow> string \<Rightarrow> 'w \<Rightarrow> 'e option \<times> 'w" where
  "fresh_entry clock expires cache key w =
     (case map_of cache key of
        None \<Rightarrow> (None, w)
      | Some entry \<Rightarrow>
          (let (now, w) = clock w in (if now < expires entry then Some entry else None, w)))"

definition evict :: "('e \<Rightarrow> instant) \<Rightarrow> instant \<Rightarrow> (string, 'e) gomap \<Rightarrow> (string, 'e) gomap" where
  "evict expires now cache = filter (\<lambda>(k, v). \<not> expires v < now) cache"

definition store_entry ::
  "('w \<Rightarrow> instant \<times> 'w) \<Rightarrow> ('e \<Rightarrow> instant) \<Rightarrow> (instant \<Rightarrow> 'e) \<Rightarrow> duration \<Rightarrow> string \<Rightarrow>
     (string, 'e) gomap \<Rightarrow> 'w \<Rightarrow> (string, 'e) gomap \<times> 'w" where
  "store_entry clock expires mk ttl key cache w =
     (let (now, w) = clock w;
          cache = AList.update key (mk (now + ttl)) cache
      in if 100 < length cache then
           (let (now, w) = clock w in (evict expires now cache, w))
         else (cache, w))"

definition Load ::
  "externals \<Rightarrow> 'w oci_env \<Rightarrow> string \<Rightarrow> string \<Rightarrow> AuthConfig option \<Rightarrow> Loader \<times> 'w \<Rightarrow>
     (string + LoadResult) \<times> Loader \<times> 'w" where
  "Load x oc ociRef inline authOverride s =
     (case s of (l, w) \<Rightarrow>
        (case authOverride of
           Some auth \<Rightarrow>
             (let (r, w) = loadUncached oc ociRef inline (Some auth) w in (r, l, w))
         | None \<Rightarrow>
             (let key = cacheKey x ociRef inline;
                  (hit, w) = fresh_entry (o_Now oc) ce_expiresAt (ld_cache l) key w
              in case hit of
                   Some entry \<Rightarrow> (ce_result entry, l, w)
                 | None \<Rightarrow>
                     (let (r, w) = loadUncached oc ociRef inline None w;
                          (cache, w) = store_entry (o_Now oc) ce_expiresAt
                            (\<lambda>t. \<lparr>ce_result = r, ce_expiresAt = t\<rparr>) (ld_cacheTTL l) key (ld_cache l) w
                      in (r, l\<lparr>ld_cache := cache\<rparr>, w)))))"

definition ListTags ::
  "'w oci_env \<Rightarrow> string \<Rightarrow> AuthConfig option \<Rightarrow> Loader \<times> 'w \<Rightarrow> (string + string list) \<times> Loader \<times> 'w" where
  "ListTags oc ociRef authOverride s =
     (case s of (l, w) \<Rightarrow>
        if ociRef = '''' then (Inr [], l, w)
        else
          (case authOverride of
             Some auth \<Rightarrow>
               (let (r, w) = puller_ListTags oc (normalizeOCIRef ociRef) (Some auth) w in (r, l, w))
           | None \<Rightarrow>
               (let ref = normalizeOCIRef ociRef;
                    key = tagCacheKey ref;
                    (hit, w) = fresh_entry (o_Now oc) te_expiresAt (ld_tagCache l) key w
                in case hit of
                     Some entry \<Rightarrow> (te_tags entry, l, w)
                   | None \<Rightarrow>
                       (let (r, w) = puller_ListTags oc ref None w;
                            (cache, w) = store_entry (o_Now oc) te_expiresAt
                              (\<lambda>t. \<lparr>te_tags = r, te_expiresAt = t\<rparr>) (ld_tagCacheTTL l) key (ld_tagCache l) w
                        in (r, l\<lparr>ld_tagCache := cache\<rparr>, w)))))"


section \<open>The caches as a specification\<close>

text \<open>
  The abstract cache keeps a log of the work actually done: key, outcome and completion time. A
  call either reuses a logged outcome of its key that is younger than the time to live, or does
  the work and logs it. (The concrete code reads the clock before and after, which may move the
  world.)
\<close>

type_synonym 'r work_log = "(string \<times> 'r \<times> instant) list"

inductive abs_call ::
  "('q \<Rightarrow> 'w \<Rightarrow> 'r \<times> 'w) \<Rightarrow> ('q \<Rightarrow> string) \<Rightarrow> duration \<Rightarrow> ('w \<Rightarrow> instant \<times> 'w) \<Rightarrow>
     'q \<Rightarrow> 'r work_log \<times> 'w \<Rightarrow> 'r \<Rightarrow> 'r work_log \<times> 'w \<Rightarrow> bool"
  for work key ttl clock q where
  Reuse: "(key q, r, t) \<in> set log \<Longrightarrow> clock w = (now, w') \<Longrightarrow> now < t + ttl \<Longrightarrow>
    abs_call work key ttl clock q (log, w) r (log, w')"
| Work: "w1 \<in> {w, snd (clock w)} \<Longrightarrow> work q w1 = (r, w2) \<Longrightarrow> clock w2 = (t, w3) \<Longrightarrow>
    w' \<in> {w3, snd (clock w3)} \<Longrightarrow>
    abs_call work key ttl clock q (log, w) r (log @ [(key q, r, t)], w')"

inductive_cases abs_callE: "abs_call work key ttl clock q s r s'"

locale ttl_cache =
  fixes call :: "'q \<Rightarrow> 'l \<times> 'w \<Rightarrow> 'r \<times> 'l \<times> 'w"
    and work :: "'q \<Rightarrow> 'w \<Rightarrow> 'r \<times> 'w"
    and key :: "'q \<Rightarrow> string"
    and entries :: "'l \<Rightarrow> (string \<times> 'r \<times> instant) set"
    and ttl :: "'l \<Rightarrow> duration"
    and clock :: "'w \<Rightarrow> instant \<times> 'w"
  assumes call_cases:
    "call q (l, w) = (r, l', w') \<Longrightarrow>
       (\<exists>e now. (key q, r, e) \<in> entries l \<and> clock w = (now, w') \<and> now < e \<and> l' = l) \<or>
       (\<exists>w1 w2 t w3. w1 \<in> {w, snd (clock w)} \<and> work q w1 = (r, w2) \<and> clock w2 = (t, w3) \<and>
          w' \<in> {w3, snd (clock w3)} \<and> ttl l' = ttl l \<and>
          entries l' \<subseteq> insert (key q, r, t + ttl l) (entries l))"
begin

text \<open>Every entry holds a logged outcome of its key and expires one time to live after it.\<close>

definition accounted :: "'r work_log \<Rightarrow> 'l \<Rightarrow> bool" where
  "accounted log l \<longleftrightarrow>
     (\<forall>(k, r, e)\<in>entries l. \<exists>t. (k, r, t) \<in> set log \<and> e = t + ttl l)"

lemma accounted_empty: "entries l = {} \<Longrightarrow> accounted log l"
  by (simp add: accounted_def)

lemma simulation:
  assumes "accounted log l" and "call q (l, w) = (r, l', w')"
  shows "\<exists>log'. abs_call work key (ttl l) clock q (log, w) r (log', w') \<and> accounted log' l' \<and> ttl l' = ttl l"
  using call_cases[OF assms(2)]
proof (elim disjE exE conjE)
  fix e now
  assume hit: "(key q, r, e) \<in> entries l" "clock w = (now, w')" "now < e" "l' = l"
  from assms(1) hit(1) obtain t where "(key q, r, t) \<in> set log" "e = t + ttl l"
    by (auto simp: accounted_def)
  with hit assms(1) show ?thesis
    by (blast intro: Reuse)
next
  fix w1 w2 t w3
  assume miss: "w1 \<in> {w, snd (clock w)}" "work q w1 = (r, w2)" "clock w2 = (t, w3)"
    "w' \<in> {w3, snd (clock w3)}" "ttl l' = ttl l" "entries l' \<subseteq> insert (key q, r, t + ttl l) (entries l)"
  have "accounted (log @ [(key q, r, t)]) l'"
    using assms(1) miss(5,6) unfolding accounted_def by fastforce
  with Work[of w1 w clock work q r w2 t w3 w' key "ttl l" log] miss show ?thesis
    by blast
qed

end

lemma evict_subset: "set (evict expires now cache) \<subseteq> set cache"
  by (auto simp: evict_def)

lemma set_update_subset: "set (AList.update k v m) \<subseteq> insert (k, v) (set m)"
  by (induction m) auto

lemma store_entry_cases:
  assumes "store_entry clock expires mk ttl key cache w = (cache', w')"
  obtains t w1 where "clock w = (t, w1)" "w' \<in> {w1, snd (clock w1)}"
    "set cache' \<subseteq> insert (key, mk (t + ttl)) (set cache)"
proof -
  obtain t w1 where c: "clock w = (t, w1)"
    by fastforce
  show thesis
    using that[OF c] assms set_update_subset[of key "mk (t + ttl)" cache] evict_subset
    by (fastforce simp: store_entry_def c Let_def split: if_splits prod.splits)
qed

lemma fresh_entry_cases:
  assumes "fresh_entry clock expires cache key w = (hit, w')"
  shows "(case hit of
            Some e \<Rightarrow> (key, e) \<in> set cache \<and> clock w = (fst (clock w), w') \<and> fst (clock w) < expires e
          | None \<Rightarrow> w' \<in> {w, snd (clock w)})"
  using assms by (auto simp: fresh_entry_def dest: map_of_SomeD split: option.splits prod.splits if_splits)

text \<open>The pattern of the two caches as one function, and its two outcomes.\<close>

definition cached_call ::
  "('w \<Rightarrow> instant \<times> 'w) \<Rightarrow> ('e \<Rightarrow> instant) \<Rightarrow> ('e \<Rightarrow> 'r) \<Rightarrow> ('r \<Rightarrow> instant \<Rightarrow> 'e) \<Rightarrow> duration \<Rightarrow> string \<Rightarrow>
     ('w \<Rightarrow> 'r \<times> 'w) \<Rightarrow> (string, 'e) gomap \<Rightarrow> 'w \<Rightarrow> 'r \<times> (string, 'e) gomap \<times> 'w" where
  "cached_call clock expires res mk ttl key work cache w =
     (let (hit, w) = fresh_entry clock expires cache key w
      in case hit of
           Some e \<Rightarrow> (res e, cache, w)
         | None \<Rightarrow>
             (let (r, w) = work w;
                  (cache, w) = store_entry clock expires (mk r) ttl key cache w
              in (r, cache, w)))"

lemma cached_call_cases:
  assumes "cached_call clock expires res mk ttl key work cache w = (r, cache', w')"
    and "\<And>r t. res (mk r t) = r" "\<And>r t. expires (mk r t) = t"
  defines "ents \<equiv> \<lambda>c. (\<lambda>(k, e). (k, res e, expires e)) ` set c"
  shows "(\<exists>e now. (key, r, e) \<in> ents cache \<and> clock w = (now, w') \<and> now < e \<and> cache' = cache) \<or>
    (\<exists>w1 w2 t w3. w1 \<in> {w, snd (clock w)} \<and> work w1 = (r, w2) \<and> clock w2 = (t, w3) \<and>
       w' \<in> {w3, snd (clock w3)} \<and> ents cache' \<subseteq> insert (key, r, t + ttl) (ents cache))"
proof -
  obtain hit w1 where f: "fresh_entry clock expires cache key w = (hit, w1)"
    by fastforce
  note fc = fresh_entry_cases[OF f]
  show ?thesis
  proof (cases hit)
    case (Some e)
    with fc assms(1) f have "r = res e" "cache' = cache" "w' = w1" "(key, e) \<in> set cache"
      "clock w = (fst (clock w), w1)" "fst (clock w) < expires e"
      by (simp_all add: cached_call_def)
    then show ?thesis
      by (auto simp: ents_def)
  next
    case None
    obtain r' w2 where u: "work w1 = (r', w2)"
      by fastforce
    obtain c4 w4 where st: "store_entry clock expires (mk r') ttl key cache w2 = (c4, w4)"
      by fastforce
    from assms(1) f None u st have res: "r = r'" "cache' = c4" "w' = w4"
      by (simp_all add: cached_call_def)
    from store_entry_cases[OF st] obtain t w3 where t: "clock w2 = (t, w3)" "w4 \<in> {w3, snd (clock w3)}"
      and sub: "set c4 \<subseteq> insert (key, mk r' (t + ttl)) (set cache)"
      by metis
    have "ents c4 \<subseteq> insert (key, r', t + ttl) (ents cache)"
      using image_mono[OF sub, of "\<lambda>(k, e). (k, res e, expires e)"] assms(2,3) by (simp add: ents_def)
    then show ?thesis
      using fc None u t res by (intro disjI2) auto
  qed
qed

definition load_entries :: "Loader \<Rightarrow> (string \<times> (string + LoadResult) \<times> instant) set" where
  "load_entries l = (\<lambda>(k, e). (k, ce_result e, ce_expiresAt e)) ` set (ld_cache l)"

definition tag_entries :: "Loader \<Rightarrow> (string \<times> (string + string list) \<times> instant) set" where
  "tag_entries l = (\<lambda>(k, e). (k, te_tags e, te_expiresAt e)) ` set (ld_tagCache l)"

lemma Load_cached:
  "Load x oc ref inline None (l, w) =
     (case cached_call (o_Now oc) ce_expiresAt ce_result (\<lambda>r t. \<lparr>ce_result = r, ce_expiresAt = t\<rparr>)
        (ld_cacheTTL l) (cacheKey x ref inline) (loadUncached oc ref inline None) (ld_cache l) w of
        (r, cache, w') \<Rightarrow> (r, l\<lparr>ld_cache := cache\<rparr>, w'))"
  by (auto simp: Load_def cached_call_def Let_def split: option.split prod.split)

lemma ListTags_cached:
  "ref \<noteq> '''' \<Longrightarrow> ListTags oc ref None (l, w) =
     (case cached_call (o_Now oc) te_expiresAt te_tags (\<lambda>r t. \<lparr>te_tags = r, te_expiresAt = t\<rparr>)
        (ld_tagCacheTTL l) (tagCacheKey (normalizeOCIRef ref)) (puller_ListTags oc (normalizeOCIRef ref) None)
        (ld_tagCache l) w of
        (r, cache, w') \<Rightarrow> (r, l\<lparr>ld_tagCache := cache\<rparr>, w'))"
  by (auto simp: ListTags_def cached_call_def Let_def split: option.split prod.split)

interpretation load_cache: ttl_cache "\<lambda>(ociRef, inline). Load x oc ociRef inline None"
  "\<lambda>(ociRef, inline). loadUncached oc ociRef inline None" "\<lambda>(ociRef, inline). cacheKey x ociRef inline"
  load_entries ld_cacheTTL "o_Now oc"
  for x and oc :: "'w oci_env"
proof (unfold_locales, goal_cases)
  case (1 q l w r l' w')
  obtain ref inline where q: "q = (ref, inline)"
    by (cases q)
  obtain cache where
    c: "cached_call (o_Now oc) ce_expiresAt ce_result (\<lambda>r t. \<lparr>ce_result = r, ce_expiresAt = t\<rparr>)
        (ld_cacheTTL l) (cacheKey x ref inline) (loadUncached oc ref inline None) (ld_cache l) w = (r, cache, w')"
    and l': "l' = l\<lparr>ld_cache := cache\<rparr>"
    using 1 by (auto simp: q Load_cached split: prod.splits)
  from cached_call_cases[OF c] show ?case
    by (auto simp: q l' load_entries_def)
qed


text \<open>The empty reference lists no tags; a non-empty one is split as \<open>c # cs\<close>.\<close>

interpretation tag_cache: ttl_cache "\<lambda>(c, cs). ListTags oc (c # cs) None"
  "\<lambda>(c, cs). puller_ListTags oc (normalizeOCIRef (c # cs)) None" "\<lambda>(c, cs). tagCacheKey (normalizeOCIRef (c # cs))"
  tag_entries ld_tagCacheTTL "o_Now oc"
  for oc :: "'w oci_env"
proof (unfold_locales, goal_cases)
  case (1 q l w r l' w')
  obtain c cs where q: "q = (c, cs)"
    by (cases q)
  obtain cache where
    c: "cached_call (o_Now oc) te_expiresAt te_tags (\<lambda>r t. \<lparr>te_tags = r, te_expiresAt = t\<rparr>)
        (ld_tagCacheTTL l) (tagCacheKey (normalizeOCIRef (c # cs))) (puller_ListTags oc (normalizeOCIRef (c # cs)) None)
        (ld_tagCache l) w = (r, cache, w')"
    and l': "l' = l\<lparr>ld_tagCache := cache\<rparr>"
    using 1 by (auto simp: q ListTags_cached split: prod.splits)
  from cached_call_cases[OF c] show ?case
    by (auto simp: q l' tag_entries_def)
qed

section \<open>The loader in use\<close>

text \<open>
  The loader as a machine: calls of \<open>Load\<close> and \<open>ListTags\<close>, with or without credentials, in any
  order and in any state of the world. The observations are the calls of \<open>Load\<close> without
  credentials: request, world before, outcome, world after.
\<close>

type_synonym 'w load_obs = "(string \<times> string) \<times> 'w \<times> (string + LoadResult) \<times> 'w"

inductive loader_run :: "externals \<Rightarrow> 'w oci_env \<Rightarrow> 'w load_obs list \<Rightarrow> Loader \<Rightarrow> bool"
  for x oc where
  Start: "loader_run x oc [] new_loader"
| Shared: "loader_run x oc obs l \<Longrightarrow> Load x oc ref inline None (l, w) = (r, l', w') \<Longrightarrow>
    loader_run x oc (obs @ [((ref, inline), w, r, w')]) l'"
| Private: "loader_run x oc obs l \<Longrightarrow> Load x oc ref inline (Some auth) (l, w) = (r, l', w') \<Longrightarrow>
    loader_run x oc obs l'"
| Tags: "loader_run x oc obs l \<Longrightarrow> ListTags oc ref auth (l, w) = (ts, l', w') \<Longrightarrow>
    loader_run x oc obs l'"

text \<open>Observations that the abstract cache can produce, with the log of work it ends with.\<close>

inductive explained :: "externals \<Rightarrow> 'w oci_env \<Rightarrow> 'w load_obs list \<Rightarrow> (string + LoadResult) work_log \<Rightarrow> bool"
  for x oc where
  None: "explained x oc [] []"
| Call: "explained x oc obs log \<Longrightarrow>
    abs_call (\<lambda>(ref, inline). loadUncached oc ref inline None) (\<lambda>(ref, inline). cacheKey x ref inline)
      (30 * Second) (o_Now oc) q (log, w) r (log', w') \<Longrightarrow>
    explained x oc (obs @ [(q, w, r, w')]) log'"

lemma Load_private:
  "Load x oc ref inline (Some auth) (l, w) =
     (fst (loadUncached oc ref inline (Some auth) w), l, snd (loadUncached oc ref inline (Some auth) w))"
  by (simp add: Load_def split: prod.split)

lemma ListTags_load_cache:
  assumes "ListTags oc ref auth (l, w) = (ts, l', w')"
  shows "ld_cache l' = ld_cache l \<and> ld_cacheTTL l' = ld_cacheTTL l"
  using assms by (auto simp: ListTags_def Let_def split: option.splits prod.splits if_splits)

lemma loader_simulation:
  assumes "loader_run x oc obs l"
  shows "\<exists>log. explained x oc obs log \<and> load_cache.accounted log l \<and> ld_cacheTTL l = 30 * Second"
  using assms
proof induction
  case Start
  have "load_cache.accounted [] new_loader"
    by (rule load_cache.accounted_empty) (simp add: load_entries_def new_loader_def)
  then show ?case
    by (auto simp: new_loader_def intro: explained.None)
next
  case (Shared obs l ref inline w r l' w')
  then obtain log where log: "explained x oc obs log" "load_cache.accounted log l" "ld_cacheTTL l = 30 * Second"
    by blast
  have call: "(case (ref, inline) of (a, b) \<Rightarrow> Load x oc a b None) (l, w) = (r, l', w')"
    using Shared.hyps(2) by simp
  from load_cache.simulation[OF log(2), of x oc "(ref, inline)", OF call] log(1,3) show ?case
    by (metis explained.Call)
next
  case (Private obs l ref inline auth w r l' w')
  then show ?case
    by (simp add: Load_private)
next
  case (Tags obs l ref auth w ts l' w')
  then obtain log where log: "explained x oc obs log" "load_cache.accounted log l" "ld_cacheTTL l = 30 * Second"
    by blast
  have "load_cache.accounted log l'"
    using log(2) ListTags_load_cache[OF Tags.hyps(2)] unfolding load_cache.accounted_def load_entries_def by simp
  with log(1,3) ListTags_load_cache[OF Tags.hyps(2)] show ?case
    by auto
qed

text \<open>
  C9. The contract cache is transparent up to its time to live. In any run of the loader (loads and
  tag listings, with and without credentials, the world changing at will), the outcomes of the loads
  without credentials are explained by the abstract cache: each one is the outcome of an uncached
  load of the same key, done by that call or by an earlier one of the run less than 30 seconds
  before, errors included; loads with credentials never put an entry in the cache.
\<close>

theorem load_cache_refines:
  assumes "loader_run x oc obs l"
  shows "\<exists>log. explained x oc obs log"
  using loader_simulation[OF assms] by blast

text \<open>
  Credentials are isolated: a load with per-resource credentials returns exactly what an uncached
  load with them returns, whatever the cache holds, and leaves the loader unchanged, so one
  resource's private contract is never served to another from the cache.
\<close>

lemma Load_credentials_isolated:
  "Load x oc ref inline (Some auth) (l, w) =
     (case loadUncached oc ref inline (Some auth) w of (r, w') \<Rightarrow> (r, l, w')) \<and>
   (ref \<noteq> '''' \<longrightarrow> ListTags oc ref (Some auth) (l, w) =
     (case puller_ListTags oc (normalizeOCIRef ref) (Some auth) w of (r, w') \<Rightarrow> (r, l, w')))"
  by (simp add: Load_def ListTags_def split: prod.split)

section \<open>Keys\<close>

lemma strip_tag_tagged:
  assumes "CHR '':'' \<notin> set t" "CHR ''/'' \<notin> set t"
  shows "strip_tag (r @ CHR '':'' # t) = r"
proof -
  have colon: "LastIndex (r @ CHR '':'' # t) '':'' = int (length r)"
    using assms(1) by (rule LastIndex_split)
  moreover have "LastIndex (r @ CHR '':'' # t) ''/'' < int (length r)"
  proof (cases "CHR ''/'' \<in> set r")
    case True
    then obtain a b where r: "r = a @ CHR ''/'' # b" "CHR ''/'' \<notin> set b"
      by (metis split_list_last)
    then show ?thesis
      using LastIndex_split[of "CHR ''/''" "b @ CHR '':'' # t" a] assms(2) by simp
  next
    case False
    then show ?thesis
      using assms(2) by simp
  qed
  ultimately show ?thesis
    by (simp add: strip_tag_def Let_def slice_to_def)
qed

lemma strip_tag_untagged:
  assumes "CHR '':'' \<notin> set (last_segment r)"
  shows "strip_tag r = r"
proof (cases "CHR ''/'' \<in> set r")
  case True
  then obtain a b where r: "r = a @ CHR ''/'' # b" "CHR ''/'' \<notin> set b"
    by (metis split_list_last)
  then have b: "CHR '':'' \<notin> set b"
    using assms by (simp add: last_segment_no_slash)
  have slash: "LastIndex r ''/'' = int (length a)"
    using r by (simp add: LastIndex_split)
  have "LastIndex r '':'' \<le> int (length a)"
  proof (cases "CHR '':'' \<in> set a")
    case True
    then obtain a1 a2 where "a = a1 @ CHR '':'' # a2" "CHR '':'' \<notin> set a2"
      by (metis split_list_last)
    then show ?thesis
      using r b LastIndex_split[of "CHR '':''" "a2 @ CHR ''/'' # b" a1] by auto
  next
    case False
    then show ?thesis
      using r b by simp
  qed
  then show ?thesis
    by (simp add: strip_tag_def slash)
next
  case False
  then show ?thesis
    using assms by (simp add: strip_tag_def last_segment_no_slash)
qed

lemma strip_ref_image_ref:
  assumes "wf_repo repo" "\<And>t. tag = Some t \<Longrightarrow> wf_tag t" "\<And>d. digest = Some d \<Longrightarrow> wf_digest d"
  shows "strip_ref (image_ref repo tag digest) = repo"
proof -
  let ?base = "image_ref repo tag None"
  have at: "CHR ''@'' \<notin> set ?base"
    using assms by (auto simp: image_ref_def wf_repo_def wf_tag_def split: option.splits)
  have "strip_ref (image_ref repo tag digest) = strip_tag ?base"
  proof (cases digest)
    case None
    then show ?thesis
      using at by (simp add: strip_ref_def Index_one)
  next
    case (Some d)
    then have "image_ref repo tag digest = ?base @ CHR ''@'' # d"
      by (simp add: image_ref_def)
    then show ?thesis
      using Index_split[OF at, of d] by (simp add: strip_ref_def slice_to_def)
  qed
  also have "\<dots> = repo"
    using assms(1,2) strip_tag_tagged strip_tag_untagged
    by (cases tag) (simp_all add: image_ref_def wf_repo_def wf_tag_def)
  finally show ?thesis .
qed

text \<open>
  C36. All references to a repository share one entry of the tag cache, and different repositories
  never do: for well-formed references, with or without tag and digest, the tag cache key is
  \<open>tags:\<close> and the repository. Likewise an inline contract and an OCI contract never share a key of
  the contract cache.
\<close>

theorem cache_keys:
  assumes "wf_repo repo" "wf_repo repo'"
    and "\<forall>t\<in>set_option tag \<union> set_option tag'. wf_tag t"
    and "\<forall>d\<in>set_option dig \<union> set_option dig'. wf_digest d"
  shows "(tagCacheKey (image_ref repo tag dig) = tagCacheKey (image_ref repo' tag' dig') \<longleftrightarrow> repo = repo') \<and>
    (inline \<noteq> '''' \<longrightarrow> cacheKey x ref inline \<noteq> cacheKey x ref' '''')"
  using assms strip_ref_image_ref[of repo tag dig] strip_ref_image_ref[of repo' tag' dig']
  by (auto simp: tagCacheKey_def cacheKey_def)

section \<open>A concrete registry\<close>

text \<open>
  One repository with the contract of the examples; the world is the clock and every request takes
  one second.
\<close>

definition sample_bundle :: Bundle where
  "sample_bundle =
     \<lparr>bd_Contract = \<lparr>c_Service = \<lparr>sv_Name = ''svc'', sv_Version = ''1.0.0'',
         sv_Owner = \<lparr>ow_Team = '''', ow_DRI = '''', ow_Contacts = []\<rparr>, sv_Image = None\<rparr>,
       c_Interfaces = [], c_Configurations = [], c_Dependencies = [], c_Policies = [], c_Runtime = None,
       c_Scaling = None, c_Metadata = [], c_Readiness = None\<rparr>,
      bd_RawYAML = ''service: svc'', bd_FS = None\<rparr>"

definition sample_oci :: "instant oci_env" where
  "sample_oci =
     \<lparr>o_ResolveRef = (\<lambda>_ ref t. (Inr (ref @ '':1.0.0''), t + Second)),
      o_Pull = (\<lambda>_ _ t. (Inr sample_bundle, t + Second)),
      o_Resolve = (\<lambda>_ _ t. (Inr ''sha256:0123456789abcdef'', t + Second)),
      o_ListTags = (\<lambda>_ _ t. (Inr [''1.0.0''], t + Second)),
      o_FilterSemverTags = (\<lambda>ts. ts),
      o_Parse = (\<lambda>_. Inr (bd_Contract sample_bundle)),
      o_Now = (\<lambda>t. (t, t))\<rparr>"

theorem load_cache_refines_witness:
  "\<exists>r l' w' log. Load documented sample_oci ''ghcr.io/org/svc'' '''' None (new_loader, 0) = (r, l', w') \<and>
     explained documented sample_oci [((''ghcr.io/org/svc'', ''''), 0, r, w')] log"
proof -
  obtain r l' w' where load: "Load documented sample_oci ''ghcr.io/org/svc'' '''' None (new_loader, 0) = (r, l', w')"
    by (metis prod.collapse)
  have "loader_run documented sample_oci ([] @ [((''ghcr.io/org/svc'', ''''), 0, r, w')]) l'"
    using loader_run.Start load by (rule loader_run.Shared)
  from load_cache_refines[OF this] load show ?thesis
    by auto
qed

theorem cache_keys_witness:
  "tagCacheKey ''ghcr.io/a:1'' = tagCacheKey ''ghcr.io/a'' \<and> tagCacheKey ''ghcr.io/a:1'' \<noteq> tagCacheKey ''ghcr.io/b''"
proof -
  have "wf_repo ''ghcr.io/a''" "wf_repo ''ghcr.io/b''"
    "\<forall>t\<in>set_option (Some ''1'') \<union> set_option None. wf_tag t"
    "\<forall>d\<in>set_option None \<union> set_option None. wf_digest d"
    by (simp_all add: wf_repo_def last_segment_def wf_tag_def)
  note wf = this
  have "''ghcr.io/a:1'' = image_ref ''ghcr.io/a'' (Some ''1'') None" "''ghcr.io/a'' = image_ref ''ghcr.io/a'' None None"
    "''ghcr.io/b'' = image_ref ''ghcr.io/b'' None None"
    by (simp_all add: image_ref_def)
  with cache_keys[OF wf(1,1,3,4)] cache_keys[OF wf(1,2,3,4)] show ?thesis
    by simp
qed

end
