(* ===== verification/Loader_Concurrent.thy ===== *)
theory Loader_Concurrent
  imports Loader
begin

text \<open>
  The loader under concurrent use (\<^verbatim>\<open>internal/loader/contract.go\<close>). \<open>Load\<close> and \<open>ListTags\<close> hold a
  read-write mutex only while they look into their cache and while they write to it; the pull in
  between runs unlocked. Each call is a thread that moves from one of these points to the next; any
  thread may move at any time, the world may change by itself, and calls may start at any time.
\<close>

section \<open>Calls, mutexes and threads\<close>

datatype request =
    LoadReq string string "AuthConfig option"
  | TagsReq string "AuthConfig option"

datatype response =
    LoadResp "string + LoadResult"
  | TagsResp "string + string list"

datatype mutex_id = CacheMu | TagCacheMu

fun mutex_of :: "request \<Rightarrow> mutex_id" where
  "mutex_of (LoadReq _ _ _) = CacheMu"
| "mutex_of (TagsReq _ _) = TagCacheMu"

text \<open>Calls that use the cache: those without credentials, and not for the empty repository.\<close>

fun shared :: "request \<Rightarrow> bool" where
  "shared (LoadReq ociRef inline authOverride) \<longleftrightarrow> authOverride = None"
| "shared (TagsReq ociRef authOverride) \<longleftrightarrow> ociRef \<noteq> '''' \<and> authOverride = None"

fun cache_key :: "externals \<Rightarrow> request \<Rightarrow> string" where
  "cache_key x (LoadReq ociRef inline _) = cacheKey x ociRef inline"
| "cache_key x (TagsReq ociRef _) = tagCacheKey (normalizeOCIRef ociRef)"

fun uncached :: "'w oci_env \<Rightarrow> request \<Rightarrow> 'w \<Rightarrow> response \<times> 'w" where
  "uncached oc (LoadReq ociRef inline authOverride) w =
     (case loadUncached oc ociRef inline authOverride w of (r, w') \<Rightarrow> (LoadResp r, w'))"
| "uncached oc (TagsReq ociRef authOverride) w =
     (if ociRef = '''' then (TagsResp (Inr []), w)
      else case puller_ListTags oc (normalizeOCIRef ociRef) authOverride w of (r, w') \<Rightarrow> (TagsResp r, w'))"

text \<open>The critical section under the read lock, and the one under the write lock.\<close>

fun check_cache :: "externals \<Rightarrow> 'w oci_env \<Rightarrow> request \<Rightarrow> Loader \<Rightarrow> 'w \<Rightarrow> response option \<times> 'w" where
  "check_cache x oc (LoadReq ociRef inline authOverride) l w =
     (case fresh_entry (o_Now oc) ce_expiresAt (ld_cache l) (cacheKey x ociRef inline) w of
        (hit, w') \<Rightarrow> (map_option (\<lambda>e. LoadResp (ce_result e)) hit, w'))"
| "check_cache x oc (TagsReq ociRef authOverride) l w =
     (case fresh_entry (o_Now oc) te_expiresAt (ld_tagCache l) (tagCacheKey (normalizeOCIRef ociRef)) w of
        (hit, w') \<Rightarrow> (map_option (\<lambda>e. TagsResp (te_tags e)) hit, w'))"

fun store_result :: "externals \<Rightarrow> 'w oci_env \<Rightarrow> request \<Rightarrow> response \<Rightarrow> Loader \<Rightarrow> 'w \<Rightarrow> Loader \<times> 'w" where
  "store_result x oc (LoadReq ociRef inline _) (LoadResp r) l w =
     (case store_entry (o_Now oc) ce_expiresAt (\<lambda>t. \<lparr>ce_result = r, ce_expiresAt = t\<rparr>) (ld_cacheTTL l)
             (cacheKey x ociRef inline) (ld_cache l) w of
        (cache, w') \<Rightarrow> (l\<lparr>ld_cache := cache\<rparr>, w'))"
| "store_result x oc (TagsReq ociRef _) (TagsResp r) l w =
     (case store_entry (o_Now oc) te_expiresAt (\<lambda>t. \<lparr>te_tags = r, te_expiresAt = t\<rparr>) (ld_tagCacheTTL l)
             (tagCacheKey (normalizeOCIRef ociRef)) (ld_tagCache l) w of
        (cache, w') \<Rightarrow> (l\<lparr>ld_tagCache := cache\<rparr>, w'))"
| "store_result x oc _ _ l w = (l, w)"

text \<open>Where a call is: before the read lock, holding it, without a lock, holding the write lock, returned.\<close>

datatype pc =
    Called request
  | Checking request
  | Missed request
  | Loaded request response
  | Storing request response
  | Returned request response

text \<open>\<open>sync.RWMutex\<close>: the number of read locks held, and whether the write lock is held.\<close>

record mutex =
  mu_readers :: nat
  mu_writer :: bool

text \<open>
  What happened, newest first: uncached work done, a result written to a cache at an instant, a
  result served from a cache at an instant.
\<close>

datatype event =
    Worked mutex_id string response
  | Cached mutex_id string response instant
  | Served mutex_id string response instant

record 'w loader_sys =
  sy_loader :: Loader
  sy_world :: 'w
  sy_mu :: "mutex_id \<Rightarrow> mutex"
  sy_threads :: "pc list"
  sy_log :: "event list"

definition move :: "nat \<Rightarrow> pc \<Rightarrow> 'w loader_sys \<Rightarrow> 'w loader_sys" where
  "move i p s = s\<lparr>sy_threads := (sy_threads s)[i := p]\<rparr>"

definition upd_mu :: "mutex_id \<Rightarrow> (mutex \<Rightarrow> mutex) \<Rightarrow> 'w loader_sys \<Rightarrow> 'w loader_sys" where
  "upd_mu m f s = s\<lparr>sy_mu := (sy_mu s)(m := f (sy_mu s m))\<rparr>"

definition RLock :: "mutex \<Rightarrow> mutex" where
  "RLock mu = mu\<lparr>mu_readers := mu_readers mu + 1\<rparr>"

definition RUnlock :: "mutex \<Rightarrow> mutex" where
  "RUnlock mu = mu\<lparr>mu_readers := mu_readers mu - 1\<rparr>"

definition Lock :: "mutex \<Rightarrow> mutex" where
  "Lock mu = mu\<lparr>mu_writer := True\<rparr>"

definition Unlock :: "mutex \<Rightarrow> mutex" where
  "Unlock mu = mu\<lparr>mu_writer := False\<rparr>"

definition note_event :: "event \<Rightarrow> 'w loader_sys \<Rightarrow> 'w loader_sys" where
  "note_event e s = s\<lparr>sy_log := e # sy_log s\<rparr>"

definition at_pc :: "'w loader_sys \<Rightarrow> nat \<Rightarrow> pc \<Rightarrow> bool" where
  "at_pc s i p \<longleftrightarrow> i < length (sy_threads s) \<and> sy_threads s ! i = p"

section \<open>Steps\<close>

inductive thread_step :: "externals \<Rightarrow> 'w oci_env \<Rightarrow> 'w loader_sys \<Rightarrow> 'w loader_sys \<Rightarrow> bool"
  for x oc where
  Direct: "at_pc s i (Called q) \<Longrightarrow> \<not> shared q \<Longrightarrow> uncached oc q (sy_world s) = (r, w') \<Longrightarrow>
    thread_step x oc s (move i (Returned q r) (s\<lparr>sy_world := w'\<rparr>))"
| Acquire: "at_pc s i (Called q) \<Longrightarrow> shared q \<Longrightarrow> \<not> mu_writer (sy_mu s (mutex_of q)) \<Longrightarrow>
    thread_step x oc s (move i (Checking q) (upd_mu (mutex_of q) RLock s))"
| Hit: "at_pc s i (Checking q) \<Longrightarrow> check_cache x oc q (sy_loader s) (sy_world s) = (Some r, w') \<Longrightarrow>
    thread_step x oc s (note_event (Served (mutex_of q) (cache_key x q) r (fst (o_Now oc (sy_world s))))
      (move i (Returned q r) (upd_mu (mutex_of q) RUnlock (s\<lparr>sy_world := w'\<rparr>))))"
| Miss: "at_pc s i (Checking q) \<Longrightarrow> check_cache x oc q (sy_loader s) (sy_world s) = (None, w') \<Longrightarrow>
    thread_step x oc s (move i (Missed q) (upd_mu (mutex_of q) RUnlock (s\<lparr>sy_world := w'\<rparr>)))"
| Work: "at_pc s i (Missed q) \<Longrightarrow> uncached oc q (sy_world s) = (r, w') \<Longrightarrow>
    thread_step x oc s (note_event (Worked (mutex_of q) (cache_key x q) r)
      (move i (Loaded q r) (s\<lparr>sy_world := w'\<rparr>)))"
| Exclude: "at_pc s i (Loaded q r) \<Longrightarrow> \<not> mu_writer (sy_mu s (mutex_of q)) \<Longrightarrow>
    mu_readers (sy_mu s (mutex_of q)) = 0 \<Longrightarrow>
    thread_step x oc s (move i (Storing q r) (upd_mu (mutex_of q) Lock s))"
| Store: "at_pc s i (Storing q r) \<Longrightarrow> store_result x oc q r (sy_loader s) (sy_world s) = (l', w') \<Longrightarrow>
    thread_step x oc s (note_event (Cached (mutex_of q) (cache_key x q) r (fst (o_Now oc (sy_world s))))
      (move i (Returned q r) (upd_mu (mutex_of q) Unlock (s\<lparr>sy_loader := l', sy_world := w'\<rparr>))))"

inductive loader_step :: "externals \<Rightarrow> 'w oci_env \<Rightarrow> 'w loader_sys \<Rightarrow> 'w loader_sys \<Rightarrow> bool"
  for x oc where
  Thread: "thread_step x oc s s' \<Longrightarrow> loader_step x oc s s'"
| World: "loader_step x oc s (s\<lparr>sy_world := w'\<rparr>)"
| Call: "loader_step x oc s (s\<lparr>sy_threads := sy_threads s @ [Called q]\<rparr>)"

definition initial :: "'w \<Rightarrow> 'w loader_sys" where
  "initial w =
     \<lparr>sy_loader = new_loader, sy_world = w, sy_mu = (\<lambda>_. \<lparr>mu_readers = 0, mu_writer = False\<rparr>),
      sy_threads = [], sy_log = []\<rparr>"

inductive reachable :: "externals \<Rightarrow> 'w oci_env \<Rightarrow> 'w loader_sys \<Rightarrow> bool" for x oc where
  Init: "reachable x oc (initial w)"
| Step: "reachable x oc s \<Longrightarrow> loader_step x oc s s' \<Longrightarrow> reachable x oc s'"

lemmas sys_defs = move_def upd_mu_def note_event_def RLock_def RUnlock_def Lock_def Unlock_def

inductive_cases thread_stepE: "thread_step x oc s s'"
inductive_cases loader_stepE: "loader_step x oc s s'"

section \<open>Locks\<close>

fun reading :: "mutex_id \<Rightarrow> pc \<Rightarrow> bool" where
  "reading m (Checking q) \<longleftrightarrow> mutex_of q = m"
| "reading m _ \<longleftrightarrow> False"

fun writing :: "mutex_id \<Rightarrow> pc \<Rightarrow> bool" where
  "writing m (Storing q r) \<longleftrightarrow> mutex_of q = m"
| "writing m _ \<longleftrightarrow> False"

definition threads_in :: "(pc \<Rightarrow> bool) \<Rightarrow> pc list \<Rightarrow> nat" where
  "threads_in P ps = length (filter P ps)"

text \<open>The mutexes count the threads in the critical sections, and a writer is alone.\<close>

definition lock_inv :: "'w loader_sys \<Rightarrow> bool" where
  "lock_inv s \<longleftrightarrow>
     (\<forall>m. mu_readers (sy_mu s m) = threads_in (reading m) (sy_threads s) \<and>
        of_bool (mu_writer (sy_mu s m)) = threads_in (writing m) (sy_threads s) \<and>
        (mu_writer (sy_mu s m) \<longrightarrow> mu_readers (sy_mu s m) = 0))"

lemma lock_invD:
  assumes "lock_inv s"
  shows "mu_readers (sy_mu s m) = threads_in (reading m) (sy_threads s)"
    "of_bool (mu_writer (sy_mu s m)) = threads_in (writing m) (sy_threads s)"
    "mu_writer (sy_mu s m) \<Longrightarrow> mu_readers (sy_mu s m) = 0"
  using assms unfolding lock_inv_def by blast+

lemma threads_in_update:
  "i < length ps \<Longrightarrow> threads_in P (ps[i := p]) + of_bool (P (ps ! i)) = threads_in P ps + of_bool (P p)"
proof (induction ps arbitrary: i)
  case (Cons a ps)
  then show ?case
    by (cases i) (auto simp: threads_in_def)
qed simp

lemma threads_in_append [simp]: "threads_in P (ps @ [p]) = threads_in P ps + of_bool (P p)"
  by (simp add: threads_in_def)

lemma threads_in_pos: "0 < threads_in P ps \<longleftrightarrow> (\<exists>i<length ps. P (ps ! i))"
  unfolding threads_in_def length_greater_0_conv filter_empty_conv Set.ball_simps not_all
  by (metis in_set_conv_nth)

text \<open>A step that moves one thread and changes the mutexes accordingly.\<close>

lemma lock_inv_moved:
  assumes "lock_inv s" "at_pc s i p" "sy_threads s' = (sy_threads s)[i := p']"
    and "\<And>m. mu_readers (sy_mu s' m) + of_bool (reading m p) = mu_readers (sy_mu s m) + of_bool (reading m p')"
    and "\<And>m. of_bool (mu_writer (sy_mu s' m)) + of_bool (writing m p) =
        (of_bool (mu_writer (sy_mu s m)) + of_bool (writing m p') :: nat)"
    and "\<And>m. mu_writer (sy_mu s' m) \<Longrightarrow> mu_readers (sy_mu s' m) = 0"
  shows "lock_inv s'"
  unfolding lock_inv_def
proof (intro allI conjI impI)
  fix m
  have i: "i < length (sy_threads s)" "sy_threads s ! i = p"
    using assms(2) by (simp_all add: at_pc_def)
  note inv = lock_invD[OF assms(1), of m]
  show "mu_readers (sy_mu s' m) = threads_in (reading m) (sy_threads s')"
    using threads_in_update[OF i(1), of "reading m" p'] assms(4)[of m] inv(1) by (simp add: assms(3) i(2))
  show "of_bool (mu_writer (sy_mu s' m)) = threads_in (writing m) (sy_threads s')"
    using threads_in_update[OF i(1), of "writing m" p'] assms(5)[of m] inv(2) by (simp add: assms(3) i(2))
qed (rule assms(6))

lemma lock_inv_at:
  assumes "lock_inv s" "at_pc s i p"
  shows "reading m p \<Longrightarrow> 0 < mu_readers (sy_mu s m) \<and> \<not> mu_writer (sy_mu s m)"
    "writing m p \<Longrightarrow> mu_writer (sy_mu s m) \<and> mu_readers (sy_mu s m) = 0"
proof -
  note inv = lock_invD[OF assms(1), of m]
  show "0 < mu_readers (sy_mu s m) \<and> \<not> mu_writer (sy_mu s m)" if "reading m p"
    using threads_in_pos[of "reading m" "sy_threads s"] assms(2) that inv(1,3) by (auto simp: at_pc_def)
  show "mu_writer (sy_mu s m) \<and> mu_readers (sy_mu s m) = 0" if "writing m p"
  proof -
    have "0 < threads_in (writing m) (sy_threads s)"
      using threads_in_pos[of "writing m" "sy_threads s"] assms(2) that by (auto simp: at_pc_def)
    with inv(2) have "mu_writer (sy_mu s m)"
      by (cases "mu_writer (sy_mu s m)") simp_all
    with inv(3) show ?thesis
      by simp
  qed
qed

lemma lock_inv_thread:
  assumes "thread_step x oc s s'" "lock_inv s"
  shows "lock_inv s'"
proof -
  note alone = lock_invD(3)[OF assms(2)]
  note at = lock_inv_at[OF assms(2)]
  from assms(1) show ?thesis
  proof cases
    case (Hit i q r w')
    then show ?thesis
      using alone at(1)[OF Hit(2), of "mutex_of q"]
      by (intro lock_inv_moved[OF assms(2) Hit(2), of _ "Returned q r"]) (auto simp: sys_defs)
  next
    case (Miss i q w')
    then show ?thesis
      using alone at(1)[OF Miss(2), of "mutex_of q"]
      by (intro lock_inv_moved[OF assms(2) Miss(2), of _ "Missed q"]) (auto simp: sys_defs)
  next
    case (Store i q r l' w')
    then show ?thesis
      using alone at(2)[OF Store(2), of "mutex_of q"]
      by (intro lock_inv_moved[OF assms(2) Store(2), of _ "Returned q r"]) (auto simp: sys_defs)
  qed (use alone in \<open>auto intro!: lock_inv_moved[OF assms(2)] simp: sys_defs\<close>)
qed

lemma lock_inv_reachable: "reachable x oc s \<Longrightarrow> lock_inv s"
proof (induction rule: reachable.induct)
  case (Init w)
  show ?case
    by (simp add: lock_inv_def initial_def threads_in_def)
next
  case (Step s s')
  from Step(2) show ?case
  proof cases
    case Thread
    with Step show ?thesis
      by (blast intro: lock_inv_thread)
  qed (use lock_invD[OF Step(3)] in \<open>simp_all add: lock_inv_def\<close>)
qed


section \<open>What the caches serve\<close>

definition ttl_of :: "mutex_id \<Rightarrow> duration" where
  "ttl_of m = (case m of CacheMu \<Rightarrow> 30 * Second | TagCacheMu \<Rightarrow> 5 * Minute)"

definition entries_of :: "mutex_id \<Rightarrow> Loader \<Rightarrow> (string \<times> response \<times> instant) set" where
  "entries_of m l =
     (case m of
        CacheMu \<Rightarrow> (\<lambda>(k, r, e). (k, LoadResp r, e)) ` load_entries l
      | TagCacheMu \<Rightarrow> (\<lambda>(k, r, e). (k, TagsResp r, e)) ` tag_entries l)"

definition standard_ttl :: "Loader \<Rightarrow> bool" where
  "standard_ttl l \<longleftrightarrow> ld_cacheTTL l = ttl_of CacheMu \<and> ld_tagCacheTTL l = ttl_of TagCacheMu"

text \<open>
  A log is sound when every cached result was worked out before, for its key, and every result
  served had been cached for its key less than the time to live ago.
\<close>

fun log_sound :: "event list \<Rightarrow> bool" where
  "log_sound [] = True"
| "log_sound (Worked m k r # es) = log_sound es"
| "log_sound (Cached m k r t # es) = (Worked m k r \<in> set es \<and> log_sound es)"
| "log_sound (Served m k r now # es) = ((\<exists>t. Cached m k r t \<in> set es \<and> now < t + ttl_of m) \<and> log_sound es)"

lemma cached_worked: "log_sound es \<Longrightarrow> Cached m k r t \<in> set es \<Longrightarrow> Worked m k r \<in> set es"
  by (induction es rule: log_sound.induct) auto

lemma check_cache_hit:
  assumes "check_cache x oc q l w = (Some r, w')"
  shows "\<exists>e. (cache_key x q, r, e) \<in> entries_of (mutex_of q) l \<and> fst (o_Now oc w) < e"
proof (cases q)
  case (LoadReq ref inline auth)
  with assms obtain e where "fresh_entry (o_Now oc) ce_expiresAt (ld_cache l) (cacheKey x ref inline) w = (Some e, w')"
    "r = LoadResp (ce_result e)"
    by (auto split: prod.splits)
  with fresh_entry_cases[OF this(1)] show ?thesis
    by (force simp: LoadReq entries_of_def load_entries_def)
next
  case (TagsReq ref auth)
  with assms obtain e where
    "fresh_entry (o_Now oc) te_expiresAt (ld_tagCache l) (tagCacheKey (normalizeOCIRef ref)) w = (Some e, w')"
    "r = TagsResp (te_tags e)"
    by (auto split: prod.splits)
  with fresh_entry_cases[OF this(1)] show ?thesis
    by (force simp: TagsReq entries_of_def tag_entries_def)
qed

lemma store_entry_set:
  assumes "store_entry clock expires mk ttl key cache w = (cache', w')"
  shows "set cache' \<subseteq> insert (key, mk (fst (clock w) + ttl)) (set cache)"
  using store_entry_cases[OF assms] by (metis fst_conv)

lemma store_result_entries:
  assumes "store_result x oc q r l w = (l', w')" "standard_ttl l"
  shows "standard_ttl l' \<and>
    entries_of m l' \<subseteq>
      (if m = mutex_of q then insert (cache_key x q, r, fst (o_Now oc w) + ttl_of m) (entries_of m l) else entries_of m l)"
proof -
  note ttl = assms(2)[unfolded standard_ttl_def]
  consider (load) ref inline auth res where "q = LoadReq ref inline auth" "r = LoadResp res"
    | (tags) ref auth res where "q = TagsReq ref auth" "r = TagsResp res"
    | (other) "l' = l"
    using assms(1) by (cases q; cases r) auto
  then show ?thesis
  proof cases
    case load
    obtain cache where st: "store_entry (o_Now oc) ce_expiresAt (\<lambda>t. \<lparr>ce_result = res, ce_expiresAt = t\<rparr>) (ld_cacheTTL l)
        (cacheKey x ref inline) (ld_cache l) w = (cache, w')" and l': "l' = l\<lparr>ld_cache := cache\<rparr>"
      using assms(1) by (auto simp: load split: prod.splits)
    have "entries_of CacheMu l' \<subseteq> insert (cacheKey x ref inline, LoadResp res, fst (o_Now oc w) + ttl_of CacheMu) (entries_of CacheMu l)"
      using image_mono[OF store_entry_set[OF st], of "\<lambda>(k, e). (k, LoadResp (ce_result e), ce_expiresAt e)"] ttl
      by (simp add: l' entries_of_def load_entries_def image_image case_prod_unfold)
    then show ?thesis
      using ttl by (cases m) (simp_all add: load l' standard_ttl_def entries_of_def tag_entries_def)
  next
    case tags
    obtain cache where st: "store_entry (o_Now oc) te_expiresAt (\<lambda>t. \<lparr>te_tags = res, te_expiresAt = t\<rparr>) (ld_tagCacheTTL l)
        (tagCacheKey (normalizeOCIRef ref)) (ld_tagCache l) w = (cache, w')" and l': "l' = l\<lparr>ld_tagCache := cache\<rparr>"
      using assms(1) by (auto simp: tags split: prod.splits)
    have "entries_of TagCacheMu l' \<subseteq>
        insert (tagCacheKey (normalizeOCIRef ref), TagsResp res, fst (o_Now oc w) + ttl_of TagCacheMu) (entries_of TagCacheMu l)"
      using image_mono[OF store_entry_set[OF st], of "\<lambda>(k, e). (k, TagsResp (te_tags e), te_expiresAt e)"] ttl
      by (simp add: l' entries_of_def tag_entries_def image_image case_prod_unfold)
    then show ?thesis
      using ttl by (cases m) (simp_all add: tags l' standard_ttl_def entries_of_def load_entries_def)
  next
    case other
    with assms(2) show ?thesis
      by auto
  qed
qed

text \<open>
  The invariant: the log is sound, a thread that carries or has returned a shared result carries one
  that was worked out for its key, and every cache entry is a logged write with its expiry.
\<close>

fun backed :: "externals \<Rightarrow> event list \<Rightarrow> pc \<Rightarrow> bool" where
  "backed x es (Loaded q r) \<longleftrightarrow> Worked (mutex_of q) (cache_key x q) r \<in> set es"
| "backed x es (Storing q r) \<longleftrightarrow> Worked (mutex_of q) (cache_key x q) r \<in> set es"
| "backed x es (Returned q r) \<longleftrightarrow> \<not> shared q \<or> Worked (mutex_of q) (cache_key x q) r \<in> set es"
| "backed x es _ \<longleftrightarrow> True"

definition entries_logged :: "Loader \<Rightarrow> event list \<Rightarrow> bool" where
  "entries_logged l es \<longleftrightarrow>
     (\<forall>m k r e. (k, r, e) \<in> entries_of m l \<longrightarrow> (\<exists>t. Cached m k r t \<in> set es \<and> e = t + ttl_of m))"

definition cache_inv :: "externals \<Rightarrow> 'w loader_sys \<Rightarrow> bool" where
  "cache_inv x s \<longleftrightarrow>
     log_sound (sy_log s) \<and> standard_ttl (sy_loader s) \<and> (\<forall>p\<in>set (sy_threads s). backed x (sy_log s) p) \<and>
     entries_logged (sy_loader s) (sy_log s)"

lemma entries_logged_mono: "entries_logged l es \<Longrightarrow> set es \<subseteq> set es' \<Longrightarrow> entries_logged l es'"
  unfolding entries_logged_def by blast

lemma entries_logged_store:
  assumes "store_result x oc q r l w = (l', w')" "standard_ttl l" "entries_logged l es"
    "Cached (mutex_of q) (cache_key x q) r (fst (o_Now oc w)) \<in> set es"
  shows "entries_logged l' es"
  unfolding entries_logged_def
proof (intro allI impI)
  fix m k r' e
  assume "(k, r', e) \<in> entries_of m l'"
  with store_result_entries[OF assms(1,2), of m]
  have "(k, r', e) \<in> entries_of m l \<or>
      m = mutex_of q \<and> (k, r', e) = (cache_key x q, r, fst (o_Now oc w) + ttl_of m)"
    by (auto split: if_splits)
  with assms(3,4) show "\<exists>t. Cached m k r' t \<in> set es \<and> e = t + ttl_of m"
    unfolding entries_logged_def by blast
qed

lemma backed_mono: "backed x es p \<Longrightarrow> set es \<subseteq> set es' \<Longrightarrow> backed x es' p"
  by (cases p) auto

lemma cache_inv_move:
  assumes "cache_inv x s" "sy_loader s' = sy_loader s" "sy_threads s' = (sy_threads s)[i := p]"
    "set (sy_log s) \<subseteq> set (sy_log s')" "log_sound (sy_log s')" "backed x (sy_log s') p"
  shows "cache_inv x s'"
proof -
  have "\<forall>p\<in>set (sy_threads s'). backed x (sy_log s') p"
  proof
    fix p'
    assume "p' \<in> set (sy_threads s')"
    then have "p' = p \<or> p' \<in> set (sy_threads s)"
      using set_update_subset_insert[of "sy_threads s" i p] by (auto simp: assms(3))
    then show "backed x (sy_log s') p'"
      using assms(1,6) backed_mono[OF _ assms(4)] by (auto simp: cache_inv_def)
  qed
  with assms(1,2,4,5) show ?thesis
    using entries_logged_mono[OF _ assms(4), of "sy_loader s"] unfolding cache_inv_def by simp
qed

lemma cache_inv_thread:
  assumes "thread_step x oc s s'" "cache_inv x s"
  shows "cache_inv x s'"
  using assms(1)
proof cases
  case (Hit i q r w')
  obtain e where e: "(cache_key x q, r, e) \<in> entries_of (mutex_of q) (sy_loader s)" "fst (o_Now oc (sy_world s)) < e"
    using check_cache_hit[OF Hit(3)] by blast
  then obtain t where "Cached (mutex_of q) (cache_key x q) r t \<in> set (sy_log s)" "e = t + ttl_of (mutex_of q)"
    using assms(2) unfolding cache_inv_def entries_logged_def by blast
  with e(2) assms(2) cached_worked show ?thesis
    unfolding Hit(1) by (intro cache_inv_move[OF assms(2), of _ i "Returned q r"]) (auto simp: sys_defs cache_inv_def)
next
  case (Work i q r w')
  with assms(2) show ?thesis
    by (intro cache_inv_move[OF assms(2), of _ i "Loaded q r"]) (auto simp: sys_defs cache_inv_def)
next
  case (Exclude i q r)
  then have "backed x (sy_log s) (Loaded q r)"
    using assms(2) unfolding cache_inv_def at_pc_def by (metis nth_mem)
  with assms(2) Exclude show ?thesis
    by (intro cache_inv_move[OF assms(2), of _ i "Storing q r"]) (auto simp: sys_defs cache_inv_def)
next
  case (Store i q r l' w')
  have worked: "Worked (mutex_of q) (cache_key x q) r \<in> set (sy_log s)"
    using assms(2) Store(2) unfolding cache_inv_def at_pc_def by (metis backed.simps(2) nth_mem)
  define t where "t = fst (o_Now oc (sy_world s))"
  let ?s = "note_event (Cached (mutex_of q) (cache_key x q) r t) (move i (Returned q r) s)"
  have "cache_inv x ?s"
    using worked assms(2) by (intro cache_inv_move[OF assms(2), of _ i "Returned q r"]) (auto simp: sys_defs cache_inv_def)
  moreover have "standard_ttl l'" "entries_logged l' (sy_log ?s)"
    using assms(2) \<open>cache_inv x ?s\<close> store_result_entries[OF Store(3)]
    by (simp_all add: cache_inv_def) (rule entries_logged_store[OF Store(3)], simp_all add: sys_defs t_def)
  moreover have "sy_log s' = sy_log ?s" "sy_threads s' = sy_threads ?s" "sy_loader s' = l'"
    by (simp_all add: Store(1) t_def sys_defs)
  ultimately show ?thesis
    by (simp add: cache_inv_def)
qed (auto intro!: cache_inv_move[OF assms(2)] simp: sys_defs assms(2)[unfolded cache_inv_def])

lemma cache_inv_reachable: "reachable x oc s \<Longrightarrow> cache_inv x s"
proof (induction rule: reachable.induct)
  case (Init w)
  show ?case
    by (simp add: cache_inv_def entries_logged_def initial_def new_loader_def standard_ttl_def ttl_of_def entries_of_def
        load_entries_def tag_entries_def split: mutex_id.split)
next
  case (Step s s')
  from Step(2) show ?case
  proof cases
    case Thread
    with Step show ?thesis
      by (blast intro: cache_inv_thread)
  qed (use Step(3) in \<open>auto simp: cache_inv_def\<close>)
qed


lemma log_sound_suffix: "log_sound (es @ es') \<Longrightarrow> log_sound es'"
  by (induction es rule: log_sound.induct) auto

lemma threads_in_one:
  assumes "threads_in P ps = 1" "i < length ps" "j < length ps" "P (ps ! i)" "P (ps ! j)"
  shows "i = j"
proof (rule ccontr)
  assume "i \<noteq> j"
  let ?I = "{k. k < length ps \<and> P (ps ! k)}"
  have "card {i, j} \<le> card ?I"
    using assms(2-5) by (intro card_mono) auto
  with \<open>i \<noteq> j\<close> assms(1) show False
    by (simp add: threads_in_def length_filter_conv_card)
qed

lemma lock_alone:
  assumes "lock_inv s" "i < length (sy_threads s)" "j < length (sy_threads s)" "writing m (sy_threads s ! i)"
    "reading m (sy_threads s ! j) \<or> writing m (sy_threads s ! j)"
  shows "j = i"
proof -
  have at: "at_pc s i (sy_threads s ! i)" "at_pc s j (sy_threads s ! j)"
    using assms(2,3) by (simp_all add: at_pc_def)
  have held: "mu_writer (sy_mu s m)"
    using lock_inv_at(2)[OF assms(1) at(1) assms(4)] by simp
  then have "\<not> reading m (sy_threads s ! j)"
    using lock_inv_at(1)[OF assms(1) at(2)] by blast
  moreover have "threads_in (writing m) (sy_threads s) = 1"
    using lock_invD(2)[OF assms(1), of m] held by simp
  ultimately show ?thesis
    using threads_in_one[of "writing m" "sy_threads s" j i] assms by blast
qed

text \<open>
  C10. Concurrent calls are served fresh results and never race. In every state reachable by any
  interleaving of calls, with the world changing in between: a thread that writes to a cache is the
  only one in a critical section of that cache (the Go maps are never read and written at the same
  time); every result returned by a call without credentials was worked out by an uncached load for
  the same key during the run; and every result served from a cache had been written for the same key
  less than the time to live (30 seconds for contracts, 5 minutes for tags) before.
\<close>

theorem concurrent_loads_fresh:
  assumes "reachable x oc s"
  shows "(\<forall>m i j. i < length (sy_threads s) \<and> j < length (sy_threads s) \<and> writing m (sy_threads s ! i) \<and>
        (reading m (sy_threads s ! j) \<or> writing m (sy_threads s ! j)) \<longrightarrow> j = i) \<and>
    (\<forall>q r. Returned q r \<in> set (sy_threads s) \<and> shared q \<longrightarrow>
        Worked (mutex_of q) (cache_key x q) r \<in> set (sy_log s)) \<and>
    (\<forall>later m k r now earlier. sy_log s = later @ Served m k r now # earlier \<longrightarrow>
        (\<exists>t. Cached m k r t \<in> set earlier \<and> now < t + ttl_of m))"
proof (intro conjI allI impI)
  fix m i j
  assume ij: "i < length (sy_threads s) \<and> j < length (sy_threads s) \<and> writing m (sy_threads s ! i) \<and>
    (reading m (sy_threads s ! j) \<or> writing m (sy_threads s ! j))"
  then show "j = i"
    using lock_alone[OF lock_inv_reachable[OF assms]] by blast
next
  fix q r
  assume "Returned q r \<in> set (sy_threads s) \<and> shared q"
  then show "Worked (mutex_of q) (cache_key x q) r \<in> set (sy_log s)"
    using cache_inv_reachable[OF assms] unfolding cache_inv_def by (metis backed.simps(3))
next
  fix later m k r now earlier
  assume log: "sy_log s = later @ Served m k r now # earlier"
  have "log_sound (sy_log s)"
    using cache_inv_reachable[OF assms] by (simp add: cache_inv_def)
  then have "log_sound (Served m k r now # earlier)"
    unfolding log by (rule log_sound_suffix)
  then show "\<exists>t. Cached m k r t \<in> set earlier \<and> now < t + ttl_of m"
    by simp
qed


section \<open>Every call returns\<close>

fun rank :: "pc \<Rightarrow> nat" where
  "rank (Called q) = 5"
| "rank (Checking q) = 4"
| "rank (Missed q) = 3"
| "rank (Loaded q r) = 2"
| "rank (Storing q r) = 1"
| "rank (Returned q r) = 0"

definition pending :: "'w loader_sys \<Rightarrow> nat" where
  "pending s = sum_list (map rank (sy_threads s))"

fun request_of :: "pc \<Rightarrow> request" where
  "request_of (Called q) = q"
| "request_of (Checking q) = q"
| "request_of (Missed q) = q"
| "request_of (Loaded q r) = q"
| "request_of (Storing q r) = q"
| "request_of (Returned q r) = q"

lemma rank_le: "rank p \<le> 5"
  by (cases p) simp_all

lemma pending_le: "pending s \<le> 5 * length (sy_threads s)"
proof -
  have "sum_list (map rank ps) \<le> 5 * length ps" for ps
  proof (induction ps)
    case (Cons p ps)
    with rank_le[of p] show ?case
      by simp
  qed simp
  then show ?thesis
    by (simp add: pending_def)
qed

lemma rank_zero: "rank p = 0 \<longleftrightarrow> (\<exists>q r. p = Returned q r)"
  by (cases p) simp_all

lemma pending_move:
  assumes "at_pc s i p" "sy_threads s' = (sy_threads s)[i := p']" "rank p' < rank p" "request_of p' = request_of p"
  shows "pending s' < pending s" "map request_of (sy_threads s') = map request_of (sy_threads s)"
proof -
  have i: "i < length (sy_threads s)" "sy_threads s ! i = p"
    using assms(1) by (simp_all add: at_pc_def)
  show "pending s' < pending s"
    using i assms(3) elem_le_sum_list[of i "map rank (sy_threads s)"]
    by (simp add: pending_def assms(2) map_update sum_list_update)
  show "map request_of (sy_threads s') = map request_of (sy_threads s)"
    using i assms(4) by (simp add: assms(2) map_update list_update_same_conv)
qed

lemma thread_step_moves:
  assumes "thread_step x oc s s'"
  obtains i p p' where "at_pc s i p" "sy_threads s' = (sy_threads s)[i := p']" "rank p' < rank p"
    "request_of p' = request_of p"
  using assms
proof cases
  case (Direct i q r w')
  show ?thesis
    by (rule that[of i "Called q" "Returned q r"]) (use Direct in \<open>simp_all add: sys_defs\<close>)
next
  case (Acquire i q)
  show ?thesis
    by (rule that[of i "Called q" "Checking q"]) (use Acquire in \<open>simp_all add: sys_defs\<close>)
next
  case (Hit i q r w')
  show ?thesis
    by (rule that[of i "Checking q" "Returned q r"]) (use Hit in \<open>simp_all add: sys_defs\<close>)
next
  case (Miss i q w')
  show ?thesis
    by (rule that[of i "Checking q" "Missed q"]) (use Miss in \<open>simp_all add: sys_defs\<close>)
next
  case (Work i q r w')
  show ?thesis
    by (rule that[of i "Missed q" "Loaded q r"]) (use Work in \<open>simp_all add: sys_defs\<close>)
next
  case (Exclude i q r)
  show ?thesis
    by (rule that[of i "Loaded q r" "Storing q r"]) (use Exclude in \<open>simp_all add: sys_defs\<close>)
next
  case (Store i q r l' w')
  show ?thesis
    by (rule that[of i "Storing q r" "Returned q r"]) (use Store in \<open>simp_all add: sys_defs\<close>)
qed

lemma thread_step_pending:
  assumes "thread_step x oc s s'"
  shows "pending s' < pending s \<and> map request_of (sy_threads s') = map request_of (sy_threads s)"
  using thread_step_moves[OF assms] pending_move by metis

lemma thread_steps_pending: "(thread_step x oc ^^ n) s s' \<Longrightarrow> n + pending s' \<le> pending s"
proof (induction n arbitrary: s')
  case (Suc n)
  then obtain u where "(thread_step x oc ^^ n) s u" "thread_step x oc u s'"
    by auto
  with Suc.IH[of u] thread_step_pending[of x oc u s'] show ?case
    by simp
qed simp

lemma thread_step_enabled:
  assumes "lock_inv s" "at_pc s i p" "rank p \<noteq> 0"
  shows "\<exists>s'. thread_step x oc s s'"
proof (cases "\<exists>j q. at_pc s j (Checking q)")
  case True
  then obtain j q where j: "at_pc s j (Checking q)"
    by blast
  obtain hit w' where "check_cache x oc q (sy_loader s) (sy_world s) = (hit, w')"
    by fastforce
  then show ?thesis
    using Hit[OF j] Miss[OF j] by (cases hit) blast+
next
  case no_reader: False
  show ?thesis
  proof (cases "\<exists>j q r. at_pc s j (Storing q r)")
    case True
    then obtain j q r where j: "at_pc s j (Storing q r)"
      by blast
    obtain l' w' where "store_result x oc q r (sy_loader s) (sy_world s) = (l', w')"
      by fastforce
    then show ?thesis
      using Store[OF j] by blast
  next
    case False
    have "mu_readers (sy_mu s m) = 0 \<and> \<not> mu_writer (sy_mu s m)" for m
    proof -
      have "\<not> reading m (sy_threads s ! j)" "\<not> writing m (sy_threads s ! j)" if "j < length (sy_threads s)" for j
        using no_reader False that by (cases "sy_threads s ! j"; auto simp: at_pc_def)+
      then show ?thesis
        using lock_invD[OF assms(1), of m] threads_in_pos[of "reading m" "sy_threads s"]
          threads_in_pos[of "writing m" "sy_threads s"] by (cases "mu_writer (sy_mu s m)") auto
    qed
    moreover obtain r w' where "uncached oc (request_of p) (sy_world s) = (r, w')"
      by fastforce
    ultimately show ?thesis
      using assms(2,3) no_reader False Direct[of s i _ oc r w' x] Acquire[of s i _ x oc] Work[of s i _ oc r w' x]
        Exclude[of s i _ _ x oc]
      by (cases p) (auto; metis)+
  qed
qed


definition all_returned :: "'w loader_sys \<Rightarrow> bool" where
  "all_returned s \<longleftrightarrow> list_all (\<lambda>p. \<exists>q r. p = Returned q r) (sy_threads s)"

lemma lock_inv_threads: "(thread_step x oc)\<^sup>*\<^sup>* s s' \<Longrightarrow> lock_inv s \<Longrightarrow> lock_inv s'"
  by (induction rule: rtranclp_induct) (blast intro: lock_inv_thread)+

lemma stuck_returned:
  assumes "lock_inv s" "\<not> (\<exists>s'. thread_step x oc s s')"
  shows "all_returned s"
proof -
  have "\<exists>q r. sy_threads s ! i = Returned q r" if "i < length (sy_threads s)" for i
    using thread_step_enabled[OF assms(1), of i "sy_threads s ! i" x oc] assms(2) that rank_zero[of "sy_threads s ! i"]
    by (auto simp: at_pc_def)
  then show ?thesis
    by (simp add: all_returned_def list_all_length)
qed

lemma threads_finish:
  "lock_inv s \<Longrightarrow> \<exists>s'. (thread_step x oc)\<^sup>*\<^sup>* s s' \<and> all_returned s' \<and>
     map request_of (sy_threads s') = map request_of (sy_threads s)"
proof (induction "pending s" arbitrary: s rule: less_induct)
  case less
  show ?case
  proof (cases "\<exists>u. thread_step x oc s u")
    case True
    then obtain u where u: "thread_step x oc s u"
      by blast
    obtain s' where "(thread_step x oc)\<^sup>*\<^sup>* u s'" "all_returned s'"
      "map request_of (sy_threads s') = map request_of (sy_threads u)"
      using less.hyps[of u] thread_step_pending[OF u] lock_inv_thread[OF u less.prems] by blast
    with u thread_step_pending[OF u] show ?thesis
      by (metis converse_rtranclp_into_rtranclp)
  next
    case False
    with stuck_returned[OF less.prems] show ?thesis
      by blast
  qed
qed

text \<open>
  C11. Concurrent calls always return. From every reachable state, whatever the calls in flight: they
  can run to completion, each with its own request; any sequence of their steps is finite (at most
  five steps per call, since nothing is retried); and there is no deadlock, a sequence that cannot be
  continued has let every call return.
\<close>

theorem concurrent_loads_return:
  assumes "reachable x oc s"
  shows "(\<exists>s'. (thread_step x oc)\<^sup>*\<^sup>* s s' \<and> all_returned s' \<and>
        map request_of (sy_threads s') = map request_of (sy_threads s)) \<and>
    (\<forall>n s'. (thread_step x oc ^^ n) s s' \<longrightarrow> n \<le> 5 * length (sy_threads s)) \<and>
    (\<forall>s'. (thread_step x oc)\<^sup>*\<^sup>* s s' \<and> \<not> (\<exists>s''. thread_step x oc s' s'') \<longrightarrow> all_returned s')"
proof -
  have inv: "lock_inv s"
    by (rule lock_inv_reachable[OF assms])
  have "n \<le> 5 * length (sy_threads s)" if "(thread_step x oc ^^ n) s s'" for n s'
    using thread_steps_pending[OF that] pending_le[of s] by simp
  with threads_finish[OF inv] stuck_returned[OF lock_inv_threads[OF _ inv]] show ?thesis
    by blast
qed

section \<open>One call alone\<close>

fun call :: "externals \<Rightarrow> 'w oci_env \<Rightarrow> request \<Rightarrow> Loader \<times> 'w \<Rightarrow> response \<times> Loader \<times> 'w" where
  "call x oc (LoadReq ociRef inline auth) s = (case Load x oc ociRef inline auth s of (r, s') \<Rightarrow> (LoadResp r, s'))"
| "call x oc (TagsReq ociRef auth) s = (case ListTags oc ociRef auth s of (r, s') \<Rightarrow> (TagsResp r, s'))"

lemma call_direct:
  "\<not> shared q \<Longrightarrow> call x oc q (l, w) = (case uncached oc q w of (r, w') \<Rightarrow> (r, l, w'))"
  by (cases q) (auto simp: Load_def ListTags_def split: option.splits prod.splits)

lemma call_shared:
  "shared q \<Longrightarrow> call x oc q (l, w) =
     (case check_cache x oc q l w of
        (Some r, w1) \<Rightarrow> (r, l, w1)
      | (None, w1) \<Rightarrow>
          (case uncached oc q w1 of (r, w2) \<Rightarrow> (case store_result x oc q r l w2 of (l', w3) \<Rightarrow> (r, l', w3))))"
  by (cases q) (auto simp: Load_def ListTags_def Let_def split: option.splits prod.splits)


lemma move_again [simp]: "move i p (move i p' s) = move i p s"
  by (simp add: move_def)

text \<open>The states of a call on its own: after the read lock, after a miss, with the result, with the write lock.\<close>

definition solo_checking :: "nat \<Rightarrow> request \<Rightarrow> 'w loader_sys \<Rightarrow> 'w loader_sys" where
  "solo_checking i q s = move i (Checking q) (upd_mu (mutex_of q) RLock s)"

definition solo_missed :: "nat \<Rightarrow> request \<Rightarrow> 'w \<Rightarrow> 'w loader_sys \<Rightarrow> 'w loader_sys" where
  "solo_missed i q w s = move i (Missed q) (s\<lparr>sy_world := w\<rparr>)"

lemma free_mutex:
  assumes "\<not> mu_writer (sy_mu s m)" "mu_readers (sy_mu s m) = 0"
  shows "(sy_mu s)(m := RUnlock (RLock (sy_mu s m))) = sy_mu s" "(sy_mu s)(m := Unlock (Lock (sy_mu s m))) = sy_mu s"
  using assms
  by (auto simp: fun_eq_iff RLock_def RUnlock_def Lock_def Unlock_def)

lemma undisturbed_check:
  assumes "at_pc s i (Called q)" "shared q" "\<not> mu_writer (sy_mu s (mutex_of q))"
  shows "thread_step x oc s (solo_checking i q s)" "at_pc (solo_checking i q s) i (Checking q)"
    "sy_loader (solo_checking i q s) = sy_loader s" "sy_world (solo_checking i q s) = sy_world s"
  using Acquire[OF assms] assms(1) by (simp_all add: solo_checking_def sys_defs at_pc_def)

lemma undisturbed_hit:
  assumes "at_pc s i (Called q)" "shared q" "\<not> mu_writer (sy_mu s (mutex_of q))" "mu_readers (sy_mu s (mutex_of q)) = 0"
    "check_cache x oc q (sy_loader s) (sy_world s) = (Some r, w')"
  shows "\<exists>s'. (thread_step x oc)\<^sup>*\<^sup>* s s' \<and> sy_loader s' = sy_loader s \<and> sy_world s' = w' \<and> sy_mu s' = sy_mu s \<and>
    sy_threads s' = (sy_threads s)[i := Returned q r]"
proof -
  note start = undisturbed_check[OF assms(1-3)]
  let ?u = "solo_checking i q s"
  let ?t = "note_event (Served (mutex_of q) (cache_key x q) r (fst (o_Now oc (sy_world ?u))))
    (move i (Returned q r) (upd_mu (mutex_of q) RUnlock (?u\<lparr>sy_world := w'\<rparr>)))"
  have "thread_step x oc ?u ?t"
    using assms(5) by (intro Hit[OF start(2)]) (simp add: start(3,4))
  with start(1) have "(thread_step x oc)\<^sup>*\<^sup>* s ?t"
    by (meson converse_rtranclp_into_rtranclp r_into_rtranclp)
  moreover have "sy_mu ?t = (sy_mu s)(mutex_of q := RUnlock (RLock (sy_mu s (mutex_of q))))"
    by (simp add: solo_checking_def move_def upd_mu_def note_event_def)
  ultimately show ?thesis
    using free_mutex[OF assms(3,4)] by (intro exI[of _ ?t]) (simp add: solo_checking_def move_def upd_mu_def note_event_def)
qed

lemma undisturbed_miss:
  assumes "at_pc s i (Called q)" "shared q" "\<not> mu_writer (sy_mu s (mutex_of q))" "mu_readers (sy_mu s (mutex_of q)) = 0"
    "check_cache x oc q (sy_loader s) (sy_world s) = (None, w1)"
  shows "(thread_step x oc)\<^sup>*\<^sup>* s (solo_missed i q w1 s)"
proof -
  note start = undisturbed_check[OF assms(1-3)]
  let ?u = "solo_checking i q s"
  have "thread_step x oc ?u (move i (Missed q) (upd_mu (mutex_of q) RUnlock (?u\<lparr>sy_world := w1\<rparr>)))"
    using assms(5) by (intro Miss[OF start(2)]) (simp add: start(3,4))
  also have "move i (Missed q) (upd_mu (mutex_of q) RUnlock (?u\<lparr>sy_world := w1\<rparr>)) = solo_missed i q w1 s"
    using free_mutex(1)[OF assms(3,4)] by (simp add: solo_checking_def solo_missed_def move_def upd_mu_def)
  finally show ?thesis
    using start(1) by (meson converse_rtranclp_into_rtranclp r_into_rtranclp)
qed

lemma undisturbed_store:
  assumes "at_pc s i (Missed q)" "\<not> mu_writer (sy_mu s (mutex_of q))" "mu_readers (sy_mu s (mutex_of q)) = 0"
    "uncached oc q (sy_world s) = (r, w2)" "store_result x oc q r (sy_loader s) w2 = (l', w')"
  shows "\<exists>s'. (thread_step x oc)\<^sup>*\<^sup>* s s' \<and> sy_loader s' = l' \<and> sy_world s' = w' \<and> sy_mu s' = sy_mu s \<and>
    sy_threads s' = (sy_threads s)[i := Returned q r]"
proof -
  let ?m = "mutex_of q" and ?k = "cache_key x q"
  have i: "i < length (sy_threads s)"
    using assms(1) by (simp add: at_pc_def)
  define s3 where "s3 = note_event (Worked ?m ?k r) (move i (Loaded q r) (s\<lparr>sy_world := w2\<rparr>))"
  have s3: "thread_step x oc s s3" "at_pc s3 i (Loaded q r)" "sy_mu s3 = sy_mu s"
    using Work[OF assms(1,4)] i by (simp_all add: s3_def sys_defs at_pc_def)
  define s4 where "s4 = move i (Storing q r) (upd_mu ?m Lock s3)"
  have s4: "thread_step x oc s3 s4" "at_pc s4 i (Storing q r)" "sy_world s4 = w2" "sy_loader s4 = sy_loader s"
    using Exclude[OF s3(2)] assms(2,3) i by (simp_all add: s3(3) s4_def) (simp_all add: s3_def sys_defs at_pc_def)
  let ?t = "note_event (Cached ?m ?k r (fst (o_Now oc (sy_world s4))))
    (move i (Returned q r) (upd_mu ?m Unlock (s4\<lparr>sy_loader := l', sy_world := w'\<rparr>)))"
  have "thread_step x oc s4 ?t"
    using assms(5) by (intro Store[OF s4(2)]) (simp add: s4(3,4))
  with s3(1) s4(1) have "(thread_step x oc)\<^sup>*\<^sup>* s ?t"
    by (meson converse_rtranclp_into_rtranclp r_into_rtranclp)
  then show ?thesis
    using free_mutex(2)[OF assms(2,3)]
    by (intro exI[of _ ?t]) (simp add: s4_def s3_def move_def upd_mu_def note_event_def)
qed

lemma undisturbed_shared:
  assumes "at_pc s i (Called q)" "shared q" "\<not> mu_writer (sy_mu s (mutex_of q))" "mu_readers (sy_mu s (mutex_of q)) = 0"
    "call x oc q (sy_loader s, sy_world s) = (r, l', w')"
  shows "\<exists>s'. (thread_step x oc)\<^sup>*\<^sup>* s s' \<and> sy_loader s' = l' \<and> sy_world s' = w' \<and> sy_mu s' = sy_mu s \<and>
    sy_threads s' = (sy_threads s)[i := Returned q r]"
proof -
  obtain hit w1 where check: "check_cache x oc q (sy_loader s) (sy_world s) = (hit, w1)"
    by fastforce
  show ?thesis
  proof (cases hit)
    case (Some r')
    with undisturbed_hit[OF assms(1-4), of x oc r' w1] assms(5) check show ?thesis
      by (simp add: call_shared[OF assms(2)])
  next
    case None
    obtain r' w2 where work: "uncached oc q w1 = (r', w2)"
      by fastforce
    obtain l2 w3 where store: "store_result x oc q r' (sy_loader s) w2 = (l2, w3)"
      by fastforce
    have res: "r = r'" "l' = l2" "w' = w3"
      using assms(5) by (simp_all add: call_shared[OF assms(2)] check None work store)
    let ?u = "solo_missed i q w1 s"
    have u: "at_pc ?u i (Missed q)" "sy_mu ?u = sy_mu s" "sy_world ?u = w1" "sy_loader ?u = sy_loader s"
      "(sy_threads ?u)[i := Returned q r] = (sy_threads s)[i := Returned q r]"
      using assms(1) by (simp_all add: solo_missed_def move_def at_pc_def)
    have pre: "\<not> mu_writer (sy_mu ?u (mutex_of q))" "mu_readers (sy_mu ?u (mutex_of q)) = 0"
      "uncached oc q (sy_world ?u) = (r, w2)" "store_result x oc q r (sy_loader ?u) w2 = (l', w')"
      using work store assms(3,4) by (simp_all add: u res)
    obtain s' where s': "(thread_step x oc)\<^sup>*\<^sup>* ?u s'" "sy_loader s' = l'" "sy_world s' = w'" "sy_mu s' = sy_mu s"
      "sy_threads s' = (sy_threads s)[i := Returned q r]"
      using undisturbed_store[OF u(1) pre] unfolding u by metis
    with rtranclp_trans[OF undisturbed_miss[OF assms(1-4) check[unfolded None]] s'(1)] show ?thesis
      by blast
  qed
qed


section \<open>Witnesses\<close>

text \<open>A new loader that has just been called.\<close>

definition sample_start :: "instant loader_sys" where
  "sample_start = (initial 0)\<lparr>sy_threads := [Called (LoadReq ''ghcr.io/org/svc'' '''' None)]\<rparr>"

lemma sample_start_reachable: "reachable documented sample_oci sample_start"
  using reachable.Step[OF reachable.Init[where w = 0] Call[of _ _ _ "LoadReq ''ghcr.io/org/svc'' '''' None"]]
  by (simp add: sample_start_def initial_def)

lemma sample_start_free:
  "at_pc sample_start 0 (Called (LoadReq ''ghcr.io/org/svc'' '''' None))"
  "\<not> mu_writer (sy_mu sample_start m)" "mu_readers (sy_mu sample_start m) = 0"
  by (simp_all add: sample_start_def initial_def at_pc_def)

lemma reachable_threads: "(thread_step x oc)\<^sup>*\<^sup>* s s' \<Longrightarrow> reachable x oc s \<Longrightarrow> reachable x oc s'"
  by (induction rule: rtranclp_induct) (blast intro: reachable.Step loader_step.Thread)+

theorem concurrent_loads_fresh_witness:
  "\<exists>s r. reachable documented sample_oci s \<and> sy_threads s = [Returned (LoadReq ''ghcr.io/org/svc'' '''' None) r] \<and>
     Worked CacheMu (cache_key documented (LoadReq ''ghcr.io/org/svc'' '''' None)) r \<in> set (sy_log s)"
proof -
  let ?q = "LoadReq ''ghcr.io/org/svc'' '''' None"
  obtain r l' w' where "call documented sample_oci ?q (sy_loader sample_start, sy_world sample_start) = (r, l', w')"
    by (metis prod.collapse)
  then obtain s where run: "(thread_step documented sample_oci)\<^sup>*\<^sup>* sample_start s"
      and threads: "sy_threads s = [Returned ?q r]"
    using undisturbed_shared[OF sample_start_free(1) _ sample_start_free(2,3)]
    by (fastforce simp: sample_start_def)
  have reach: "reachable documented sample_oci s"
    by (rule reachable_threads[OF run sample_start_reachable])
  from concurrent_loads_fresh[OF this] have "Worked (mutex_of ?q) (cache_key documented ?q) r \<in> set (sy_log s)"
    using threads by (metis list.set_intros(1) shared.simps(1))
  with reach threads show ?thesis
    by auto
qed


theorem concurrent_loads_return_witness:
  "\<exists>s'. (thread_step documented sample_oci)\<^sup>*\<^sup>* sample_start s' \<and> all_returned s'"
  using concurrent_loads_return[OF sample_start_reachable] by blast

end
