(* ===== verification/Contract_Status.thy ===== *)
theory Contract_Status
  imports Conditions Loader Overrides
begin

text \<open>
  From the loaded contract to the status: \<open>populateContractStatus\<close> with its helpers,
  \<open>mapValidationResult\<close>, \<open>formatValidationErrors\<close>, and the marking of overridden keys
  (\<^verbatim>\<open>internal/controller/pacto_controller.go\<close>).
\<close>

section \<open>Schema properties from the bundle\<close>

definition toSchemaProps :: "SchemaEntry list \<Rightarrow> SchemaProperty list" where
  "toSchemaProps ps =
     (if length ps = 0 then []
      else map (\<lambda>p. \<lparr>sp_Key = se_Key p, sp_Value = se_Value p, sp_Type = se_Type p\<rparr>) ps)"

definition schemaPropsFromBundle :: "externals \<Rightarrow> bundle_fs option \<Rightarrow> string \<Rightarrow> SchemaProperty list" where
  "schemaPropsFromBundle x fsys path =
     (if path = '''' then []
      else case fsys of
             None \<Rightarrow> []
           | Some fs \<Rightarrow>
               (case fs path of None \<Rightarrow> [] | Some data \<Rightarrow> toSchemaProps (x_SchemaProperties x data path)))"

definition schemaMetaFromBundle :: "externals \<Rightarrow> bundle_fs option \<Rightarrow> string \<Rightarrow> string \<times> string" where
  "schemaMetaFromBundle x fsys path =
     (if path = '''' then ('''', '''')
      else case fsys of
             None \<Rightarrow> ('''', '''')
           | Some fs \<Rightarrow> (case fs path of None \<Rightarrow> ('''', '''') | Some data \<Rightarrow> x_SchemaMeta x data path))"

section \<open>The parts of the status\<close>

definition mapOwnerToInfo :: "externals \<Rightarrow> Owner \<Rightarrow> OwnerInfo option" where
  "mapOwnerToInfo x w =
     (if x_OwnerIsEmpty x w then None
      else Some \<lparr>oi_Team = ow_Team w, oi_DRI = ow_DRI w,
                 oi_Contacts = map (\<lambda>c. \<lparr>oc_Type = oc_Type c, oc_Value = oc_Value c, oc_Purpose = oc_Purpose c\<rparr>)
                   (ow_Contacts w)\<rparr>)"

definition contract_info :: "externals \<Rightarrow> LoadResult \<Rightarrow> ContractInfo" where
  "contract_info x lr =
     (let s = c_Service (lr_Contract lr);
          info = \<lparr>ci_ServiceName = sv_Name s, ci_Version = sv_Version s, ci_Owner = None, ci_OwnerDisplay = '''',
                  ci_ImageRef = '''', ci_ResolvedRef = lr_ResolvedRef lr\<rparr>;
          info = (if \<not> x_OwnerIsEmpty x (sv_Owner s) then
                    info\<lparr>ci_Owner := mapOwnerToInfo x (sv_Owner s),
                         ci_OwnerDisplay := x_OwnerDisplayString x (sv_Owner s)\<rparr>
                  else info)
      in (case sv_Image s of None \<Rightarrow> info | Some im \<Rightarrow> info\<lparr>ci_ImageRef := im_Ref im\<rparr>))"

definition interface_info :: "Interface \<Rightarrow> InterfaceInfo" where
  "interface_info iface =
     \<lparr>ii_Name = if_Name iface, ii_Type = if_Type iface, ii_Port = map_option to_int32 (if_Port iface),
      ii_Visibility = if_Visibility iface, ii_HasContractFile = (if_Contract iface \<noteq> '''')\<rparr>"

definition is_secret_ref :: "any \<Rightarrow> bool" where
  "is_secret_ref v = (case v of AnyString s \<Rightarrow> HasPrefix s ''secret://'' | _ \<Rightarrow> False)"

definition config_values :: "ConfigurationSource \<Rightarrow> (string, any) gomap" where
  "config_values cfg = (case cf_Values cfg of None \<Rightarrow> [] | Some m \<Rightarrow> m)"

definition configuration_info :: "externals \<Rightarrow> bundle_fs option \<Rightarrow> ConfigurationSource \<Rightarrow> ConfigurationInfo" where
  "configuration_info x fsys cfg =
     (let vals = config_values cfg;
          valueKeys = map fst vals;
          secretKeys = map fst (filter (\<lambda>(k, v). is_secret_ref v) vals)
      in \<lparr>cfi_Name = cf_Name cfg, cfi_HasSchema = (cf_Schema cfg \<noteq> ''''), cfi_Ref = cf_Ref cfg,
          cfi_ValueKeys = sort_Strings valueKeys, cfi_SecretKeys = sort_Strings secretKeys,
          cfi_OverriddenKeys = [],
          cfi_Properties =
            (if 0 < length vals then toSchemaProps (x_SchemaValues x vals)
             else if cf_Schema cfg \<noteq> '''' then schemaPropsFromBundle x fsys (cf_Schema cfg)
             else [])\<rparr>)"

definition dependency_info :: "Dependency \<Rightarrow> DependencyInfo" where
  "dependency_info dep =
     \<lparr>di_Name = dp_Name dep, di_Ref = dp_Ref dep, di_Required = dp_Required dep,
      di_Compatibility = dp_Compatibility dep\<rparr>"

definition policy_info :: "externals \<Rightarrow> bundle_fs option \<Rightarrow> PolicySource \<Rightarrow> PolicyInfo" where
  "policy_info x fsys pol =
     (let pinfo = \<lparr>pi_Name = pl_Name pol, pi_HasSchema = (pl_Schema pol \<noteq> ''''), pi_Schema = pl_Schema pol,
                   pi_Ref = pl_Ref pol, pi_Title = '''', pi_Description = '''', pi_Properties = []\<rparr>
      in if pl_Schema pol \<noteq> '''' then
           pinfo\<lparr>pi_Properties := schemaPropsFromBundle x fsys (pl_Schema pol),
                 pi_Title := fst (schemaMetaFromBundle x fsys (pl_Schema pol)),
                 pi_Description := snd (schemaMetaFromBundle x fsys (pl_Schema pol))\<rparr>
         else pinfo)"

definition runtime_info :: "Runtime \<Rightarrow> RuntimeInfo" where
  "runtime_info rt =
     (let ri = \<lparr>ri_Workload = rt_Workload rt, ri_StateType = sm_Type (rt_State rt),
                ri_PersistenceScope = sm_Scope (rt_State rt), ri_PersistenceDurability = sm_Durability (rt_State rt),
                ri_DataCriticality = sm_DataCriticality (rt_State rt), ri_UpgradeStrategy = '''',
                ri_GracefulShutdownSeconds = None, ri_HealthInterface = '''', ri_HealthPath = '''',
                ri_MetricsInterface = '''', ri_MetricsPath = '''', ri_HealthInitialDelaySeconds = None\<rparr>;
          ri = (case rt_Lifecycle rt of
                  None \<Rightarrow> ri
                | Some lc \<Rightarrow> ri\<lparr>ri_UpgradeStrategy := lc_UpgradeStrategy lc,
                               ri_GracefulShutdownSeconds := map_option to_int32 (lc_GracefulShutdownSeconds lc)\<rparr>);
          ri = (case rt_Health rt of
                  None \<Rightarrow> ri
                | Some h \<Rightarrow> ri\<lparr>ri_HealthInterface := hl_Interface h, ri_HealthPath := hl_Path h,
                              ri_HealthInitialDelaySeconds := map_option to_int32 (hl_InitialDelaySeconds h)\<rparr>)
      in (case rt_Metrics rt of
            None \<Rightarrow> ri
          | Some m \<Rightarrow> ri\<lparr>ri_MetricsInterface := mt_Interface m, ri_MetricsPath := mt_Path m\<rparr>))"

definition scaling_info :: "Scaling \<Rightarrow> ScalingInfo" where
  "scaling_info sc =
     \<lparr>si_Replicas = map_option to_int32 (sc_Replicas sc),
      si_Min = (if 0 < sint (sc_Min sc) then Some (to_int32 (sc_Min sc)) else None),
      si_Max = (if 0 < sint (sc_Max sc) then Some (to_int32 (sc_Max sc)) else None)\<rparr>"

definition populateContractStatus :: "externals \<Rightarrow> Pacto \<Rightarrow> LoadResult \<Rightarrow> Pacto" where
  "populateContractStatus x pacto lr =
     (let c = lr_Contract lr; fsys = lr_BundleFS lr
      in upd_status (\<lambda>st.
           (let st = st\<lparr>st_Contract := Some (contract_info x lr),
                        st_Interfaces := st_Interfaces st @ map interface_info (c_Interfaces c),
                        st_Configurations := map (configuration_info x fsys) (c_Configurations c),
                        st_Dependencies := st_Dependencies st @ map dependency_info (c_Dependencies c),
                        st_Policies := map (policy_info x fsys) (c_Policies c)\<rparr>;
                st = (case c_Runtime c of None \<Rightarrow> st | Some rt \<Rightarrow> st\<lparr>st_Runtime := Some (runtime_info rt)\<rparr>);
                st = (case c_Scaling c of None \<Rightarrow> st | Some sc \<Rightarrow> st\<lparr>st_Scaling := Some (scaling_info sc)\<rparr>)
            in if 0 < length (c_Metadata c) then
                 st\<lparr>st_Metadata := fold (\<lambda>(k, v). AList.update k (show_any v)) (c_Metadata c) []\<rparr>
               else st)) pacto)"

text \<open>Mark the overridden keys, as \<open>Reconcile\<close> does after populating the status.\<close>

definition mark_overridden :: "(string, string list) gomap \<Rightarrow> Pacto \<Rightarrow> Pacto" where
  "mark_overridden overriddenKeys pacto =
     upd_status (\<lambda>st. st\<lparr>st_Configurations :=
       map (\<lambda>ci. case map_of overriddenKeys (cfi_Name ci) of
                   None \<Rightarrow> ci | Some ks \<Rightarrow> ci\<lparr>cfi_OverriddenKeys := ks\<rparr>) (st_Configurations st)\<rparr>) pacto"

definition validation_issue :: "ValidationError \<Rightarrow> ValidationIssue" where
  "validation_issue e = \<lparr>vi_Code = ve_Code e, vi_Path = ve_Path e, vi_Message = ve_Message e\<rparr>"

definition mapValidationResult :: "ContractValidation \<Rightarrow> ValidationResult" where
  "mapValidationResult vr =
     \<lparr>vr_Valid = (length (cv_Errors vr) = 0), vr_Errors = map validation_issue (cv_Errors vr),
      vr_Warnings = map validation_issue (cv_Warnings vr)\<rparr>"

definition formatValidationErrors :: "ValidationError list \<Rightarrow> string" where
  "formatValidationErrors errors =
     ''Contract validation failed: '' @
     Join (map (\<lambda>e. if ve_Path e \<noteq> '''' then ve_Path e @ '': '' @ ve_Message e else ve_Message e) errors) ''; ''"

section \<open>Configurations in the status\<close>

lemma config_value_map_of: "config_value cfg k = map_of (config_values cfg) k"
  by (simp add: config_value_def config_values_def split: option.split)

text \<open>
  A configuration in the status lists exactly the keys of its values, sorted and without
  repetition, and among them as secret keys exactly those whose value is a string with the
  \<open>secret://\<close> prefix.
\<close>

lemma configuration_keys:
  assumes "map_wf (config_values cfg)"
  shows "sorted (cfi_ValueKeys (configuration_info x fsys cfg)) \<and>
    distinct (cfi_ValueKeys (configuration_info x fsys cfg)) \<and>
    set (cfi_ValueKeys (configuration_info x fsys cfg)) = {k. config_value cfg k \<noteq> None} \<and>
    sorted (cfi_SecretKeys (configuration_info x fsys cfg)) \<and>
    set (cfi_SecretKeys (configuration_info x fsys cfg)) =
      {k. \<exists>s. config_value cfg k = Some (AnyString (''secret://'' @ s))}"
proof -
  let ?m = "config_values cfg"
  note look = config_value_map_of[of cfg]
  have dist: "distinct (map fst ?m)"
    using assms by (simp add: map_wf_def map_keys_def)
  have "fst ` {kv \<in> set ?m. is_secret_ref (snd kv)} = {k. \<exists>v. map_of ?m k = Some v \<and> is_secret_ref v}"
    using dist by (force simp: image_iff)
  moreover have "is_secret_ref v \<longleftrightarrow> (\<exists>s. v = AnyString (''secret://'' @ s))" for v
    by (cases v) (auto simp: is_secret_ref_def HasPrefix_prefix prefix_def)
  ultimately have "fst ` {kv \<in> set ?m. is_secret_ref (snd kv)} =
      {k. \<exists>s. map_of ?m k = Some (AnyString (''secret://'' @ s))}"
    by auto
  moreover have "{k. map_of ?m k \<noteq> None} = set (map fst ?m)"
    by (auto simp: map_of_eq_None_iff)
  ultimately show ?thesis
    using dist by (simp add: configuration_info_def Let_def look case_prod_unfold)
qed



section \<open>Overridden keys in the status\<close>

lemma overridden_keys_snoc:
  "map_of (overridden_keys (ovs @ [ov])) n =
     (if n = co_Name ov then Some (sort_Strings (map_keys (co_Values ov))) else map_of (overridden_keys ovs) n)"
  by (simp add: overridden_keys_def update_conv')

lemma override_value_append:
  "override_value (ovs @ ovs') n k =
     (case override_value ovs' n k of Some v \<Rightarrow> Some v | None \<Rightarrow> override_value ovs n k)"
  by (induction ovs) (auto split: option.splits)

lemma overridden_has_value:
  "map_of (overridden_keys ovs) n = Some ks \<Longrightarrow> k \<in> set ks \<Longrightarrow> override_value ovs n k \<noteq> None"
proof (induction ovs rule: rev_induct)
  case Nil
  then show ?case
    by (simp add: overridden_keys_def)
next
  case (snoc ov ovs)
  then show ?case
    by (auto simp: overridden_keys_snoc override_value_append map_keys_def map_of_eq_None_iff
        split: option.splits if_splits)
qed

lemma value_keys_iff:
  "k \<in> set (cfi_ValueKeys (configuration_info x fsys cfg)) \<longleftrightarrow> config_value cfg k \<noteq> None"
proof -
  have "set (cfi_ValueKeys (configuration_info x fsys cfg)) = fst ` set (config_values cfg)"
    by (simp add: configuration_info_def Let_def)
  moreover have "map_of (config_values cfg) k \<noteq> None \<longleftrightarrow> k \<in> fst ` set (config_values cfg)"
    by (simp only: map_of_eq_None_iff not_not)
  ultimately show ?thesis
    by (simp only: config_value_map_of)
qed

lemma status_configurations:
  "st_Configurations (p_Status (mark_overridden ks (populateContractStatus x pacto lr))) =
     map (\<lambda>cfg. case map_of ks (cf_Name cfg) of
            None \<Rightarrow> configuration_info x (lr_BundleFS lr) cfg
          | Some k \<Rightarrow> (configuration_info x (lr_BundleFS lr) cfg)\<lparr>cfi_OverriddenKeys := k\<rparr>)
       (c_Configurations (lr_Contract lr))"
  by (simp add: mark_overridden_def populateContractStatus_def Let_def configuration_info_def
      split: option.split)


section \<open>Witnesses\<close>




end
