(* ===== verification/Credentials.thy ===== *)
theory Credentials
  imports Loader
begin

text \<open>
  Registry credentials from Kubernetes Secrets (\<^verbatim>\<open>internal/credentials/resolve.go\<close>). Base64 is
  modelled byte by byte; the JSON codec enters as the two functions \<open>json.Unmarshal\<close> and
  \<open>json.Marshal\<close> at the one type they are used at (\<open>json_codec\<close>), with the round trip of
  \<open>json_api\<close> as the only fact about it. An error is a value that says which check failed.
\<close>

section \<open>Base64 (standard alphabet, padded)\<close>

definition b64_alphabet :: string where
  "b64_alphabet = ''ABCDEFGHIJKLMNOPQRSTUVWXYZabcdefghijklmnopqrstuvwxyz0123456789+/''"

definition b64_char :: "nat \<Rightarrow> char" where
  "b64_char n = b64_alphabet ! n"

definition b64_value :: "char \<Rightarrow> nat option" where
  "b64_value c = map_of (zip b64_alphabet [0..<64]) c"

fun b64_encode :: "nat list \<Rightarrow> string" where
  "b64_encode [] = []"
| "b64_encode [a] = [b64_char (a div 4), b64_char (a mod 4 * 16), CHR ''='', CHR ''='']"
| "b64_encode [a, b] =
     [b64_char (a div 4), b64_char (a mod 4 * 16 + b div 16), b64_char (b mod 16 * 4), CHR ''='']"
| "b64_encode (a # b # c # bs) =
     [b64_char (a div 4), b64_char (a mod 4 * 16 + b div 16), b64_char (b mod 16 * 4 + c div 64),
      b64_char (c mod 64)] @ b64_encode bs"

fun b64_decode :: "string \<Rightarrow> nat list option" where
  "b64_decode [] = Some []"
| "b64_decode (p # q # r # s # rest) =
     (case (b64_value p, b64_value q) of
        (Some w, Some x) \<Rightarrow>
          if r = CHR ''='' \<and> s = CHR ''='' \<and> rest = [] then Some [w * 4 + x div 16]
          else
            (case b64_value r of
               None \<Rightarrow> None
             | Some y \<Rightarrow>
                 if s = CHR ''='' \<and> rest = [] then Some [w * 4 + x div 16, x mod 16 * 16 + y div 4]
                 else
                   (case (b64_value s, b64_decode rest) of
                      (Some z, Some bs) \<Rightarrow>
                        Some ([w * 4 + x div 16, x mod 16 * 16 + y div 4, y mod 4 * 64 + z] @ bs)
                    | _ \<Rightarrow> None))
      | _ \<Rightarrow> None)"
| "b64_decode _ = None"

text \<open>\<open>EncodeToString\<close> and \<open>DecodeString\<close>, which ignores line breaks in its input.\<close>

definition EncodeToString :: "string \<Rightarrow> string" where
  "EncodeToString s = b64_encode (map of_char s)"

definition DecodeString :: "string \<Rightarrow> string option" where
  "DecodeString s =
     map_option (map char_of) (b64_decode (filter (\<lambda>c. c \<noteq> CHR 0x0A \<and> c \<noteq> CHR 0x0D) s))"

lemma b64_alphabet_facts: "length b64_alphabet = 64" "distinct b64_alphabet"
  by (simp_all add: b64_alphabet_def)

lemma b64_value_char: "n < 64 \<Longrightarrow> b64_value (b64_char n) = Some n"
  using b64_alphabet_facts
  by (simp add: b64_value_def b64_char_def map_of_zip_nth)

lemma b64_char_in: "n < 64 \<Longrightarrow> b64_char n \<in> set b64_alphabet"
  using b64_alphabet_facts(1) by (simp add: b64_char_def)

lemma b64_char_plain:
  "n < 64 \<Longrightarrow> b64_char n \<noteq> CHR ''='' \<and> b64_char n \<noteq> CHR 0x0A \<and> b64_char n \<noteq> CHR 0x0D"
  using b64_char_in[of n] by (auto simp: b64_alphabet_def)

lemma b64_round_trip: "\<forall>b\<in>set bs. b < 256 \<Longrightarrow> b64_decode (b64_encode bs) = Some bs"
  by (induction bs rule: b64_encode.induct)
     (auto simp: b64_value_char b64_char_plain less_mult_imp_div_less div_add1_eq)

lemma b64_encode_chars:
  "\<forall>b\<in>set bs. b < 256 \<Longrightarrow> c \<in> set (b64_encode bs) \<Longrightarrow> c \<noteq> CHR 0x0A \<and> c \<noteq> CHR 0x0D"
  by (induction bs rule: b64_encode.induct)
     (auto simp: b64_char_plain less_mult_imp_div_less)

lemma DecodeString_EncodeToString [simp]: "DecodeString (EncodeToString s) = Some s"
proof -
  have bytes: "\<forall>b\<in>set (map of_char s :: nat list). b < 256"
    by (auto simp: of_char_def)
  have "filter (\<lambda>c. c \<noteq> CHR 0x0A \<and> c \<noteq> CHR 0x0D) (EncodeToString s) = EncodeToString s"
    using b64_encode_chars[OF bytes] by (simp add: EncodeToString_def filter_id_conv)
  then show ?thesis
    using b64_round_trip[OF bytes] by (simp add: DecodeString_def EncodeToString_def comp_def)
qed


section \<open>Secrets\<close>

record Secret =
  sec_Name :: string
  sec_Type :: string
  sec_Data :: "(string, string) gomap"

definition SecretTypeDockerConfigJson :: string where
  "SecretTypeDockerConfigJson = ''kubernetes.io/dockerconfigjson''"

definition DockerConfigJsonKey :: string where
  "DockerConfigJsonKey = ''.dockerconfigjson''"

text \<open>\<open>string(secret.Data[k])\<close>: the empty string when the key is absent.\<close>

definition data_string :: "Secret \<Rightarrow> string \<Rightarrow> string" where
  "data_string secret k = (case map_of (sec_Data secret) k of None \<Rightarrow> '''' | Some v \<Rightarrow> v)"

record dockerConfigEntry =
  de_Auth :: string
  de_Username :: string
  de_Password :: string

record dockerConfigJSON =
  dc_Auths :: "(string, dockerConfigEntry) gomap"

record json_codec =
  j_Unmarshal :: "string \<Rightarrow> string + dockerConfigJSON"
  j_Marshal :: "dockerConfigJSON \<Rightarrow> string"

datatype cred_error =
    NoOpaqueKeys string
  | MissingDockerConfig string
  | MalformedJSON string string
  | NoAuthEntries string
  | NoEntryForRegistry string string "string list"
  | InvalidBase64 string string
  | NotUserPassword string
  | NoCredentials string
  | MissingDockerConfigKey string
  | MissingRegistryKey string
  | InSecret string cred_error

text \<open>
  The messages of the errors; \<open>b64err\<close> gives the text of \<open>base64.CorruptInputError\<close> for an input.
\<close>

fun cred_error_text :: "(string \<Rightarrow> string) \<Rightarrow> cred_error \<Rightarrow> string" where
  "cred_error_text b64err (NoOpaqueKeys name) =
     ''secret '' @ show_q name @ '' must contain either '' @ [CHR 0x27] @ ''token'' @ [CHR 0x27] @ '' or '' @
     [CHR 0x27] @ ''username'' @ [CHR 0x27] @ ''+'' @ [CHR 0x27] @ ''password'' @ [CHR 0x27] @ '' keys''"
| "cred_error_text b64err (MissingDockerConfig name) =
     ''secret '' @ show_q name @ '' is type '' @ SecretTypeDockerConfigJson @ '' but missing key '' @ show_q DockerConfigJsonKey"
| "cred_error_text b64err (MalformedJSON name err) =
     ''secret '' @ show_q name @ '': malformed dockerconfigjson: '' @ err"
| "cred_error_text b64err (NoAuthEntries name) =
     ''secret '' @ show_q name @ '': dockerconfigjson has no auth entries''"
| "cred_error_text b64err (NoEntryForRegistry name registry registries) =
     ''secret '' @ show_q name @ '': no auth entry for registry '' @ show_q registry @ '' (available: '' @
     Join registries '', '' @ '')''"
| "cred_error_text b64err (InvalidBase64 name auth) =
     ''secret '' @ show_q name @ '': invalid base64 in auth field: '' @ b64err auth"
| "cred_error_text b64err (NotUserPassword name) =
     ''secret '' @ show_q name @ '': auth field must be base64(username:password)''"
| "cred_error_text b64err (NoCredentials name) =
     ''secret '' @ show_q name @ '': auth entry has no credentials''"
| "cred_error_text b64err (MissingDockerConfigKey name) =
     ''secret '' @ show_q name @ '': missing key '' @ show_q DockerConfigJsonKey"
| "cred_error_text b64err (MissingRegistryKey name) =
     ''secret '' @ show_q name @ '': opaque secrets must contain a '' @ [CHR 0x27] @ ''registry'' @ [CHR 0x27] @
     '' key specifying the registry hostname (e.g. ghcr.io)''"
| "cred_error_text b64err (InSecret name err) =
     ''secret '' @ show_q name @ '': '' @ cred_error_text b64err err"

section \<open>Reading credentials\<close>

definition dockerHubHost :: string where
  "dockerHubHost = ''index.docker.io''"

definition normalizeRegistryHost :: "string \<Rightarrow> string" where
  "normalizeRegistryHost host =
     (let host = (let i = Index host ''://'' in if 0 \<le> i then slice_from host (i + 3) else host);
          host = (let i = Index host ''/'' in if 0 \<le> i then slice_to host i else host);
          host = TrimRight1 host (CHR ''/'')
      in if host = ''docker.io'' then dockerHubHost else host)"

definition matchRegistry :: "(string, dockerConfigEntry) gomap \<Rightarrow> string \<Rightarrow> dockerConfigEntry option" where
  "matchRegistry auths registry =
     (let registry = normalizeRegistryHost registry
      in map_option snd (List.find (\<lambda>(key, entry). normalizeRegistryHost key = registry) auths))"

definition auth_user :: "string \<Rightarrow> string \<Rightarrow> AuthConfig" where
  "auth_user u p = \<lparr>au_Username = u, au_Password = p, au_RegistryToken = ''''\<rparr>"

definition auth_token :: "string \<Rightarrow> AuthConfig" where
  "auth_token t = \<lparr>au_Username = '''', au_Password = '''', au_RegistryToken = t\<rparr>"

definition entryToAuthConfig :: "dockerConfigEntry \<Rightarrow> string \<Rightarrow> cred_error + AuthConfig" where
  "entryToAuthConfig entry secretName =
     (if de_Username entry \<noteq> '''' \<and> de_Password entry \<noteq> '''' then
        Inr (auth_user (de_Username entry) (de_Password entry))
      else if de_Auth entry \<noteq> '''' then
        (case DecodeString (de_Auth entry) of
           None \<Rightarrow> Inl (InvalidBase64 secretName (de_Auth entry))
         | Some decoded \<Rightarrow>
             (case SplitN2 decoded (CHR '':'') of
                [u, p] \<Rightarrow> if u = '''' then Inl (NotUserPassword secretName) else Inr (auth_user u p)
              | _ \<Rightarrow> Inl (NotUserPassword secretName)))
      else Inl (NoCredentials secretName))"

definition fromOpaque :: "Secret \<Rightarrow> cred_error + AuthConfig" where
  "fromOpaque secret =
     (let token = data_string secret ''token'';
          user = data_string secret ''username'';
          pass = data_string secret ''password''
      in if token \<noteq> '''' then Inr (auth_token token)
         else if user \<noteq> '''' \<and> pass \<noteq> '''' then Inr (auth_user user pass)
         else Inl (NoOpaqueKeys (sec_Name secret)))"

definition fromDockerConfigJSON :: "json_codec \<Rightarrow> Secret \<Rightarrow> string \<Rightarrow> cred_error + AuthConfig" where
  "fromDockerConfigJSON j secret registry =
     (case map_of (sec_Data secret) DockerConfigJsonKey of
        None \<Rightarrow> Inl (MissingDockerConfig (sec_Name secret))
      | Some raw \<Rightarrow>
          (case j_Unmarshal j raw of
             Inl err \<Rightarrow> Inl (MalformedJSON (sec_Name secret) err)
           | Inr cfg \<Rightarrow>
               if length (dc_Auths cfg) = 0 then Inl (NoAuthEntries (sec_Name secret))
               else
                 (case matchRegistry (dc_Auths cfg) registry of
                    None \<Rightarrow> Inl (NoEntryForRegistry (sec_Name secret) registry (map_keys (dc_Auths cfg)))
                  | Some entry \<Rightarrow> entryToAuthConfig entry (sec_Name secret))))"

definition FromSecret :: "json_codec \<Rightarrow> Secret \<Rightarrow> string \<Rightarrow> cred_error + AuthConfig" where
  "FromSecret j secret registry =
     (if sec_Type secret = SecretTypeDockerConfigJson then fromDockerConfigJSON j secret registry
      else fromOpaque secret)"

definition RegistryFromRef :: "string \<Rightarrow> string" where
  "RegistryFromRef ref =
     (let ref = TrimPrefix ref ''oci://'';
          ref = (let i = Index ref ''@'' in if 0 \<le> i then slice_to ref i else ref);
          (registry, _, found) = Cut ref (CHR ''/'')
      in if \<not> found then dockerHubHost
         else if ContainsAny registry ''.:'' then registry
         else dockerHubHost)"

section \<open>Merging credentials\<close>

definition encodeAuth :: "AuthConfig \<Rightarrow> string" where
  "encodeAuth auth =
     (if au_RegistryToken auth \<noteq> '''' then EncodeToString (''_token:'' @ au_RegistryToken auth)
      else EncodeToString (au_Username auth @ '':'' @ au_Password auth))"

definition opaque_entry :: "AuthConfig \<Rightarrow> dockerConfigEntry" where
  "opaque_entry auth =
     \<lparr>de_Auth = encodeAuth auth, de_Username = au_Username auth, de_Password = au_Password auth\<rparr>"

text \<open>The entries that one secret contributes, in the order in which they are written.\<close>

definition secret_entries :: "json_codec \<Rightarrow> Secret \<Rightarrow> cred_error + (string \<times> dockerConfigEntry) list" where
  "secret_entries j secret =
     (if sec_Type secret = SecretTypeDockerConfigJson then
        (case map_of (sec_Data secret) DockerConfigJsonKey of
           None \<Rightarrow> Inl (MissingDockerConfigKey (sec_Name secret))
         | Some raw \<Rightarrow>
             (case j_Unmarshal j raw of
                Inl err \<Rightarrow> Inl (MalformedJSON (sec_Name secret) err)
              | Inr cfg \<Rightarrow> Inr (map (\<lambda>(registry, entry). (normalizeRegistryHost registry, entry)) (dc_Auths cfg))))
      else
        (let registry = TrimSpace (data_string secret ''registry'')
         in if registry = '''' then Inl (MissingRegistryKey (sec_Name secret))
            else
              (case fromOpaque secret of
                 Inl err \<Rightarrow> Inl (InSecret (sec_Name secret) err)
               | Inr auth \<Rightarrow> Inr [(normalizeRegistryHost registry, opaque_entry auth)])))"

fun merge_secrets ::
  "json_codec \<Rightarrow> Secret list \<Rightarrow> (string, dockerConfigEntry) gomap \<Rightarrow> cred_error + (string, dockerConfigEntry) gomap" where
  "merge_secrets j [] merged = Inr merged"
| "merge_secrets j (secret # secrets) merged =
     (case secret_entries j secret of
        Inl err \<Rightarrow> Inl err
      | Inr es \<Rightarrow> merge_secrets j secrets (fold (\<lambda>(k, e). AList.update k e) es merged))"

definition MergeToDockerConfigJSON :: "json_codec \<Rightarrow> Secret list \<Rightarrow> cred_error + string" where
  "MergeToDockerConfigJSON j secrets =
     (case merge_secrets j secrets [] of
        Inl err \<Rightarrow> Inl err
      | Inr merged \<Rightarrow> Inr (j_Marshal j \<lparr>dc_Auths = merged\<rparr>))"

section \<open>Registry hosts\<close>

lemma TrimRight1_none: "c \<notin> set s \<Longrightarrow> TrimRight1 s c = s"
  by (induction s rule: rev_induct) (auto simp: TrimRight1_def)

lemma normalizeRegistryHost_no_slash: "CHR ''/'' \<notin> set (normalizeRegistryHost host)"
proof -
  define h1 where "h1 = (let i = Index host ''://'' in if 0 \<le> i then slice_from host (i + 3) else host)"
  define h2 where "h2 = (let i = Index h1 ''/'' in if 0 \<le> i then slice_to h1 i else h1)"
  have "CHR ''/'' \<notin> set h2"
    by (auto simp: h2_def Index_one slice_to_def takeWhile_eq_take[symmetric] dest: set_takeWhileD)
  then have "TrimRight1 h2 (CHR ''/'') = h2" "CHR ''/'' \<notin> set h2"
    by (simp_all add: TrimRight1_none)
  moreover have "normalizeRegistryHost host =
      (if TrimRight1 h2 (CHR ''/'') = ''docker.io'' then dockerHubHost else TrimRight1 h2 (CHR ''/''))"
    by (simp only: normalizeRegistryHost_def h1_def h2_def Let_def)
  ultimately show ?thesis
    by (simp add: dockerHubHost_def)
qed

lemma index_from_absent: "sub \<noteq> [] \<Longrightarrow> \<not> set sub \<subseteq> set s \<Longrightarrow> index_from n s sub = -1"
proof (induction s arbitrary: n)
  case (Cons c s)
  have "\<not> HasPrefix (c # s) sub"
    using Cons.prems(2) unfolding HasPrefix_prefix by (meson set_mono_prefix)
  then show ?case
    using Cons by auto
qed auto

lemma normalizeRegistryHost_fixed:
  assumes "CHR ''/'' \<notin> set h" "h \<noteq> ''docker.io''"
  shows "normalizeRegistryHost h = h"
proof -
  have "Index h ''://'' = -1"
    using assms(1) unfolding Index_def by (intro index_from_absent) auto
  then show ?thesis
    using assms by (simp add: normalizeRegistryHost_def Index_one TrimRight1_none)
qed

lemma normalizeRegistryHost_idem [simp]:
  "normalizeRegistryHost (normalizeRegistryHost h) = normalizeRegistryHost h"
proof (rule normalizeRegistryHost_fixed)
  show "normalizeRegistryHost h \<noteq> ''docker.io''"
    by (simp add: normalizeRegistryHost_def Let_def dockerHubHost_def)
qed (rule normalizeRegistryHost_no_slash)


section \<open>What merging keeps\<close>

text \<open>The entry that a list of secrets gives to a host: that of the last secret that has one.\<close>

fun last_entry :: "json_codec \<Rightarrow> Secret list \<Rightarrow> string \<Rightarrow> dockerConfigEntry option" where
  "last_entry j [] host = None"
| "last_entry j (secret # secrets) host =
     (case last_entry j secrets host of
        Some e \<Rightarrow> Some e
      | None \<Rightarrow> (case secret_entries j secret of Inl _ \<Rightarrow> None | Inr es \<Rightarrow> map_of (rev es) host))"

lemma merge_secrets_lookup:
  "merge_secrets j secrets merged = Inr auths \<Longrightarrow>
     map_of auths host = (case last_entry j secrets host of Some e \<Rightarrow> Some e | None \<Rightarrow> map_of merged host)"
proof (induction j secrets merged arbitrary: auths rule: merge_secrets.induct)
  case (2 j secret secrets merged)
  then obtain es where es: "secret_entries j secret = Inr es"
    "merge_secrets j secrets (fold (\<lambda>(k, e). AList.update k e) es merged) = Inr auths"
    by (auto split: sum.splits)
  with "2.IH"[OF es] show ?case
    by (auto simp: map_of_fold_update map_add_def split: option.splits)
qed simp

lemma merge_secrets_wf: "merge_secrets j secrets merged = Inr auths \<Longrightarrow> map_wf merged \<Longrightarrow> map_wf auths"
  by (induction j secrets merged arbitrary: auths rule: merge_secrets.induct)
     (auto simp: map_wf_fold_update split: sum.splits)

lemma secret_entries_normal:
  "secret_entries j secret = Inr es \<Longrightarrow> (k, e) \<in> set es \<Longrightarrow> normalizeRegistryHost k = k"
  by (auto simp: secret_entries_def Let_def split: if_splits option.splits sum.splits)

lemma merge_secrets_normal:
  "merge_secrets j secrets merged = Inr auths \<Longrightarrow>
   \<forall>k\<in>set (map_keys merged). normalizeRegistryHost k = k \<Longrightarrow>
   \<forall>k\<in>set (map_keys auths). normalizeRegistryHost k = k"
proof (induction j secrets merged arbitrary: auths rule: merge_secrets.induct)
  case (2 j secret secrets merged)
  then obtain es where es: "secret_entries j secret = Inr es"
    "merge_secrets j secrets (fold (\<lambda>(k, e). AList.update k e) es merged) = Inr auths"
    by (auto split: sum.splits)
  have "normalizeRegistryHost k = k" if "k \<in> set (map_keys (fold (\<lambda>(k, e). AList.update k e) es merged))" for k
  proof -
    from that have "has_key (fold (\<lambda>(k, e). AList.update k e) es merged) k"
      by (simp add: has_key_iff)
    then have "has_key merged k \<or> k \<in> fst ` set es"
      by (auto simp: has_key_def map_of_fold_update map_add_def split: option.splits dest!: map_of_SomeD)
         (metis fst_conv image_eqI)
    then show ?thesis
      using "2.prems"(2) secret_entries_normal[OF es(1)] by (auto simp: has_key_iff)
  qed
  with "2.IH"[OF es] show ?case
    by blast
qed simp

lemma matchRegistry_normal:
  assumes "map_wf auths" "\<forall>k\<in>set (map_keys auths). normalizeRegistryHost k = k"
  shows "matchRegistry auths registry = map_of auths (normalizeRegistryHost registry)"
  using assms
  by (induction auths) (auto simp: matchRegistry_def map_wf_def map_keys_def)

text \<open>
  \<open>json.Unmarshal\<close> of what \<open>json.Marshal\<close> produced gives the same map back, for keys and values
  that are ASCII (other bytes may be replaced when they are not UTF-8).
\<close>

definition ascii :: "string \<Rightarrow> bool" where
  "ascii s \<longleftrightarrow> list_all (\<lambda>c. (of_char c :: nat) < 128) s"

definition ascii_entry :: "string \<times> dockerConfigEntry \<Rightarrow> bool" where
  "ascii_entry ke \<longleftrightarrow>
     ascii (fst ke) \<and> ascii (de_Auth (snd ke)) \<and> ascii (de_Username (snd ke)) \<and> ascii (de_Password (snd ke))"

definition json_api :: "json_codec \<Rightarrow> bool" where
  "json_api j \<longleftrightarrow>
     (\<forall>auths. map_wf auths \<and> list_all ascii_entry auths \<longrightarrow>
        (\<exists>auths'. j_Unmarshal j (j_Marshal j \<lparr>dc_Auths = auths\<rparr>) = Inr \<lparr>dc_Auths = auths'\<rparr> \<and>
           map_wf auths' \<and> map_of auths' = map_of auths))"


lemma EncodeToString_Nil: "EncodeToString s = [] \<longleftrightarrow> s = []"
  by (cases "map of_char s :: nat list" rule: b64_encode.cases) (auto simp: EncodeToString_def)

lemma SplitN2_first: "c \<notin> set a \<Longrightarrow> SplitN2 (a @ c # b) c = [a, b]"
  by (simp add: SplitN2_def Cut_split)

text \<open>
  Encoding round trip: what a docker entry written for an opaque secret gives back. A username
  and password come back unchanged, whatever characters they contain; a registry token, which
  Docker entries cannot express, comes back as the password of the user \<open>_token\<close>.
\<close>

lemma opaque_entry_round_trip:
  assumes "fromOpaque secret = Inr auth"
  shows "entryToAuthConfig (opaque_entry auth) n =
    Inr (if data_string secret ''token'' \<noteq> '''' then auth_user ''_token'' (data_string secret ''token'')
         else auth_user (data_string secret ''username'') (data_string secret ''password''))"
proof (cases "data_string secret ''token'' = ''''")
  case True
  with assms show ?thesis
    by (auto simp: fromOpaque_def Let_def opaque_entry_def entryToAuthConfig_def auth_user_def split: if_splits)
next
  case False
  let ?t = "data_string secret ''token''"
  have auth: "auth = auth_token ?t"
    using assms False by (simp add: fromOpaque_def Let_def)
  have "EncodeToString (''_token:'' @ ?t) \<noteq> ''''"
    by (simp add: EncodeToString_Nil)
  moreover have "SplitN2 (''_token:'' @ ?t) (CHR '':'') = [''_token'', ?t]"
    using SplitN2_first[of "CHR '':''" "''_token''" ?t] by simp
  ultimately show ?thesis
    using False by (simp add: auth opaque_entry_def entryToAuthConfig_def encodeAuth_def auth_token_def)
qed



section \<open>A concrete codec\<close>

text \<open>
  An executable codec that satisfies \<open>json_api\<close>: one line per entry, its fields in base64 and
  separated by commas, lines separated by semicolons.
\<close>

definition encode_entry :: "string \<times> dockerConfigEntry \<Rightarrow> string" where
  "encode_entry ke =
     Join (map EncodeToString [fst ke, de_Auth (snd ke), de_Username (snd ke), de_Password (snd ke)]) '',''"

definition decode_entry :: "string \<Rightarrow> (string \<times> dockerConfigEntry) option" where
  "decode_entry line =
     (case map DecodeString (Split line (CHR '','')) of
        [Some k, Some a, Some u, Some p] \<Rightarrow> Some (k, \<lparr>de_Auth = a, de_Username = u, de_Password = p\<rparr>)
      | _ \<Rightarrow> None)"

definition sample_json :: json_codec where
  "sample_json =
     \<lparr>j_Unmarshal = (\<lambda>s. if s = '''' then Inr \<lparr>dc_Auths = []\<rparr>
        else let es = map decode_entry (Split s (CHR '';''))
             in if None \<in> set es then Inl ''invalid character'' else Inr \<lparr>dc_Auths = map the es\<rparr>),
      j_Marshal = (\<lambda>cfg. Join (map encode_entry (dc_Auths cfg)) '';'')\<rparr>"

lemma b64_encode_alphabet:
  "\<forall>b\<in>set bs. b < 256 \<Longrightarrow> set (b64_encode bs) \<subseteq> insert (CHR ''='') (set b64_alphabet)"
  by (induction bs rule: b64_encode.induct) (auto intro!: b64_char_in)

lemma EncodeToString_plain: "CHR '','' \<notin> set (EncodeToString s)" "CHR '';'' \<notin> set (EncodeToString s)"
proof -
  have "\<forall>b\<in>set (map of_char s :: nat list). b < 256"
    by (auto simp: of_char_def)
  from b64_encode_alphabet[OF this] have "set (EncodeToString s) \<subseteq> insert (CHR ''='') (set b64_alphabet)"
    by (simp add: EncodeToString_def)
  moreover have "CHR '','' \<notin> insert (CHR ''='') (set b64_alphabet)" "CHR '';'' \<notin> insert (CHR ''='') (set b64_alphabet)"
    by (simp_all add: b64_alphabet_def)
  ultimately show "CHR '','' \<notin> set (EncodeToString s)" "CHR '';'' \<notin> set (EncodeToString s)"
    by blast+
qed

lemma decode_encode_entry: "decode_entry (encode_entry ke) = Some ke"
proof -
  have "Split (encode_entry ke) (CHR '','') =
      map EncodeToString [fst ke, de_Auth (snd ke), de_Username (snd ke), de_Password (snd ke)]"
    unfolding encode_entry_def by (rule Split_Join) (auto simp: EncodeToString_plain)
  then show ?thesis
    by (cases ke) (simp add: decode_entry_def)
qed

lemma encode_entry_plain: "CHR '';'' \<notin> set (encode_entry ke)" "encode_entry ke \<noteq> ''''"
  by (simp_all add: encode_entry_def EncodeToString_plain)

lemma sample_json_inverse: "j_Unmarshal sample_json (j_Marshal sample_json cfg) = Inr cfg"
proof (cases "dc_Auths cfg")
  case Nil
  then show ?thesis
    by (cases cfg) (simp add: sample_json_def)
next
  case (Cons e es)
  have "Split (Join (map encode_entry (e # es)) '';'') (CHR '';'') = map encode_entry (e # es)"
    by (rule Split_Join) (auto simp: encode_entry_plain)
  moreover have "Join (map encode_entry (e # es)) '';'' \<noteq> ''''"
    by (cases es) (simp_all add: encode_entry_plain)
  ultimately show ?thesis
    using Cons by (cases cfg) (simp add: sample_json_def comp_def decode_encode_entry)
qed

lemma json_api_sample: "json_api sample_json"
  by (auto simp: json_api_def sample_json_inverse)


definition sample_opaque :: Secret where
  "sample_opaque =
     \<lparr>sec_Name = ''creds'', sec_Type = ''Opaque'',
      sec_Data = [(''registry'', ''https://ghcr.io/v2/''), (''username'', ''u''), (''password'', ''p:q'')]\<rparr>"

lemma sample_opaque_auth: "fromOpaque sample_opaque = Inr (auth_user ''u'' ''p:q'')"
  by (simp add: fromOpaque_def sample_opaque_def data_string_def)

lemma sample_host: "normalizeRegistryHost ''https://ghcr.io/v2/'' = ''ghcr.io''"
proof -
  have i: "Index ''https://ghcr.io/v2/'' ''://'' = 5"
    by (simp add: Index_def HasPrefix_def)
  show ?thesis
    by (simp add: normalizeRegistryHost_def i slice_from_def Index_one slice_to_def TrimRight1_def)
qed

lemma sample_merge:
  "merge_secrets sample_json [sample_opaque] [] = Inr [(''ghcr.io'', opaque_entry (auth_user ''u'' ''p:q''))]"
proof -
  have "TrimSpace (data_string sample_opaque ''registry'') = ''https://ghcr.io/v2/''"
    by (simp add: sample_opaque_def data_string_def TrimSpace_def is_space_def)
  moreover have "sec_Type sample_opaque \<noteq> SecretTypeDockerConfigJson"
    by (simp add: sample_opaque_def SecretTypeDockerConfigJson_def)
  ultimately show ?thesis
    by (simp add: secret_entries_def sample_opaque_auth sample_host)
qed

lemma sample_entry_ascii: "ascii_entry (''ghcr.io'', opaque_entry (auth_user ''u'' ''p:q''))"
  by (simp add: ascii_entry_def ascii_def opaque_entry_def encodeAuth_def auth_user_def EncodeToString_def
      b64_char_def b64_alphabet_def)


end
