(* ===== verification/Revisions.thy ===== *)
theory Revisions
  imports Readiness Contract_Status Credentials Endpoints
begin

text \<open>
  PactoRevision management (\<open>ensureRevision\<close> and \<open>syncAllRevisions\<close> of
  \<^verbatim>\<open>internal/controller/pacto_controller.go\<close>) and the interfaces it is written against: the
  Kubernetes client and the \<open>ContractLoader\<close> interface, as records of functions over an abstract
  world. A Go panic (an out-of-range slice) is the value \<open>Panic\<close>.
\<close>

section \<open>Interfaces\<close>

datatype 'a go = Panic | Ret 'a

record 'w kube =
  k_GetPacto :: "key \<Rightarrow> 'w \<Rightarrow> api_error + Pacto"
  k_GetSecret :: "key \<Rightarrow> 'w \<Rightarrow> api_error + Secret"
  k_Reader :: "'w \<Rightarrow> reader"
  k_GetRevision :: "key \<Rightarrow> 'w \<Rightarrow> api_error + PactoRevision"
  k_ListRevisions :: "string \<Rightarrow> (string, string) gomap \<Rightarrow> 'w \<Rightarrow> api_error + PactoRevision list"
  k_CreateRevision :: "PactoRevision \<Rightarrow> 'w \<Rightarrow> api_error option \<times> 'w"
  k_UpdateRevisionStatus :: "PactoRevision \<Rightarrow> 'w \<Rightarrow> api_error option \<times> 'w"
  k_UpdatePactoStatus :: "Pacto \<Rightarrow> 'w \<Rightarrow> api_error option \<times> 'w"
  k_SetControllerReference :: "ObjectMeta \<Rightarrow> PactoRevision \<Rightarrow> string option"
  k_Now :: "'w \<Rightarrow> instant \<times> 'w"

record 'w ContractLoader =
  cl_Load :: "string \<Rightarrow> string \<Rightarrow> AuthConfig option \<Rightarrow> 'w \<Rightarrow> (string + LoadResult) \<times> 'w"
  cl_ListTags :: "string \<Rightarrow> AuthConfig option \<Rightarrow> 'w \<Rightarrow> (string + string list) \<times> 'w"

definition pacto_key :: "Pacto \<Rightarrow> key" where
  "pacto_key p = (om_Namespace (p_Meta p), om_Name (p_Meta p))"

section \<open>Ensuring one revision\<close>

definition revision_version :: "LoadResult \<Rightarrow> string" where
  "revision_version lr =
     (let version = sv_Version (c_Service (lr_Contract lr)) in if version = '''' then ''unknown'' else version)"

definition revision_name :: "externals \<Rightarrow> Pacto \<Rightarrow> LoadResult \<Rightarrow> string" where
  "revision_name x pacto lr =
     (let shortHash = take 7 (x_Sum256Hex x (lr_RawYAML lr));
          sanitizedVersion = ReplaceAll1 (revision_version lr) (CHR ''.'') (CHR ''-'');
          name = om_Name (p_Meta pacto) @ ''-'' @ sanitizedVersion @ ''-'' @ shortHash
      in if 253 < length name then take 253 name else name)"

definition revision_source :: "Pacto \<Rightarrow> LoadResult \<Rightarrow> RevisionSource" where
  "revision_source pacto lr =
     (if lr_ResolvedRef lr \<noteq> '''' then
        \<lparr>src_OCI = lr_ResolvedRef lr, src_Digest = lr_ResolvedDigest lr, src_Inline = False\<rparr>
      else if cr_OCI (ps_ContractRef (p_Spec pacto)) \<noteq> '''' then
        \<lparr>src_OCI = cr_OCI (ps_ContractRef (p_Spec pacto)), src_Digest = lr_ResolvedDigest lr, src_Inline = False\<rparr>
      else \<lparr>src_OCI = '''', src_Digest = '''', src_Inline = True\<rparr>)"

definition new_revision :: "externals \<Rightarrow> Pacto \<Rightarrow> LoadResult \<Rightarrow> PactoRevision" where
  "new_revision x pacto lr =
     \<lparr>rv_Meta = \<lparr>om_Name = revision_name x pacto lr, om_Namespace = om_Namespace (p_Meta pacto),
                 om_Generation = 0,
                 om_Labels = [(LabelPactoName, om_Name (p_Meta pacto)),
                              (LabelRevisionVersion, revision_version lr)]\<rparr>,
      rv_Spec = \<lparr>rsp_Version = revision_version lr, rsp_Source = revision_source pacto lr,
                 rsp_PactoRef = om_Name (p_Meta pacto),
                 rsp_ServiceName = sv_Name (c_Service (lr_Contract lr))\<rparr>,
      rv_Status = \<lparr>rst_Resolved = False, rst_ContractHash = '''', rst_CreatedAt = None\<rparr>\<rparr>"

definition backfill :: "string \<Rightarrow> instant \<Rightarrow> PactoRevision \<Rightarrow> PactoRevision" where
  "backfill hash now existing =
     existing\<lparr>rv_Status := (rv_Status existing)
       \<lparr>rst_Resolved := True, rst_ContractHash := hash,
        rst_CreatedAt := (case rst_CreatedAt (rv_Status existing) of None \<Rightarrow> Some now | Some t \<Rightarrow> Some t)\<rparr>\<rparr>"

definition ensureRevision ::
  "externals \<Rightarrow> 'w kube \<Rightarrow> Pacto \<Rightarrow> LoadResult \<Rightarrow> 'w \<times> outputs \<Rightarrow> (string + string) \<times> 'w \<times> outputs" where
  "ensureRevision x k pacto lr s =
     (case s of (w, out) \<Rightarrow>
        (let hash = x_Sum256Hex x (lr_RawYAML lr);
             version = revision_version lr;
             name = revision_name x pacto lr
         in case k_GetRevision k (om_Namespace (p_Meta pacto), name) w of
              Inr existing \<Rightarrow>
                if rst_ContractHash (rv_Status existing) = '''' \<or> rst_CreatedAt (rv_Status existing) = None then
                  (let (now, w) = k_Now k w;
                       (_, w) = k_UpdateRevisionStatus k (backfill hash now existing) w
                   in (Inr name, w, out))
                else (Inr name, w, out)
            | Inl err \<Rightarrow>
                if \<not> IsNotFound err then
                  (Inl (''failed to check for existing revision: '' @ error_text err), w, out)
                else
                  (let (now, w) = k_Now k w;
                       revision = new_revision x pacto lr
                   in case k_SetControllerReference k (p_Meta pacto) revision of
                        Some err \<Rightarrow> (Inl (''failed to set owner reference: '' @ err), w, out)
                      | None \<Rightarrow>
                          (let (created, w) = k_CreateRevision k revision w
                           in case created of
                                Some err \<Rightarrow>
                                  if IsAlreadyExists err then (Inr name, w, out)
                                  else (Inl (''failed to create PactoRevision: '' @ error_text err), w, out)
                              | None \<Rightarrow>
                                  (let revision = revision\<lparr>rv_Status :=
                                         \<lparr>rst_Resolved = True, rst_ContractHash = hash, rst_CreatedAt = Some now\<rparr>\<rparr>;
                                       (_, w) = k_UpdateRevisionStatus k revision w;
                                       out = Event pacto EventTypeNormal ''RevisionCreated''
                                         (''Created revision '' @ name @ '' for contract v'' @ version) out
                                   in (Inr name, w, out))))))"

section \<open>Synchronising all tags\<close>

definition tagged_ref :: "string \<Rightarrow> string \<Rightarrow> string" where
  "tagged_ref baseRef tag = strip_tag (TrimPrefix baseRef ''oci://'') @ '':'' @ tag"

definition sync_tag ::
  "externals \<Rightarrow> 'w kube \<Rightarrow> 'w ContractLoader \<Rightarrow> Pacto \<Rightarrow> string \<Rightarrow> AuthConfig option \<Rightarrow> string \<Rightarrow>
     'w \<times> outputs \<Rightarrow> ('w \<times> outputs) go" where
  "sync_tag x k ld pacto baseRef ociAuth tag s =
     (case s of (w, out) \<Rightarrow>
        (let ref = tagged_ref baseRef tag
         in case k_ListRevisions k (om_Namespace (p_Meta pacto))
                   [(LabelPactoName, om_Name (p_Meta pacto)), (LabelRevisionVersion, tag)] w of
              Inl err \<Rightarrow> Ret (w, out)
            | Inr (existing # _) \<Rightarrow>
                (let storedDigest = src_Digest (rsp_Source (rv_Spec existing))
                 in if storedDigest = '''' then Ret (w, out)
                    else
                      (let (loaded, w) = cl_Load ld ref '''' ociAuth w
                       in case loaded of
                            Inl err \<Rightarrow> Ret (w, out)
                          | Inr lr \<Rightarrow>
                              if lr_ResolvedDigest lr = storedDigest then Ret (w, out)
                              else if length storedDigest < 12 \<or> length (lr_ResolvedDigest lr) < 12 then Panic
                              else
                                (let out = Event pacto EventTypeWarning ''TagOverwritten''
                                       (''Tag '' @ tag @ '' was force-pushed (digest changed from '' @
                                        take 12 storedDigest @ '' to '' @ take 12 (lr_ResolvedDigest lr) @ '')'') out
                                 in Ret (snd (ensureRevision x k pacto lr (w, out))))))
            | Inr [] \<Rightarrow>
                (let (loaded, w) = cl_Load ld ref '''' ociAuth w
                 in case loaded of
                      Inl err \<Rightarrow> Ret (w, out)
                    | Inr lr \<Rightarrow> Ret (snd (ensureRevision x k pacto lr (w, out))))))"

fun sync_tags ::
  "externals \<Rightarrow> 'w kube \<Rightarrow> 'w ContractLoader \<Rightarrow> Pacto \<Rightarrow> string \<Rightarrow> AuthConfig option \<Rightarrow> string list \<Rightarrow>
     'w \<times> outputs \<Rightarrow> ('w \<times> outputs) go" where
  "sync_tags x k ld pacto baseRef ociAuth [] s = Ret s"
| "sync_tags x k ld pacto baseRef ociAuth (tag # tags) s =
     (case sync_tag x k ld pacto baseRef ociAuth tag s of
        Panic \<Rightarrow> Panic
      | Ret s \<Rightarrow> sync_tags x k ld pacto baseRef ociAuth tags s)"

definition syncAllRevisions ::
  "externals \<Rightarrow> 'w kube \<Rightarrow> 'w ContractLoader \<Rightarrow> Pacto \<Rightarrow> string \<Rightarrow> AuthConfig option \<Rightarrow>
     'w \<times> outputs \<Rightarrow> (string option \<times> 'w \<times> outputs) go" where
  "syncAllRevisions x k ld pacto baseRef ociAuth s =
     (case s of (w, out) \<Rightarrow>
        (case cl_ListTags ld baseRef ociAuth w of
           (Inl err, w) \<Rightarrow> Ret (Some (''failed to list tags: '' @ err), w, out)
         | (Inr tags, w) \<Rightarrow>
             (case sync_tags x k ld pacto baseRef ociAuth tags (w, out) of
                Panic \<Rightarrow> Panic
              | Ret (w, out) \<Rightarrow> Ret (None, w, out))))"

section \<open>Names\<close>

lemma append_suffix_inject:
  "length u = length v \<Longrightarrow> a @ u = b @ v \<Longrightarrow> a = b \<and> u = v"
  by simp

text \<open>
  C38. Revision names identify content: as long as the name fits into the 253 characters that
  Kubernetes allows, two revisions of one Pacto have the same name exactly when the sanitised
  versions and the first seven digits of the content hashes agree. (A longer name is cut at the
  end, where the hash is.)
\<close>

theorem revision_name_inject:
  assumes "hash_api x"
    and "length (om_Name (p_Meta p)) + length (revision_version lr) + 9 \<le> 253"
    and "length (om_Name (p_Meta p)) + length (revision_version lr') + 9 \<le> 253"
  shows "revision_name x p lr = revision_name x p lr' \<longleftrightarrow>
    ReplaceAll1 (revision_version lr) (CHR ''.'') (CHR ''-'') =
      ReplaceAll1 (revision_version lr') (CHR ''.'') (CHR ''-'') \<and>
    take 7 (x_Sum256Hex x (lr_RawYAML lr)) = take 7 (x_Sum256Hex x (lr_RawYAML lr'))"
proof -
  have len: "length (take 7 (x_Sum256Hex x b)) = 7" for b
    using assms(1) by (simp add: hash_api_def)
  have name: "revision_name x p l = om_Name (p_Meta p) @ ''-'' @
      ReplaceAll1 (revision_version l) (CHR ''.'') (CHR ''-'') @ ''-'' @ take 7 (x_Sum256Hex x (lr_RawYAML l))"
    if "length (om_Name (p_Meta p)) + length (revision_version l) + 9 \<le> 253" for l
    using that len[of "lr_RawYAML l"] by (simp add: revision_name_def ReplaceAll1_def Let_def)
  show ?thesis
    using append_suffix_inject[of "''-'' @ take 7 (x_Sum256Hex x (lr_RawYAML lr))"
        "''-'' @ take 7 (x_Sum256Hex x (lr_RawYAML lr'))"] len
    by (auto simp: name[OF assms(2)] name[OF assms(3)])
qed


section \<open>What revision management depends on\<close>

text \<open>Only on the metadata and the specification of the Pacto, never on its status.\<close>

lemma Event_object: "p_Meta p = p_Meta q \<Longrightarrow> Event p t r m out = Event q t r m out"
  by (simp add: Event_def)

lemma ensureRevision_object:
  assumes "p_Meta p = p_Meta q" "p_Spec p = p_Spec q"
  shows "ensureRevision x k p lr s = ensureRevision x k q lr s"
proof -
  have names: "revision_name x p lr = revision_name x q lr" "new_revision x p lr = new_revision x q lr"
    using assms by (simp_all add: revision_name_def new_revision_def revision_source_def)
  show ?thesis
    unfolding ensureRevision_def names Event_object[OF assms(1)] assms(1) ..
qed

lemma sync_tag_object:
  assumes "p_Meta p = p_Meta q" "p_Spec p = p_Spec q"
  shows "sync_tag x k ld p base auth tag s = sync_tag x k ld q base auth tag s"
  unfolding sync_tag_def ensureRevision_object[OF assms] Event_object[OF assms(1)] assms(1) ..

lemma sync_tags_object:
  assumes "p_Meta p = p_Meta q" "p_Spec p = p_Spec q"
  shows "sync_tags x k ld p base auth tags s = sync_tags x k ld q base auth tags s"
  by (induction tags arbitrary: s) (simp_all add: sync_tag_object[OF assms] split: go.split)

lemma syncAllRevisions_object:
  assumes "p_Meta p = p_Meta q" "p_Spec p = p_Spec q"
  shows "syncAllRevisions x k ld p base auth s = syncAllRevisions x k ld q base auth s"
  unfolding syncAllRevisions_def sync_tags_object[OF assms] ..

text \<open>The outputs are write-only: what happens to the cluster does not depend on them.\<close>

lemma ensureRevision_outputs:
  "\<exists>out2'. ensureRevision x k p lr (w, out2) =
     (fst (ensureRevision x k p lr (w, out)), fst (snd (ensureRevision x k p lr (w, out))), out2')"
  unfolding ensureRevision_def Let_def
  by (auto split: sum.splits if_splits option.splits prod.splits)

definition same_world :: "('w \<times> outputs) go \<Rightarrow> ('w \<times> outputs) go \<Rightarrow> bool" where
  "same_world a b \<longleftrightarrow> (a = Panic \<and> b = Panic \<or> (\<exists>w o1 o2. a = Ret (w, o1) \<and> b = Ret (w, o2)))"

lemma same_world_ensure:
  "same_world (Ret (snd (ensureRevision x k p lr (w, out)))) (Ret (snd (ensureRevision x k p lr (w, out2))))"
  using ensureRevision_outputs[of x k p lr w out2 out] unfolding same_world_def
  by (metis prod.collapse snd_conv)

lemma same_world_refl: "same_world (Ret (w, o1)) (Ret (w, o2))" "same_world Panic Panic"
  by (simp_all add: same_world_def)

lemma sync_tag_outputs: "same_world (sync_tag x k ld p base auth tag (w, out)) (sync_tag x k ld p base auth tag (w, out2))"
  unfolding sync_tag_def Let_def prod.case
  by (auto split: sum.split list.split prod.split simp: same_world_refl intro: same_world_ensure)

lemma sync_tags_outputs:
  "same_world (sync_tags x k ld p base auth tags (w, out)) (sync_tags x k ld p base auth tags (w, out2))"
proof (induction tags arbitrary: w out out2)
  case (Cons tag tags)
  have "same_world (sync_tag x k ld p base auth tag (w, out)) (sync_tag x k ld p base auth tag (w, out2))"
    by (rule sync_tag_outputs)
  with Cons.IH show ?case
    by (auto simp: same_world_def[of "sync_tag x k ld p base auth tag (w, out)"] same_world_refl)
qed (simp add: same_world_refl)

section \<open>What the operator relies on in the API server\<close>

text \<open>
  The immutable part of a stored revision. Creating an object or updating its status never changes
  the metadata and the specification of an object that exists; a successful creation, and one
  refused because the object exists, leave the object in place; reading the clock and loading
  contracts leave the objects alone.
\<close>

definition stored_spec :: "'w kube \<Rightarrow> 'w \<Rightarrow> key \<Rightarrow> (ObjectMeta \<times> PactoRevisionSpec) option" where
  "stored_spec k w key =
     (case k_GetRevision k key w of Inl _ \<Rightarrow> None | Inr rv \<Rightarrow> Some (rv_Meta rv, rv_Spec rv))"

definition revision_key :: "PactoRevision \<Rightarrow> key" where
  "revision_key rv = (om_Namespace (rv_Meta rv), om_Name (rv_Meta rv))"

definition grows :: "'w kube \<Rightarrow> 'w \<Rightarrow> 'w \<Rightarrow> bool" where
  "grows k w w' \<longleftrightarrow> (\<forall>key s. stored_spec k w key = Some s \<longrightarrow> stored_spec k w' key = Some s)"

definition revision_api :: "'w kube \<Rightarrow> bool" where
  "revision_api k \<longleftrightarrow>
     (\<forall>rv w. grows k w (snd (k_CreateRevision k rv w))) \<and>
     (\<forall>rv w w'. k_CreateRevision k rv w = (None, w') \<longrightarrow>
        stored_spec k w' (revision_key rv) = Some (rv_Meta rv, rv_Spec rv)) \<and>
     (\<forall>rv w e w'. k_CreateRevision k rv w = (Some e, w') \<and> IsAlreadyExists e \<longrightarrow>
        stored_spec k w' (revision_key rv) \<noteq> None) \<and>
     (\<forall>rv w. grows k w (snd (k_UpdateRevisionStatus k rv w))) \<and>
     (\<forall>w. grows k w (snd (k_Now k w)))"

definition loader_api :: "'w kube \<Rightarrow> 'w ContractLoader \<Rightarrow> bool" where
  "loader_api k ld \<longleftrightarrow>
     (\<forall>ref inline auth w. grows k w (snd (cl_Load ld ref inline auth w))) \<and>
     (\<forall>ref auth w. grows k w (snd (cl_ListTags ld ref auth w)))"

lemma grows_refl [simp]: "grows k w w"
  by (simp add: grows_def)

lemma grows_trans: "grows k w w' \<Longrightarrow> grows k w' w'' \<Longrightarrow> grows k w w''"
  by (auto simp: grows_def)

lemma revision_api_rules:
  assumes "revision_api k"
  shows "k_CreateRevision k rv w = (e, w') \<Longrightarrow> grows k w w'"
    "k_CreateRevision k rv w = (None, w') \<Longrightarrow> stored_spec k w' (revision_key rv) = Some (rv_Meta rv, rv_Spec rv)"
    "k_CreateRevision k rv w = (Some err, w') \<Longrightarrow> IsAlreadyExists err \<Longrightarrow> stored_spec k w' (revision_key rv) \<noteq> None"
    "k_UpdateRevisionStatus k rv w = (e, w') \<Longrightarrow> grows k w w'"
    "k_Now k w = (t, w') \<Longrightarrow> grows k w w'"
  using assms unfolding revision_api_def by (metis snd_conv)+

lemma loader_api_rules:
  assumes "loader_api k ld"
  shows "cl_Load ld ref inline auth w = (r, w') \<Longrightarrow> grows k w w'"
    "cl_ListTags ld ref auth w = (ts, w') \<Longrightarrow> grows k w w'"
  using assms unfolding loader_api_def by (metis snd_conv)+

lemma new_revision_key: "revision_key (new_revision x p lr) = (om_Namespace (p_Meta p), revision_name x p lr)"
  by (simp add: revision_key_def new_revision_def)

text \<open>
  Many facts about what a reconciliation leaves in place have one shape: a preorder on worlds that
  every call moves along. \<open>revision_calls\<close> and \<open>loader_calls\<close> say that of the calls made here.
\<close>

definition preorder_on_worlds :: "('w \<Rightarrow> 'w \<Rightarrow> bool) \<Rightarrow> bool" where
  "preorder_on_worlds R \<longleftrightarrow> reflp R \<and> transp R"

definition revision_calls :: "'w kube \<Rightarrow> ('w \<Rightarrow> 'w \<Rightarrow> bool) \<Rightarrow> bool" where
  "revision_calls k R \<longleftrightarrow>
     preorder_on_worlds R \<and> (\<forall>rv w. R w (snd (k_CreateRevision k rv w))) \<and>
     (\<forall>rv w. R w (snd (k_UpdateRevisionStatus k rv w))) \<and> (\<forall>w. R w (snd (k_Now k w)))"

definition loader_calls :: "'w ContractLoader \<Rightarrow> ('w \<Rightarrow> 'w \<Rightarrow> bool) \<Rightarrow> bool" where
  "loader_calls ld R \<longleftrightarrow>
     (\<forall>ref inline auth w. R w (snd (cl_Load ld ref inline auth w))) \<and> (\<forall>ref auth w. R w (snd (cl_ListTags ld ref auth w)))"

lemma grows_preorder: "preorder_on_worlds (grows k)"
  by (auto simp: preorder_on_worlds_def reflp_def transp_def intro: grows_trans)

lemma grows_calls:
  "revision_api k \<Longrightarrow> revision_calls k (grows k)" "loader_api k ld \<Longrightarrow> loader_calls ld (grows k)"
  using grows_preorder by (auto simp: revision_api_def revision_calls_def loader_api_def loader_calls_def)

lemma revision_calls_rules:
  assumes "revision_calls k R"
  shows "R w w" "R w w' \<Longrightarrow> R w' w'' \<Longrightarrow> R w w''"
    "k_CreateRevision k rv w = (e, w') \<Longrightarrow> R w w'" "k_UpdateRevisionStatus k rv w = (e, w') \<Longrightarrow> R w w'"
    "k_Now k w = (t, w') \<Longrightarrow> R w w'"
  using assms unfolding revision_calls_def preorder_on_worlds_def by (metis reflpD transpD snd_conv)+

lemma loader_calls_rules:
  assumes "loader_calls ld R"
  shows "cl_Load ld ref inline auth w = (r, w') \<Longrightarrow> R w w'" "cl_ListTags ld ref auth w = (ts, w') \<Longrightarrow> R w w'"
  using assms unfolding loader_calls_def by (metis snd_conv)+

lemma ensureRevision_keeps:
  assumes "revision_calls k R" "ensureRevision x k p lr (w, out) = (r, w', out')"
  shows "R w w'"
  using assms(2) revision_calls_rules[OF assms(1)]
  unfolding ensureRevision_def Let_def
  by (auto split: sum.splits if_splits option.splits prod.splits) meson+

lemma ensureRevision_grows:
  "revision_api k \<Longrightarrow> ensureRevision x k p lr (w, out) = (r, w', out') \<Longrightarrow> grows k w w'"
  by (rule ensureRevision_keeps[OF grows_calls(1)])

text \<open>
  C14. A revision that was reported exists: when \<open>ensureRevision\<close> returns a name, the cluster holds a
  revision of that name, whether it was found, created, or created concurrently by someone else;
  when it creates one, its specification is that of the loaded contract. A revision that is complete
  is left alone: no write, no event.
\<close>

theorem ensureRevision_exists:
  assumes "revision_api k" "ensureRevision x k p lr (w, out) = (Inr name, w', out')"
  shows "name = revision_name x p lr \<and>
    stored_spec k w' (om_Namespace (p_Meta p), name) \<noteq> None \<and>
    (out' \<noteq> out \<longrightarrow> stored_spec k w' (om_Namespace (p_Meta p), name) =
       Some (rv_Meta (new_revision x p lr), rv_Spec (new_revision x p lr))) \<and>
    (\<forall>rv. k_GetRevision k (om_Namespace (p_Meta p), name) w = Inr rv \<and>
       rst_ContractHash (rv_Status rv) \<noteq> '''' \<and> rst_CreatedAt (rv_Status rv) \<noteq> None \<longrightarrow> w' = w \<and> out' = out)"
proof (cases "k_GetRevision k (om_Namespace (p_Meta p), revision_name x p lr) w")
  case (Inr rv)
  have "grows k w w'"
    by (rule ensureRevision_grows[OF assms])
  then have "stored_spec k w' (om_Namespace (p_Meta p), revision_name x p lr) \<noteq> None"
    using Inr by (auto simp: grows_def stored_spec_def)
  with assms(2) Inr show ?thesis
    by (auto simp: ensureRevision_def Let_def split: if_splits prod.splits)
next
  case (Inl err)
  obtain t w1 where now: "k_Now k w = (t, w1)"
    by fastforce
  obtain e w2 where create: "k_CreateRevision k (new_revision x p lr) w1 = (e, w2)"
    by fastforce
  obtain u w3 where upd: "k_UpdateRevisionStatus k ((new_revision x p lr)\<lparr>rv_Status :=
      \<lparr>rst_Resolved = True, rst_ContractHash = x_Sum256Hex x (lr_RawYAML lr), rst_CreatedAt = Some t\<rparr>\<rparr>) w2 = (u, w3)"
    by fastforce
  have name: "name = revision_name x p lr" and step: "e = None \<and> w' = w3 \<or> (\<exists>err. e = Some err \<and> IsAlreadyExists err \<and> w' = w2 \<and> out' = out)"
    using assms(2) Inl now create upd
    by (auto simp: ensureRevision_def Let_def split: if_splits option.splits)
  from step show ?thesis
  proof
    assume created: "e = None \<and> w' = w3"
    then have "stored_spec k w2 (revision_key (new_revision x p lr)) =
        Some (rv_Meta (new_revision x p lr), rv_Spec (new_revision x p lr))"
      using create revision_api_rules(2)[OF assms(1)] by blast
    moreover have "grows k w2 w3"
      using upd revision_api_rules(4)[OF assms(1)] by blast
    ultimately show ?thesis
      using created name Inl by (auto simp: grows_def new_revision_key)
  next
    assume "\<exists>err. e = Some err \<and> IsAlreadyExists err \<and> w' = w2 \<and> out' = out"
    then show ?thesis
      using create name Inl revision_api_rules(3)[OF assms(1)] by (fastforce simp: new_revision_key)
  qed
qed

lemma sync_tag_keeps:
  assumes "revision_calls k R" "loader_calls ld R" "sync_tag x k ld p base auth tag (w, out) = Ret (w', out')"
  shows "R w w'"
proof -
  have load: "cl_Load ld ref inline a v = (r, v') \<Longrightarrow> R v v'" for ref inline a v r v'
    by (rule loader_calls_rules(1)[OF assms(2)])
  have ensure: "snd (ensureRevision x k p lr (v, o1)) = (v', o2) \<Longrightarrow> R v v'" for lr v o1 v' o2
    by (metis assms(1) ensureRevision_keeps prod.collapse)
  show ?thesis
    using assms(3) revision_calls_rules(1)[OF assms(1)] unfolding sync_tag_def Let_def
    by (auto split: sum.splits list.splits if_splits prod.splits intro: load ensure revision_calls_rules(2)[OF assms(1)])
qed

lemma sync_tags_keeps:
  assumes "revision_calls k R" "loader_calls ld R" "sync_tags x k ld p base auth tags (w, out) = Ret (w', out')"
  shows "R w w'"
  using assms(3)
proof (induction tags arbitrary: w out)
  case (Cons tag tags)
  then obtain w1 out1 where step: "sync_tag x k ld p base auth tag (w, out) = Ret (w1, out1)"
    by (auto split: go.splits)
  from Cons.IH[of w1 out1] Cons.prems sync_tag_keeps[OF assms(1,2) step] show ?case
    by (auto simp: step intro: revision_calls_rules(2)[OF assms(1)])
qed (simp add: revision_calls_rules(1)[OF assms(1)])

lemma syncAllRevisions_keeps:
  assumes "revision_calls k R" "loader_calls ld R"
    and "syncAllRevisions x k ld p base auth (w, out) = Ret (err, w', out')"
  shows "R w w'"
proof -
  obtain ts w1 where tags: "cl_ListTags ld base auth w = (ts, w1)"
    by fastforce
  have "R w1 w'"
    using assms(3) tags sync_tags_keeps[OF assms(1,2)] revision_calls_rules(1)[OF assms(1)]
    by (auto simp: syncAllRevisions_def split: sum.splits go.splits prod.splits)
  with loader_calls_rules(2)[OF assms(2) tags] show ?thesis
    by (rule revision_calls_rules(2)[OF assms(1)])
qed

section \<open>Panics\<close>

text \<open>Digests that the event message can slice: the empty one is never compared, others have 12 bytes.\<close>

definition digest_ok :: "string \<Rightarrow> bool" where
  "digest_ok d \<longleftrightarrow> 12 \<le> length d"

lemma sync_tag_no_panic:
  assumes "\<And>ns labels v rvs rv. k_ListRevisions k ns labels v = Inr rvs \<Longrightarrow> rv \<in> set rvs \<Longrightarrow>
        src_Digest (rsp_Source (rv_Spec rv)) = '''' \<or> digest_ok (src_Digest (rsp_Source (rv_Spec rv)))"
    and "\<And>ref inline a v lr v'. cl_Load ld ref inline a v = (Inr lr, v') \<Longrightarrow> digest_ok (lr_ResolvedDigest lr)"
  shows "sync_tag x k ld p base auth tag s \<noteq> Panic"
proof -
  obtain w out where s: "s = (w, out)"
    by (cases s)
  show ?thesis
    using assms(2) assms(1)[of "om_Namespace (p_Meta p)" "[(LabelPactoName, om_Name (p_Meta p)), (LabelRevisionVersion, tag)]" w]
    unfolding sync_tag_def Let_def s
    by (fastforce simp: digest_ok_def split: sum.splits list.splits if_splits prod.splits)
qed

lemma sync_tags_no_panic:
  assumes "\<And>tag s. sync_tag x k ld p base auth tag s \<noteq> Panic"
  shows "sync_tags x k ld p base auth tags s \<noteq> Panic"
  using assms by (induction tags arbitrary: s) (auto split: go.splits)

lemma syncAllRevisions_no_panic:
  assumes "\<And>ns labels v rvs rv. k_ListRevisions k ns labels v = Inr rvs \<Longrightarrow> rv \<in> set rvs \<Longrightarrow>
        src_Digest (rsp_Source (rv_Spec rv)) = '''' \<or> digest_ok (src_Digest (rsp_Source (rv_Spec rv)))"
    and "\<And>ref inline a v lr v'. cl_Load ld ref inline a v = (Inr lr, v') \<Longrightarrow> digest_ok (lr_ResolvedDigest lr)"
  shows "\<exists>err w' out'. syncAllRevisions x k ld p base auth s = Ret (err, w', out')"
proof -
  have "sync_tags x k ld p base auth tags s \<noteq> Panic" for tags s
    using sync_tags_no_panic[OF sync_tag_no_panic[OF assms]] .
  then show ?thesis
    by (cases s) (auto simp: syncAllRevisions_def split: sum.splits go.splits prod.splits)
qed

text \<open>
  The converse: a stored digest that differs from an empty digest of a freshly loaded contract makes
  the synchronisation panic.
\<close>

lemma sync_tag_panics:
  assumes "k_ListRevisions k (om_Namespace (p_Meta p)) [(LabelPactoName, om_Name (p_Meta p)), (LabelRevisionVersion, tag)] w =
      Inr (rv # rvs)"
    and "src_Digest (rsp_Source (rv_Spec rv)) \<noteq> ''''"
    and "cl_Load ld (tagged_ref base tag) '''' auth w = (Inr lr, w')" "lr_ResolvedDigest lr = ''''"
  shows "sync_tag x k ld p base auth tag (w, out) = Panic"
  using assms by (simp add: sync_tag_def)


section \<open>A concrete cluster\<close>

text \<open>Revisions and Pactos by key, and a clock that advances with every reading.\<close>

record cluster =
  cw_Revisions :: "(key \<times> PactoRevision) list"
  cw_Pactos :: "Pacto list"
  cw_Clock :: instant

definition lookup_key :: "(key \<times> 'a) list \<Rightarrow> key \<Rightarrow> api_error + 'a" where
  "lookup_key m key = (case map_of m key of None \<Rightarrow> Inl (NotFound ''not found'') | Some a \<Rightarrow> Inr a)"

definition cluster_create :: "PactoRevision \<Rightarrow> cluster \<Rightarrow> api_error option \<times> cluster" where
  "cluster_create rv w =
     (case map_of (cw_Revisions w) (revision_key rv) of
        Some _ \<Rightarrow> (Some (AlreadyExists ''already exists''), w)
      | None \<Rightarrow> (None, w\<lparr>cw_Revisions := cw_Revisions w @ [(revision_key rv, rv)]\<rparr>))"

definition cluster_update_status :: "PactoRevision \<Rightarrow> cluster \<Rightarrow> api_error option \<times> cluster" where
  "cluster_update_status rv w =
     (case map_of (cw_Revisions w) (revision_key rv) of
        None \<Rightarrow> (Some (NotFound ''not found''), w)
      | Some old \<Rightarrow>
          (None, w\<lparr>cw_Revisions := AList.update (revision_key rv) (old\<lparr>rv_Status := rv_Status rv\<rparr>) (cw_Revisions w)\<rparr>))"

definition cluster_get_pacto :: "key \<Rightarrow> cluster \<Rightarrow> api_error + Pacto" where
  "cluster_get_pacto key w =
     (case List.find (\<lambda>p. pacto_key p = key) (cw_Pactos w) of
        None \<Rightarrow> Inl (NotFound ''not found'') | Some p \<Rightarrow> Inr p)"

definition cluster_update_pacto :: "Pacto \<Rightarrow> cluster \<Rightarrow> api_error option \<times> cluster" where
  "cluster_update_pacto p w = (None, w\<lparr>cw_Pactos := p # filter (\<lambda>q. pacto_key q \<noteq> pacto_key p) (cw_Pactos w)\<rparr>)"

definition has_labels :: "(string, string) gomap \<Rightarrow> PactoRevision \<Rightarrow> bool" where
  "has_labels labels rv \<longleftrightarrow> list_all (\<lambda>(k, v). map_of (om_Labels (rv_Meta rv)) k = Some v) labels"

definition sample_kube :: "cluster kube" where
  "sample_kube =
     \<lparr>k_GetPacto = cluster_get_pacto,
      k_GetSecret = (\<lambda>key w. Inl (NotFound ''no secret'')),
      k_Reader = (\<lambda>w. sample_reader),
      k_GetRevision = (\<lambda>key w. lookup_key (cw_Revisions w) key),
      k_ListRevisions = (\<lambda>ns labels w. Inr (filter (\<lambda>rv. om_Namespace (rv_Meta rv) = ns \<and> has_labels labels rv)
        (map snd (cw_Revisions w)))),
      k_CreateRevision = cluster_create,
      k_UpdateRevisionStatus = cluster_update_status,
      k_UpdatePactoStatus = cluster_update_pacto,
      k_SetControllerReference = (\<lambda>p rv. None),
      k_Now = (\<lambda>w. (cw_Clock w, w\<lparr>cw_Clock := cw_Clock w + 1\<rparr>))\<rparr>"

definition sample_lr :: LoadResult where
  "sample_lr =
     \<lparr>lr_Contract = sample_contract, lr_RawYAML = ''service: svc'', lr_BundleFS = None,
      lr_ResolvedRef = ''ghcr.io/org/svc-pacto:1.0.0'', lr_ResolvedDigest = ''sha256:0123456789abcdef''\<rparr>"

definition sample_contract_loader :: "cluster ContractLoader" where
  "sample_contract_loader =
     \<lparr>cl_Load = (\<lambda>ref inline auth w. (Inr sample_lr, w)), cl_ListTags = (\<lambda>ref auth w. (Inr [''1.0.0''], w))\<rparr>"

definition empty_cluster :: cluster where
  "empty_cluster = \<lparr>cw_Revisions = [], cw_Pactos = [sample_pacto], cw_Clock = 0\<rparr>"

lemma stored_spec_sample:
  "stored_spec sample_kube w key = map_option (\<lambda>rv. (rv_Meta rv, rv_Spec rv)) (map_of (cw_Revisions w) key)"
  by (simp add: stored_spec_def sample_kube_def lookup_key_def split: option.split)

lemma sample_create_grows: "grows sample_kube w (snd (cluster_create rv w))"
  by (auto simp: grows_def stored_spec_sample cluster_create_def map_add_def split: option.splits)

lemma sample_update_grows: "grows sample_kube w (snd (cluster_update_status rv w))"
  by (auto simp: grows_def stored_spec_sample cluster_update_status_def update_conv' split: option.splits)

lemma revision_api_sample: "revision_api sample_kube"
  unfolding revision_api_def
proof (intro conjI allI impI)
  fix rv w w'
  assume "k_CreateRevision sample_kube rv w = (None, w')"
  then show "stored_spec sample_kube w' (revision_key rv) = Some (rv_Meta rv, rv_Spec rv)"
    unfolding stored_spec_sample by (auto simp: sample_kube_def cluster_create_def map_add_def split: option.splits)
next
  fix rv w e w'
  assume "k_CreateRevision sample_kube rv w = (Some e, w') \<and> IsAlreadyExists e"
  then show "stored_spec sample_kube w' (revision_key rv) \<noteq> None"
    unfolding stored_spec_sample by (auto simp: sample_kube_def cluster_create_def split: option.splits)
next
  show "grows sample_kube w (snd (k_CreateRevision sample_kube rv w))" for rv w
    using sample_create_grows[of w rv] by (simp add: sample_kube_def)
  show "grows sample_kube w (snd (k_UpdateRevisionStatus sample_kube rv w))" for rv w
    using sample_update_grows[of w rv] by (simp add: sample_kube_def)
  show "grows sample_kube w (snd (k_Now sample_kube w))" for w
    unfolding grows_def stored_spec_sample by (simp add: sample_kube_def)
qed

lemma loader_api_sample: "loader_api sample_kube sample_contract_loader"
  by (simp add: loader_api_def sample_contract_loader_def)

theorem revision_name_inject_witness:
  "revision_name documented sample_pacto sample_lr \<noteq>
   revision_name documented sample_pacto (sample_lr\<lparr>lr_Contract := sample_contract\<lparr>c_Service :=
     (c_Service sample_contract)\<lparr>sv_Version := ''2.0.0''\<rparr>\<rparr>\<rparr>)"
proof -
  let ?lr' = "sample_lr\<lparr>lr_Contract := sample_contract\<lparr>c_Service := (c_Service sample_contract)\<lparr>sv_Version := ''2.0.0''\<rparr>\<rparr>\<rparr>"
  have v: "revision_version sample_lr = ''1.0.0''" "revision_version ?lr' = ''2.0.0''"
    "om_Name (p_Meta sample_pacto) = ''svc''"
    by (simp_all add: revision_version_def sample_lr_def sample_contract_def sample_pacto_def)
  then show ?thesis
    using revision_name_inject[OF hash_api_documented, of sample_pacto sample_lr ?lr'] by (simp add: ReplaceAll1_def)
qed

lemma sample_ensure:
  "\<exists>w' out'. ensureRevision documented sample_kube sample_pacto sample_lr (empty_cluster, no_outputs) =
     (Inr (revision_name documented sample_pacto sample_lr), w', out')"
  by (simp add: ensureRevision_def sample_kube_def empty_cluster_def lookup_key_def cluster_create_def Let_def split: prod.split)

theorem ensureRevision_exists_witness:
  "\<exists>w' out'. ensureRevision documented sample_kube sample_pacto sample_lr (empty_cluster, no_outputs) =
       (Inr (revision_name documented sample_pacto sample_lr), w', out') \<and>
     stored_spec sample_kube w' (''ns'', revision_name documented sample_pacto sample_lr) \<noteq> None"
proof -
  obtain w' out' where run: "ensureRevision documented sample_kube sample_pacto sample_lr (empty_cluster, no_outputs) =
      (Inr (revision_name documented sample_pacto sample_lr), w', out')"
    using sample_ensure by blast
  from ensureRevision_exists[OF revision_api_sample run] run show ?thesis
    by (simp add: sample_pacto_def)
qed

text \<open>A cluster that holds the revision of the sample contract.\<close>

definition sample_revision :: PactoRevision where
  "sample_revision = new_revision documented sample_pacto sample_lr"

definition revised_cluster :: cluster where
  "revised_cluster = empty_cluster\<lparr>cw_Revisions := [(revision_key sample_revision, sample_revision)]\<rparr>"

lemma sample_revision_facts:
  "om_Namespace (rv_Meta sample_revision) = ''ns''"
  "src_Digest (rsp_Source (rv_Spec sample_revision)) = lr_ResolvedDigest sample_lr"
  "has_labels [(LabelPactoName, ''svc''), (LabelRevisionVersion, ''1.0.0'')] sample_revision"
  by (simp_all add: sample_revision_def new_revision_def revision_source_def has_labels_def revision_version_def
      sample_lr_def sample_pacto_def sample_contract_def const_defs)

lemma sample_sync:
  "syncAllRevisions documented sample_kube sample_contract_loader sample_pacto ''ghcr.io/org/svc-pacto'' None
     (revised_cluster, no_outputs) = Ret (None, revised_cluster, no_outputs)"
proof -
  have "sync_tag documented sample_kube sample_contract_loader sample_pacto ''ghcr.io/org/svc-pacto'' None ''1.0.0''
      (revised_cluster, no_outputs) = Ret (revised_cluster, no_outputs)"
  proof -
    have "k_ListRevisions sample_kube (om_Namespace (p_Meta sample_pacto))
        [(LabelPactoName, om_Name (p_Meta sample_pacto)), (LabelRevisionVersion, ''1.0.0'')] revised_cluster = Inr [sample_revision]"
      using sample_revision_facts by (simp add: sample_kube_def revised_cluster_def sample_pacto_def)
    moreover have "lr_ResolvedDigest sample_lr \<noteq> ''''"
      by (simp add: sample_lr_def)
    ultimately show ?thesis
      using sample_revision_facts(2) by (simp add: sync_tag_def sample_contract_loader_def)
  qed
  then show ?thesis
    by (simp add: syncAllRevisions_def sample_contract_loader_def)
qed

end
