(* ===== verification/Reconcile.thy ===== *)
theory Reconcile
  imports Revisions Overrides
begin

text \<open>
  The reconciliation handler (\<open>Reconcile\<close>, \<open>failReconciliation\<close>, \<open>finishReconciliation\<close>,
  \<open>requeueInterval\<close>, \<open>resolutionPolicy\<close>, \<open>resolveOCIAuth\<close> of
  \<^verbatim>\<open>internal/controller/pacto_controller.go\<close>): every step in the order of the code, over the client,
  the loader and the HTTP client as parameters. A panic inside the synchronisation of revisions is
  the result \<open>Panic\<close>.
\<close>

section \<open>The reconciler and its parameters\<close>

record 'w PactoReconciler =
  r_Client :: "'w kube"
  r_Loader :: "'w ContractLoader"
  r_HTTP :: "'w http_env"
  r_Ext :: externals
  r_JSON :: json_codec
  r_Base64Error :: "string \<Rightarrow> string"

text \<open>\<open>ctrl.Result\<close> with its only used field, and the error that goes with it.\<close>

record ctrl_Result =
  RequeueAfter :: int64

type_synonym reconciled = "ctrl_Result \<times> api_error option"

definition no_requeue :: ctrl_Result where
  "no_requeue = \<lparr>RequeueAfter = 0\<rparr>"

definition requeueInterval :: "Pacto \<Rightarrow> int64" where
  "requeueInterval pacto =
     (if 0 < sint (ps_CheckIntervalSeconds (p_Spec pacto)) then
        int32_to_int64 (ps_CheckIntervalSeconds (p_Spec pacto)) * word_of_int Second
      else 5 * word_of_int Minute)"

definition resolutionPolicy :: "externals \<Rightarrow> string \<Rightarrow> string" where
  "resolutionPolicy x ociRef =
     (if ociRef = '''' then ''''
      else if x_HasExplicitTag x ociRef then
        if Contains ociRef ''@'' then ResolutionPolicyPinnedDigest else ResolutionPolicyPinnedTag
      else ResolutionPolicyLatest)"

definition resolveOCIAuth ::
  "'w PactoReconciler \<Rightarrow> string \<Rightarrow> string \<Rightarrow> string \<Rightarrow> 'w \<Rightarrow> string + AuthConfig" where
  "resolveOCIAuth r namespace secretName ociRef w =
     (case k_GetSecret (r_Client r) (namespace, secretName) w of
        Inl err \<Rightarrow> Inl (''secret '' @ show_q secretName @ '' not found: '' @ error_text err)
      | Inr secret \<Rightarrow>
          (case FromSecret (r_JSON r) secret (RegistryFromRef ociRef) of
             Inl err \<Rightarrow> Inl (cred_error_text (r_Base64Error r) err)
           | Inr auth \<Rightarrow> Inr auth))"

section \<open>The two ways to end\<close>

definition stamp :: "instant \<Rightarrow> Pacto \<Rightarrow> Pacto" where
  "stamp now pacto =
     upd_status (\<lambda>st. st\<lparr>st_LastReconciledAt := Some now,
       st_ObservedGeneration := om_Generation (p_Meta pacto)\<rparr>) pacto"

definition failed_check :: Check where
  "failed_check =
     \<lparr>ck_Name = ConditionContractValid, ck_Passed = False, ck_Reason = '''', ck_Message = '''',
      ck_Severity = SeverityError\<rparr>"

definition record_validation :: "Pacto \<Rightarrow> ContractDoc option \<Rightarrow> Check list \<Rightarrow> outputs \<Rightarrow> outputs" where
  "record_validation pacto c checks out =
     (case c of
        None \<Rightarrow> out
      | Some c \<Rightarrow>
          if sv_Name (c_Service c) \<noteq> '''' then
            upd_gauges (RecordValidation (om_Namespace (p_Meta pacto)) (sv_Name (c_Service c)) checks) out
          else out)"

definition failReconciliation ::
  "'w PactoReconciler \<Rightarrow> Pacto \<Rightarrow> string \<Rightarrow> ValidationResult \<Rightarrow> ContractDoc option \<Rightarrow> 'w \<times> outputs \<Rightarrow>
     reconciled \<times> 'w \<times> outputs" where
  "failReconciliation r pacto msg valResult c s =
     (case s of (w, out) \<Rightarrow>
        (let pacto = setCondition (r_Ext r) pacto ConditionContractValid ConditionFalse ReasonContractInvalid msg;
             pacto = upd_status (\<lambda>st. st\<lparr>st_ContractStatus := ContractStatusNonCompliant,
               st_Summary := Some \<lparr>cs_Total = 1, cs_Passed = 0, cs_Failed = 1\<rparr>,
               st_Validation := Some valResult\<rparr>) pacto;
             (now, w) = k_Now (r_Client r) w;
             pacto = stamp now pacto;
             (err, w) = k_UpdatePactoStatus (r_Client r) pacto w
         in case err of
              Some statusErr \<Rightarrow> ((no_requeue, Some statusErr), w, out)
            | None \<Rightarrow>
                (let out = Event pacto EventTypeWarning ''ContractInvalid'' msg out;
                     out = upd_gauges (RecordContractStatus (om_Namespace (p_Meta pacto)) (om_Name (p_Meta pacto))
                             (st_ContractStatus (p_Status pacto))) out;
                     out = record_validation pacto c [failed_check] out
                 in ((\<lparr>RequeueAfter = requeueInterval pacto\<rparr>, None), w, out))))"

definition finishReconciliation ::
  "'w PactoReconciler \<Rightarrow> Pacto \<Rightarrow> ContractDoc option \<Rightarrow> Check list \<Rightarrow> 'w \<times> outputs \<Rightarrow>
     reconciled \<times> 'w \<times> outputs" where
  "finishReconciliation r pacto c checks s =
     (case s of (w, out) \<Rightarrow>
        (let (now, w) = k_Now (r_Client r) w;
             pacto = stamp now pacto;
             (err, w) = k_UpdatePactoStatus (r_Client r) pacto w
         in case err of
              Some statusErr \<Rightarrow> ((no_requeue, Some statusErr), w, out)
            | None \<Rightarrow>
                (let status = st_ContractStatus (p_Status pacto);
                     out =
                       (if status \<noteq> ContractStatusCompliant \<and> status \<noteq> ContractStatusReference then
                          (case st_Summary (p_Status pacto) of
                             None \<Rightarrow> out
                           | Some sm \<Rightarrow> Event pacto EventTypeWarning ''ValidationFailed''
                               (''ContractStatus: '' @ status @ '', '' @ show_int (sint (cs_Failed sm)) @ ''/'' @
                                show_int (sint (cs_Total sm)) @ '' checks failed'') out)
                        else out);
                     out = upd_gauges (RecordContractStatus (om_Namespace (p_Meta pacto)) (om_Name (p_Meta pacto))
                             status) out;
                     out = record_validation pacto c checks out
                 in ((\<lparr>RequeueAfter = requeueInterval pacto\<rparr>, None), w, out))))"

section \<open>Loading the contract\<close>

text \<open>A failure of a step before the runtime phase: the arguments of \<open>failReconciliation\<close>.\<close>

record failure =
  fl_Msg :: string
  fl_Validation :: ValidationResult
  fl_Contract :: "ContractDoc option"

definition invalid :: "string \<Rightarrow> string \<Rightarrow> ValidationResult" where
  "invalid path msg =
     \<lparr>vr_Valid = False, vr_Errors = [\<lparr>vi_Code = '''', vi_Path = path, vi_Message = msg\<rparr>], vr_Warnings = []\<rparr>"

definition pull_credentials :: "'w PactoReconciler \<Rightarrow> Pacto \<Rightarrow> 'w \<Rightarrow> failure + AuthConfig option" where
  "pull_credentials r pacto w =
     (let ref = ps_ContractRef (p_Spec pacto); secretName = cr_PullSecretRef ref
      in if secretName \<noteq> '''' then
           (case resolveOCIAuth r (om_Namespace (p_Meta pacto)) secretName (cr_OCI ref) w of
              Inl secretErr \<Rightarrow>
                Inl \<lparr>fl_Msg = ''failed to read pull secret '' @ show_q secretName @ '': '' @ secretErr,
                     fl_Validation = invalid ''spec.contractRef.pullSecretRef'' secretErr, fl_Contract = None\<rparr>
            | Inr auth \<Rightarrow> Inr (Some auth))
         else Inr None)"

definition load_contract ::
  "'w PactoReconciler \<Rightarrow> Pacto \<Rightarrow> AuthConfig option \<Rightarrow> 'w \<Rightarrow>
     (failure + LoadResult \<times> ContractDoc \<times> (string, string list) gomap) \<times> 'w" where
  "load_contract r pacto ociAuth w =
     (let ref = ps_ContractRef (p_Spec pacto);
          (loaded, w) = cl_Load (r_Loader r) (cr_OCI ref) (cr_Inline ref) ociAuth w
      in case loaded of
           Inl err \<Rightarrow> (Inl \<lparr>fl_Msg = err, fl_Validation = invalid '''' err, fl_Contract = None\<rparr>, w)
         | Inr loadResult \<Rightarrow>
             (case ps_Overrides (p_Spec pacto) of
                None \<Rightarrow> (Inr (loadResult, lr_Contract loadResult, []), w)
              | Some ovs \<Rightarrow>
                  (case applyConfigurationOverrides (lr_Contract loadResult) (Some ovs) of
                     Inl overrideErr \<Rightarrow>
                       (Inl \<lparr>fl_Msg = ''override error: '' @ overrideErr,
                             fl_Validation = invalid ''spec.overrides'' overrideErr,
                             fl_Contract = Some (lr_Contract loadResult)\<rparr>, w)
                   | Inr (effectiveContract, overriddenKeys) \<Rightarrow>
                       (Inr (loadResult, effectiveContract, overriddenKeys), w))))"

definition populate_status ::
  "externals \<Rightarrow> Pacto \<Rightarrow> LoadResult \<Rightarrow> ContractDoc \<Rightarrow> (string, string list) gomap \<Rightarrow> Pacto" where
  "populate_status x pacto loadResult effectiveContract overriddenKeys =
     (let pacto = setCondition x pacto ConditionContractValid ConditionTrue ReasonContractParsed
            (''Contract '' @ sv_Name (c_Service effectiveContract) @ '' v'' @
             sv_Version (c_Service effectiveContract) @ '' is valid'');
          pacto = upd_status (\<lambda>st. st\<lparr>st_ContractVersion := sv_Version (c_Service effectiveContract)\<rparr>) pacto;
          effectiveLR = loadResult\<lparr>lr_Contract := effectiveContract\<rparr>;
          pacto = populateContractStatus x pacto effectiveLR
      in mark_overridden overriddenKeys pacto)"


section \<open>The handler\<close>

text \<open>
  Steps 5 to 7 for a contract that was loaded: validation, contract-derived status, readiness, the
  revision of the current version and, unless the reference is a digest, those of all tags.
\<close>

definition record_revisions ::
  "'w PactoReconciler \<Rightarrow> Pacto \<Rightarrow> AuthConfig option \<Rightarrow> LoadResult \<Rightarrow> 'w \<times> outputs \<Rightarrow> (Pacto \<times> 'w \<times> outputs) go" where
  "record_revisions r pacto ociAuth loadResult s =
     (let (revision, s) = ensureRevision (r_Ext r) (r_Client r) pacto loadResult s;
          pacto = (case revision of
                     Inl revErr \<Rightarrow> pacto
                   | Inr revisionName \<Rightarrow> upd_status (\<lambda>st. st\<lparr>st_CurrentRevision := revisionName\<rparr>) pacto);
          ociRef = cr_OCI (ps_ContractRef (p_Spec pacto))
      in if ociRef \<noteq> '''' \<and> \<not> Contains ociRef ''@'' then
           (case syncAllRevisions (r_Ext r) (r_Client r) (r_Loader r) pacto ociRef ociAuth s of
              Panic \<Rightarrow> Panic
            | Ret (syncErr, s) \<Rightarrow> Ret (pacto, s))
         else Ret (pacto, s))"

definition observed_runtime :: "RuntimeSnapshot \<Rightarrow> ObservedRuntime" where
  "observed_runtime snapshot =
     \<lparr>or_WorkloadKind = sn_WorkloadKind snapshot, or_DeploymentStrategy = sn_DeploymentStrategy snapshot,
      or_PodManagementPolicy = sn_PodManagementPolicy snapshot,
      or_TerminationGracePeriodSeconds = sn_TerminationGracePeriod snapshot,
      or_ContainerImages = sn_ContainerImages snapshot, or_HasPVC = sn_HasPVC snapshot,
      or_HasEmptyDir = sn_HasEmptyDir snapshot,
      or_HealthProbeInitialDelaySeconds = sn_HealthProbeInitialDelay snapshot\<rparr>"

definition reference_phase ::
  "'w PactoReconciler \<Rightarrow> Pacto \<Rightarrow> ContractDoc \<Rightarrow> 'w \<times> outputs \<Rightarrow> reconciled \<times> 'w \<times> outputs" where
  "reference_phase r pacto effectiveContract s =
     (let pacto = setCondition (r_Ext r) pacto ConditionContractValid ConditionTrue ReasonReferenceOnly
            (''Reference contract '' @ sv_Name (c_Service effectiveContract) @ '' v'' @
             sv_Version (c_Service effectiveContract) @ '' is valid'');
          pacto = upd_status (\<lambda>st. st\<lparr>st_ContractStatus := ContractStatusReference,
            st_Summary := Some \<lparr>cs_Total = 1, cs_Passed = 1, cs_Failed = 0\<rparr>\<rparr>) pacto
      in finishReconciliation r pacto (Some effectiveContract) [contract_valid_check] s)"

definition unobserved_phase ::
  "'w PactoReconciler \<Rightarrow> Pacto \<Rightarrow> ContractDoc \<Rightarrow> string \<Rightarrow> string \<Rightarrow> 'w \<times> outputs \<Rightarrow> reconciled \<times> 'w \<times> outputs" where
  "unobserved_phase r pacto effectiveContract serviceName err s =
     (case s of (w, out) \<Rightarrow>
        (let obsMsg = ''failed to observe runtime state: '' @ err;
             pacto = setCondition (r_Ext r) pacto ConditionRuntimeObserved ConditionFalse ReasonObservationFailed obsMsg;
             out = Event pacto EventTypeWarning ''ObservationFailed''
               (''Could not observe runtime state for '' @ show_q serviceName @ '': '' @ err) out;
             pacto = upd_status (\<lambda>st. st\<lparr>st_ContractStatus := ContractStatusUnknown,
               st_Summary := Some \<lparr>cs_Total = 1, cs_Passed = 0, cs_Failed = 1\<rparr>\<rparr>) pacto
         in finishReconciliation r pacto (Some effectiveContract)
              [contract_valid_check,
               \<lparr>ck_Name = ConditionRuntimeObserved, ck_Passed = False, ck_Reason = '''', ck_Message = obsMsg,
                ck_Severity = SeverityError\<rparr>] (w, out)))"

definition runtime_phase ::
  "'w PactoReconciler \<Rightarrow> Pacto \<Rightarrow> ContractDoc \<Rightarrow> 'w \<times> outputs \<Rightarrow> reconciled \<times> 'w \<times> outputs" where
  "runtime_phase r pacto effectiveContract s =
     (case s of (w, out) \<Rightarrow>
        (let (workloadName, workloadKind) = ResolvedWorkload pacto;
             serviceName = tr_ServiceName (ps_Target (p_Spec pacto))
         in case Observe (k_Reader (r_Client r) w) (om_Namespace (p_Meta pacto)) serviceName workloadName workloadKind of
              Inl err \<Rightarrow> unobserved_phase r pacto effectiveContract serviceName err (w, out)
            | Inr snapshot \<Rightarrow>
                (let pacto = (if sn_WorkloadExists snapshot then
                        upd_status (\<lambda>st. st\<lparr>st_ObservedRuntime := Some (observed_runtime snapshot)\<rparr>) pacto
                      else pacto);
                     hasService = (serviceName \<noteq> '''');
                     result = Validate effectiveContract snapshot hasService;
                     pacto = applyValidationResult (r_Ext r) pacto result snapshot serviceName workloadName workloadKind;
                     allChecks = contract_valid_check # res_Checks result;
                     ((endpointChecks, pacto), w) =
                       (if sn_ServiceExists snapshot then
                          probeEndpoints (r_Ext r) (r_HTTP r) pacto effectiveContract serviceName w
                        else (([], pacto), w));
                     pacto = upd_status (\<lambda>st. st\<lparr>st_ContractStatus := computeFinalContractStatus pacto\<rparr>) pacto
                 in finishReconciliation r pacto (Some effectiveContract) (allChecks @ endpointChecks) (w, out))))"

definition reconcile_pacto :: "'w PactoReconciler \<Rightarrow> Pacto \<Rightarrow> 'w \<times> outputs \<Rightarrow> (reconciled \<times> 'w \<times> outputs) go" where
  "reconcile_pacto r pacto s =
     (case s of (w, out) \<Rightarrow>
        (let x = r_Ext r;
             wasUnmet = readinessWasUnmet x pacto;
             pacto = resetDerivedStatus pacto
         in case pull_credentials r pacto w of
              Inl f \<Rightarrow> Ret (failReconciliation r pacto (fl_Msg f) (fl_Validation f) (fl_Contract f) (w, out))
            | Inr ociAuth \<Rightarrow>
                (let pacto = upd_status (\<lambda>st. st\<lparr>st_ResolutionPolicy :=
                       resolutionPolicy x (cr_OCI (ps_ContractRef (p_Spec pacto)))\<rparr>) pacto;
                     (loaded, w) = load_contract r pacto ociAuth w
                 in case loaded of
                      Inl f \<Rightarrow> Ret (failReconciliation r pacto (fl_Msg f) (fl_Validation f) (fl_Contract f) (w, out))
                    | Inr (loadResult, effectiveContract, overriddenKeys) \<Rightarrow>
                        (let contractResult = x_Validate x effectiveContract (lr_RawYAML loadResult) (lr_BundleFS loadResult);
                             validation = mapValidationResult contractResult;
                             pacto = upd_status (\<lambda>st. st\<lparr>st_Validation := Some validation\<rparr>) pacto
                         in if cv_Errors contractResult \<noteq> [] then
                              Ret (failReconciliation r pacto (formatValidationErrors (cv_Errors contractResult)) validation
                                (Some effectiveContract) (w, out))
                            else
                              (let pacto = populate_status x pacto loadResult effectiveContract overriddenKeys;
                                   (now, w) = k_Now (r_Client r) w;
                                   (pacto, out) = reconcileReadiness x now pacto effectiveContract wasUnmet out
                               in case record_revisions r pacto ociAuth loadResult (w, out) of
                                    Panic \<Rightarrow> Panic
                                  | Ret (pacto, s) \<Rightarrow>
                                      Ret (if IsReference pacto then reference_phase r pacto effectiveContract s
                                           else runtime_phase r pacto effectiveContract s))))))"

definition Reconcile :: "'w PactoReconciler \<Rightarrow> key \<Rightarrow> 'w \<times> outputs \<Rightarrow> (reconciled \<times> 'w \<times> outputs) go" where
  "Reconcile r req s =
     (case s of (w, out) \<Rightarrow>
        (case k_GetPacto (r_Client r) req w of
           Inl err \<Rightarrow>
             if IsNotFound err then Ret ((no_requeue, None), w, out)
             else Ret ((no_requeue, Some err), w, out)
         | Inr pacto \<Rightarrow> reconcile_pacto r pacto (w, out)))"


section \<open>What the handler relies on\<close>

text \<open>
  The status of a stored Pacto. A successful status update stores the status of the object it was
  given; a read returns the object of the requested name.
\<close>

definition stored_status :: "'w kube \<Rightarrow> 'w \<Rightarrow> key \<Rightarrow> PactoStatus option" where
  "stored_status k w key = (case k_GetPacto k key w of Inl _ \<Rightarrow> None | Inr p \<Rightarrow> Some (p_Status p))"

definition status_api :: "'w kube \<Rightarrow> bool" where
  "status_api k \<longleftrightarrow>
     (\<forall>p w w'. k_UpdatePactoStatus k p w = (None, w') \<longrightarrow> stored_status k w' (pacto_key p) = Some (p_Status p)) \<and>
     (\<forall>key w p. k_GetPacto k key w = Inr p \<longrightarrow> pacto_key p = key)"

text \<open>The series of the status gauge for an object show its status.\<close>

definition gauge_shows :: "Pacto \<Rightarrow> gauges \<Rightarrow> bool" where
  "gauge_shows q m \<longleftrightarrow>
     (\<forall>s\<in>set allStatuses. m (contractStatus, set (status_attrs (om_Namespace (p_Meta q)) (om_Name (p_Meta q)) s)) =
        Some (if s = st_ContractStatus (p_Status q) then 1 else 0))"

text \<open>
  An attempt that ended with the object \<open>q\<close>: unless the status update failed, its status is stored,
  the gauge shows it, and the next attempt is scheduled.
\<close>

definition completed :: "'w PactoReconciler \<Rightarrow> Pacto \<Rightarrow> reconciled \<times> 'w \<times> outputs \<Rightarrow> bool" where
  "completed r q res \<longleftrightarrow>
     (case res of ((result, err), w, out) \<Rightarrow>
        err = None \<longrightarrow>
          stored_status (r_Client r) w (pacto_key q) = Some (p_Status q) \<and> gauge_shows q (out_Gauges out) \<and>
          RequeueAfter result = requeueInterval q)"

lemma status_api_rules:
  assumes "status_api k"
  shows "k_UpdatePactoStatus k p w = (None, w') \<Longrightarrow> stored_status k w' (pacto_key p) = Some (p_Status p)"
    "k_GetPacto k key w = Inr p \<Longrightarrow> pacto_key p = key"
  using assms unfolding status_api_def by blast+

lemma RecordValidation_status_gauge:
  "RecordValidation ns s cks m (contractStatus, A) = m (contractStatus, A)"
proof -
  have "snd (snd (snd (record_checks base cks e v ok m))) (contractStatus, A) = m (contractStatus, A)" for base e v ok m
    by (induction base cks e v ok m rule: record_checks.induct) (simp_all add: Let_def)
  then show ?thesis
    by (simp add: RecordValidation_def Let_def case_prod_unfold)
qed

lemma record_validation_status_gauge:
  "out_Gauges (record_validation p c cks out) (contractStatus, A) = out_Gauges out (contractStatus, A)"
  by (simp add: record_validation_def RecordValidation_status_gauge split: option.split)

lemma gauge_shows_recorded:
  "gauge_shows q (out_Gauges (record_validation p c cks
     (upd_gauges (RecordContractStatus (om_Namespace (p_Meta q)) (om_Name (p_Meta q)) (st_ContractStatus (p_Status q))) out)))"
  by (simp add: gauge_shows_def record_validation_status_gauge status_gauge.record_value)

lemma stamp_sel [simp]:
  "p_Meta (stamp t p) = p_Meta p" "p_Spec (stamp t p) = p_Spec p" "pacto_key (stamp t p) = pacto_key p"
  "requeueInterval (stamp t p) = requeueInterval p"
  by (simp_all add: stamp_def pacto_key_def requeueInterval_def)

lemma finish_completed:
  assumes "status_api (r_Client r)"
  shows "\<exists>now. completed r (stamp now p) (finishReconciliation r p c checks s)"
proof -
  obtain w out where s: "s = (w, out)"
    by (cases s)
  obtain now w1 where now: "k_Now (r_Client r) w = (now, w1)"
    by fastforce
  obtain err w2 where upd: "k_UpdatePactoStatus (r_Client r) (stamp now p) w1 = (err, w2)"
    by fastforce
  show ?thesis
  proof (cases err)
    case None
    then have "stored_status (r_Client r) w2 (pacto_key (stamp now p)) = Some (p_Status (stamp now p))"
      using upd by (intro status_api_rules(1)[OF assms]) (simp only:)
    then have "completed r (stamp now p) (finishReconciliation r p c checks s)"
      using gauge_shows_recorded[of "stamp now p"]
      by (simp add: completed_def finishReconciliation_def s now upd None Let_def)
    then show ?thesis ..
  qed (simp add: completed_def finishReconciliation_def s now upd)
qed

definition failed_status :: "externals \<Rightarrow> string \<Rightarrow> ValidationResult \<Rightarrow> Pacto \<Rightarrow> Pacto" where
  "failed_status x msg valResult pacto =
     upd_status (\<lambda>st. st\<lparr>st_ContractStatus := ContractStatusNonCompliant,
       st_Summary := Some \<lparr>cs_Total = 1, cs_Passed = 0, cs_Failed = 1\<rparr>, st_Validation := Some valResult\<rparr>)
       (setCondition x pacto ConditionContractValid ConditionFalse ReasonContractInvalid msg)"

lemma fail_completed:
  assumes "status_api (r_Client r)"
  shows "\<exists>now. completed r (stamp now (failed_status (r_Ext r) msg v p)) (failReconciliation r p msg v c s)"
proof -
  obtain w out where s: "s = (w, out)"
    by (cases s)
  obtain now w1 where now: "k_Now (r_Client r) w = (now, w1)"
    by fastforce
  let ?q = "stamp now (failed_status (r_Ext r) msg v p)"
  obtain err w2 where upd: "k_UpdatePactoStatus (r_Client r) ?q w1 = (err, w2)"
    by fastforce
  note run = failReconciliation_def s now upd[unfolded failed_status_def] Let_def
  show ?thesis
  proof (cases err)
    case None
    then have "stored_status (r_Client r) w2 (pacto_key ?q) = Some (p_Status ?q)"
      using upd by (intro status_api_rules(1)[OF assms]) (simp only:)
    then have "completed r ?q (failReconciliation r p msg v c s)"
      using gauge_shows_recorded[of ?q]
      by (simp add: completed_def run None) (simp add: failed_status_def)
    then show ?thesis ..
  qed (simp add: completed_def run)
qed


section \<open>The object before the runtime phase\<close>

text \<open>Readiness as the gate sees it at an instant: not declared, or passing.\<close>

definition readiness_met :: "externals \<Rightarrow> ContractDoc \<Rightarrow> instant \<Rightarrow> bool" where
  "readiness_met x c t \<longleftrightarrow> (case x_Evaluate x (c_Readiness c) t of None \<Rightarrow> True | Some eval \<Rightarrow> ev_Passing eval)"

definition prepared :: "externals \<Rightarrow> Pacto \<Rightarrow> ContractDoc \<Rightarrow> instant \<Rightarrow> Pacto \<Rightarrow> bool" where
  "prepared x p c t q \<longleftrightarrow>
     p_Meta q = p_Meta p \<and> p_Spec q = p_Spec p \<and> types_distinct (conditions q) \<and>
     cond_Type ` set (conditions q) \<subseteq> pre_runtime_types \<and>
     (\<forall>d\<in>set (conditions q). cond_ObservedGeneration d = om_Generation (p_Meta p)) \<and>
     (\<exists>d\<in>set (conditions q). cond_Type d = ConditionContractValid \<and> cond_Status d = ConditionTrue) \<and>
     ((\<forall>d\<in>set (conditions q). cond_Status d = ConditionTrue) \<longleftrightarrow> readiness_met x c t)"

lemma mark_populate_sel [simp]:
  "p_Meta (populateContractStatus x p lr) = p_Meta p" "p_Spec (populateContractStatus x p lr) = p_Spec p"
  "conditions (populateContractStatus x p lr) = conditions p"
  "p_Meta (mark_overridden ks p) = p_Meta p" "p_Spec (mark_overridden ks p) = p_Spec p"
  "conditions (mark_overridden ks p) = conditions p"
  by (simp_all add: populateContractStatus_def mark_overridden_def Let_def split: option.split)

lemma populate_status_meta [simp]:
  "p_Meta (populate_status x p lr c ks) = p_Meta p" "p_Spec (populate_status x p lr c ks) = p_Spec p"
  by (simp_all add: populate_status_def Let_def)

lemma populate_status_conditions:
  assumes "condition_api x" "conditions p = []"
  shows "\<exists>m. set (conditions (populate_status x p lr c ks)) =
      {\<lparr>cond_Type = ConditionContractValid, cond_Status = ConditionTrue,
        cond_ObservedGeneration = om_Generation (p_Meta p), cond_Reason = ReasonContractParsed, cond_Message = m\<rparr>}"
    and "types_distinct (conditions (populate_status x p lr c ks))"
  using assms
  by (simp_all add: populate_status_def Let_def conditions_setCondition SetStatusCondition_set SetStatusCondition_distinct)

lemma setCondition_fresh:
  assumes "condition_api x" "types_distinct (conditions p)" "\<forall>d\<in>set (conditions p). cond_Type d \<noteq> t"
  shows "set (conditions (setCondition x p t s r m)) =
    insert \<lparr>cond_Type = t, cond_Status = s, cond_ObservedGeneration = om_Generation (p_Meta p),
            cond_Reason = r, cond_Message = m\<rparr> (set (conditions p))"
proof -
  have "{d \<in> set (conditions p). cond_Type d \<noteq> t} = set (conditions p)"
    using assms(3) by blast
  then show ?thesis
    by (simp add: conditions_setCondition SetStatusCondition_set[OF assms(1,2)])
qed

lemma reconcileReadiness_cases:
  obtains (undeclared) "x_Evaluate x (c_Readiness c) t = None" "reconcileReadiness x t p c wu out = (p, out)"
  | (declared) eval reason m out' where "x_Evaluate x (c_Readiness c) t = Some eval"
      "reconcileReadiness x t p c wu out =
         (setCondition x (upd_status (\<lambda>st. st\<lparr>st_Readiness := Some (buildReadinessStatus eval (c_Readiness c))\<rparr>) p)
            ConditionReadinessSatisfied (if ev_Passing eval then ConditionTrue else ConditionFalse) reason m, out')"
proof (cases "x_Evaluate x (c_Readiness c) t")
  case None
  then show ?thesis
    by (intro undeclared) (simp_all add: reconcileReadiness_def)
next
  case (Some eval)
  obtain s reason m where cond: "readinessCondition eval = (s, reason, m)"
    by (metis prod.collapse)
  with readinessCondition_eq(1)[of eval] have "s = (if ev_Passing eval then ConditionTrue else ConditionFalse)"
    by simp
  with cond Some show ?thesis
    by (intro declared) (simp_all add: reconcileReadiness_def Let_def)
qed

lemma prepared_readiness:
  assumes "condition_api x" "conditions p = []"
    and "reconcileReadiness x t (populate_status x p lr c ks) c wu out = (q, out')"
  shows "prepared x p c t q"
proof -
  let ?p = "populate_status x p lr c ks"
  obtain m where cv: "set (conditions ?p) = {\<lparr>cond_Type = ConditionContractValid, cond_Status = ConditionTrue,
        cond_ObservedGeneration = om_Generation (p_Meta p), cond_Reason = ReasonContractParsed, cond_Message = m\<rparr>}"
    and dist: "types_distinct (conditions ?p)"
    using populate_status_conditions[OF assms(1,2)] by blast
  show ?thesis
  proof (cases rule: reconcileReadiness_cases[of x c t ?p wu out])
    case undeclared
    with assms(3) have q: "q = ?p"
      by simp
    show ?thesis
      using cv dist by (simp add: q prepared_def readiness_met_def undeclared(1) pre_runtime_types_def)
  next
    case (declared eval reason m' out'')
    with assms(3) have q: "q = setCondition x
        (upd_status (\<lambda>st. st\<lparr>st_Readiness := Some (buildReadinessStatus eval (c_Readiness c))\<rparr>) ?p)
        ConditionReadinessSatisfied (if ev_Passing eval then ConditionTrue else ConditionFalse) reason m'"
      by simp
    have "set (conditions q) = insert \<lparr>cond_Type = ConditionReadinessSatisfied,
        cond_Status = (if ev_Passing eval then ConditionTrue else ConditionFalse),
        cond_ObservedGeneration = om_Generation (p_Meta p), cond_Reason = reason, cond_Message = m'\<rparr> (set (conditions ?p))"
      unfolding q by (rule setCondition_fresh[OF assms(1), THEN trans]) (use cv dist in simp_all)
    moreover have "types_distinct (conditions q)"
      using dist by (simp add: q conditions_setCondition SetStatusCondition_distinct[OF assms(1)])
    moreover have "p_Meta q = p_Meta p" "p_Spec q = p_Spec p"
      by (simp_all add: q)
    ultimately show ?thesis
      using cv by (auto simp: prepared_def readiness_met_def declared(1) pre_runtime_types_def)
  qed
qed

lemma prepared_revision: "prepared x p c t q \<Longrightarrow> prepared x p c t (upd_status (\<lambda>st. st\<lparr>st_CurrentRevision := n\<rparr>) q)"
  by (simp add: prepared_def)

lemma record_revisions_object:
  "record_revisions r q auth lr s = Ret (q', s') \<Longrightarrow>
     q' = q \<or> (\<exists>n. q' = upd_status (\<lambda>st. st\<lparr>st_CurrentRevision := n\<rparr>) q)"
  by (auto simp: record_revisions_def Let_def split: prod.splits sum.splits go.splits if_splits)

lemma prepared_revisions:
  "prepared x p c t q \<Longrightarrow> record_revisions r q auth lr s = Ret (q', s') \<Longrightarrow> prepared x p c t q'"
  using record_revisions_object[of r q auth lr s q' s'] prepared_revision by blast


section \<open>The specification of an attempt\<close>

text \<open>
  The contract an attempt works on, if there is one: the pull credentials can be read, the contract
  loads, the overrides apply and the result validates. With it, the credentials, the load result and
  the world after loading.
\<close>

definition loaded_contract ::
  "'w PactoReconciler \<Rightarrow> Pacto \<Rightarrow> 'w \<Rightarrow> (AuthConfig option \<times> LoadResult \<times> ContractDoc \<times> 'w) option" where
  "loaded_contract r p w =
     (case pull_credentials r p w of
        Inl _ \<Rightarrow> None
      | Inr auth \<Rightarrow>
          (case load_contract r p auth w of
             (Inl _, _) \<Rightarrow> None
           | (Inr (lr, c, ks), w1) \<Rightarrow>
               if cv_Errors (x_Validate (r_Ext r) c (lr_RawYAML lr) (lr_BundleFS lr)) = []
               then Some (auth, lr, c, w1) else None))"

text \<open>The world after the bookkeeping of revisions, in which the runtime is observed.\<close>

definition observation_world :: "'w PactoReconciler \<Rightarrow> Pacto \<Rightarrow> AuthConfig option \<Rightarrow> LoadResult \<Rightarrow> 'w \<Rightarrow> 'w" where
  "observation_world r p auth lr w =
     (case record_revisions r p auth lr (snd (k_Now (r_Client r) w), no_outputs) of
        Panic \<Rightarrow> w | Ret (_, w', _) \<Rightarrow> w')"

definition verdict :: "'w PactoReconciler \<Rightarrow> Pacto \<Rightarrow> ContractDoc \<Rightarrow> bool \<Rightarrow> 'w \<Rightarrow> string" where
  "verdict r p c ready w =
     (let svc = tr_ServiceName (ps_Target (p_Spec p)); ns = om_Namespace (p_Meta p); hs = (svc \<noteq> '''')
      in case Observe (k_Reader (r_Client r) w) ns svc (fst (ResolvedWorkload p)) (snd (ResolvedWorkload p)) of
           Inl _ \<Rightarrow> ContractStatusUnknown
         | Inr snap \<Rightarrow>
             if resources_missing snap hs then ContractStatusNonCompliant
             else if conforms c snap hs \<and> ready \<and>
               (sn_ServiceExists snap \<longrightarrow>
                 list_all snd (fst (probe_run (r_HTTP r) c svc ns (declared_endpoints c) w)))
             then ContractStatusCompliant else ContractStatusWarning)"

definition expected_status :: "'w PactoReconciler \<Rightarrow> Pacto \<Rightarrow> 'w \<Rightarrow> string" where
  "expected_status r p w =
     (case loaded_contract r p w of
        None \<Rightarrow> ContractStatusNonCompliant
      | Some (auth, lr, c, w1) \<Rightarrow>
          if IsReference p then ContractStatusReference
          else verdict r p c (readiness_met (r_Ext r) c (fst (k_Now (r_Client r) w1))) (observation_world r p auth lr w1))"

text \<open>A coherent object: what holds of the status of every completed attempt.\<close>

definition coherent :: "bool \<Rightarrow> Pacto \<Rightarrow> bool" where
  "coherent valid q \<longleftrightarrow>
     st_ContractStatus (p_Status q) \<in> set allStatuses \<and>
     types_distinct (conditions q) \<and>
     (\<forall>d\<in>set (conditions q). cond_ObservedGeneration d = om_Generation (p_Meta q)) \<and>
     (\<exists>d\<in>set (conditions q). cond_Type d = ConditionContractValid \<and>
        cond_Status d = (if valid then ConditionTrue else ConditionFalse)) \<and>
     (\<exists>sm. st_Summary (p_Status q) = Some sm \<and> 0 \<le> sint (cs_Passed sm) \<and> 0 \<le> sint (cs_Failed sm) \<and>
        sint (cs_Total sm) = sint (cs_Passed sm) + sint (cs_Failed sm))"

lemma stamp_status [simp]:
  "st_ContractStatus (p_Status (stamp t p)) = st_ContractStatus (p_Status p)"
  "conditions (stamp t p) = conditions p" "st_Summary (p_Status (stamp t p)) = st_Summary (p_Status p)"
  "st_ObservedGeneration (p_Status (stamp t p)) = om_Generation (p_Meta p)"
  by (simp_all add: stamp_def)

lemma coherent_stamp [simp]: "coherent v (stamp t p) = coherent v p"
  by (simp add: coherent_def)

lemma counts_coherent:
  assumes "counts s cks"
  shows "\<exists>sm. s = Some sm \<and> 0 \<le> sint (cs_Passed sm) \<and> 0 \<le> sint (cs_Failed sm) \<and>
    sint (cs_Total sm) = sint (cs_Passed sm) + sint (cs_Failed sm)"
proof -
  from assms obtain sm where sm: "s = Some sm"
    by (auto simp: counts_def)
  with counts_sint[of sm cks] assms show ?thesis
    by simp
qed

lemma runtime_coherent:
  assumes "condition_api x" "prepared x p c t p'" "p_Meta r = p_Meta p'"
    and q: "q = applyValidationResult x p' (Validate c snap hs) snap s wn wk"
    and "probed x probes q r" "counts (st_Summary (p_Status r)) cks"
    and st: "st \<in> {ContractStatusCompliant, ContractStatusWarning, ContractStatusNonCompliant}"
  shows "coherent True (upd_status (\<lambda>s. s\<lparr>st_ContractStatus := st\<rparr>) r)"
proof -
  note p' = assms(2)[unfolded prepared_def]
  have conds: "types_distinct (conditions r)" "set (conditions r) =
      set (conditions p') \<union> condition_of (om_Generation (p_Meta p')) ` set (all_checks c snap hs probes)"
    using p' runtime_conditions[OF assms(1) _ _ q assms(5)] by blast+
  have "\<forall>d\<in>set (conditions r). cond_ObservedGeneration d = om_Generation (p_Meta r)"
    using p' by (auto simp: conds(2) assms(3) condition_of_def)
  moreover have "\<exists>d\<in>set (conditions r). cond_Type d = ConditionContractValid \<and> cond_Status d = ConditionTrue"
    using p' by (auto simp: conds(2))
  ultimately show ?thesis
    using conds(1) counts_coherent[OF assms(6)] st by (auto simp: coherent_def allStatuses_def)
qed


section \<open>Each phase meets the specification\<close>

text \<open>The object \<open>q\<close> ends an attempt on \<open>p\<close> with the given status.\<close>

definition ends :: "'w PactoReconciler \<Rightarrow> Pacto \<Rightarrow> bool \<Rightarrow> string \<Rightarrow> reconciled \<times> 'w \<times> outputs \<Rightarrow> bool" where
  "ends r p valid status res \<longleftrightarrow>
     (\<exists>q. completed r q res \<and> p_Meta q = p_Meta p \<and> p_Spec q = p_Spec p \<and> coherent valid q \<and>
        st_ContractStatus (p_Status q) = status \<and> st_ObservedGeneration (p_Status q) = om_Generation (p_Meta p))"

lemma ends_finish:
  assumes "status_api (r_Client r)" "p_Meta q = p_Meta p" "p_Spec q = p_Spec p" "coherent v q"
  shows "ends r p v (st_ContractStatus (p_Status q)) (finishReconciliation r q c checks s)"
proof -
  obtain now where "completed r (stamp now q) (finishReconciliation r q c checks s)"
    using finish_completed[OF assms(1)] by blast
  with assms(2-4) show ?thesis
    unfolding ends_def by (intro exI[of _ "stamp now q"]) simp
qed

lemma fail_ends:
  assumes "condition_api (r_Ext r)" "status_api (r_Client r)" "conditions p = []"
  shows "ends r p False ContractStatusNonCompliant (failReconciliation r p msg v c s)"
proof -
  let ?q = "failed_status (r_Ext r) msg v p"
  obtain now where "completed r (stamp now ?q) (failReconciliation r p msg v c s)"
    using fail_completed[OF assms(2)] by blast
  moreover have "coherent False ?q"
    using assms(1,3)
    by (simp add: coherent_def failed_status_def conditions_setCondition SetStatusCondition_set SetStatusCondition_distinct
        allStatuses_def)
  moreover have "p_Meta ?q = p_Meta p" "p_Spec ?q = p_Spec p" "st_ContractStatus (p_Status ?q) = ContractStatusNonCompliant"
    by (simp_all add: failed_status_def)
  ultimately show ?thesis
    unfolding ends_def by (intro exI[of _ "stamp now ?q"]) simp
qed

lemma set_after_setCondition:
  assumes "condition_api x" "prepared x p c t q"
  shows "types_distinct (conditions (setCondition x q ty s r m))"
    and "\<forall>d\<in>set (conditions (setCondition x q ty s r m)). cond_ObservedGeneration d = om_Generation (p_Meta p)"
    and "ty \<noteq> ConditionContractValid \<or> s = ConditionTrue \<Longrightarrow>
      \<exists>d\<in>set (conditions (setCondition x q ty s r m)). cond_Type d = ConditionContractValid \<and> cond_Status d = ConditionTrue"
  using assms by (auto simp: prepared_def conditions_setCondition SetStatusCondition_distinct SetStatusCondition_set)

lemma reference_ends:
  assumes "condition_api (r_Ext r)" "status_api (r_Client r)" "prepared (r_Ext r) p c t q"
  shows "ends r p True ContractStatusReference (reference_phase r q c s)"
proof -
  let ?q = "upd_status (\<lambda>st. st\<lparr>st_ContractStatus := ContractStatusReference,
      st_Summary := Some \<lparr>cs_Total = 1, cs_Passed = 1, cs_Failed = 0\<rparr>\<rparr>)
    (setCondition (r_Ext r) q ConditionContractValid ConditionTrue ReasonReferenceOnly
      (''Reference contract '' @ sv_Name (c_Service c) @ '' v'' @ sv_Version (c_Service c) @ '' is valid''))"
  have meta: "p_Meta ?q = p_Meta p" "p_Spec ?q = p_Spec p"
    using assms(3) by (simp_all add: prepared_def)
  have "coherent True ?q"
    using set_after_setCondition[OF assms(1,3)] meta by (simp add: coherent_def allStatuses_def)
  from ends_finish[OF assms(2) meta this] show ?thesis
    by (simp add: reference_phase_def)
qed

lemma unobserved_ends:
  assumes "condition_api (r_Ext r)" "status_api (r_Client r)" "prepared (r_Ext r) p c t q"
  shows "ends r p True ContractStatusUnknown (unobserved_phase r q c svc err s)"
proof -
  obtain w out where s: "s = (w, out)"
    by (cases s)
  let ?q = "upd_status (\<lambda>st. st\<lparr>st_ContractStatus := ContractStatusUnknown,
      st_Summary := Some \<lparr>cs_Total = 1, cs_Passed = 0, cs_Failed = 1\<rparr>\<rparr>)
    (setCondition (r_Ext r) q ConditionRuntimeObserved ConditionFalse ReasonObservationFailed
      (''failed to observe runtime state: '' @ err))"
  have meta: "p_Meta ?q = p_Meta p" "p_Spec ?q = p_Spec p"
    using assms(3) by (simp_all add: prepared_def)
  have "coherent True ?q"
    using set_after_setCondition[OF assms(1,3)] meta by (simp add: coherent_def allStatuses_def)
  from ends_finish[OF assms(2) meta this] show ?thesis
    by (simp add: unobserved_phase_def s Let_def)
qed

lemma prepared_observed:
  "prepared x p c t q \<Longrightarrow> prepared x p c t (upd_status (\<lambda>st. st\<lparr>st_ObservedRuntime := v\<rparr>) q)"
  by (simp add: prepared_def)

lemma validated_ends:
  assumes api: "condition_api (r_Ext r)" "status_api (r_Client r)" and p': "prepared (r_Ext r) p c t p'"
    and q: "q = applyValidationResult (r_Ext r) p' (Validate c snap hs) snap svc wn wk"
    and probing: "probed (r_Ext r) probes q u" "p_Meta u = p_Meta q" "p_Spec u = p_Spec q"
      "counts (st_Summary (p_Status u)) cks"
  shows "ends r p True
    (if resources_missing snap hs then ContractStatusNonCompliant
     else if conforms c snap hs \<and> readiness_met (r_Ext r) c t \<and> (\<forall>k\<in>set probes. ck_Passed k)
       then ContractStatusCompliant else ContractStatusWarning)
    (finishReconciliation r (upd_status (\<lambda>st. st\<lparr>st_ContractStatus := computeFinalContractStatus u\<rparr>) u) d checks s)"
proof -
  note pre = p'[unfolded prepared_def]
  have status: "computeFinalContractStatus u =
      (if resources_missing snap hs then ContractStatusNonCompliant
       else if conforms c snap hs \<and> readiness_met (r_Ext r) c t \<and> (\<forall>k\<in>set probes. ck_Passed k)
         then ContractStatusCompliant else ContractStatusWarning)"
    using runtime_status[OF api(1) _ _ q probing(1)] pre by simp
  have "coherent True (upd_status (\<lambda>st. st\<lparr>st_ContractStatus := computeFinalContractStatus u\<rparr>) u)"
    by (rule runtime_coherent[OF api(1) p' _ q probing(1,4)]) (simp_all add: probing(2) q status)
  moreover have "p_Meta u = p_Meta p" "p_Spec u = p_Spec p"
    using pre by (simp_all add: probing(2,3) q)
  ultimately show ?thesis
    using ends_finish[OF api(2), of "upd_status (\<lambda>st. st\<lparr>st_ContractStatus := computeFinalContractStatus u\<rparr>) u" p True]
    by (simp add: status)
qed

lemma runtime_ends:
  assumes api: "condition_api (r_Ext r)" "status_api (r_Client r)" and q: "prepared (r_Ext r) p c t q"
  shows "ends r p True (verdict r p c (readiness_met (r_Ext r) c t) w) (runtime_phase r q c (w, out))"
proof -
  have same: "p_Meta q = p_Meta p" "p_Spec q = p_Spec p" "ResolvedWorkload q = ResolvedWorkload p"
    using q by (simp_all add: prepared_def ResolvedWorkload_def)
  obtain wn wk where wl: "ResolvedWorkload p = (wn, wk)"
    by fastforce
  let ?svc = "tr_ServiceName (ps_Target (p_Spec p))" and ?ns = "om_Namespace (p_Meta p)"
  show ?thesis
  proof (cases "Observe (k_Reader (r_Client r) w) ?ns ?svc wn wk")
    case (Inl err)
    then show ?thesis
      using unobserved_ends[OF api q] by (simp add: runtime_phase_def verdict_def same wl Let_def)
  next
    case (Inr snap)
    define p' where "p' = (if sn_WorkloadExists snap
      then upd_status (\<lambda>st. st\<lparr>st_ObservedRuntime := Some (observed_runtime snap)\<rparr>) q else q)"
    have p': "prepared (r_Ext r) p c t p'"
      using q prepared_observed[OF q] by (simp add: p'_def)
    define v where "v = applyValidationResult (r_Ext r) p' (Validate c snap (?svc \<noteq> '''')) snap ?svc wn wk"
    have ns: "om_Namespace (p_Meta v) = ?ns"
      using p' by (simp add: v_def prepared_def)
    note run = runtime_phase_def verdict_def same wl Inr Let_def p'_def[symmetric] v_def[symmetric]
    show ?thesis
    proof (cases "sn_ServiceExists snap")
      case True
      obtain probes u w' where pe: "probeEndpoints (r_Ext r) (r_HTTP r) v c ?svc w = ((probes, u), w')"
        by (metis prod.collapse)
      have pass: "list_all snd (fst (probe_run (r_HTTP r) c ?svc ?ns (declared_endpoints c) w)) \<longleftrightarrow>
          (\<forall>k\<in>set probes. ck_Passed k)"
        using probes_all_pass[OF pe] by (simp add: ns list_all_iff)
      show ?thesis
        using validated_ends[OF api p' v_def probed_endpoints[OF pe] probeEndpoints_meta[OF pe] runtime_summary[OF v_def pe]]
        by (simp add: run pe True pass cong: if_cong split del: if_split)
    next
      case False
      then show ?thesis
        using validated_ends[OF api p' v_def probed_none _ _ validated_summary[of "r_Ext r" p' c snap "?svc \<noteq> ''''" ?svc wn wk, folded v_def]]
        by (simp add: run cong: if_cong split del: if_split)
    qed
  qed
qed


section \<open>The whole attempt\<close>

lemma resetDerivedStatus_sel [simp]:
  "p_Meta (resetDerivedStatus p) = p_Meta p" "p_Spec (resetDerivedStatus p) = p_Spec p"
  "conditions (resetDerivedStatus p) = []" "IsReference (resetDerivedStatus p) = IsReference p"
  by (simp_all add: resetDerivedStatus_def)

lemma IsReference_spec: "p_Spec p = p_Spec q \<Longrightarrow> IsReference p = IsReference q"
  by (simp add: IsReference_def)

lemma pull_credentials_object:
  "p_Meta p = p_Meta q \<Longrightarrow> p_Spec p = p_Spec q \<Longrightarrow> pull_credentials r p w = pull_credentials r q w"
  unfolding pull_credentials_def by (simp only:)

lemma load_contract_object: "p_Spec p = p_Spec q \<Longrightarrow> load_contract r p auth w = load_contract r q auth w"
  unfolding load_contract_def by (simp only:)

lemma syncAllRevisions_outputs:
  assumes "syncAllRevisions x k ld p base auth (w, out) = Ret (e, w', out')"
  shows "\<exists>e' out2'. syncAllRevisions x k ld p base auth (w, out2) = Ret (e', w', out2')"
proof -
  obtain ts w1 where tags: "cl_ListTags ld base auth w = (ts, w1)"
    by fastforce
  show ?thesis
  proof (cases ts)
    case (Inr tags)
    from sync_tags_outputs[of x k ld p base auth tags w1 out out2] assms show ?thesis
      by (auto simp: syncAllRevisions_def tags Inr same_world_def split: go.splits)
  qed (use assms tags in \<open>auto simp: syncAllRevisions_def\<close>)
qed

lemma record_revisions_world:
  assumes "record_revisions r q auth lr (w, out) = Ret (q', w', out')"
    and "p_Meta p = p_Meta q" "p_Spec p = p_Spec q"
  shows "\<exists>p' out2'. record_revisions r p auth lr (w, out2) = Ret (p', w', out2')"
proof -
  obtain rn w1 o1 where ens: "ensureRevision (r_Ext r) (r_Client r) q lr (w, out) = (rn, w1, o1)"
    by (metis prod.collapse)
  obtain o2 where ens2: "ensureRevision (r_Ext r) (r_Client r) p lr (w, out2) = (rn, w1, o2)"
    using ensureRevision_outputs[of "r_Ext r" "r_Client r" q lr w out2 out] ens
    by (auto simp: ensureRevision_object[OF assms(2,3)])
  let ?upd = "\<lambda>p. (case rn of Inl revErr \<Rightarrow> p | Inr n \<Rightarrow> upd_status (\<lambda>st. st\<lparr>st_CurrentRevision := n\<rparr>) p)"
  have same: "p_Meta (?upd p) = p_Meta (?upd q)" "p_Spec (?upd p) = p_Spec (?upd q)" "p_Spec (?upd q) = p_Spec q"
    using assms(2,3) by (simp_all split: sum.split)
  show ?thesis
  proof (cases "cr_OCI (ps_ContractRef (p_Spec q)) \<noteq> '''' \<and> \<not> Contains (cr_OCI (ps_ContractRef (p_Spec q))) ''@''")
    case True
    then obtain e where "syncAllRevisions (r_Ext r) (r_Client r) (r_Loader r) (?upd q)
        (cr_OCI (ps_ContractRef (p_Spec q))) auth (w1, o1) = Ret (e, w', out')"
      using assms(1) by (auto simp: record_revisions_def ens same Let_def split: go.splits)
    from syncAllRevisions_outputs[OF this, of o2] show ?thesis
      using True by (auto simp: record_revisions_def ens2 same Let_def syncAllRevisions_object[OF same(1,2)])
  next
    case False
    then show ?thesis
      using assms(1) by (auto simp: record_revisions_def ens ens2 same Let_def)
  qed
qed

section \<open>Failed and successful attempts\<close>

lemma mapValidationResult_errors:
  "cv_Errors cv \<noteq> [] \<Longrightarrow> \<not> vr_Valid (mapValidationResult cv) \<and> vr_Errors (mapValidationResult cv) \<noteq> []"
  by (simp add: mapValidationResult_def)

lemma invalid_errors [simp]: "\<not> vr_Valid (invalid path msg)" "vr_Errors (invalid path msg) \<noteq> []"
  by (simp_all add: invalid_def)

lemma load_contract_failure:
  "load_contract r p auth w = (Inl f, w') \<Longrightarrow> \<not> vr_Valid (fl_Validation f) \<and> vr_Errors (fl_Validation f) \<noteq> []"
  by (auto simp: load_contract_def Let_def split: prod.splits sum.splits option.splits)

lemma pull_credentials_failure:
  "pull_credentials r p w = Inl f \<Longrightarrow> \<not> vr_Valid (fl_Validation f) \<and> vr_Errors (fl_Validation f) \<noteq> []"
  by (auto simp: pull_credentials_def Let_def split: sum.splits if_splits)

text \<open>An object at the point where an attempt fails: everything derived is still reset.\<close>

definition unpopulated :: "Pacto \<Rightarrow> Pacto \<Rightarrow> bool" where
  "unpopulated p q \<longleftrightarrow>
     (\<exists>pol val. q = upd_status (\<lambda>st. st\<lparr>st_ResolutionPolicy := pol, st_Validation := val\<rparr>) (resetDerivedStatus p) \<and>
        pol \<in> set ['''', ResolutionPolicyLatest, ResolutionPolicyPinnedTag, ResolutionPolicyPinnedDigest])"

lemma resolutionPolicy_known:
  "resolutionPolicy x ref \<in> set ['''', ResolutionPolicyLatest, ResolutionPolicyPinnedTag, ResolutionPolicyPinnedDigest]"
  by (simp add: resolutionPolicy_def)

lemma unpopulatedI:
  "unpopulated p (resetDerivedStatus p)"
  "unpopulated p (upd_status (\<lambda>st. st\<lparr>st_ResolutionPolicy := resolutionPolicy x ref\<rparr>) (resetDerivedStatus p))"
  "unpopulated p (upd_status (\<lambda>st. st\<lparr>st_Validation := val\<rparr>)
     (upd_status (\<lambda>st. st\<lparr>st_ResolutionPolicy := resolutionPolicy x ref\<rparr>) (resetDerivedStatus p)))"
proof -
  let ?val = "st_Validation (p_Status (resetDerivedStatus p))"
  note known = resolutionPolicy_known[of x ref]
  show "unpopulated p (resetDerivedStatus p)"
    unfolding unpopulated_def
    by (rule exI[of _ "''''"], rule exI[of _ ?val]) (simp add: upd_status_def resetDerivedStatus_def)
  show "unpopulated p (upd_status (\<lambda>st. st\<lparr>st_ResolutionPolicy := resolutionPolicy x ref\<rparr>) (resetDerivedStatus p))"
    unfolding unpopulated_def
    by (rule exI[of _ "resolutionPolicy x ref"], rule exI[of _ ?val]) (use known in \<open>simp add: upd_status_def\<close>)
  show "unpopulated p (upd_status (\<lambda>st. st\<lparr>st_Validation := val\<rparr>)
      (upd_status (\<lambda>st. st\<lparr>st_ResolutionPolicy := resolutionPolicy x ref\<rparr>) (resetDerivedStatus p)))"
    unfolding unpopulated_def
    by (rule exI[of _ "resolutionPolicy x ref"], rule exI[of _ val]) (use known in \<open>simp add: upd_status_def\<close>)
qed

lemma reconcile_pacto_failure:
  assumes "loaded_contract r p w = None"
  shows "\<exists>q msg v c w1. reconcile_pacto r p (w, out) = Ret (failReconciliation r q msg v c (w1, out)) \<and>
    unpopulated p q \<and> \<not> vr_Valid v \<and> vr_Errors v \<noteq> [] \<and> (w1 = w \<or> (\<exists>auth. w1 = snd (load_contract r p auth w)))"
proof -
  let ?x = "r_Ext r" and ?p0 = "resetDerivedStatus p"
  have creds: "pull_credentials r ?p0 w = pull_credentials r p w"
    by (rule pull_credentials_object) simp_all
  show ?thesis
  proof (cases "pull_credentials r p w")
    case (Inl f)
    have "reconcile_pacto r p (w, out) = Ret (failReconciliation r ?p0 (fl_Msg f) (fl_Validation f) (fl_Contract f) (w, out))"
      by (simp add: reconcile_pacto_def creds Inl)
    then show ?thesis
      using unpopulatedI(1)[of p] pull_credentials_failure[OF Inl] by blast
  next
    case (Inr auth)
    define p1 where "p1 = upd_status (\<lambda>st. st\<lparr>st_ResolutionPolicy :=
        resolutionPolicy ?x (cr_OCI (ps_ContractRef (p_Spec p)))\<rparr>) ?p0"
    have p1: "unpopulated p p1"
      unfolding p1_def by (rule unpopulatedI)
    obtain ld w1 where ld: "load_contract r p auth w = (ld, w1)"
      by fastforce
    have ld1: "load_contract r p1 auth w = (ld, w1)"
      using load_contract_object[of p1 p r auth w] ld by (simp add: p1_def)
    have after: "w1 = snd (load_contract r p auth w)"
      by (simp add: ld)
    note start = reconcile_pacto_def creds Inr Let_def resetDerivedStatus_sel p1_def[symmetric] ld1
    show ?thesis
    proof (cases ld)
      case (Inl f)
      then have "reconcile_pacto r p (w, out) = Ret (failReconciliation r p1 (fl_Msg f) (fl_Validation f) (fl_Contract f) (w1, out))"
        by (simp add: start)
      then show ?thesis
        using p1 load_contract_failure[OF ld[unfolded Inl]] after by blast
    next
      case (Inr triple)
      obtain lr c ks where triple: "triple = (lr, c, ks)"
        by (cases triple)
      let ?res = "x_Validate ?x c (lr_RawYAML lr) (lr_BundleFS lr)"
      have bad: "cv_Errors ?res \<noteq> []"
        using assms \<open>pull_credentials r p w = Inr auth\<close> by (auto simp: loaded_contract_def ld Inr triple)
      then have "reconcile_pacto r p (w, out) = Ret (failReconciliation r
          (upd_status (\<lambda>st. st\<lparr>st_Validation := Some (mapValidationResult ?res)\<rparr>) p1)
          (formatValidationErrors (cv_Errors ?res)) (mapValidationResult ?res) (Some c) (w1, out))"
        by (simp add: start Inr triple)
      moreover have "unpopulated p (upd_status (\<lambda>st. st\<lparr>st_Validation := Some (mapValidationResult ?res)\<rparr>) p1)"
        unfolding p1_def by (rule unpopulatedI)
      ultimately show ?thesis
        using mapValidationResult_errors[OF bad] after by blast
    qed
  qed
qed

lemma reconcile_pacto_success:
  assumes "loaded_contract r p w = Some (auth, lr, c, w1)"
  shows "\<exists>q ks. unpopulated p q \<and>
    reconcile_pacto r p (w, out) =
      (let (now, w2) = k_Now (r_Client r) w1;
           (q1, out1) = reconcileReadiness (r_Ext r) now (populate_status (r_Ext r) q lr c ks) c
             (readinessWasUnmet (r_Ext r) p) out
       in case record_revisions r q1 auth lr (w2, out1) of
            Panic \<Rightarrow> Panic
          | Ret (q2, s) \<Rightarrow> Ret (if IsReference q2 then reference_phase r q2 c s else runtime_phase r q2 c s))"
proof -
  let ?x = "r_Ext r" and ?p0 = "resetDerivedStatus p"
  define p1 where "p1 = upd_status (\<lambda>st. st\<lparr>st_ResolutionPolicy :=
      resolutionPolicy ?x (cr_OCI (ps_ContractRef (p_Spec p)))\<rparr>) ?p0"
  let ?res = "x_Validate ?x c (lr_RawYAML lr) (lr_BundleFS lr)"
  obtain ks where creds: "pull_credentials r p w = Inr auth" and ld: "load_contract r p auth w = (Inr (lr, c, ks), w1)"
    and ok: "cv_Errors ?res = []"
    using assms by (auto simp: loaded_contract_def split: sum.splits prod.splits if_splits)
  have "pull_credentials r ?p0 w = Inr auth" "load_contract r p1 auth w = (Inr (lr, c, ks), w1)"
    using pull_credentials_object[of ?p0 p r w] load_contract_object[of p1 p r auth w] creds ld by (simp_all add: p1_def)
  then have "reconcile_pacto r p (w, out) =
      (let (now, w2) = k_Now (r_Client r) w1;
           (q1, out1) = reconcileReadiness ?x now (populate_status ?x
             (upd_status (\<lambda>st. st\<lparr>st_Validation := Some (mapValidationResult ?res)\<rparr>) p1) lr c ks) c
             (readinessWasUnmet ?x p) out
       in case record_revisions r q1 auth lr (w2, out1) of
            Panic \<Rightarrow> Panic
          | Ret (q2, s) \<Rightarrow> Ret (if IsReference q2 then reference_phase r q2 c s else runtime_phase r q2 c s))"
    by (simp add: reconcile_pacto_def Let_def p1_def[symmetric] ok)
  moreover have "unpopulated p (upd_status (\<lambda>st. st\<lparr>st_Validation := Some (mapValidationResult ?res)\<rparr>) p1)"
    unfolding p1_def by (rule unpopulatedI)
  ultimately show ?thesis
    by blast
qed

lemma reconcile_pacto_attempt:
  assumes "loaded_contract r p w = Some (auth, lr, c, w1)" "k_Now (r_Client r) w1 = (t, w2)"
  obtains q ks q1 out1 where "unpopulated p q"
    "reconcileReadiness (r_Ext r) t (populate_status (r_Ext r) q lr c ks) c (readinessWasUnmet (r_Ext r) p) out = (q1, out1)"
    "reconcile_pacto r p (w, out) =
      (case record_revisions r q1 auth lr (w2, out1) of
         Panic \<Rightarrow> Panic
       | Ret (q2, s) \<Rightarrow> Ret (if IsReference q2 then reference_phase r q2 c s else runtime_phase r q2 c s))"
proof -
  obtain q ks where q: "unpopulated p q" and body: "reconcile_pacto r p (w, out) =
      (let (q1, out1) = reconcileReadiness (r_Ext r) t (populate_status (r_Ext r) q lr c ks) c (readinessWasUnmet (r_Ext r) p) out
       in case record_revisions r q1 auth lr (w2, out1) of
            Panic \<Rightarrow> Panic
          | Ret (q2, s) \<Rightarrow> Ret (if IsReference q2 then reference_phase r q2 c s else runtime_phase r q2 c s))"
    using reconcile_pacto_success[OF assms(1), of out] by (auto simp: assms(2))
  show ?thesis
  proof (cases "reconcileReadiness (r_Ext r) t (populate_status (r_Ext r) q lr c ks) c (readinessWasUnmet (r_Ext r) p) out")
    case (Pair q1 out1)
    show ?thesis
      by (rule that[OF q Pair]) (simp add: body Pair)
  qed
qed

lemma unpopulated_sel:
  assumes "unpopulated p q"
  shows "p_Meta q = p_Meta p" "p_Spec q = p_Spec p" "conditions q = []"
  using assms by (auto simp: unpopulated_def)

lemma ends_object: "p_Meta p = p_Meta q \<Longrightarrow> p_Spec p = p_Spec q \<Longrightarrow> ends r p v st res = ends r q v st res"
  by (simp add: ends_def)

lemma reconcile_pacto_ends:
  assumes api: "condition_api (r_Ext r)" "status_api (r_Client r)"
    and run: "reconcile_pacto r p (w, out) = Ret res"
  shows "ends r p (loaded_contract r p w \<noteq> None) (expected_status r p w) res"
proof (cases "loaded_contract r p w")
  case None
  then obtain q msg v c w1 where "res = failReconciliation r q msg v c (w1, out)" "unpopulated p q"
    using reconcile_pacto_failure[OF None, of out] run by auto
  then show ?thesis
    using fail_ends[OF api, of q] unpopulated_sel[of p q] by (simp add: None expected_status_def ends_object[of q p])
next
  case (Some found)
  obtain auth lr c w1 where found: "found = (auth, lr, c, w1)"
    by (cases found)
  obtain t w2 where now: "k_Now (r_Client r) w1 = (t, w2)"
    by fastforce
  obtain q ks q1 out1 where q: "unpopulated p q"
    and rd: "reconcileReadiness (r_Ext r) t (populate_status (r_Ext r) q lr c ks) c (readinessWasUnmet (r_Ext r) p) out = (q1, out1)"
    and body: "reconcile_pacto r p (w, out) =
      (case record_revisions r q1 auth lr (w2, out1) of
         Panic \<Rightarrow> Panic
       | Ret (q2, s) \<Rightarrow> Ret (if IsReference q2 then reference_phase r q2 c s else runtime_phase r q2 c s))"
    by (rule reconcile_pacto_attempt[OF Some[unfolded found] now])
  obtain q2 w3 out3 where rev: "record_revisions r q1 auth lr (w2, out1) = Ret (q2, w3, out3)"
    and res: "res = (if IsReference q2 then reference_phase r q2 c (w3, out3) else runtime_phase r q2 c (w3, out3))"
    using run by (auto simp: body split: go.splits)
  have q1: "prepared (r_Ext r) q c t q1"
    by (rule prepared_readiness[OF api(1) unpopulated_sel(3)[OF q] rd])
  have q2: "prepared (r_Ext r) p c t q2" and ref: "IsReference q2 = IsReference p"
    using prepared_revisions[OF q1 rev] unpopulated_sel[OF q] by (simp_all add: prepared_def IsReference_def)
  have "observation_world r p auth lr w1 = w3"
    using record_revisions_world[OF rev, of p no_outputs] q1 unpopulated_sel[OF q]
    by (auto simp: observation_world_def now prepared_def)
  then show ?thesis
    using reference_ends[OF api q2] runtime_ends[OF api q2, of w3 out3]
    by (simp add: Some found expected_status_def res ref now)
qed

end
