(* ===== verification/Reconcile_Guarantees.thy ===== *)
theory Reconcile_Guarantees
  imports Reconcile
begin

text \<open>
  What a reconciliation guarantees: the stored status, its coherence, the independence from stale
  data, scheduling, failed attempts, immutable revisions and termination, with a concrete operator on
  which every statement is applied.
\<close>

section \<open>What an attempt guarantees\<close>

lemma Reconcile_run:
  assumes "status_api (r_Client r)" "k_GetPacto (r_Client r) req w = Inr p"
    and "Reconcile r req (w, out) = Ret res"
  shows "reconcile_pacto r p (w, out) = Ret res" "pacto_key p = req"
  using assms status_api_rules(2)[OF assms(1,2)] by (simp_all add: Reconcile_def)

lemma ends_stored:
  assumes "ends r p v status ((result, None), w, out)"
  shows "\<exists>q. stored_status (r_Client r) w (pacto_key p) = Some (p_Status q) \<and> p_Meta q = p_Meta p \<and>
    gauge_shows q (out_Gauges out) \<and> coherent v q \<and> st_ContractStatus (p_Status q) = status \<and>
    st_ObservedGeneration (p_Status q) = om_Generation (p_Meta p)"
  using assms by (auto simp: ends_def completed_def pacto_key_def)



text \<open>
  C3. No stale data survives: an attempt depends on the previous status only through the four things
  the code keeps (the current revision, the two stamps it overwrites at the end, and whether the
  readiness gate was unmet). Two objects that agree on those and on their metadata and specification
  are reconciled identically, with the same result, writes, events and gauges, whatever else their
  old statuses contain.
\<close>

theorem reconcile_no_stale:
  assumes "p_Meta p = p_Meta q" "p_Spec p = p_Spec q"
    and "st_CurrentRevision (p_Status p) = st_CurrentRevision (p_Status q)"
      "st_LastReconciledAt (p_Status p) = st_LastReconciledAt (p_Status q)"
      "st_ObservedGeneration (p_Status p) = st_ObservedGeneration (p_Status q)"
    and "readinessWasUnmet (r_Ext r) p = readinessWasUnmet (r_Ext r) q"
  shows "reconcile_pacto r p s = reconcile_pacto r q s"
proof -
  have "resetDerivedStatus p = resetDerivedStatus q"
    using assms(1-5) by (simp add: resetDerivedStatus_def upd_status_def)
  then show ?thesis
    by (simp only: reconcile_pacto_def Let_def assms(6))
qed


section \<open>Scheduling the next attempt\<close>

lemma sint_of_int64: "- (2 ^ 63) \<le> j \<Longrightarrow> j < 2 ^ 63 \<Longrightarrow> sint (word_of_int j :: int64) = j"
  by (simp add: signed_of_int signed_take_bit_int_eq_self)

lemma requeueInterval_seconds:
  "sint (requeueInterval p) =
     (if 0 < sint (ps_CheckIntervalSeconds (p_Spec p)) then sint (ps_CheckIntervalSeconds (p_Spec p)) * Second
      else 5 * Minute)"
proof -
  let ?i = "ps_CheckIntervalSeconds (p_Spec p)"
  have bound: "sint ?i < 2 ^ 31" "- (2 ^ 31) \<le> sint ?i"
    using sint_lt[of ?i] sint_ge[of ?i] by simp_all
  have "sint (int32_to_int64 ?i * word_of_int Second) = sint ?i * Second" if "0 < sint ?i"
  proof -
    have "int32_to_int64 ?i * word_of_int Second = word_of_int (sint ?i * Second)"
      by (simp add: int32_to_int64_def)
    moreover have "sint (word_of_int (sint ?i * Second) :: int64) = sint ?i * Second"
      using that bound by (intro sint_of_int64) (simp_all add: Second_def)
    ultimately show ?thesis
      by (simp only:)
  qed
  moreover have "sint (5 * word_of_int Minute :: int64) = 5 * Minute"
    by (simp add: Minute_def Second_def)
  ultimately show ?thesis
    by (simp add: requeueInterval_def)
qed


text \<open>How an attempt on an object ends, with or without an error.\<close>

definition scheduled :: "Pacto \<Rightarrow> reconciled \<times> 'w \<times> outputs \<Rightarrow> bool" where
  "scheduled p res \<longleftrightarrow>
     RequeueAfter (fst (fst res)) = (if snd (fst res) = None then requeueInterval p else 0)"

lemma requeueInterval_object: "p_Spec p = p_Spec q \<Longrightarrow> requeueInterval p = requeueInterval q"
  by (simp add: requeueInterval_def)

lemma finish_scheduled: "p_Spec q = p_Spec p \<Longrightarrow> scheduled p (finishReconciliation r q c checks s)"
  by (auto simp: scheduled_def finishReconciliation_def no_requeue_def Let_def requeueInterval_object[of q p]
      split: prod.splits option.splits)

lemma fail_scheduled: "p_Spec q = p_Spec p \<Longrightarrow> scheduled p (failReconciliation r q msg v c s)"
  by (auto simp: scheduled_def failReconciliation_def no_requeue_def Let_def requeueInterval_def
      split: prod.splits option.splits)

lemma probeEndpoints_object [simp]:
  "p_Meta (snd (fst (probeEndpoints x h u c svc w))) = p_Meta u"
  "p_Spec (snd (fst (probeEndpoints x h u c svc w))) = p_Spec u"
  by (metis prod.collapse probeEndpoints_meta)+

lemma applyValidationResult_object [simp]:
  "p_Meta (applyValidationResult x q res snap s wn wk) = p_Meta q" "p_Spec (applyValidationResult x q res snap s wn wk) = p_Spec q"
  by (simp_all add: applyValidationResult_def Let_def case_prod_unfold)

lemma phases_scheduled:
  assumes "p_Spec q = p_Spec p"
  shows "scheduled p (reference_phase r q c s)" "scheduled p (unobserved_phase r q c svc err s)"
    "scheduled p (runtime_phase r q c s)"
proof -
  show "scheduled p (reference_phase r q c s)"
    using assms by (simp add: reference_phase_def Let_def finish_scheduled)
  show unobs: "scheduled p (unobserved_phase r q c svc err s)" for svc err s
    using assms by (cases s) (simp add: unobserved_phase_def Let_def finish_scheduled)
  show "scheduled p (runtime_phase r q c s)"
    using assms unobs
    by (cases s) (auto simp: runtime_phase_def Let_def case_prod_unfold intro!: finish_scheduled split: sum.split)
qed

lemma record_revisions_spec:
  "record_revisions r q auth lr s = Ret (q', s') \<Longrightarrow> p_Spec q' = p_Spec q"
  by (auto dest: record_revisions_object)

lemma reconcileReadiness_meta [simp]: "p_Meta (fst (reconcileReadiness x t p c wu out)) = p_Meta p"
  by (auto simp: reconcileReadiness_def Let_def split: option.split prod.split)

lemma reconcileReadiness_spec [simp]: "p_Spec (fst (reconcileReadiness x t p c wu out)) = p_Spec p"
  by (cases rule: reconcileReadiness_cases[of x c t p wu out]) simp_all

lemma reconcile_pacto_scheduled:
  assumes "reconcile_pacto r p s = Ret res"
  shows "scheduled p res"
proof -
  obtain w out where s: "s = (w, out)"
    by (cases s)
  show ?thesis
    using assms unfolding reconcile_pacto_def s Let_def prod.case
    by (auto simp: case_prod_unfold intro!: fail_scheduled phases_scheduled dest!: record_revisions_spec
        split: sum.splits if_splits go.splits)
qed


text \<open>
  C17. The next attempt is always scheduled soundly. A completed attempt requeues after the check
  interval in seconds, or five minutes if none is given; the product is computed in Go's \<open>int64\<close>
  nanoseconds without overflow and lies between one second and 2^31 seconds, so the object is never
  dropped and never busy-looped. An attempt that fails to store the status returns that error (and the
  work queue retries); a deleted object ends the loop without any effect.
\<close>

theorem Reconcile_requeue:
  assumes "Reconcile r req (w, out) = Ret ((result, err), w', out')"
  shows "case k_GetPacto (r_Client r) req w of
      Inl e \<Rightarrow> RequeueAfter result = 0 \<and> err = (if IsNotFound e then None else Some e) \<and> w' = w \<and> out' = out
    | Inr p \<Rightarrow>
        (err \<noteq> None \<longrightarrow> RequeueAfter result = 0) \<and>
        (err = None \<longrightarrow>
          sint (RequeueAfter result) =
            (if 0 < sint (ps_CheckIntervalSeconds (p_Spec p)) then sint (ps_CheckIntervalSeconds (p_Spec p)) * Second
             else 5 * Minute) \<and>
          Second \<le> sint (RequeueAfter result) \<and> sint (RequeueAfter result) < 2 ^ 31 * Second)"
proof (cases "k_GetPacto (r_Client r) req w")
  case (Inl e)
  with assms show ?thesis
    by (auto simp: Reconcile_def no_requeue_def split: if_splits)
next
  case (Inr p)
  have "scheduled p ((result, err), w', out')"
    using assms Inr by (intro reconcile_pacto_scheduled[of r p "(w, out)"]) (simp add: Reconcile_def)
  moreover have "Second \<le> sint (requeueInterval p) \<and> sint (requeueInterval p) < 2 ^ 31 * Second"
    using sint_lt[of "ps_CheckIntervalSeconds (p_Spec p)"] by (simp add: requeueInterval_seconds Second_def Minute_def)
  ultimately show ?thesis
    using requeueInterval_seconds[of p] by (simp add: Inr scheduled_def)
qed


section \<open>Failed attempts\<close>

lemma fail_events:
  assumes "failReconciliation r q msg v c (w, out) = ((result, None), w', out')"
  shows "out_Events out' = out_Events out @
    [\<lparr>evt_Object = pacto_key q, evt_Type = EventTypeWarning, evt_Reason = ''ContractInvalid'', evt_Message = msg\<rparr>]"
proof -
  have "out_Events (record_validation p c cks o1) = out_Events o1" for p cks o1
    by (simp add: record_validation_def split: option.split)
  then show ?thesis
    using assms by (auto simp: failReconciliation_def Let_def Event_def pacto_key_def split: prod.splits option.splits)
qed

lemma failed_status_fields:
  assumes "condition_api x" "unpopulated p q"
  shows "\<exists>pol cs. p_Status (failed_status x msg v q) = (p_Status (resetDerivedStatus p))
      \<lparr>st_ResolutionPolicy := pol, st_ContractStatus := ContractStatusNonCompliant,
       st_Summary := Some \<lparr>cs_Total = 1, cs_Passed = 0, cs_Failed = 1\<rparr>, st_Validation := Some v,
       st_Conditions := cs\<rparr> \<and>
    set cs = {\<lparr>cond_Type = ConditionContractValid, cond_Status = ConditionFalse,
       cond_ObservedGeneration = om_Generation (p_Meta p), cond_Reason = ReasonContractInvalid, cond_Message = msg\<rparr>}"
proof -
  obtain pol val where q: "q = upd_status (\<lambda>st. st\<lparr>st_ResolutionPolicy := pol, st_Validation := val\<rparr>) (resetDerivedStatus p)"
    using assms(2) by (auto simp: unpopulated_def)
  show ?thesis
    using assms(1)
    by (intro exI[of _ pol] exI[of _ "conditions (failed_status x msg v q)"])
       (simp add: q failed_status_def setCondition_def SetStatusCondition_set)
qed

text \<open>
  C16. A contract that cannot be obtained is reported as such, completely: the stored status is
  \<open>NonCompliant\<close> with summary 1/0/1, its only condition is \<open>ContractValid\<close> = false with the message of
  the single warning event that is emitted, the validation result lists at least one error, and every
  field derived from a contract or from the runtime is empty (nothing of an earlier, valid contract is
  left), while the name of the last recorded revision is kept.
\<close>

theorem Reconcile_failure:
  assumes "condition_api (r_Ext r)" "status_api (r_Client r)" "k_GetPacto (r_Client r) req w = Inr p"
    and "loaded_contract r p w = None"
    and "Reconcile r req (w, out) = Ret ((result, None), w', out')"
  shows "\<exists>st v d. stored_status (r_Client r) w' req = Some st \<and>
    st_ContractStatus st = ContractStatusNonCompliant \<and>
    st_Summary st = Some \<lparr>cs_Total = 1, cs_Passed = 0, cs_Failed = 1\<rparr> \<and>
    st_Validation st = Some v \<and> \<not> vr_Valid v \<and> vr_Errors v \<noteq> [] \<and>
    set (st_Conditions st) = {d} \<and> cond_Type d = ConditionContractValid \<and> cond_Status d = ConditionFalse \<and>
    out_Events out' = out_Events out @
      [\<lparr>evt_Object = req, evt_Type = EventTypeWarning, evt_Reason = ''ContractInvalid'', evt_Message = cond_Message d\<rparr>] \<and>
    st_ContractVersion st = '''' \<and> st_Contract st = None \<and> st_Interfaces st = [] \<and> st_Configurations st = [] \<and>
    st_Dependencies st = [] \<and> st_Policies st = [] \<and> st_Runtime st = None \<and> st_Scaling st = None \<and>
    st_Metadata st = [] \<and> st_Readiness st = None \<and> st_Resources st = None \<and> st_Ports st = None \<and>
    st_Endpoints st = None \<and> st_ObservedRuntime st = None \<and>
    st_CurrentRevision st = st_CurrentRevision (p_Status p)"
proof -
  note run = Reconcile_run[OF assms(2,3,5)]
  obtain q msg v c w1 where q: "unpopulated p q" and v: "\<not> vr_Valid v" "vr_Errors v \<noteq> []"
    and fail: "failReconciliation r q msg v c (w1, out) = ((result, None), w', out')"
    using reconcile_pacto_failure[OF assms(4), of out] run(1) by auto
  let ?f = "failed_status (r_Ext r) msg v q"
  obtain now where "completed r (stamp now ?f) (failReconciliation r q msg v c (w1, out))"
    using fail_completed[OF assms(2)] by blast
  moreover have key: "pacto_key ?f = req" "pacto_key q = req"
    using run(2) unpopulated_sel[OF q] by (simp_all add: failed_status_def pacto_key_def)
  ultimately have "stored_status (r_Client r) w' req = Some (p_Status (stamp now ?f))"
    by (simp add: completed_def fail)
  moreover obtain pol cs where "p_Status ?f = (p_Status (resetDerivedStatus p))
      \<lparr>st_ResolutionPolicy := pol, st_ContractStatus := ContractStatusNonCompliant,
       st_Summary := Some \<lparr>cs_Total = 1, cs_Passed = 0, cs_Failed = 1\<rparr>, st_Validation := Some v, st_Conditions := cs\<rparr>"
    "set cs = {\<lparr>cond_Type = ConditionContractValid, cond_Status = ConditionFalse,
       cond_ObservedGeneration = om_Generation (p_Meta p), cond_Reason = ReasonContractInvalid, cond_Message = msg\<rparr>}"
    using failed_status_fields[OF assms(1) q, of msg v] by blast
  ultimately show ?thesis
    using fail_events[OF fail] v key(2)
    by (intro exI[of _ "p_Status (stamp now ?f)"] exI[of _ v]
        exI[of _ "\<lparr>cond_Type = ConditionContractValid, cond_Status = ConditionFalse,
          cond_ObservedGeneration = om_Generation (p_Meta p), cond_Reason = ReasonContractInvalid, cond_Message = msg\<rparr>"])
       (simp add: stamp_def resetDerivedStatus_def)
qed


section \<open>Revisions are immutable\<close>

text \<open>Status updates of Pactos and HTTP probes leave the stored revisions alone.\<close>

definition runtime_api :: "'w kube \<Rightarrow> 'w http_env \<Rightarrow> bool" where
  "runtime_api k h \<longleftrightarrow>
     (\<forall>p w. grows k w (snd (k_UpdatePactoStatus k p w))) \<and>
     (\<forall>w. grows k w (snd (h_Now h w))) \<and> (\<forall>p url w. grows k w (snd (h_Do h p url w)))"

text \<open>The calls of the HTTP client, along a preorder on worlds.\<close>

definition http_calls :: "'w http_env \<Rightarrow> ('w \<Rightarrow> 'w \<Rightarrow> bool) \<Rightarrow> bool" where
  "http_calls h R \<longleftrightarrow> (\<forall>w. R w (snd (h_Now h w))) \<and> (\<forall>p url w. R w (snd (h_Do h p url w)))"

text \<open>Everything an attempt calls before its final status update.\<close>

definition attempt_calls :: "'w PactoReconciler \<Rightarrow> ('w \<Rightarrow> 'w \<Rightarrow> bool) \<Rightarrow> bool" where
  "attempt_calls r R \<longleftrightarrow> revision_calls (r_Client r) R \<and> loader_calls (r_Loader r) R \<and> http_calls (r_HTTP r) R"

lemma attempt_calls_rules:
  assumes "attempt_calls r R"
  shows "revision_calls (r_Client r) R" "loader_calls (r_Loader r) R" "http_calls (r_HTTP r) R"
    "R w w" "R w w' \<Longrightarrow> R w' w'' \<Longrightarrow> R w w''" "k_Now (r_Client r) w = (t, w') \<Longrightarrow> R w w'"
    "h_Now (r_HTTP r) w = (t, w') \<Longrightarrow> R w w'" "h_Do (r_HTTP r) pr url w = (a, w') \<Longrightarrow> R w w'"
proof -
  have calls: "revision_calls (r_Client r) R" "loader_calls (r_Loader r) R" "http_calls (r_HTTP r) R"
    using assms by (simp_all add: attempt_calls_def)
  then show "revision_calls (r_Client r) R" "loader_calls (r_Loader r) R" "http_calls (r_HTTP r) R"
    by simp_all
  show "R w w" "R w w' \<Longrightarrow> R w' w'' \<Longrightarrow> R w w''" "k_Now (r_Client r) w = (t, w') \<Longrightarrow> R w w'"
    using revision_calls_rules[OF calls(1)] by blast+
  show "h_Now (r_HTTP r) w = (t, w') \<Longrightarrow> R w w'" "h_Do (r_HTTP r) pr url w = (a, w') \<Longrightarrow> R w w'"
    using calls(3) unfolding http_calls_def by (metis snd_conv)+
qed

lemma Probe_keeps:
  assumes "attempt_calls r R"
  shows "R w (snd (Probe (r_HTTP r) pr url w))"
proof (cases "h_NewRequest (r_HTTP r) url")
  case None
  obtain t1 w1 where n1: "h_Now (r_HTTP r) w = (t1, w1)"
    by fastforce
  obtain a w2 where d: "h_Do (r_HTTP r) pr url w1 = (a, w2)"
    by fastforce
  obtain t2 w3 where n2: "h_Now (r_HTTP r) w2 = (t2, w3)"
    by fastforce
  note rules = attempt_calls_rules[OF assms]
  have "R w w3"
    using rules(7)[OF n1] rules(8)[OF d] rules(7)[OF n2] by (blast intro: rules(5))
  then show ?thesis
    by (simp add: Probe_def None n1 d n2 Let_def split: sum.split)
qed (simp add: Probe_def attempt_calls_rules(4)[OF assms])

lemma probe_run_keeps:
  assumes "attempt_calls r R"
  shows "R w (snd (probe_run (r_HTTP r) c s ns es w))"
proof (induction es arbitrary: w)
  case (Cons e es)
  have "R w (after_probe (r_HTTP r) c s ns e w)"
    using Probe_keeps[OF assms] attempt_calls_rules(4)[OF assms] by (simp add: after_probe_def split: option.split)
  with Cons.IH[of "after_probe (r_HTTP r) c s ns e w"] show ?case
    by (simp add: Let_def case_prod_unfold) (rule attempt_calls_rules(5)[OF assms])
qed (simp add: attempt_calls_rules(4)[OF assms])

lemma probeEndpoints_keeps:
  "attempt_calls r R \<Longrightarrow> R w (snd (probeEndpoints x (r_HTTP r) p c s w))"
  using probe_run_keeps[of r R w c s "om_Namespace (p_Meta p)" "declared_endpoints c"]
  by (simp add: probeEndpoints_run)

text \<open>
  How an attempt ends: after calls along the preorder, one status update for the object that was
  read, whose error is the error of the attempt.
\<close>

definition final_update :: "'w PactoReconciler \<Rightarrow> ('w \<Rightarrow> 'w \<Rightarrow> bool) \<Rightarrow> Pacto \<Rightarrow> 'w \<Rightarrow> reconciled \<times> 'w \<times> outputs \<Rightarrow> bool" where
  "final_update r R p w res \<longleftrightarrow>
     (\<exists>q w1. R w w1 \<and> k_UpdatePactoStatus (r_Client r) q w1 = (snd (fst res), fst (snd res)) \<and> p_Meta q = p_Meta p)"

lemma final_update_after:
  assumes "attempt_calls r R" "R w w1" "final_update r R p w1 res"
  shows "final_update r R p w res"
  using assms(2,3) attempt_calls_rules(5)[OF assms(1)] unfolding final_update_def by blast

lemma finish_final:
  assumes "attempt_calls r R" "p_Meta q = p_Meta p"
  shows "final_update r R p w (finishReconciliation r q c checks (w, out))"
proof -
  obtain now w1 where now: "k_Now (r_Client r) w = (now, w1)"
    by fastforce
  obtain err w2 where upd: "k_UpdatePactoStatus (r_Client r) (stamp now q) w1 = (err, w2)"
    by fastforce
  show ?thesis
    unfolding final_update_def
    by (rule exI[of _ "stamp now q"], rule exI[of _ w1])
       (simp add: finishReconciliation_def now upd Let_def attempt_calls_rules(6)[OF assms(1) now] assms(2) split: option.split)
qed

lemma fail_final:
  assumes "attempt_calls r R" "p_Meta q = p_Meta p"
  shows "final_update r R p w (failReconciliation r q msg v c (w, out))"
proof -
  obtain now w1 where now: "k_Now (r_Client r) w = (now, w1)"
    by fastforce
  let ?q = "stamp now (failed_status (r_Ext r) msg v q)"
  obtain err w2 where upd: "k_UpdatePactoStatus (r_Client r) ?q w1 = (err, w2)"
    by fastforce
  show ?thesis
    unfolding final_update_def
    by (rule exI[of _ ?q], rule exI[of _ w1])
       (use upd in \<open>simp add: failReconciliation_def failed_status_def now Let_def attempt_calls_rules(6)[OF assms(1) now]
         assms(2) split: option.split\<close>)
qed

lemma phases_final:
  assumes "attempt_calls r R" "p_Meta q = p_Meta p"
  shows "final_update r R p w (reference_phase r q c (w, out))" "final_update r R p w (runtime_phase r q c (w, out))"
proof -
  note finish = finish_final[OF assms(1)]
  show "final_update r R p w (reference_phase r q c (w, out))"
    unfolding reference_phase_def Let_def by (rule finish) (simp add: assms(2))
  have unobs: "final_update r R p w (unobserved_phase r q c svc err (w, out))" for svc err
    unfolding unobserved_phase_def Let_def prod.case by (rule finish) (simp add: assms(2))
  have probe: "final_update r R p w (finishReconciliation r u d cks (snd (probeEndpoints (r_Ext r) (r_HTTP r) v c svc w), out'))"
    if "p_Meta u = p_Meta p" for u d cks v svc out'
    using probeEndpoints_keeps[OF assms(1)] finish[OF that] by (rule final_update_after[OF assms(1)])
  show "final_update r R p w (runtime_phase r q c (w, out))"
    using assms(2)
    by (auto simp: runtime_phase_def Let_def case_prod_unfold applyValidationResult_object intro!: unobs finish probe split: sum.split)
qed

lemma record_revisions_keeps:
  assumes "attempt_calls r R" "record_revisions r q auth lr (w, out) = Ret (q', w', out')"
  shows "R w w'"
proof -
  note rules = attempt_calls_rules[OF assms(1)]
  obtain rn w1 o1 where ens: "ensureRevision (r_Ext r) (r_Client r) q lr (w, out) = (rn, w1, o1)"
    by (metis prod.collapse)
  have "R w1 w'"
    using assms(2) syncAllRevisions_keeps[OF rules(1,2)] rules(4)
    by (auto simp: record_revisions_def ens Let_def split: if_splits go.splits)
  with ensureRevision_keeps[OF rules(1) ens] show ?thesis
    by (rule rules(5))
qed

lemma load_contract_keeps:
  assumes "attempt_calls r R" "load_contract r p auth w = (ld, w')"
  shows "R w w'"
  using assms(2) loader_calls_rules(1)[OF attempt_calls_rules(2)[OF assms(1)]]
  by (auto simp: load_contract_def Let_def split: prod.splits sum.splits option.splits)

lemma reconcile_pacto_final:
  assumes calls: "attempt_calls r R" and run: "reconcile_pacto r p (w, out) = Ret res"
  shows "final_update r R p w res"
proof (cases "loaded_contract r p w")
  case None
  obtain q msg v c w1 where res: "res = failReconciliation r q msg v c (w1, out)" and q: "unpopulated p q"
    and w1: "w1 = w \<or> (\<exists>auth. w1 = snd (load_contract r p auth w))"
    using reconcile_pacto_failure[OF None, of out] run by (metis go.inject)
  have "R w w1"
    using w1 load_contract_keeps[OF calls] attempt_calls_rules(4)[OF calls] by (metis prod.collapse)
  then show ?thesis
    unfolding res using fail_final[OF calls unpopulated_sel(1)[OF q]] by (rule final_update_after[OF calls])
next
  case (Some found)
  obtain auth lr c w1 where found: "found = (auth, lr, c, w1)"
    by (cases found)
  obtain t w2 where now: "k_Now (r_Client r) w1 = (t, w2)"
    by fastforce
  obtain q ks q1 out1 where q: "unpopulated p q"
    and rd: "reconcileReadiness (r_Ext r) t (populate_status (r_Ext r) q lr c ks) c (readinessWasUnmet (r_Ext r) p) out = (q1, out1)"
    and body: "reconcile_pacto r p (w, out) =
      (case record_revisions r q1 auth lr (w2, out1) of
         Panic \<Rightarrow> Panic
       | Ret (q2, s) \<Rightarrow> Ret (if IsReference q2 then reference_phase r q2 c s else runtime_phase r q2 c s))"
    by (rule reconcile_pacto_attempt[OF Some[unfolded found] now])
  obtain q2 w3 out3 where rev: "record_revisions r q1 auth lr (w2, out1) = Ret (q2, w3, out3)"
    and res: "res = (if IsReference q2 then reference_phase r q2 c (w3, out3) else runtime_phase r q2 c (w3, out3))"
    using run by (auto simp: body split: go.splits)
  have meta: "p_Meta q2 = p_Meta p"
    using record_revisions_object[OF rev] unpopulated_sel(1)[OF q]
      reconcileReadiness_meta[of "r_Ext r" t "populate_status (r_Ext r) q lr c ks" c _ out] rd by (metis fst_conv populate_status_meta(1) upd_status_sel(1))
  have "R w w1"
    using Some load_contract_keeps[OF calls]
    by (auto simp: loaded_contract_def found split: sum.splits prod.splits if_splits)
  then have "R w w3"
    using attempt_calls_rules(6)[OF calls now] record_revisions_keeps[OF calls rev] by (blast intro: attempt_calls_rules(5)[OF calls])
  moreover have "final_update r R p w3 res"
    using phases_final[OF calls meta] by (simp add: res)
  ultimately show ?thesis
    by (rule final_update_after[OF calls])
qed

lemma grows_attempt:
  "revision_api (r_Client r) \<Longrightarrow> loader_api (r_Client r) (r_Loader r) \<Longrightarrow> runtime_api (r_Client r) (r_HTTP r) \<Longrightarrow>
     attempt_calls r (grows (r_Client r))"
  using grows_calls by (auto simp: attempt_calls_def http_calls_def runtime_api_def)

lemma reconcile_pacto_grows:
  assumes "revision_api (r_Client r)" "loader_api (r_Client r) (r_Loader r)" "runtime_api (r_Client r) (r_HTTP r)"
    and run: "reconcile_pacto r p (w, out) = Ret res"
  shows "grows (r_Client r) w (fst (snd res))"
proof -
  obtain q w1 where "grows (r_Client r) w w1" "k_UpdatePactoStatus (r_Client r) q w1 = (snd (fst res), fst (snd res))"
    using reconcile_pacto_final[OF grows_attempt[OF assms(1-3)] run] unfolding final_update_def by blast
  then show ?thesis
    using assms(3) unfolding runtime_api_def by (metis grows_trans snd_conv)
qed


section \<open>Termination\<close>

lemma record_revisions_returns:
  assumes "\<And>p base auth s. \<exists>err w' out'. syncAllRevisions (r_Ext r) (r_Client r) (r_Loader r) p base auth s = Ret (err, w', out')"
  shows "\<exists>res. record_revisions r q auth lr s = Ret res"
proof -
  obtain rn s1 where ens: "ensureRevision (r_Ext r) (r_Client r) q lr s = (rn, s1)"
    by (metis prod.collapse)
  let ?q = "case rn of Inl revErr \<Rightarrow> q | Inr n \<Rightarrow> upd_status (\<lambda>st. st\<lparr>st_CurrentRevision := n\<rparr>) q"
  obtain err w' out' where "syncAllRevisions (r_Ext r) (r_Client r) (r_Loader r) ?q
      (cr_OCI (ps_ContractRef (p_Spec ?q))) auth s1 = Ret (err, w', out')"
    using assms by blast
  then show ?thesis
    by (simp add: record_revisions_def ens Let_def)
qed

lemma record_revisions_pinned:
  assumes "cr_OCI (ps_ContractRef (p_Spec q)) = '''' \<or> Contains (cr_OCI (ps_ContractRef (p_Spec q))) ''@''"
  shows "\<exists>res. record_revisions r q auth lr s = Ret res"
  using assms by (auto simp: record_revisions_def Let_def case_prod_unfold split: sum.splits)

lemma reconcile_pacto_returns:
  assumes "\<And>q auth lr s. p_Spec q = p_Spec p \<Longrightarrow> \<exists>res. record_revisions r q auth lr s = Ret res"
  shows "\<exists>res. reconcile_pacto r p (w, out) = Ret res"
proof (cases "loaded_contract r p w")
  case None
  from reconcile_pacto_failure[OF this, of out] show ?thesis
    by blast
next
  case (Some found)
  obtain auth lr c w1 where found: "found = (auth, lr, c, w1)"
    by (cases found)
  obtain t w2 where now: "k_Now (r_Client r) w1 = (t, w2)"
    by fastforce
  obtain q ks q1 out1 where q: "unpopulated p q"
    and rd: "reconcileReadiness (r_Ext r) t (populate_status (r_Ext r) q lr c ks) c (readinessWasUnmet (r_Ext r) p) out = (q1, out1)"
    and body: "reconcile_pacto r p (w, out) =
      (case record_revisions r q1 auth lr (w2, out1) of
         Panic \<Rightarrow> Panic
       | Ret (q2, s) \<Rightarrow> Ret (if IsReference q2 then reference_phase r q2 c s else runtime_phase r q2 c s))"
    by (rule reconcile_pacto_attempt[OF Some[unfolded found] now])
  have "p_Spec q1 = p_Spec p"
    using reconcileReadiness_spec[of "r_Ext r" t "populate_status (r_Ext r) q lr c ks" c _ out] rd unpopulated_sel(2)[OF q]
    by (metis fst_conv populate_status_meta(2))
  from assms[OF this, of auth lr "(w2, out1)"] obtain q2 s where "record_revisions r q1 auth lr (w2, out1) = Ret (q2, s)"
    by (metis prod.collapse)
  then show ?thesis
    by (simp only: body go.case prod.case) blast
qed



section \<open>A concrete operator\<close>

text \<open>
  The sample cluster, loader and HTTP client together, reconciling a Pacto whose reference is pinned
  to a digest.
\<close>

definition sample_http :: "cluster http_env" where
  "sample_http =
     \<lparr>h_NewRequest = (\<lambda>_. None), h_Do = (\<lambda>_ _ w. (Inr \<lparr>hr_StatusCode = 204, hr_Body = ''''\<rparr>, w)),
      h_Now = (\<lambda>w. (cw_Clock w, w))\<rparr>"

definition sample_reconciler :: "cluster PactoReconciler" where
  "sample_reconciler =
     \<lparr>r_Client = sample_kube, r_Loader = sample_contract_loader, r_HTTP = sample_http, r_Ext = documented,
      r_JSON = sample_json, r_Base64Error = (\<lambda>_. ''illegal base64 data'')\<rparr>"

definition pinned_pacto :: Pacto where
  "pinned_pacto = sample_pacto\<lparr>p_Spec := (p_Spec sample_pacto)\<lparr>ps_ContractRef :=
     \<lparr>cr_OCI = ''oci://ghcr.io/org/svc-pacto@sha256:0123456789ab'', cr_Inline = '''', cr_PullSecretRef = ''''\<rparr>\<rparr>\<rparr>"

definition pinned_cluster :: cluster where
  "pinned_cluster = revised_cluster\<lparr>cw_Pactos := [pinned_pacto]\<rparr>"

lemma sample_reconciler_sel [simp]:
  "r_Client sample_reconciler = sample_kube" "r_Loader sample_reconciler = sample_contract_loader"
  "r_HTTP sample_reconciler = sample_http" "r_Ext sample_reconciler = documented"
  by (simp_all add: sample_reconciler_def)

lemma status_api_sample: "status_api sample_kube"
  unfolding status_api_def stored_status_def
  by (auto simp: sample_kube_def cluster_update_pacto_def cluster_get_pacto_def find_Some_iff split: option.splits)

lemma runtime_api_sample: "runtime_api sample_kube sample_http"
proof -
  have "grows sample_kube w (w\<lparr>cw_Pactos := ps\<rparr>)" for w ps
    by (simp add: grows_def stored_spec_sample)
  then show ?thesis
    by (simp add: runtime_api_def sample_http_def) (simp add: sample_kube_def cluster_update_pacto_def)
qed

lemma sample_get: "k_GetPacto sample_kube (''ns'', ''svc'') pinned_cluster = Inr pinned_pacto"
  by (simp add: sample_kube_def cluster_get_pacto_def pinned_cluster_def pinned_pacto_def pacto_key_def sample_pacto_def)

lemma sample_update: "\<exists>w'. k_UpdatePactoStatus sample_kube p w = (None, w')"
  by (simp add: sample_kube_def cluster_update_pacto_def)

lemma pinned_sel:
  "om_Namespace (p_Meta pinned_pacto) = ''ns''"
  "om_Name (p_Meta pinned_pacto) = ''svc''"
  "cr_PullSecretRef (ps_ContractRef (p_Spec pinned_pacto)) = ''''" "ps_Overrides (p_Spec pinned_pacto) = None"
  "ps_Target (p_Spec pinned_pacto) = \<lparr>tr_ServiceName = ''svc'', tr_WorkloadRef = None\<rparr>"
  "ps_CheckIntervalSeconds (p_Spec pinned_pacto) = 60" "\<not> IsReference pinned_pacto"
  "CHR ''@'' \<in> set (cr_OCI (ps_ContractRef (p_Spec pinned_pacto)))"
  by (simp_all add: pinned_pacto_def sample_pacto_def IsReference_def)

text \<open>When every status update succeeds, an attempt ends without error.\<close>

lemma finish_no_error:
  assumes "\<And>p w. \<exists>w'. k_UpdatePactoStatus (r_Client r) p w = (None, w')"
  shows "snd (fst (finishReconciliation r q c cks s)) = None" "snd (fst (failReconciliation r q msg v d s)) = None"
  using assms
  by (auto simp: finishReconciliation_def failReconciliation_def Let_def split: prod.splits option.splits) (metis option.simps(3) prod.inject)+

lemma attempt_no_error:
  assumes upd: "\<And>p w. \<exists>w'. k_UpdatePactoStatus (r_Client r) p w = (None, w')"
    and pinned: "CHR ''@'' \<in> set (cr_OCI (ps_ContractRef (p_Spec p)))"
  obtains result w' out' where "reconcile_pacto r p (w, out) = Ret ((result, None), w', out')"
proof -
  note ok = finish_no_error[OF upd]
  have phases: "snd (fst (reference_phase r q c s)) = None" "snd (fst (runtime_phase r q c s)) = None" for q c s
    by (simp_all add: reference_phase_def runtime_phase_def unobserved_phase_def Let_def case_prod_unfold ok split: sum.split)
  obtain res where res: "reconcile_pacto r p (w, out) = Ret res"
    using reconcile_pacto_returns[of p r w out, OF record_revisions_pinned] pinned by auto
  have "snd (fst res) = None"
    using res unfolding reconcile_pacto_def Let_def prod.case
    by (auto simp: case_prod_unfold ok phases split: sum.splits if_splits go.splits)
  then show ?thesis
    using that res by (metis prod.collapse)
qed

lemma sample_attempt:
  obtains result w' out' where
    "Reconcile sample_reconciler (''ns'', ''svc'') (pinned_cluster, no_outputs) = Ret ((result, None), w', out')"
proof -
  have "\<exists>w'. k_UpdatePactoStatus (r_Client sample_reconciler) p w = (None, w')" for p w
    using sample_update by simp
  from attempt_no_error[OF this pinned_sel(8)] show ?thesis
    using that sample_get by (auto simp: Reconcile_def)
qed


lemma sample_loaded:
  "loaded_contract sample_reconciler pinned_pacto w = Some (None, sample_lr, sample_contract, w)"
proof -
  have "pull_credentials sample_reconciler pinned_pacto w = Inr None"
    by (simp add: pull_credentials_def pinned_sel)
  moreover have "load_contract sample_reconciler pinned_pacto None w = (Inr (sample_lr, sample_contract, []), w)"
    by (simp add: load_contract_def pinned_sel sample_contract_loader_def) (simp add: sample_lr_def)
  moreover have "cv_Errors (x_Validate documented sample_contract y b) = []" for y b
    by (simp add: documented_def sample_contract_def)
  ultimately show ?thesis
    by (simp add: loaded_contract_def)
qed

lemma sample_expected: "expected_status sample_reconciler pinned_pacto w = ContractStatusWarning"
proof -
  have "ResolvedWorkload pinned_pacto = (''svc'', ''Deployment'')"
    by (simp add: ResolvedWorkload_def pinned_sel)
  moreover have "k_Reader sample_kube v = sample_reader" for v
    by (simp add: sample_kube_def)
  moreover have "\<not> readiness_met documented sample_contract t" for t
    by (simp add: readiness_met_def documented_def sample_contract_def sample_eval_def)
  moreover have "\<not> resources_missing sample_snapshot True"
    using sample_conforms by (simp add: conforms_def)
  ultimately show ?thesis
    by (simp add: expected_status_def sample_loaded pinned_sel verdict_def Observe_sample Let_def)
qed



theorem reconcile_no_stale_witness:
  "reconcile_pacto sample_reconciler (upd_status (\<lambda>st. st\<lparr>st_ContractVersion := ''0.9.0'', st_Metadata := [(''team'', ''old'')]\<rparr>) pinned_pacto)
     (pinned_cluster, no_outputs) =
   reconcile_pacto sample_reconciler pinned_pacto (pinned_cluster, no_outputs)"
  by (rule reconcile_no_stale) (simp_all add: readinessWasUnmet_def)

theorem Reconcile_requeue_witness:
  "\<exists>result w' out'.
     Reconcile sample_reconciler (''ns'', ''svc'') (pinned_cluster, no_outputs) = Ret ((result, None), w', out') \<and>
     sint (RequeueAfter result) = 60 * Second"
proof -
  obtain result w' out' where run:
    "Reconcile sample_reconciler (''ns'', ''svc'') (pinned_cluster, no_outputs) = Ret ((result, None), w', out')"
    by (rule sample_attempt)
  from Reconcile_requeue[OF run] run show ?thesis
    by (simp add: sample_get pinned_sel)
qed

theorem Reconcile_failure_witness:
  "\<exists>result w' out' st d.
     Reconcile (sample_reconciler\<lparr>r_Loader := sample_contract_loader\<lparr>cl_Load := (\<lambda>_ _ _ w. (Inl ''pull failed'', w))\<rparr>\<rparr>)
       (''ns'', ''svc'') (pinned_cluster, no_outputs) = Ret ((result, None), w', out') \<and>
     stored_status sample_kube w' (''ns'', ''svc'') = Some st \<and> st_Contract st = None \<and> set (st_Conditions st) = {d}"
proof -
  let ?r = "sample_reconciler\<lparr>r_Loader := sample_contract_loader\<lparr>cl_Load := (\<lambda>_ _ _ w. (Inl ''pull failed'', w))\<rparr>\<rparr>"
  have sel: "r_Client ?r = sample_kube" "r_Ext ?r = documented"
    by simp_all
  have "\<exists>w'. k_UpdatePactoStatus (r_Client ?r) p w = (None, w')" for p w
    using sample_update by (simp only: sel)
  then obtain result w' out' where "reconcile_pacto ?r pinned_pacto (pinned_cluster, no_outputs) = Ret ((result, None), w', out')"
    by (rule attempt_no_error[OF _ pinned_sel(8)])
  then have run: "Reconcile ?r (''ns'', ''svc'') (pinned_cluster, no_outputs) = Ret ((result, None), w', out')"
    by (simp add: Reconcile_def sample_get)
  have "loaded_contract ?r pinned_pacto pinned_cluster = None"
    by (simp add: loaded_contract_def pull_credentials_def load_contract_def pinned_sel)
  from Reconcile_failure[OF _ _ _ this run] run show ?thesis
    by (simp add: condition_api_documented status_api_sample sample_get) blast
qed



end
