(* ===== verification/Schema.thy ===== *)
theory Schema
  imports Reconcile_Guarantees
begin

text \<open>
  The schema of the status of a Pacto, from the markers of \<^verbatim>\<open>api/v1alpha1/pacto_types.go\<close> and the
  custom resource definition generated from them (\<^verbatim>\<open>config/crd/bases\<close>). The API server refuses a status
  update that does not satisfy it. Every status the reconciler submits does, up to the length of the
  messages of its conditions.
\<close>

section \<open>The schema\<close>

definition is_alpha :: "char \<Rightarrow> bool" where
  "is_alpha c \<longleftrightarrow> c \<in> set ''ABCDEFGHIJKLMNOPQRSTUVWXYZabcdefghijklmnopqrstuvwxyz''"

definition is_alnum :: "char \<Rightarrow> bool" where
  "is_alnum c \<longleftrightarrow> is_alpha c \<or> c \<in> set ''0123456789''"

text \<open>The pattern of condition types, without the optional DNS prefix that no type of the operator has.\<close>

definition type_ok :: "string \<Rightarrow> bool" where
  "type_ok t \<longleftrightarrow>
     t \<noteq> '''' \<and> length t \<le> 316 \<and> is_alnum (hd t) \<and> is_alnum (last t) \<and>
     list_all (\<lambda>c. is_alnum c \<or> c \<in> set ''-_.'') t"

definition reason_ok :: "string \<Rightarrow> bool" where
  "reason_ok s \<longleftrightarrow>
     s \<noteq> '''' \<and> length s \<le> 1024 \<and> is_alpha (hd s) \<and> (is_alnum (last s) \<or> last s = CHR ''_'') \<and>
     list_all (\<lambda>c. is_alnum c \<or> c \<in> set ''_,:'') s"

definition max_message :: nat where
  "max_message = 32768"

definition valid_condition :: "Condition \<Rightarrow> bool" where
  "valid_condition c \<longleftrightarrow>
     type_ok (cond_Type c) \<and> reason_ok (cond_Reason c) \<and> 0 \<le> sint (cond_ObservedGeneration c) \<and>
     length (cond_Message c) \<le> max_message"

text \<open>An object with \<open>MinProperties=1\<close> whose fields are omitted when empty.\<close>

definition valid_owner :: "OwnerInfo \<Rightarrow> bool" where
  "valid_owner oi \<longleftrightarrow> oi_Team oi \<noteq> '''' \<or> oi_DRI oi \<noteq> '''' \<or> oi_Contacts oi \<noteq> []"

definition interface_types :: "string list" where
  "interface_types = [''http'', ''grpc'', ''event'']"

definition valid_fields :: "PactoStatus \<Rightarrow> bool" where
  "valid_fields st \<longleftrightarrow>
     st_ContractStatus st \<in> set ('''' # allStatuses) \<and>
     st_ResolutionPolicy st \<in> set ['''', ResolutionPolicyLatest, ResolutionPolicyPinnedTag, ResolutionPolicyPinnedDigest] \<and>
     list_all (\<lambda>i. ii_Type i \<in> set interface_types) (st_Interfaces st) \<and>
     (case st_Contract st of None \<Rightarrow> True | Some ci \<Rightarrow> pred_option valid_owner (ci_Owner ci)) \<and>
     (case st_Readiness st of
        None \<Rightarrow> True | Some rd \<Rightarrow> list_all (\<lambda>ch. rc_Status ch \<in> set readinessCheckStatuses) (rd_Checks rd))"

definition valid_status :: "PactoStatus \<Rightarrow> bool" where
  "valid_status st \<longleftrightarrow>
     valid_fields st \<and> types_distinct (st_Conditions st) \<and> list_all valid_condition (st_Conditions st)"

section \<open>Constants\<close>

definition condition_types :: "string list" where
  "condition_types =
     [ConditionContractValid, ConditionReadinessSatisfied, ConditionRuntimeObserved, ConditionServiceExists,
      ConditionWorkloadExists, ConditionPortsValid, ConditionHealthEndpointValid, ConditionMetricsEndpointValid] @ runtime_types"

definition condition_reasons :: "string list" where
  "condition_reasons =
     [ReasonContractParsed, ReasonContractInvalid, ReasonFound, ReasonNotFound, ReasonPortsMatch, ReasonMissingPorts,
      ReasonReferenceOnly, ReasonEndpointOK, ReasonEndpointConnectionError, ReasonEndpointInvalidStatus,
      ReasonEndpointEmptyResponse, ReasonEndpointNoPort, ReasonEndpointInterfaceMissing, ReasonMatch, ReasonMismatch,
      ReasonMissing, ReasonSkipped, ReasonObservationFailed, ReasonReadinessSatisfied, ReasonReadinessBelowMinScore,
      ReasonReadinessExpired]"

lemma condition_types_ok: "list_all type_ok condition_types"
  by (simp add: condition_types_def runtime_types_def const_defs type_ok_def is_alnum_def is_alpha_def)

lemma condition_reasons_ok: "list_all reason_ok condition_reasons"
  by (simp add: condition_reasons_def const_defs reason_ok_def is_alnum_def is_alpha_def)

section \<open>Every condition is well-formed\<close>

definition known_check :: "Check \<Rightarrow> bool" where
  "known_check k \<longleftrightarrow> ck_Name k \<in> set condition_types \<and> ck_Reason k \<in> set condition_reasons"

lemmas known_defs = known_check_def condition_types_def condition_reasons_def runtime_types_def

lemma known_existence: "known_check (checkServiceExists snap)" "known_check (checkWorkloadExists snap)"
  by (simp_all add: checkServiceExists_def checkWorkloadExists_def known_defs)

lemma known_ports: "known_check (fst (checkPorts c snap))"
  by (simp add: checkPorts_def Let_def known_defs)

lemma known_workload_type: "known_check (checkWorkloadType rt snap)"
  unfolding checkWorkloadType_def Let_def by (simp add: known_defs)

lemma known_state_model: "known_check (checkStateModel rt snap)"
  unfolding checkStateModel_def state_model_check_def Let_def by (simp add: known_defs)

lemma known_upgrade: "known_check (checkUpgradeStrategy lc snap)"
  unfolding checkUpgradeStrategy_def Let_def by (simp add: known_defs)

lemma known_others:
  "known_check (checkGracefulShutdown g snap)" "known_check (checkImage im snap)" "known_check (checkHealthTiming d snap)"
  unfolding checkGracefulShutdown_def checkImage_def checkHealthTiming_def Let_def
  by (simp_all add: known_defs split: option.split list.split)

lemma known_runtime_checks: "k \<in> set (runtime_checks c rt snap) \<Longrightarrow> known_check k"
  unfolding runtime_checks_def
  by (auto simp: known_workload_type known_state_model known_upgrade known_others split: option.splits if_splits)

lemma known_Validate: "k \<in> set (res_Checks (Validate c snap hs)) \<Longrightarrow> known_check k"
  unfolding Validate_mem using known_existence known_ports known_runtime_checks by blast

lemma known_evaluate:
  "sp_conditionType spec \<in> set condition_types \<Longrightarrow> known_check (fst (evaluateProbeResult result url spec))"
  unfolding evaluateProbeResult_def Let_def endpoint_check_def known_check_def by (simp add: condition_reasons_def)

lemma known_probe:
  assumes "sp_conditionType spec \<in> set condition_types"
  shows "known_check (fst (fst (probeOneEndpoint h p spec w)))"
proof -
  have "known_check (endpoint_check spec False ReasonEndpointInterfaceMissing m)"
    "known_check (endpoint_check spec False ReasonEndpointNoPort m)" for m
    using assms by (simp_all add: endpoint_check_def known_check_def condition_reasons_def)
  then show ?thesis
    using known_evaluate[OF assms] by (simp add: probeOneEndpoint_def case_prod_unfold Let_def split: option.split)
qed

text \<open>An object that the schema accepts but for the lengths of messages.\<close>

definition shaped :: "Pacto \<Rightarrow> bool" where
  "shaped q \<longleftrightarrow>
     valid_fields (p_Status q) \<and> types_distinct (conditions q) \<and> 0 \<le> sint (om_Generation (p_Meta q)) \<and>
     (\<forall>c\<in>set (conditions q). cond_Type c \<in> set condition_types \<and> cond_Reason c \<in> set condition_reasons \<and>
        cond_ObservedGeneration c = om_Generation (p_Meta q))"

lemma shaped_setCondition:
  assumes "condition_api x" "shaped q" "t \<in> set condition_types" "reason \<in> set condition_reasons"
  shows "shaped (setCondition x q t s reason m)"
proof -
  have "valid_fields (p_Status (setCondition x q t s reason m))"
    using assms(2) by (simp add: shaped_def valid_fields_def setCondition_def)
  moreover have "types_distinct (conditions q)"
    using assms(2) by (simp add: shaped_def)
  ultimately show ?thesis
    using assms(2-4) by (auto simp: shaped_def conditions_setCondition SetStatusCondition_set[OF assms(1)]
        SetStatusCondition_distinct[OF assms(1)])
qed

lemma shaped_check: "condition_api x \<Longrightarrow> shaped q \<Longrightarrow> known_check k \<Longrightarrow> shaped (set_check_condition x k q)"
  by (simp add: set_check_condition_def shaped_setCondition known_check_def)

lemma shaped_checks:
  "condition_api x \<Longrightarrow> shaped q \<Longrightarrow> \<forall>k\<in>set ks. known_check k \<Longrightarrow> shaped (fold (set_check_condition x) ks q)"
  by (induction ks arbitrary: q) (simp_all add: shaped_check)

lemma shaped_upd:
  assumes "shaped q" "valid_fields (p_Status q) \<Longrightarrow> valid_fields (f (p_Status q))"
    "st_Conditions (f (p_Status q)) = st_Conditions (p_Status q)"
  shows "shaped (upd_status f q)"
  using assms by (simp add: shaped_def)

lemma shaped_applyCheck: "condition_api x \<Longrightarrow> shaped q \<Longrightarrow> known_check k \<Longrightarrow> shaped (applyCheck x q k)"
  unfolding applyCheck_def by (intro shaped_upd shaped_check) (simp_all add: valid_fields_def Let_def)

lemma known_probe_list:
  "\<forall>le\<in>set es. fst (snd le) \<in> set condition_types \<Longrightarrow> \<forall>r\<in>set (fst (probe_list h c s ns es w)). known_check (fst r)"
proof (induction es arbitrary: w)
  case (Cons le es)
  obtain label e where le: "le = (label, e)"
    by (cases le)
  have "known_check (fst (fst (probeOneEndpoint h (new_prober 0) (spec_of c s ns label e) w)))"
    using Cons.prems by (intro known_probe) (simp add: le)
  with Cons show ?case
    by (simp add: le case_prod_unfold Let_def)
qed simp

lemma declared_known: "\<forall>le\<in>set (labelled (declared_endpoints c)). fst (snd le) \<in> set condition_types"
proof -
  have "fst ` set (declared_endpoints c) \<subseteq> set condition_types"
    using declared_endpoint_names(2)[of c] by (auto simp: condition_types_def)
  then show ?thesis
    by (auto simp: labelled_def)
qed

lemma shaped_probes:
  assumes "condition_api x" "shaped q"
  shows "shaped (snd (fst (probeEndpoints x h q c s w)))"
proof -
  obtain rs w' where rs: "probe_list h c s (om_Namespace (p_Meta q)) (labelled (declared_endpoints c)) w = (rs, w')"
    by fastforce
  obtain e where e: "probeEndpoints x h q c s w =
      ((map fst rs, upd_status (\<lambda>st. st\<lparr>st_Endpoints := e\<rparr>) (apply_checks x (map fst rs) q)), w')"
    using probeEndpoints_list[OF rs, of x] by blast
  have "\<forall>k\<in>set (map fst rs). known_check k"
    using known_probe_list[OF declared_known[of c], where ns = "om_Namespace (p_Meta q)" and w = w and h = h and s = s and c = c] by (simp add: rs)
  then have "shaped (apply_checks x (map fst rs) q)"
    unfolding apply_checks_def using assms(2)
    by (induction "map fst rs" arbitrary: rs q) (auto simp: shaped_applyCheck[OF assms(1)])
  then show ?thesis
    unfolding e prod.sel by (rule shaped_upd) (simp_all add: valid_fields_def)
qed

lemma shaped_applyValidationResult:
  assumes "condition_api x" "shaped q" "\<forall>k\<in>set (res_Checks result). known_check k"
  shows "shaped (applyValidationResult x q result snap s wn wk)"
proof -
  have "shaped (upd_status (\<lambda>st. st\<lparr>st_Ports := ports\<rparr>) (upd_status (\<lambda>st. st\<lparr>st_Resources := res\<rparr>) q))"
    "shaped (upd_status (\<lambda>st. st\<lparr>st_Resources := res\<rparr>) q)" for ports res
    using assms(2) by (simp_all add: shaped_def valid_fields_def)
  note start = this[THEN shaped_checks[OF assms(1) _ assms(3)]]
  show ?thesis
    unfolding applyValidationResult_def Let_def case_prod_unfold
    using start by (intro shaped_upd) (simp_all add: valid_fields_def split: if_split)
qed

section \<open>Every submitted status satisfies the schema\<close>

text \<open>
  What the contract library promises: a contract that validates without errors has interfaces and
  readiness checks of the declared kinds, and an owner that is not empty has one of its fields.
\<close>

definition contract_api :: "externals \<Rightarrow> bool" where
  "contract_api x \<longleftrightarrow>
     (\<forall>c raw fsys. cv_Errors (x_Validate x c raw fsys) = [] \<longrightarrow>
        list_all (\<lambda>i. if_Type i \<in> set interface_types) (c_Interfaces c) \<and>
        (\<forall>t eval. x_Evaluate x (c_Readiness c) t = Some eval \<longrightarrow>
           list_all (\<lambda>ch. ec_Status ch \<in> set readinessCheckStatuses) (ev_Checks eval))) \<and>
     (\<forall>ow. \<not> x_OwnerIsEmpty x ow \<longrightarrow> ow_Team ow \<noteq> '''' \<or> ow_DRI ow \<noteq> '''' \<or> ow_Contacts ow \<noteq> [])"

text \<open>The one status update an attempt ends with, and the object it submits.\<close>

definition submits :: "'w PactoReconciler \<Rightarrow> Pacto \<Rightarrow> reconciled \<times> 'w \<times> outputs \<Rightarrow> bool" where
  "submits r p res \<longleftrightarrow>
     (\<exists>q w1. k_UpdatePactoStatus (r_Client r) q w1 = (snd (fst res), fst (snd res)) \<and>
        p_Meta q = p_Meta p \<and> p_Spec q = p_Spec p \<and> shaped q)"

lemma shaped_stamp: "shaped q \<Longrightarrow> shaped (stamp now q)"
  unfolding stamp_def by (rule shaped_upd) (simp_all add: valid_fields_def)

lemma finish_submits:
  assumes "shaped q" "p_Meta q = p_Meta p" "p_Spec q = p_Spec p"
  shows "submits r p (finishReconciliation r q c checks s)"
proof -
  obtain w out where s: "s = (w, out)"
    by fastforce
  obtain now w1 where now: "k_Now (r_Client r) w = (now, w1)"
    by fastforce
  obtain err w2 where upd: "k_UpdatePactoStatus (r_Client r) (stamp now q) w1 = (err, w2)"
    by fastforce
  have "snd (fst (finishReconciliation r q c checks s)) = err" "fst (snd (finishReconciliation r q c checks s)) = w2"
    by (simp_all add: finishReconciliation_def s now upd Let_def split: option.split)
  with upd assms shaped_stamp[OF assms(1), of now] show ?thesis
    unfolding submits_def by (intro exI[of _ "stamp now q"] exI[of _ w1]) simp
qed

lemma fail_submits:
  assumes "condition_api (r_Ext r)" "shaped q" "p_Meta q = p_Meta p" "p_Spec q = p_Spec p"
  shows "submits r p (failReconciliation r q msg v c s)"
proof -
  obtain w out where s: "s = (w, out)"
    by fastforce
  obtain now w1 where now: "k_Now (r_Client r) w = (now, w1)"
    by fastforce
  define q' where "q' = stamp now (upd_status (\<lambda>st. st\<lparr>st_ContractStatus := ContractStatusNonCompliant,
      st_Summary := Some \<lparr>cs_Total = 1, cs_Passed = 0, cs_Failed = 1\<rparr>, st_Validation := Some v\<rparr>)
      (setCondition (r_Ext r) q ConditionContractValid ConditionFalse ReasonContractInvalid msg))"
  obtain err w2 where upd: "k_UpdatePactoStatus (r_Client r) q' w1 = (err, w2)"
    by fastforce
  have "snd (fst (failReconciliation r q msg v c s)) = err" "fst (snd (failReconciliation r q msg v c s)) = w2"
    using upd by (simp_all add: failReconciliation_def s now q'_def Let_def split: option.split)
  moreover have "shaped q'"
    unfolding q'_def
    by (intro shaped_stamp shaped_upd shaped_setCondition assms(1,2))
       (simp_all add: valid_fields_def condition_types_def condition_reasons_def allStatuses_def)
  ultimately show ?thesis
    unfolding submits_def using upd assms(3,4) by (intro exI[of _ q'] exI[of _ w1]) (simp add: q'_def)
qed

lemma final_status_known: "computeFinalContractStatus q \<in> set ('''' # allStatuses)"
  by (simp add: computeFinalContractStatus_def final_status_of_def allStatuses_def split: prod.split)

lemma shaped_status: "shaped q \<Longrightarrow> v \<in> set ('''' # allStatuses) \<Longrightarrow> shaped (upd_status (\<lambda>st. st\<lparr>st_ContractStatus := v\<rparr>) q)"
  by (rule shaped_upd) (simp_all add: valid_fields_def)

lemma reference_submits:
  assumes "condition_api (r_Ext r)" "shaped q" "p_Meta q = p_Meta p" "p_Spec q = p_Spec p"
  shows "submits r p (reference_phase r q c s)"
  unfolding reference_phase_def Let_def
  by (intro finish_submits shaped_upd shaped_setCondition assms(1,2))
     (simp_all add: assms(3,4) valid_fields_def condition_types_def condition_reasons_def allStatuses_def)

lemma unobserved_submits:
  assumes "condition_api (r_Ext r)" "shaped q" "p_Meta q = p_Meta p" "p_Spec q = p_Spec p"
  shows "submits r p (unobserved_phase r q c svc err s)"
  unfolding unobserved_phase_def Let_def case_prod_unfold
  by (intro finish_submits shaped_upd shaped_setCondition assms(1,2))
     (simp_all add: assms(3,4) valid_fields_def condition_types_def condition_reasons_def allStatuses_def)

lemma runtime_submits:
  assumes "condition_api (r_Ext r)" "shaped q" "p_Meta q = p_Meta p" "p_Spec q = p_Spec p"
  shows "submits r p (runtime_phase r q c (w, out))"
proof -
  obtain wn wk where wl: "ResolvedWorkload q = (wn, wk)"
    by fastforce
  let ?svc = "tr_ServiceName (ps_Target (p_Spec q))"
  show ?thesis
  proof (cases "Observe (k_Reader (r_Client r) w) (om_Namespace (p_Meta q)) ?svc wn wk")
    case (Inl err)
    with unobserved_submits[OF assms] show ?thesis
      by (simp add: runtime_phase_def wl)
  next
    case (Inr snap)
    define q1 where "q1 = (if sn_WorkloadExists snap then
        upd_status (\<lambda>st. st\<lparr>st_ObservedRuntime := Some (observed_runtime snap)\<rparr>) q else q)"
    define q2 where "q2 = applyValidationResult (r_Ext r) q1 (Validate c snap (?svc \<noteq> '''')) snap ?svc wn wk"
    define pr where "pr = (if sn_ServiceExists snap then probeEndpoints (r_Ext r) (r_HTTP r) q2 c ?svc w else (([], q2), w))"
    have "shaped q1"
      using assms(2) shaped_upd[OF assms(2)] by (simp add: q1_def shaped_def valid_fields_def)
    then have "shaped q2"
      unfolding q2_def using known_Validate by (intro shaped_applyValidationResult assms(1)) blast+
    then have "shaped (snd (fst pr))"
      by (simp add: pr_def shaped_probes[OF assms(1)])
    moreover have "p_Meta (snd (fst pr)) = p_Meta p" "p_Spec (snd (fst pr)) = p_Spec p"
      using assms(3,4) by (simp_all add: pr_def q2_def q1_def)
    ultimately have "submits r p (finishReconciliation r (upd_status (\<lambda>st. st\<lparr>st_ContractStatus :=
        computeFinalContractStatus (snd (fst pr))\<rparr>) (snd (fst pr))) d cks u)" for d cks u
      by (intro finish_submits shaped_status final_status_known) simp_all
    then show ?thesis
      by (simp add: runtime_phase_def wl Inr Let_def case_prod_unfold q1_def[symmetric] q2_def[symmetric] pr_def[symmetric]
          cong: if_cong split del: if_split)
  qed
qed

lemma shaped_unpopulated:
  assumes "unpopulated p q" "0 \<le> sint (om_Generation (p_Meta p))"
  shows "shaped q"
  using assms
  by (auto simp: unpopulated_def shaped_def valid_fields_def resetDerivedStatus_def types_distinct_def)

lemma shaped_populate:
  assumes "condition_api x" "contract_api x" "unpopulated p q" "0 \<le> sint (om_Generation (p_Meta p))"
    and "cv_Errors (x_Validate x c (lr_RawYAML lr) (lr_BundleFS lr)) = []"
  shows "shaped (populate_status x q lr c ks)"
proof -
  have q: "shaped q" "st_Interfaces (p_Status q) = []"
    using shaped_unpopulated[OF assms(3,4)] assms(3) by (auto simp: unpopulated_def resetDerivedStatus_def)
  have ifaces: "list_all (\<lambda>i. if_Type i \<in> set interface_types) (c_Interfaces c)"
    using assms(2,5) unfolding contract_api_def by blast
  have owner: "pred_option valid_owner (ci_Owner (contract_info x lr'))" for lr'
    using assms(2) by (auto simp: contract_api_def contract_info_def mapOwnerToInfo_def valid_owner_def Let_def split: option.split)
  let ?q1 = "upd_status (\<lambda>st. st\<lparr>st_ContractVersion := sv_Version (c_Service c)\<rparr>) (setCondition x q ConditionContractValid
      ConditionTrue ReasonContractParsed (''Contract '' @ sv_Name (c_Service c) @ '' v'' @ sv_Version (c_Service c) @ '' is valid''))"
  have q1: "shaped ?q1"
    by (intro shaped_upd shaped_setCondition assms(1) q(1)) (simp_all add: valid_fields_def condition_types_def condition_reasons_def)
  have none: "st_Interfaces (p_Status ?q1) = []"
    by (simp add: q(2) setCondition_def)
  have "shaped (populateContractStatus x ?q1 (lr\<lparr>lr_Contract := c\<rparr>))"
    using q1 none ifaces owner[of "lr\<lparr>lr_Contract := c\<rparr>"]
    by (simp add: shaped_def populateContractStatus_def Let_def valid_fields_def list_all_iff interface_info_def split: option.split)
  then show ?thesis
    unfolding populate_status_def Let_def mark_overridden_def by (rule shaped_upd) (simp_all add: valid_fields_def)
qed

lemma shaped_readiness:
  assumes "condition_api x" "contract_api x" "shaped q" "cv_Errors (x_Validate x c raw fsys) = []"
  shows "shaped (fst (reconcileReadiness x t q c wu out))"
proof (cases "x_Evaluate x (c_Readiness c) t")
  case None
  with assms(3) show ?thesis
    by (simp add: reconcileReadiness_def)
next
  case (Some eval)
  obtain st reason m where cond: "readinessCondition eval = (st, reason, m)"
    by (metis prod.collapse)
  have "reason \<in> set condition_reasons"
    using readiness_reason_known[of eval] by (auto simp: cond allReadinessStatuses_def condition_reasons_def)
  moreover have "list_all (\<lambda>ch. ec_Status ch \<in> set readinessCheckStatuses) (ev_Checks eval)"
    using assms(2,4) Some unfolding contract_api_def by blast
  then have "shaped (upd_status (\<lambda>st. st\<lparr>st_Readiness := Some (buildReadinessStatus eval (c_Readiness c))\<rparr>) q)"
    using assms(3) by (intro shaped_upd)
      (simp_all add: valid_fields_def buildReadinessStatus_def readiness_check_def list.pred_map comp_def)
  ultimately show ?thesis
    by (simp add: reconcileReadiness_def Some cond Let_def shaped_setCondition[OF assms(1)] condition_types_def)
qed

lemma reconcile_pacto_submits:
  assumes api: "condition_api (r_Ext r)" "contract_api (r_Ext r)" and gen: "0 \<le> sint (om_Generation (p_Meta p))"
    and run: "reconcile_pacto r p (w, out) = Ret res"
  shows "submits r p res"
proof (cases "loaded_contract r p w")
  case None
  then obtain q msg v c w1 where "res = failReconciliation r q msg v c (w1, out)" "unpopulated p q"
    using reconcile_pacto_failure[OF None, of out] run by auto
  then show ?thesis
    using fail_submits[OF api(1) shaped_unpopulated[OF _ gen]] unpopulated_sel[of p q] by simp
next
  case (Some found)
  obtain auth lr c w1 where found: "found = (auth, lr, c, w1)"
    by (cases found)
  have valid: "cv_Errors (x_Validate (r_Ext r) c (lr_RawYAML lr) (lr_BundleFS lr)) = []"
    using Some by (auto simp: found loaded_contract_def split: sum.splits prod.splits if_splits)
  obtain t w2 where now: "k_Now (r_Client r) w1 = (t, w2)"
    by fastforce
  obtain q ks q1 out1 where q: "unpopulated p q"
    and q1: "reconcileReadiness (r_Ext r) t (populate_status (r_Ext r) q lr c ks) c (readinessWasUnmet (r_Ext r) p) out = (q1, out1)"
    and body: "reconcile_pacto r p (w, out) =
      (case record_revisions r q1 auth lr (w2, out1) of
         Panic \<Rightarrow> Panic
       | Ret (q2, s) \<Rightarrow> Ret (if IsReference q2 then reference_phase r q2 c s else runtime_phase r q2 c s))"
    by (rule reconcile_pacto_attempt[OF Some[unfolded found] now])
  obtain q2 w3 out3 where rev: "record_revisions r q1 auth lr (w2, out1) = Ret (q2, w3, out3)"
    and res: "res = (if IsReference q2 then reference_phase r q2 c (w3, out3) else runtime_phase r q2 c (w3, out3))"
    using run by (auto simp: body split: go.splits)
  have "shaped q1"
    using shaped_readiness[OF api shaped_populate[OF api q gen valid] valid, of t ks "readinessWasUnmet (r_Ext r) p" out]
    by (simp add: q1)
  then have "shaped q2"
    using record_revisions_object[OF rev] by (auto intro!: shaped_upd simp: valid_fields_def)
  moreover have "prepared (r_Ext r) q c t q2"
    using prepared_readiness[OF api(1) unpopulated_sel(3)[OF q] q1] prepared_revisions[OF _ rev] by blast
  then have "p_Meta q2 = p_Meta p" "p_Spec q2 = p_Spec p"
    using unpopulated_sel[OF q] by (simp_all add: prepared_def)
  ultimately show ?thesis
    unfolding res using reference_submits[OF api(1)] runtime_submits[OF api(1)] by simp
qed

text \<open>
  C5. The status is well-typed. An attempt on a Pacto, whatever its outcome, ends with exactly one status
  update, whose error is the error of the attempt. The object it submits has the metadata and the
  specification that were read, and its status satisfies the schema of the custom resource (the
  enumerations of the contract status, the resolution policy, the interface types and the readiness
  checks, the non-empty owner, one condition per type, the patterns and bounds of condition types and
  reasons, generations that are not negative) if and only if every condition message has at most
  32768 characters.
\<close>

theorem Reconcile_well_typed:
  assumes "condition_api (r_Ext r)" "contract_api (r_Ext r)" "k_GetPacto (r_Client r) req w = Inr p"
    and "0 \<le> sint (om_Generation (p_Meta p))" "Reconcile r req (w, out) = Ret ((result, err), w', out')"
  shows "\<exists>q w1. k_UpdatePactoStatus (r_Client r) q w1 = (err, w') \<and> p_Meta q = p_Meta p \<and> p_Spec q = p_Spec p \<and>
    (valid_status (p_Status q) \<longleftrightarrow> list_all (\<lambda>c. length (cond_Message c) \<le> max_message) (conditions q))"
proof -
  have "submits r p ((result, err), w', out')"
    using assms(3,5) by (intro reconcile_pacto_submits[OF assms(1,2,4)]) (simp add: Reconcile_def)
  then obtain q w1 where q: "k_UpdatePactoStatus (r_Client r) q w1 = (err, w')" "p_Meta q = p_Meta p" "p_Spec q = p_Spec p" "shaped q"
    unfolding submits_def by auto
  have "type_ok (cond_Type c) \<and> reason_ok (cond_Reason c) \<and> 0 \<le> sint (cond_ObservedGeneration c)" if "c \<in> set (conditions q)" for c
    using q(4) that condition_types_ok condition_reasons_ok unfolding shaped_def list_all_iff by metis
  then have "list_all valid_condition (conditions q) \<longleftrightarrow> list_all (\<lambda>c. length (cond_Message c) \<le> max_message) (conditions q)"
    unfolding list_all_iff valid_condition_def by blast
  with q show ?thesis
    by (intro exI[of _ q] exI[of _ w1]) (simp add: valid_status_def shaped_def)
qed

section \<open>A concrete attempt\<close>

text \<open>A contract library that refuses unknown interface types.\<close>

definition strict :: externals where
  "strict = documented\<lparr>x_Validate := (\<lambda>c raw fsys.
     if list_all (\<lambda>i. if_Type i \<in> set interface_types) (c_Interfaces c) then x_Validate documented c raw fsys
     else \<lparr>cv_Errors = [\<lparr>ve_Code = ''ENUM'', ve_Path = ''interfaces'', ve_Message = ''unknown type''\<rparr>], cv_Warnings = []\<rparr>)\<rparr>"

lemma strict_api: "condition_api strict" "contract_api strict"
proof -
  show "condition_api strict"
    using condition_api_documented by (simp add: condition_api_def strict_def)
  show "contract_api strict"
    unfolding contract_api_def
    by (auto simp: strict_def documented_def sample_eval_def split: if_splits option.splits)
qed

theorem Reconcile_well_typed_witness:
  "\<exists>q w1 w'. k_UpdatePactoStatus sample_kube q w1 = (None, w') \<and> p_Spec q = p_Spec pinned_pacto \<and>
     (valid_status (p_Status q) \<longleftrightarrow> list_all (\<lambda>c. length (cond_Message c) \<le> max_message) (conditions q))"
proof -
  let ?r = "sample_reconciler\<lparr>r_Ext := strict\<rparr>"
  have get: "k_GetPacto (r_Client ?r) (''ns'', ''svc'') pinned_cluster = Inr pinned_pacto"
    using sample_get by simp
  have "\<exists>w'. k_UpdatePactoStatus (r_Client ?r) p w = (None, w')" for p w
    using sample_update by simp
  from attempt_no_error[OF this pinned_sel(8)] obtain result w' out' where
    "Reconcile ?r (''ns'', ''svc'') (pinned_cluster, no_outputs) = Ret ((result, None), w', out')"
    using get by (metis (no_types, lifting) Reconcile_def prod.case sum.case(2))
  from Reconcile_well_typed[OF _ _ get _ this] show ?thesis
    using strict_api by (auto simp: pinned_pacto_def sample_pacto_def)
qed

end
