(* ===== verification/Operator.thy ===== *)
theory Operator
  imports Schema
begin

text \<open>
  The operator as it runs: the reconciler with the contract loader that \<open>main\<close> gives it
  (\<open>loader.New()\<close> in \<^verbatim>\<open>cmd/main.go\<close>), attempt after attempt, while users and other controllers change the
  cluster. The controller works on one request at a time (controller-runtime's default), so attempts
  do not overlap; what happens in the cluster during an attempt is part of the calls it makes.
\<close>

section \<open>The reconciler with its loader\<close>

text \<open>The state is that of the loader (its two caches) and the rest of the world.\<close>

definition lift_kube :: "'w kube \<Rightarrow> ('l \<times> 'w) kube" where
  "lift_kube k =
     \<lparr>k_GetPacto = \<lambda>key s. k_GetPacto k key (snd s), k_GetSecret = \<lambda>key s. k_GetSecret k key (snd s),
      k_Reader = \<lambda>s. k_Reader k (snd s), k_GetRevision = \<lambda>key s. k_GetRevision k key (snd s),
      k_ListRevisions = \<lambda>ns labels s. k_ListRevisions k ns labels (snd s),
      k_CreateRevision = \<lambda>rv (l, w). (case k_CreateRevision k rv w of (e, w') \<Rightarrow> (e, l, w')),
      k_UpdateRevisionStatus = \<lambda>rv (l, w). (case k_UpdateRevisionStatus k rv w of (e, w') \<Rightarrow> (e, l, w')),
      k_UpdatePactoStatus = \<lambda>p (l, w). (case k_UpdatePactoStatus k p w of (e, w') \<Rightarrow> (e, l, w')),
      k_SetControllerReference = k_SetControllerReference k,
      k_Now = \<lambda>(l, w). (case k_Now k w of (t, w') \<Rightarrow> (t, l, w'))\<rparr>"

definition lift_http :: "'w http_env \<Rightarrow> ('l \<times> 'w) http_env" where
  "lift_http h =
     \<lparr>h_NewRequest = h_NewRequest h, h_Do = \<lambda>pr url (l, w). (case h_Do h pr url w of (a, w') \<Rightarrow> (a, l, w')),
      h_Now = \<lambda>(l, w). (case h_Now h w of (t, w') \<Rightarrow> (t, l, w'))\<rparr>"

definition contract_loader :: "externals \<Rightarrow> 'w oci_env \<Rightarrow> (Loader \<times> 'w) ContractLoader" where
  "contract_loader x oc = \<lparr>cl_Load = Load x oc, cl_ListTags = ListTags oc\<rparr>"

definition operator ::
  "'w kube \<Rightarrow> 'w oci_env \<Rightarrow> 'w http_env \<Rightarrow> externals \<Rightarrow> json_codec \<Rightarrow> (string \<Rightarrow> string) \<Rightarrow> (Loader \<times> 'w) PactoReconciler" where
  "operator k oc h x js b64 =
     \<lparr>r_Client = lift_kube k, r_Loader = contract_loader x oc, r_HTTP = lift_http h, r_Ext = x, r_JSON = js,
      r_Base64Error = b64\<rparr>"

section \<open>Runs\<close>

text \<open>
  An attempt for a key, or a change of the cluster that the environment relation allows. An attempt
  that panics has not updated a status; its other writes are changes of the environment.
\<close>

inductive operator_step ::
  "'s PactoReconciler \<Rightarrow> ('s \<Rightarrow> 's \<Rightarrow> bool) \<Rightarrow> 's \<times> outputs \<Rightarrow> 's \<times> outputs \<Rightarrow> bool"
  for r env where
  Attempt: "Reconcile r key (w, out) = Ret (res, w', out') \<Longrightarrow> operator_step r env (w, out) (w', out')"
| Environment: "env w w' \<Longrightarrow> operator_step r env (w, out) (w', out)"

section \<open>What the calls leave alone\<close>

text \<open>Only \<open>UpdatePactoStatus\<close> writes the status of a Pacto: otherwise it stays, or the object goes, or is new.\<close>

definition keeps_statuses :: "'w kube \<Rightarrow> 'w \<Rightarrow> 'w \<Rightarrow> bool" where
  "keeps_statuses k w w' \<longleftrightarrow>
     (\<forall>key st. stored_status k w' key = Some st \<longrightarrow> stored_status k w key = Some st \<or> st = blank_status)"

definition oci_calls :: "'w oci_env \<Rightarrow> ('w \<Rightarrow> 'w \<Rightarrow> bool) \<Rightarrow> bool" where
  "oci_calls oc R \<longleftrightarrow>
     (\<forall>kc ref w. R w (snd (o_ResolveRef oc kc ref w))) \<and> (\<forall>kc ref w. R w (snd (o_Pull oc kc ref w))) \<and>
     (\<forall>kc ref w. R w (snd (o_Resolve oc kc ref w))) \<and> (\<forall>kc ref w. R w (snd (o_ListTags oc kc ref w))) \<and>
     (\<forall>w. R w (snd (o_Now oc w)))"

text \<open>A status update touches no other object, and a failed one none at all.\<close>

definition update_frame :: "'w kube \<Rightarrow> bool" where
  "update_frame k \<longleftrightarrow>
     (\<forall>p w err w'. k_UpdatePactoStatus k p w = (Some err, w') \<longrightarrow> keeps_statuses k w w') \<and>
     (\<forall>p w w' key st. k_UpdatePactoStatus k p w = (None, w') \<and> key \<noteq> pacto_key p \<and> stored_status k w' key = Some st \<longrightarrow>
        stored_status k w key = Some st \<or> st = blank_status)"

definition cluster_api :: "'w kube \<Rightarrow> 'w oci_env \<Rightarrow> 'w http_env \<Rightarrow> bool" where
  "cluster_api k oc h \<longleftrightarrow>
     status_api k \<and> update_frame k \<and> revision_calls k (keeps_statuses k) \<and> oci_calls oc (keeps_statuses k) \<and>
     http_calls h (keeps_statuses k)"

lemma keeps_statuses_refl: "keeps_statuses k w w"
  by (simp add: keeps_statuses_def)

lemma keeps_statuses_trans: "keeps_statuses k w w' \<Longrightarrow> keeps_statuses k w' w'' \<Longrightarrow> keeps_statuses k w w''"
  unfolding keeps_statuses_def by metis

section \<open>The loader keeps what the registry calls keep\<close>

lemma oci_calls_rules:
  assumes "oci_calls oc R"
  shows "o_ResolveRef oc kc ref w = (a, w') \<Longrightarrow> R w w'" "o_Pull oc kc ref w = (b, w') \<Longrightarrow> R w w'"
    "o_Resolve oc kc ref w = (c, w') \<Longrightarrow> R w w'" "o_ListTags oc kc ref w = (d, w') \<Longrightarrow> R w w'"
    "o_Now oc w = (t, w') \<Longrightarrow> R w w'"
  using assms unfolding oci_calls_def by (metis snd_conv)+

lemma oci_calls_now: "oci_calls oc R \<Longrightarrow> \<forall>w. R w (snd (o_Now oc w))"
  by (simp add: oci_calls_def)

lemma fresh_entry_keeps:
  assumes "preorder_on_worlds R" "\<forall>w. R w (snd (clock w))" "fresh_entry clock ex cache key w = (hit, w')"
  shows "R w w'"
  using assms unfolding fresh_entry_def preorder_on_worlds_def
  by (auto split: option.splits prod.splits intro: reflpD) (metis snd_conv)+

lemma store_entry_keeps:
  assumes "preorder_on_worlds R" "\<forall>w. R w (snd (clock w))" "store_entry clock ex mk ttl key cache w = (cache', w')"
  shows "R w w'"
proof -
  obtain t w1 where "clock w = (t, w1)" "w' \<in> {w1, snd (clock w1)}"
    using store_entry_cases[OF assms(3)] by metis
  with assms(1,2) show ?thesis
    unfolding preorder_on_worlds_def by (metis insert_iff singletonD snd_conv transpD)
qed

lemma puller_keeps:
  assumes "preorder_on_worlds R" "oci_calls oc R"
  shows "puller_Pull oc ref auth w = (r, w') \<Longrightarrow> R w w'" "puller_ListTags oc ref auth w = (ts, w') \<Longrightarrow> R w w'"
proof -
  note rules = oci_calls_rules[OF assms(2)]
  have trans: "R u v \<Longrightarrow> R v v' \<Longrightarrow> R u v'" for u v v'
    using assms(1) unfolding preorder_on_worlds_def by (meson transpD)
  show "puller_Pull oc ref auth w = (r, w') \<Longrightarrow> R w w'"
    by (auto simp: puller_Pull_def Let_def split: prod.splits sum.splits dest!: rules(1-3) intro: trans)
  show "puller_ListTags oc ref auth w = (ts, w') \<Longrightarrow> R w w'"
    by (auto simp: puller_ListTags_def Let_def split: prod.splits sum.splits dest!: rules(4))
qed

lemma loadUncached_keeps:
  assumes "preorder_on_worlds R" "oci_calls oc R" "loadUncached oc ref inline auth w = (r, w')"
  shows "R w w'"
  using assms(3) puller_keeps(1)[OF assms(1,2)] assms(1)
  by (auto simp: loadUncached_def preorder_on_worlds_def split: if_splits intro: reflpD)

lemma Load_keeps:
  assumes "preorder_on_worlds R" "oci_calls oc R" "Load x oc ref inline auth (l, w) = (r, l', w')"
  shows "R w w'"
proof -
  note rules = loadUncached_keeps[OF assms(1,2)] fresh_entry_keeps[OF assms(1) oci_calls_now[OF assms(2)]]
    store_entry_keeps[OF assms(1) oci_calls_now[OF assms(2)]]
  have trans: "R u v \<Longrightarrow> R v v' \<Longrightarrow> R u v'" for u v v'
    using assms(1) unfolding preorder_on_worlds_def by (meson transpD)
  show ?thesis
    using assms(3) by (auto simp: Load_def Let_def split: option.splits prod.splits dest!: rules intro: trans)
qed

lemma ListTags_keeps:
  assumes "preorder_on_worlds R" "oci_calls oc R" "ListTags oc ref auth (l, w) = (r, l', w')"
  shows "R w w'"
proof -
  note rules = puller_keeps(2)[OF assms(1,2)] fresh_entry_keeps[OF assms(1) oci_calls_now[OF assms(2)]]
    store_entry_keeps[OF assms(1) oci_calls_now[OF assms(2)]]
  have trans: "R u v \<Longrightarrow> R v v' \<Longrightarrow> R u v'" for u v v'
    using assms(1) unfolding preorder_on_worlds_def by (meson transpD)
  have refl: "R u u" for u
    using assms(1) unfolding preorder_on_worlds_def by (meson reflpD)
  show ?thesis
    using assms(3)
    by (auto simp: ListTags_def Let_def split: if_splits option.splits prod.splits dest!: rules intro: trans refl)
qed

section \<open>The laws carry over to the reconciler with its loader\<close>

definition on_world :: "('w \<Rightarrow> 'w \<Rightarrow> bool) \<Rightarrow> 'l \<times> 'w \<Rightarrow> 'l \<times> 'w \<Rightarrow> bool" where
  "on_world R s s' = R (snd s) (snd s')"

lemma operator_sel [simp]:
  "r_Client (operator k oc h x js b64) = lift_kube k" "r_Loader (operator k oc h x js b64) = contract_loader x oc"
  "r_HTTP (operator k oc h x js b64) = lift_http h" "r_Ext (operator k oc h x js b64) = x"
  by (simp_all add: operator_def)

lemma stored_status_lift [simp]: "stored_status (lift_kube k) s key = stored_status k (snd s) key"
  by (simp add: stored_status_def lift_kube_def)

lemma update_lift:
  "k_UpdatePactoStatus (lift_kube k) p s = (err, s') \<longleftrightarrow>
     k_UpdatePactoStatus k p (snd s) = (err, snd s') \<and> fst s' = fst s"
  by (cases s; cases s') (auto simp: lift_kube_def split: prod.split)

lemma operator_attempt_calls:
  assumes "revision_calls k R" "oci_calls oc R" "http_calls h R"
  shows "attempt_calls (operator k oc h x js b64) (on_world R)"
proof -
  have pre: "preorder_on_worlds R"
    using assms(1) by (simp add: revision_calls_def)
  have "revision_calls (lift_kube k) (on_world R)"
    using assms(1) unfolding revision_calls_def preorder_on_worlds_def
    by (auto simp: lift_kube_def on_world_def reflp_def case_prod_unfold intro!: transpI dest: transpD)
  moreover have "loader_calls (contract_loader x oc) (on_world R)"
    unfolding loader_calls_def on_world_def contract_loader_def
    using Load_keeps[OF pre assms(2)] ListTags_keeps[OF pre assms(2)] by (auto simp: prod_eq_iff)
  moreover have "http_calls (lift_http h) (on_world R)"
    using assms(3) by (auto simp: http_calls_def lift_http_def on_world_def case_prod_unfold)
  ultimately show ?thesis
    by (simp add: attempt_calls_def)
qed

lemma status_api_lift: "status_api k \<Longrightarrow> status_api (lift_kube k)"
  unfolding status_api_def update_lift stored_status_lift by (auto simp: lift_kube_def)

section \<open>Every stored status is consistent\<close>

text \<open>
  A status that tells one story: its conditions were set for the generation it says it observed, one
  per type, \<open>ContractValid\<close> among them; its verdict is one of the five and is \<open>NonCompliant\<close> when the
  contract is not valid; its summary adds up; and it satisfies the enumerations of the schema.
\<close>

definition consistent :: "PactoStatus \<Rightarrow> bool" where
  "consistent st \<longleftrightarrow>
     st_ContractStatus st \<in> set allStatuses \<and> types_distinct (st_Conditions st) \<and>
     (\<forall>d\<in>set (st_Conditions st). cond_ObservedGeneration d = st_ObservedGeneration st) \<and>
     (\<exists>d\<in>set (st_Conditions st). cond_Type d = ConditionContractValid \<and>
        (cond_Status d = ConditionFalse \<longrightarrow> st_ContractStatus st = ContractStatusNonCompliant)) \<and>
     (\<exists>sm. st_Summary st = Some sm \<and> 0 \<le> sint (cs_Passed sm) \<and> 0 \<le> sint (cs_Failed sm) \<and>
        sint (cs_Total sm) = sint (cs_Passed sm) + sint (cs_Failed sm))"

definition all_consistent :: "'w kube \<Rightarrow> 'w \<Rightarrow> bool" where
  "all_consistent k w \<longleftrightarrow> (\<forall>key st. stored_status k w key = Some st \<longrightarrow> st = blank_status \<or> consistent st)"

lemma all_consistent_keeps: "all_consistent k w \<Longrightarrow> keeps_statuses k w w' \<Longrightarrow> all_consistent k w'"
  unfolding all_consistent_def keeps_statuses_def by metis

lemma ends_consistent:
  assumes "ends r p (loaded_contract r p w \<noteq> None) (expected_status r p w) ((result, None), w', out')"
  shows "\<exists>st. stored_status (r_Client r) w' (pacto_key p) = Some st \<and> consistent st"
proof -
  obtain q where q: "stored_status (r_Client r) w' (pacto_key p) = Some (p_Status q)" "p_Meta q = p_Meta p"
    "coherent (loaded_contract r p w \<noteq> None) q" "st_ContractStatus (p_Status q) = expected_status r p w"
    "st_ObservedGeneration (p_Status q) = om_Generation (p_Meta p)"
    using ends_stored[OF assms] by blast
  obtain d where d: "d \<in> set (conditions q)" "cond_Type d = ConditionContractValid"
    "cond_Status d = (if loaded_contract r p w \<noteq> None then ConditionTrue else ConditionFalse)"
    using q(3) unfolding coherent_def by blast
  have "cond_Status d = ConditionFalse \<longrightarrow> st_ContractStatus (p_Status q) = ContractStatusNonCompliant"
    using d(3) q(4) by (cases "loaded_contract r p w") (simp_all add: expected_status_def)
  with q d(1,2) show ?thesis
    by (intro exI[of _ "p_Status q"]) (auto simp: consistent_def coherent_def)
qed

lemma attempt_consistent:
  assumes api: "condition_api x" "cluster_api k oc h" and all: "all_consistent k (snd s)"
    and run: "Reconcile (operator k oc h x js b64) key (s, out) = Ret ((result, err), s', out')"
  shows "all_consistent k (snd s')"
proof (cases "k_GetPacto (lift_kube k) key s")
  case (Inl e)
  with run all show ?thesis
    by (auto simp: Reconcile_def split: if_splits)
next
  case (Inr p)
  let ?r = "operator k oc h x js b64"
  have laws: "status_api (lift_kube k)" "update_frame k"
    using api(2) status_api_lift by (auto simp: cluster_api_def)
  have attempt: "reconcile_pacto ?r p (s, out) = Ret ((result, err), s', out')"
    using run Inr by (simp add: Reconcile_def)
  have "attempt_calls ?r (on_world (keeps_statuses k))"
    using api(2) by (intro operator_attempt_calls) (simp_all add: cluster_api_def)
  from reconcile_pacto_final[OF this attempt] obtain q s1 where
    s1: "keeps_statuses k (snd s) (snd s1)" "k_UpdatePactoStatus k q (snd s1) = (err, snd s')" "pacto_key q = pacto_key p"
    by (auto simp: final_update_def update_lift on_world_def pacto_key_def)
  have all1: "all_consistent k (snd s1)"
    by (rule all_consistent_keeps[OF all s1(1)])
  show ?thesis
  proof (cases err)
    case (Some e)
    with s1(2) laws(2) have "keeps_statuses k (snd s1) (snd s')"
      unfolding update_frame_def by blast
    with all1 show ?thesis
      by (rule all_consistent_keeps)
  next
    case None
    have "ends ?r p (loaded_contract ?r p s \<noteq> None) (expected_status ?r p s) ((result, err), s', out')"
      by (rule reconcile_pacto_ends[OF _ _ attempt]) (simp_all add: api(1) laws(1))
    with ends_consistent[of ?r p s result s' out'] None have
      own: "\<exists>st. stored_status k (snd s') (pacto_key p) = Some st \<and> consistent st"
      by simp
    have "st = blank_status \<or> consistent st" if "stored_status k (snd s') key' = Some st" for key' st
    proof (cases "key' = pacto_key p")
      case True
      with own that show ?thesis
        by simp
    next
      case False
      with s1(2,3) None laws(2) that have "stored_status k (snd s1) key' = Some st \<or> st = blank_status"
        unfolding update_frame_def by metis
      with all1 show ?thesis
        unfolding all_consistent_def by blast
    qed
    then show ?thesis
      unfolding all_consistent_def by blast
  qed
qed


section \<open>A concrete run\<close>

definition cluster_oci :: "cluster oci_env" where
  "cluster_oci =
     \<lparr>o_ResolveRef = (\<lambda>_ ref w. (Inr ref, w)), o_Pull = (\<lambda>_ _ w. (Inr sample_bundle, w)),
      o_Resolve = (\<lambda>_ _ w. (Inr ''sha256:0123456789abcdef'', w)), o_ListTags = (\<lambda>_ _ w. (Inr [''1.0.0''], w)),
      o_FilterSemverTags = (\<lambda>ts. ts), o_Parse = (\<lambda>_. Inr (bd_Contract sample_bundle)), o_Now = (\<lambda>w. (cw_Clock w, w))\<rparr>"

lemma stored_status_sample: "stored_status sample_kube w key = map_option p_Status (List.find (\<lambda>p. pacto_key p = key) (cw_Pactos w))"
  by (simp add: stored_status_def sample_kube_def cluster_get_pacto_def split: option.split)

lemma find_filter_other:
  "P \<noteq> Q \<Longrightarrow> List.find (\<lambda>p. f p = P) (filter (\<lambda>p. f p \<noteq> Q) ps) = List.find (\<lambda>p. f p = P) ps"
  by (induction ps) auto

lemma cluster_api_sample: "cluster_api sample_kube cluster_oci sample_http"
proof -
  have same: "cw_Pactos w' = cw_Pactos w \<Longrightarrow> keeps_statuses sample_kube w w'" for w w'
    by (simp add: keeps_statuses_def stored_status_sample)
  have "preorder_on_worlds (keeps_statuses sample_kube)"
    unfolding preorder_on_worlds_def by (auto intro: reflpI transpI keeps_statuses_refl keeps_statuses_trans)
  then have "revision_calls sample_kube (keeps_statuses sample_kube)"
    unfolding revision_calls_def
    by (intro conjI allI same) (simp_all add: sample_kube_def cluster_create_def cluster_update_status_def split: option.split)
  moreover have "oci_calls cluster_oci (keeps_statuses sample_kube)" "http_calls sample_http (keeps_statuses sample_kube)"
    by (simp_all add: oci_calls_def http_calls_def cluster_oci_def sample_http_def keeps_statuses_refl)
  moreover have "k_UpdatePactoStatus sample_kube p w =
      (None, w\<lparr>cw_Pactos := p # filter (\<lambda>q. pacto_key q \<noteq> pacto_key p) (cw_Pactos w)\<rparr>)" for p w
    by (simp add: sample_kube_def cluster_update_pacto_def)
  then have "update_frame sample_kube"
    unfolding update_frame_def by (auto simp: stored_status_sample find_filter_other)
  ultimately show ?thesis
    by (simp add: cluster_api_def status_api_sample)
qed


end
