(* ===== verification/Event_Handler.thy ===== *)
theory Event_Handler
  imports Reconcile
begin

text \<open>
  The watch handlers of the controller (\<^verbatim>\<open>internal/controller/event_handler.go\<close>): which Pactos are
  reconciled when a Service, a workload or a Secret changes. The list call of the client is a
  parameter; \<open>EnqueueRequestsFromMapFunc\<close>, which calls the two functions, is third-party.
\<close>

section \<open>The map functions\<close>

type_synonym lister = "string \<Rightarrow> api_error + Pacto list"

fun secret_requests :: "Pacto list \<Rightarrow> string \<Rightarrow> key list \<Rightarrow> key list" where
  "secret_requests [] objName requests = requests"
| "secret_requests (p # items) objName requests =
     (if cr_PullSecretRef (ps_ContractRef (p_Spec p)) = objName
      then secret_requests items objName (requests @ [pacto_key p])
      else secret_requests items objName requests)"

definition mapSecretToPactos :: "lister \<Rightarrow> key \<Rightarrow> key list" where
  "mapSecretToPactos c obj =
     (case c (fst obj) of Inl err \<Rightarrow> [] | Inr items \<Rightarrow> secret_requests items (snd obj) [])"

fun target_requests :: "Pacto list \<Rightarrow> string \<Rightarrow> key list \<Rightarrow> key list" where
  "target_requests [] objName requests = requests"
| "target_requests (p # items) objName requests =
     (let nn = pacto_key p
      in if tr_ServiceName (ps_Target (p_Spec p)) = objName then target_requests items objName (requests @ [nn])
         else
           (let (workloadName, _) = ResolvedWorkload p
            in if workloadName = objName then target_requests items objName (requests @ [nn])
               else target_requests items objName requests))"

definition mapObjectToPactos :: "lister \<Rightarrow> key \<Rightarrow> key list" where
  "mapObjectToPactos c obj =
     (case c (fst obj) of Inl err \<Rightarrow> [] | Inr items \<Rightarrow> target_requests items (snd obj) [])"

text \<open>
  The watches that \<open>SetupWithManager\<close> of \<^verbatim>\<open>internal/controller/pacto_controller.go\<close> registers, kind by
  kind; \<open>requests\<close> is what an event of an object of that kind enqueues. The handlers of \<open>For\<close> and
  \<open>Owns\<close> are those of controller-runtime.
\<close>

definition SetupWithManager :: "(string \<times> (lister \<Rightarrow> key \<Rightarrow> key list)) list" where
  "SetupWithManager =
     [(''Service'', mapObjectToPactos), (''Secret'', mapSecretToPactos), (''Deployment'', mapObjectToPactos),
      (''StatefulSet'', mapObjectToPactos), (''ReplicaSet'', mapObjectToPactos), (''Job'', mapObjectToPactos),
      (''CronJob'', mapObjectToPactos)]"

definition requests :: "lister \<Rightarrow> string \<Rightarrow> key \<Rightarrow> key list" where
  "requests c kind obj = concat (map (\<lambda>(k, mapper). if k = kind then mapper c obj else []) SetupWithManager)"

section \<open>The contract of a map function\<close>

text \<open>
  A map function lists the Pactos of the object's namespace and keeps, in order, those to which the
  object's name is relevant; a failing list call enqueues nothing.
\<close>

locale request_mapper =
  fixes mapper :: "lister \<Rightarrow> key \<Rightarrow> key list"
    and relevant :: "Pacto \<Rightarrow> string \<Rightarrow> bool"
  assumes mapped: "c ns = Inr items \<Longrightarrow> mapper c (ns, n) = map pacto_key (filter (\<lambda>p. relevant p n) items)"
    and unlisted: "c ns = Inl err \<Longrightarrow> mapper c (ns, n) = []"
begin

lemma enqueued:
  "c ns = Inr items \<Longrightarrow> p \<in> set items \<Longrightarrow> relevant p n \<Longrightarrow> pacto_key p \<in> set (mapper c (ns, n))"
  by (simp add: mapped)

lemma only_relevant:
  "key \<in> set (mapper c (ns, n)) \<Longrightarrow>
     \<exists>items p. c ns = Inr items \<and> p \<in> set items \<and> relevant p n \<and> key = pacto_key p"
  using mapped[of c ns _ n] unlisted[of c ns _ n] by (cases "c ns") auto

lemma enqueued_once: "c ns = Inr items \<Longrightarrow> distinct (map pacto_key items) \<Longrightarrow> distinct (mapper c (ns, n))"
  by (auto simp: mapped distinct_map intro: inj_on_subset)

end

definition uses_secret :: "Pacto \<Rightarrow> string \<Rightarrow> bool" where
  "uses_secret p n \<longleftrightarrow> cr_PullSecretRef (ps_ContractRef (p_Spec p)) = n"

definition targets :: "Pacto \<Rightarrow> string \<Rightarrow> bool" where
  "targets p n \<longleftrightarrow> tr_ServiceName (ps_Target (p_Spec p)) = n \<or> fst (ResolvedWorkload p) = n"

lemma secret_requests_eq:
  "secret_requests items n acc = acc @ map pacto_key (filter (\<lambda>p. uses_secret p n) items)"
  by (induction items n acc rule: secret_requests.induct) (simp_all add: uses_secret_def)

lemma target_requests_eq:
  "target_requests items n acc = acc @ map pacto_key (filter (\<lambda>p. targets p n) items)"
  by (induction items arbitrary: acc) (simp_all add: targets_def Let_def case_prod_unfold)

interpretation secret_map: request_mapper mapSecretToPactos uses_secret
  by unfold_locales (simp_all add: mapSecretToPactos_def secret_requests_eq)

interpretation target_map: request_mapper mapObjectToPactos targets
  by unfold_locales (simp_all add: mapObjectToPactos_def target_requests_eq)

section \<open>No missed change\<close>

definition agree_at :: "reader \<Rightarrow> reader \<Rightarrow> key \<Rightarrow> bool" where
  "agree_at rd rd' key \<longleftrightarrow>
     get_Service rd key = get_Service rd' key \<and> get_Deployment rd key = get_Deployment rd' key \<and>
     get_StatefulSet rd key = get_StatefulSet rd' key \<and> get_ReplicaSet rd key = get_ReplicaSet rd' key \<and>
     get_Job rd key = get_Job rd' key \<and> get_CronJob rd key = get_CronJob rd' key"

lemma observeWorkload_agree:
  "agree_at rd rd' (ns, n) \<Longrightarrow> observeWorkload rd ns n kind snap = observeWorkload rd' ns n kind snap"
  by (simp add: agree_at_def observeWorkload_def observeDeployment_def observeStatefulSet_def
      observeReplicaSet_def observeJob_def observeCronJob_def Let_def)

lemma Observe_agree:
  assumes "svc \<noteq> '''' \<Longrightarrow> agree_at rd rd' (ns, svc)" "wn \<noteq> '''' \<Longrightarrow> agree_at rd rd' (ns, wn)"
  shows "Observe rd ns svc wn wk = Observe rd' ns svc wn wk"
proof (cases "wn = ''''")
  case True
  with assms(1) show ?thesis
    by (auto simp: Observe_def agree_at_def Let_def split: sum.split)
next
  case False
  then have wl: "observeWorkload rd ns wn wk = observeWorkload rd' ns wn wk"
    using observeWorkload_agree[OF assms(2)] by blast
  show ?thesis
    using assms(1) by (auto simp: Observe_def wl agree_at_def Let_def split: sum.split)
qed

text \<open>Two cluster states that differ only where no watch enqueues the object \<open>k\<close>.\<close>

definition unnoticed :: "lister \<Rightarrow> key \<Rightarrow> 'w kube \<Rightarrow> 'w \<Rightarrow> 'w \<Rightarrow> bool" where
  "unnoticed c k kc w w' \<longleftrightarrow>
     (let rd = k_Reader kc w; rd' = k_Reader kc w'
      in \<forall>key.
        (k \<in> set (requests c ''Service'' key) \<longrightarrow> get_Service rd key = get_Service rd' key) \<and>
        (k \<in> set (requests c ''Deployment'' key) \<longrightarrow> get_Deployment rd key = get_Deployment rd' key) \<and>
        (k \<in> set (requests c ''StatefulSet'' key) \<longrightarrow> get_StatefulSet rd key = get_StatefulSet rd' key) \<and>
        (k \<in> set (requests c ''ReplicaSet'' key) \<longrightarrow> get_ReplicaSet rd key = get_ReplicaSet rd' key) \<and>
        (k \<in> set (requests c ''Job'' key) \<longrightarrow> get_Job rd key = get_Job rd' key) \<and>
        (k \<in> set (requests c ''CronJob'' key) \<longrightarrow> get_CronJob rd key = get_CronJob rd' key) \<and>
        (k \<in> set (requests c ''Secret'' key) \<longrightarrow> k_GetSecret kc key w = k_GetSecret kc key w'))"

lemma requests_target:
  "kind \<in> {''Service'', ''Deployment'', ''StatefulSet'', ''ReplicaSet'', ''Job'', ''CronJob''} \<Longrightarrow>
     requests c kind obj = mapObjectToPactos c obj"
  by (elim insertE) (simp_all add: requests_def SetupWithManager_def)

lemma requests_secret: "requests c ''Secret'' obj = mapSecretToPactos c obj"
  by (simp add: requests_def SetupWithManager_def)

lemma unnoticed_agree:
  assumes "unnoticed c k kc w w'"
  shows "k \<in> set (mapObjectToPactos c key) \<Longrightarrow> agree_at (k_Reader kc w) (k_Reader kc w') key"
    "k \<in> set (mapSecretToPactos c key) \<Longrightarrow> k_GetSecret kc key w = k_GetSecret kc key w'"
  using assms[unfolded unnoticed_def Let_def, THEN spec, of key]
  by (simp_all add: agree_at_def requests_target requests_secret)

text \<open>
  C19. The watches are sufficient. When the objects of two cluster states agree wherever a change
  would enqueue the Pacto, the reconciler observes the same runtime and obtains the same pull
  credentials in both: a change of a Service, a workload of any observed kind or a Secret that could
  alter the verdict is never missed. Conversely, an event enqueues each Pacto at most once, and only
  Pactos of the object's namespace that name the object.
\<close>

theorem watches_sufficient:
  assumes listed: "c (om_Namespace (p_Meta p)) = Inr items" "p \<in> set items" "distinct (map pacto_key items)"
    and same: "unnoticed c (pacto_key p) (r_Client r) w w'"
  shows "Observe (k_Reader (r_Client r) w) (om_Namespace (p_Meta p)) (tr_ServiceName (ps_Target (p_Spec p)))
        (fst (ResolvedWorkload p)) wk =
      Observe (k_Reader (r_Client r) w') (om_Namespace (p_Meta p)) (tr_ServiceName (ps_Target (p_Spec p)))
        (fst (ResolvedWorkload p)) wk \<and>
    pull_credentials r p w = pull_credentials r p w' \<and>
    (\<forall>kind\<in>{''Service'', ''Deployment'', ''StatefulSet'', ''ReplicaSet'', ''Job'', ''CronJob''}.
       distinct (requests c kind (om_Namespace (p_Meta p), n)) \<and>
       (\<forall>key\<in>set (requests c kind (om_Namespace (p_Meta p), n)). \<exists>q\<in>set items. key = pacto_key q \<and> targets q n))"
proof (intro conjI ballI)
  let ?ns = "om_Namespace (p_Meta p)"
  have "pacto_key p \<in> set (mapObjectToPactos c (?ns, n))" if "targets p n" for n
    using listed(1,2) that by (rule target_map.enqueued)
  then show "Observe (k_Reader (r_Client r) w) ?ns (tr_ServiceName (ps_Target (p_Spec p))) (fst (ResolvedWorkload p)) wk =
      Observe (k_Reader (r_Client r) w') ?ns (tr_ServiceName (ps_Target (p_Spec p))) (fst (ResolvedWorkload p)) wk"
    using unnoticed_agree(1)[OF same] by (intro Observe_agree) (simp_all add: targets_def)
  have "pacto_key p \<in> set (mapSecretToPactos c (?ns, cr_PullSecretRef (ps_ContractRef (p_Spec p))))"
    using listed(1,2) by (rule secret_map.enqueued) (simp add: uses_secret_def)
  then show "pull_credentials r p w = pull_credentials r p w'"
    using unnoticed_agree(2)[OF same] by (simp add: pull_credentials_def resolveOCIAuth_def Let_def)
  fix kind
  assume kind: "kind \<in> {''Service'', ''Deployment'', ''StatefulSet'', ''ReplicaSet'', ''Job'', ''CronJob''}"
  show "distinct (requests c kind (?ns, n))"
    unfolding requests_target[OF kind] using listed(1,3) by (rule target_map.enqueued_once)
  show "\<exists>q\<in>set items. key = pacto_key q \<and> targets q n" if "key \<in> set (requests c kind (?ns, n))" for key
    using target_map.only_relevant that listed(1) unfolding requests_target[OF kind] by fastforce
qed

text \<open>
  The worlds of the witness are readers; in one of them a Job of another name has appeared.
\<close>

definition reader_kube :: "reader kube" where
  "reader_kube =
     \<lparr>k_GetPacto = (\<lambda>_ _. Inl (NotFound '''')), k_GetSecret = (\<lambda>_ _. Inl (NotFound '''')), k_Reader = (\<lambda>w. w),
      k_GetRevision = (\<lambda>_ _. Inl (NotFound '''')), k_ListRevisions = (\<lambda>_ _ _. Inr []),
      k_CreateRevision = (\<lambda>_ w. (None, w)), k_UpdateRevisionStatus = (\<lambda>_ w. (None, w)),
      k_UpdatePactoStatus = (\<lambda>_ w. (None, w)), k_SetControllerReference = (\<lambda>_ _. None), k_Now = (\<lambda>w. (0, w))\<rparr>"

definition reader_reconciler :: "reader PactoReconciler" where
  "reader_reconciler =
     \<lparr>r_Client = reader_kube,
      r_Loader = \<lparr>cl_Load = (\<lambda>_ _ _ w. (Inr sample_lr, w)), cl_ListTags = (\<lambda>_ _ w. (Inr [], w))\<rparr>,
      r_HTTP = \<lparr>h_NewRequest = (\<lambda>_. None), h_Do = (\<lambda>_ _ w. (Inl ''refused'', w)), h_Now = (\<lambda>w. (0, w))\<rparr>,
      r_Ext = documented, r_JSON = sample_json, r_Base64Error = (\<lambda>_. '''')\<rparr>"

definition job_reader :: reader where
  "job_reader = sample_reader\<lparr>get_Job := (\<lambda>key. if key = (''ns'', ''other'') then Inr sample_pod else get_Job sample_reader key)\<rparr>"

theorem watches_sufficient_witness:
  "Observe sample_reader ''ns'' ''svc'' ''svc'' ''Job'' = Observe job_reader ''ns'' ''svc'' ''svc'' ''Job''"
proof -
  let ?c = "\<lambda>ns. Inr [sample_pacto] :: api_error + Pacto list"
  have p: "om_Namespace (p_Meta sample_pacto) = ''ns''" "tr_ServiceName (ps_Target (p_Spec sample_pacto)) = ''svc''"
    "fst (ResolvedWorkload sample_pacto) = ''svc''"
    by (simp_all add: sample_pacto_def ResolvedWorkload_def)
  have "unnoticed ?c (pacto_key sample_pacto) (r_Client reader_reconciler) sample_reader job_reader"
    by (auto simp: unnoticed_def requests_target requests_secret mapObjectToPactos_def p job_reader_def reader_reconciler_def
        reader_kube_def case_prod_unfold Let_def split: if_splits)
  then show ?thesis
    using watches_sufficient[of ?c sample_pacto "[sample_pacto]" reader_reconciler sample_reader job_reader "''Job''"]
    by (simp add: p) (simp add: reader_reconciler_def reader_kube_def)
qed

end
