(* ===== verification/Dashboard_Config.thy ===== *)
theory Dashboard_Config
  imports Loader Observer Revisions
begin

text \<open>
  The dashboard configuration (\<^verbatim>\<open>internal/dashboard/config.go\<close>) and the part of \<^verbatim>\<open>cmd/main.go\<close> that
  builds it from the command line, the environment and the operator's own Deployment. Parsing of
  resource quantities (\<open>resource.ParseQuantity\<close>) is third-party code: a parameter. \<open>MustParse\<close>
  panics where \<open>ParseQuantity\<close> fails.
\<close>

section \<open>Configuration\<close>

record OwnerReference =
  or_APIVersion :: string
  or_Kind :: string
  or_Name :: string
  or_UID :: string

record ResourcesConfig =
  rc_CPURequest :: string
  rc_CPULimit :: string
  rc_MemoryRequest :: string
  rc_MemoryLimit :: string

record Config =
  cfg_Enabled :: bool
  cfg_Image :: string
  cfg_Namespace :: string
  cfg_WatchNamespace :: string
  cfg_OCISecret :: string
  cfg_OCISecrets :: "string list"
  cfg_Resources :: ResourcesConfig
  cfg_OwnerRef :: "OwnerReference option"

definition EffectiveOCISecrets :: "Config \<Rightarrow> string list" where
  "EffectiveOCISecrets c =
     (if 0 < length (cfg_OCISecrets c) then cfg_OCISecrets c
      else if cfg_OCISecret c \<noteq> '''' then [cfg_OCISecret c]
      else [])"

section \<open>Resource quantities\<close>

type_synonym 'q parser = "string \<Rightarrow> string + 'q"

definition MustParse :: "'q parser \<Rightarrow> string \<Rightarrow> 'q go" where
  "MustParse pq s = (case pq s of Inl err \<Rightarrow> Panic | Inr q \<Rightarrow> Ret q)"

fun check_quantities :: "'q parser \<Rightarrow> (string \<times> string) list \<Rightarrow> string option" where
  "check_quantities pq [] = None"
| "check_quantities pq ((name, val) # qs) =
     (if val = '''' then check_quantities pq qs
      else case pq val of
             Inl err \<Rightarrow> Some (''invalid dashboard '' @ name @ '' quantity '' @ show_q val @ '': '' @ err)
           | Inr _ \<Rightarrow> check_quantities pq qs)"

definition ResourcesConfig_Validate :: "'q parser \<Rightarrow> ResourcesConfig \<Rightarrow> string option" where
  "ResourcesConfig_Validate pq rc =
     check_quantities pq
       [(''cpu-request'', rc_CPURequest rc), (''cpu-limit'', rc_CPULimit rc),
        (''memory-request'', rc_MemoryRequest rc), (''memory-limit'', rc_MemoryLimit rc)]"

record 'q ResourceRequirements =
  rq_Requests :: "(string, 'q) gomap"
  rq_Limits :: "(string, 'q) gomap"

definition DefaultResources :: "'q parser \<Rightarrow> 'q ResourceRequirements go" where
  "DefaultResources pq =
     (case MustParse pq ''50m'' of
        Panic \<Rightarrow> Panic
      | Ret cpu \<Rightarrow>
          (case MustParse pq ''128Mi'' of
             Panic \<Rightarrow> Panic
           | Ret mem \<Rightarrow>
               (case MustParse pq ''512Mi'' of
                  Panic \<Rightarrow> Panic
                | Ret lim \<Rightarrow> Ret \<lparr>rq_Requests = [(''cpu'', cpu), (''memory'', mem)], rq_Limits = [(''memory'', lim)]\<rparr>)))"

definition set_request :: "'q parser \<Rightarrow> string \<Rightarrow> string \<Rightarrow> 'q ResourceRequirements go \<Rightarrow> 'q ResourceRequirements go" where
  "set_request pq name val res =
     (case res of
        Panic \<Rightarrow> Panic
      | Ret res \<Rightarrow>
          if val \<noteq> '''' then
            (case MustParse pq val of
               Panic \<Rightarrow> Panic | Ret q \<Rightarrow> Ret (res\<lparr>rq_Requests := AList.update name q (rq_Requests res)\<rparr>))
          else Ret res)"

definition set_limit :: "'q parser \<Rightarrow> string \<Rightarrow> string \<Rightarrow> 'q ResourceRequirements go \<Rightarrow> 'q ResourceRequirements go" where
  "set_limit pq name val res =
     (case res of
        Panic \<Rightarrow> Panic
      | Ret res \<Rightarrow>
          if val \<noteq> '''' then
            (case MustParse pq val of
               Panic \<Rightarrow> Panic | Ret q \<Rightarrow> Ret (res\<lparr>rq_Limits := AList.update name q (rq_Limits res)\<rparr>))
          else Ret res)"

definition BuildResources :: "'q parser \<Rightarrow> ResourcesConfig \<Rightarrow> 'q ResourceRequirements go" where
  "BuildResources pq rc =
     (let res = DefaultResources pq;
          res = set_request pq ''cpu'' (rc_CPURequest rc) res;
          res = set_request pq ''memory'' (rc_MemoryRequest rc) res;
          res = set_limit pq ''cpu'' (rc_CPULimit rc) res
      in set_limit pq ''memory'' (rc_MemoryLimit rc) res)"

section \<open>Validation\<close>

text \<open>The loop of \<open>hasLatestTag\<close>, from the last byte to the first.\<close>

fun has_latest_from :: "string \<Rightarrow> nat \<Rightarrow> bool" where
  "has_latest_from img 0 = True"
| "has_latest_from img (Suc i) =
     (if img ! i = CHR '':'' then drop (Suc i) img = ''latest''
      else if img ! i = CHR ''/'' then True
      else has_latest_from img i)"

definition hasLatestTag :: "string \<Rightarrow> bool" where
  "hasLatestTag img = has_latest_from img (length img)"

definition Config_Validate :: "'q parser \<Rightarrow> Config \<Rightarrow> string option" where
  "Config_Validate pq c =
     (if \<not> cfg_Enabled c then None
      else if cfg_Image c = '''' then Some ''dashboard image must be set at build time via ldflags''
      else if cfg_Namespace c = '''' then Some ''dashboard namespace must be set (defaults to operator namespace)''
      else if hasLatestTag (cfg_Image c) then
        Some (''dashboard image must not use '' @ [CHR 0x27] @ ''latest'' @ [CHR 0x27] @ '' tag: '' @ cfg_Image c)
      else ResourcesConfig_Validate pq (cfg_Resources c))"

section \<open>From the command line to the configuration\<close>

record flags =
  fl_EnableDashboard :: bool
  fl_WatchNamespace :: string
  fl_DashboardOCISecret :: string
  fl_DashboardOCISecrets :: string
  fl_DashboardCPURequest :: string
  fl_DashboardCPULimit :: string
  fl_DashboardMemoryRequest :: string
  fl_DashboardMemoryLimit :: string

fun trimmed_names :: "string list \<Rightarrow> string list \<Rightarrow> string list" where
  "trimmed_names [] parsed = parsed"
| "trimmed_names (s # ss) parsed =
     (let trimmed = TrimSpace s
      in if trimmed \<noteq> '''' then trimmed_names ss (parsed @ [trimmed]) else trimmed_names ss parsed)"

definition parsedOCISecrets :: "string \<Rightarrow> string list" where
  "parsedOCISecrets dashboardOCISecrets =
     (if dashboardOCISecrets \<noteq> '''' then trimmed_names (Split dashboardOCISecrets (CHR '','')) [] else [])"

text \<open>
  The end of \<open>main\<close>: the environment is a function, the operator's Deployment is read by its key and
  gives its name and UID. An exit is the message that is logged.
\<close>

definition owner_ref :: "(string \<Rightarrow> string) \<Rightarrow> (key \<Rightarrow> api_error + string \<times> string) \<Rightarrow> string \<Rightarrow> OwnerReference option" where
  "owner_ref getenv getDeployment dashboardNamespace =
     (let operatorDeployName = getenv ''OPERATOR_DEPLOYMENT_NAME''
      in if operatorDeployName \<noteq> '''' then
           (case getDeployment (dashboardNamespace, operatorDeployName) of
              Inl err \<Rightarrow> None
            | Inr (name, uid) \<Rightarrow>
                Some \<lparr>or_APIVersion = ''apps/v1'', or_Kind = ''Deployment'', or_Name = name, or_UID = uid\<rparr>)
         else None)"

definition main_config ::
  "'q parser \<Rightarrow> flags \<Rightarrow> string \<Rightarrow> (string \<Rightarrow> string) \<Rightarrow> (key \<Rightarrow> api_error + string \<times> string) \<Rightarrow> string + Config" where
  "main_config pq f dashboardImage getenv getDeployment =
     (let dashboardNamespace = getenv ''POD_NAMESPACE''
      in if dashboardNamespace = '''' then Inl ''POD_NAMESPACE environment variable must be set (use the downward API)''
         else if fl_EnableDashboard f \<and> dashboardImage = '''' then
           Inl ''Dashboard enabled but no dashboard image was set at build time. This binary was not built with the required -ldflags for dashboard support.''
         else
           (let dashCfg =
                  \<lparr>cfg_Enabled = fl_EnableDashboard f, cfg_Image = dashboardImage, cfg_Namespace = dashboardNamespace,
                   cfg_WatchNamespace = fl_WatchNamespace f, cfg_OCISecret = fl_DashboardOCISecret f,
                   cfg_OCISecrets = parsedOCISecrets (fl_DashboardOCISecrets f),
                   cfg_Resources =
                     \<lparr>rc_CPURequest = fl_DashboardCPURequest f, rc_CPULimit = fl_DashboardCPULimit f,
                      rc_MemoryRequest = fl_DashboardMemoryRequest f, rc_MemoryLimit = fl_DashboardMemoryLimit f\<rparr>,
                   cfg_OwnerRef = owner_ref getenv getDeployment dashboardNamespace\<rparr>
            in case Config_Validate pq dashCfg of
                 Some err \<Rightarrow> Inl (''Invalid dashboard configuration: '' @ err)
               | None \<Rightarrow> Inr dashCfg))"


section \<open>The tag test\<close>

lemma has_latest_step:
  "has_latest_from (pre @ c # suf) (Suc (length pre)) =
     (if c = CHR '':'' then suf = ''latest'' else c = CHR ''/'' \<or> has_latest_from (pre @ c # suf) (length pre))"
  by simp

declare has_latest_from.simps(2) [simp del]

lemma has_latest_from_untagged:
  assumes "CHR ''/'' \<notin> set base" "CHR '':'' \<notin> set base" "dir = [] \<or> last dir = CHR ''/''"
  shows "has_latest_from (dir @ base @ suf) (length (dir @ base))"
  using assms
proof (induction base arbitrary: suf rule: rev_induct)
  case Nil
  show ?case
    using assms(3) has_latest_step[of "butlast dir" "CHR ''/''" suf] by (cases dir rule: rev_cases) simp_all
next
  case (snoc c base)
  from snoc.IH[of "c # suf"] snoc.prems has_latest_step[of "dir @ base" c suf] show ?case
    by auto
qed

lemma has_latest_from_tagged:
  assumes "CHR ''/'' \<notin> set tag" "CHR '':'' \<notin> set tag"
  shows "has_latest_from (pre @ CHR '':'' # tag @ suf) (length (pre @ CHR '':'' # tag)) \<longleftrightarrow> tag @ suf = ''latest''"
  using assms
proof (induction tag arbitrary: suf rule: rev_induct)
  case Nil
  show ?case
    using has_latest_step[of pre "CHR '':''" suf] by simp
next
  case (snoc c tag)
  from snoc.IH[of "c # suf"] snoc.prems has_latest_step[of "pre @ CHR '':'' # tag" c suf] show ?case
    by auto
qed

text \<open>
  The image test rejects exactly the mutable references: with \<open>dir\<close> the path up to the last slash
  and \<open>base\<close> the last path segment, an image without a colon in \<open>base\<close> (implicit latest, whatever port
  the registry has) is rejected, and one with a tag or digest after the last colon is rejected exactly
  when that tag is \<open>latest\<close>.
\<close>

lemma hasLatestTag_spec:
  assumes "CHR ''/'' \<notin> set base" "dir = [] \<or> last dir = CHR ''/''"
  shows "(CHR '':'' \<notin> set base \<longrightarrow> hasLatestTag (dir @ base)) \<and>
    (\<forall>name tag. base = name @ CHR '':'' # tag \<and> CHR '':'' \<notin> set tag \<longrightarrow>
       hasLatestTag (dir @ base) = (tag = ''latest''))"
proof (intro conjI allI impI)
  assume "CHR '':'' \<notin> set base"
  from has_latest_from_untagged[OF assms(1) this assms(2), of "[]"] show "hasLatestTag (dir @ base)"
    by (simp add: hasLatestTag_def)
next
  fix name tag
  assume base: "base = name @ CHR '':'' # tag \<and> CHR '':'' \<notin> set tag"
  with assms(1) have "CHR ''/'' \<notin> set tag"
    by auto
  from has_latest_from_tagged[OF this, of "dir @ name" "[]"] base show "hasLatestTag (dir @ base) = (tag = ''latest'')"
    by (simp add: hasLatestTag_def)
qed

theorem hasLatestTag_spec_witness:
  "hasLatestTag (''localhost:5000/'' @ ''dash'') \<and> hasLatestTag (''ghcr.io/org/'' @ ''dash:latest'') \<and>
   \<not> hasLatestTag (''ghcr.io/org/'' @ ''dash:1.2.0'')"
proof -
  have dir: "''ghcr.io/org/'' = [] \<or> last ''ghcr.io/org/'' = CHR ''/''"
    by simp
  have base: "CHR ''/'' \<notin> set ''dash:latest''" "CHR ''/'' \<notin> set ''dash:1.2.0''"
    by simp_all
  have "hasLatestTag (''localhost:5000/'' @ ''dash'')"
    using hasLatestTag_spec[of "''dash''" "''localhost:5000/''"] by simp
  moreover have "hasLatestTag (''ghcr.io/org/'' @ ''dash:latest'') = (''latest'' = ''latest'')"
    by (rule hasLatestTag_spec[OF base(1) dir, THEN conjunct2, rule_format, of "''dash''" "''latest''"]) simp
  moreover have "hasLatestTag (''ghcr.io/org/'' @ ''dash:1.2.0'') = (''1.2.0'' = ''latest'')"
    by (rule hasLatestTag_spec[OF base(2) dir, THEN conjunct2, rule_format, of "''dash''" "''1.2.0''"]) simp
  ultimately show ?thesis
    by simp
qed

section \<open>Quantities\<close>

text \<open>The literals of the built-in defaults are valid quantities.\<close>

definition quantity_api :: "'q parser \<Rightarrow> bool" where
  "quantity_api pq \<longleftrightarrow> (\<forall>s\<in>{''50m'', ''128Mi'', ''512Mi''}. \<exists>q. pq s = Inr q)"

definition quantity :: "'q parser \<Rightarrow> string \<Rightarrow> string \<Rightarrow> 'q option" where
  "quantity pq override dflt =
     (case pq (if override = '''' then dflt else override) of Inl _ \<Rightarrow> None | Inr q \<Rightarrow> Some q)"

lemma check_quantities_None:
  "check_quantities pq qs = None \<longleftrightarrow> (\<forall>(n, v)\<in>set qs. v = '''' \<or> (\<exists>q. pq v = Inr q))"
  by (induction pq qs rule: check_quantities.induct) (auto split: sum.split)

lemma BuildResources_ok:
  assumes "quantity_api pq" "ResourcesConfig_Validate pq rc = None"
  shows "\<exists>res. BuildResources pq rc = Ret res \<and>
    map_of (rq_Requests res) ''cpu'' = quantity pq (rc_CPURequest rc) ''50m'' \<and>
    map_of (rq_Requests res) ''memory'' = quantity pq (rc_MemoryRequest rc) ''128Mi'' \<and>
    map_of (rq_Limits res) ''cpu'' = (if rc_CPULimit rc = '''' then None else quantity pq (rc_CPULimit rc) '''') \<and>
    map_of (rq_Limits res) ''memory'' = quantity pq (rc_MemoryLimit rc) ''512Mi''"
proof -
  obtain a b c where dflt: "pq ''50m'' = Inr a" "pq ''128Mi'' = Inr b" "pq ''512Mi'' = Inr c"
    using assms(1) by (auto simp: quantity_api_def)
  have set: "rc_CPURequest rc = '''' \<or> (\<exists>q. pq (rc_CPURequest rc) = Inr q)"
    "rc_MemoryRequest rc = '''' \<or> (\<exists>q. pq (rc_MemoryRequest rc) = Inr q)"
    "rc_CPULimit rc = '''' \<or> (\<exists>q. pq (rc_CPULimit rc) = Inr q)"
    "rc_MemoryLimit rc = '''' \<or> (\<exists>q. pq (rc_MemoryLimit rc) = Inr q)"
    using assms(2) unfolding ResourcesConfig_Validate_def check_quantities_None by simp_all
  show ?thesis
    using set
    by (elim disjE exE)
       (simp_all add: BuildResources_def DefaultResources_def MustParse_def set_request_def set_limit_def quantity_def
          dflt update_conv')
qed

section \<open>What main hands to the dashboard\<close>

lemma dropWhile_hd: "dropWhile P xs = [] \<or> \<not> P (hd (dropWhile P xs))"
  by (metis hd_dropWhile)

lemma dropWhile_suffix_hd: "ys \<noteq> [] \<Longrightarrow> rev (dropWhile P (rev ys)) \<noteq> [] \<Longrightarrow> hd (rev (dropWhile P (rev ys))) = hd ys"
  by (metis append_is_Nil_conv hd_append2 rev_append rev_rev_ident takeWhile_dropWhile_id)

lemma TrimSpace_idem: "TrimSpace (TrimSpace s) = TrimSpace s"
proof -
  define a where "a = dropWhile is_space s"
  define b where "b = rev (dropWhile is_space (rev a))"
  have tail: "dropWhile is_space (rev b) = rev b"
    by (simp add: b_def)
  have "dropWhile is_space b = b"
  proof (cases "b = []")
    case False
    have a: "a \<noteq> []"
      using False by (auto simp: b_def)
    have "hd b = hd a"
      using dropWhile_suffix_hd[OF a] False unfolding b_def by blast
    then have "\<not> is_space (hd b)"
      using a dropWhile_hd[of is_space s] by (auto simp: a_def)
    with False show ?thesis
      by (cases b) simp_all
  qed simp
  with tail show ?thesis
    by (simp add: TrimSpace_def a_def b_def)
qed

lemma trimmed_names_eq: "trimmed_names ss acc = acc @ filter (\<lambda>n. n \<noteq> '''') (map TrimSpace ss)"
  by (induction ss acc rule: trimmed_names.induct) (simp_all add: Let_def)

lemma parsedOCISecrets_trimmed:
  "n \<in> set (parsedOCISecrets s) \<Longrightarrow> n \<noteq> '''' \<and> TrimSpace n = n"
  by (auto simp: parsedOCISecrets_def trimmed_names_eq TrimSpace_idem split: if_splits)

text \<open>
  C26. A configuration that \<open>main\<close> accepts is safe to reconcile. It names a namespace, its secret names
  are non-empty and trimmed, and when the dashboard is enabled its image is set and not a mutable
  \<open>latest\<close>, and building the resource requirements does not panic: each quantity is the parsed
  override, or the built-in default where none is given (there is no default CPU limit).
\<close>

theorem accepted_config_safe:
  assumes "quantity_api pq" "main_config pq f img getenv getDeployment = Inr cfg"
  shows "cfg_Namespace cfg \<noteq> '''' \<and> (\<forall>n\<in>set (cfg_OCISecrets cfg). n \<noteq> '''' \<and> TrimSpace n = n) \<and>
    (cfg_Enabled cfg \<longrightarrow>
       cfg_Image cfg \<noteq> '''' \<and> \<not> hasLatestTag (cfg_Image cfg) \<and>
       (\<exists>res. BuildResources pq (cfg_Resources cfg) = Ret res \<and>
          map_of (rq_Requests res) ''cpu'' = quantity pq (fl_DashboardCPURequest f) ''50m'' \<and>
          map_of (rq_Requests res) ''memory'' = quantity pq (fl_DashboardMemoryRequest f) ''128Mi'' \<and>
          map_of (rq_Limits res) ''cpu'' =
            (if fl_DashboardCPULimit f = '''' then None else quantity pq (fl_DashboardCPULimit f) '''') \<and>
          map_of (rq_Limits res) ''memory'' = quantity pq (fl_DashboardMemoryLimit f) ''512Mi''))"
proof -
  have cfg: "cfg_Namespace cfg \<noteq> ''''" "cfg_OCISecrets cfg = parsedOCISecrets (fl_DashboardOCISecrets f)"
    "cfg_Resources cfg = \<lparr>rc_CPURequest = fl_DashboardCPURequest f, rc_CPULimit = fl_DashboardCPULimit f,
       rc_MemoryRequest = fl_DashboardMemoryRequest f, rc_MemoryLimit = fl_DashboardMemoryLimit f\<rparr>"
    "Config_Validate pq cfg = None"
    using assms(2) by (auto simp: main_config_def Let_def split: if_splits option.splits)
  have "cfg_Image cfg \<noteq> '''' \<and> \<not> hasLatestTag (cfg_Image cfg) \<and> ResourcesConfig_Validate pq (cfg_Resources cfg) = None"
    if "cfg_Enabled cfg"
    using cfg(4) that by (auto simp: Config_Validate_def split: if_splits)
  then show ?thesis
    using cfg(1) parsedOCISecrets_trimmed BuildResources_ok[OF assms(1), of "cfg_Resources cfg"] unfolding cfg(2,3)
    by auto
qed


section \<open>A concrete start\<close>

text \<open>Quantities as their text; anything that starts with a digit parses.\<close>

definition sample_quantity :: "string parser" where
  "sample_quantity s =
     (case s of [] \<Rightarrow> Inl ''empty'' | c # _ \<Rightarrow> if c \<in> set ''0123456789'' then Inr s else Inl ''invalid'')"

definition sample_flags :: flags where
  "sample_flags =
     \<lparr>fl_EnableDashboard = True, fl_WatchNamespace = '''', fl_DashboardOCISecret = '''',
      fl_DashboardOCISecrets = ''ghcr, ,quay'', fl_DashboardCPURequest = ''100m'', fl_DashboardCPULimit = '''',
      fl_DashboardMemoryRequest = '''', fl_DashboardMemoryLimit = ''1Gi''\<rparr>"

definition sample_config :: Config where
  "sample_config =
     \<lparr>cfg_Enabled = True, cfg_Image = ''ghcr.io/org/dash:1.2.0'', cfg_Namespace = ''pacto-system'',
      cfg_WatchNamespace = '''', cfg_OCISecret = '''', cfg_OCISecrets = [''ghcr'', ''quay''],
      cfg_Resources = \<lparr>rc_CPURequest = ''100m'', rc_CPULimit = '''', rc_MemoryRequest = '''', rc_MemoryLimit = ''1Gi''\<rparr>,
      cfg_OwnerRef = None\<rparr>"

lemma quantity_api_sample: "quantity_api sample_quantity"
  by (simp add: quantity_api_def sample_quantity_def)

lemma sample_start:
  "main_config sample_quantity sample_flags ''ghcr.io/org/dash:1.2.0''
     (\<lambda>v. if v = ''POD_NAMESPACE'' then ''pacto-system'' else '''') (\<lambda>_. Inl (NotFound '''')) = Inr sample_config"
proof -
  have "parsedOCISecrets ''ghcr, ,quay'' = [''ghcr'', ''quay'']"
    by (simp add: parsedOCISecrets_def TrimSpace_def is_space_def)
  moreover have "\<not> hasLatestTag ''ghcr.io/org/dash:1.2.0''"
    by (simp add: hasLatestTag_def has_latest_from.simps(2))
  ultimately show ?thesis
    by (simp add: main_config_def sample_flags_def sample_config_def Config_Validate_def ResourcesConfig_Validate_def
        sample_quantity_def owner_ref_def Let_def)
qed

theorem accepted_config_safe_witness:
  "\<exists>res. BuildResources sample_quantity (cfg_Resources sample_config) = Ret res \<and>
     map_of (rq_Requests res) ''cpu'' = Some ''100m'' \<and> map_of (rq_Limits res) ''memory'' = Some ''1Gi''"
proof -
  have "cfg_Enabled sample_config"
    by (simp add: sample_config_def)
  with accepted_config_safe[OF quantity_api_sample sample_start] obtain res where
    "BuildResources sample_quantity (cfg_Resources sample_config) = Ret res"
    "map_of (rq_Requests res) ''cpu'' = quantity sample_quantity (fl_DashboardCPURequest sample_flags) ''50m''"
    "map_of (rq_Limits res) ''memory'' = quantity sample_quantity (fl_DashboardMemoryLimit sample_flags) ''512Mi''"
    by blast
  then show ?thesis
    by (simp add: quantity_def sample_quantity_def sample_flags_def)
qed

end
