(* ===== verification/Dashboard_Resources.thy ===== *)
theory Dashboard_Resources
  imports Dashboard_Config Credentials
begin

text \<open>
  The Kubernetes objects of the dashboard, twice as in the code: as typed objects
  (\<^verbatim>\<open>internal/dashboard/resources.go\<close>, checked by the unit tests) and as server-side apply
  configurations (\<^verbatim>\<open>internal/dashboard/apply.go\<close>, what the reconciler really sends). An apply
  configuration starts from an object without any field set and sets fields one by one; a field that
  is not set and one with its zero value coincide. Pointer fields are options.
\<close>

section \<open>Names\<close>

definition Name :: string where
  "Name = ''pacto-dashboard''"
definition ManagedSecretName :: string where
  "ManagedSecretName = ''pacto-dashboard-oci-creds''"
definition LabelManagedBy :: string where
  "LabelManagedBy = ''app.kubernetes.io/managed-by''"
definition LabelComponent :: string where
  "LabelComponent = ''app.kubernetes.io/component''"
definition LabelName :: string where
  "LabelName = ''app.kubernetes.io/name''"
definition ManagedByValue :: string where
  "ManagedByValue = ''pacto-operator''"
definition ComponentValue :: string where
  "ComponentValue = ''dashboard''"
definition FieldManager :: string where
  "FieldManager = ''pacto-operator-dashboard''"
definition DashboardPort :: int32 where
  "DashboardPort = 3000"
definition HealthPath :: string where
  "HealthPath = ''/health''"

lemmas dashboard_names =
  Name_def ManagedSecretName_def LabelManagedBy_def LabelComponent_def LabelName_def ManagedByValue_def ComponentValue_def

definition Labels :: "(string, string) gomap" where
  "Labels = [(LabelManagedBy, ManagedByValue), (LabelComponent, ComponentValue), (LabelName, Name)]"

definition SelectorLabels :: "(string, string) gomap" where
  "SelectorLabels = [(LabelComponent, ComponentValue), (LabelName, Name)]"

section \<open>Kubernetes objects, with the fields the operator sets\<close>

record DashMeta =
  dm_Name :: string
  dm_Namespace :: string
  dm_Labels :: "(string, string) gomap"
  dm_OwnerReferences :: "OwnerReference list"

record ServiceAccount =
  sa_Meta :: DashMeta

record PolicyRule =
  pl_APIGroups :: "string list"
  pl_Resources :: "string list"
  pl_Verbs :: "string list"

record ClusterRole =
  clr_Meta :: DashMeta
  clr_Rules :: "PolicyRule list"

record Subject =
  sj_Kind :: string
  sj_Name :: string
  sj_Namespace :: string

record RoleRef =
  rf_APIGroup :: string
  rf_Kind :: string
  rf_Name :: string

record ClusterRoleBinding =
  crb_Meta :: DashMeta
  crb_Subjects :: "Subject list"
  crb_RoleRef :: RoleRef

record EnvVar =
  en_Name :: string
  en_Value :: string

record VolumeMount =
  vm_Name :: string
  vm_MountPath :: string
  vm_ReadOnly :: bool

record KeyToPath =
  kp_Key :: string
  kp_Path :: string

record SecretVolumeSource =
  sx_SecretName :: string
  sx_Items :: "KeyToPath list"
  sx_Optional :: "bool option"

record DashVolume =
  vo_Name :: string
  vo_EmptyDir :: "unit option"
  vo_Secret :: "SecretVolumeSource option"

record ContainerPort =
  cp_Name :: string
  cp_ContainerPort :: int32
  cp_Protocol :: string

record HTTPProbe =
  hp_Path :: string
  hp_Port :: int32
  hp_InitialDelaySeconds :: int32
  hp_PeriodSeconds :: int32

record SecurityContext =
  sy_ReadOnlyRootFilesystem :: "bool option"
  sy_AllowPrivilegeEscalation :: "bool option"
  sy_DropCapabilities :: "string list"

record 'q DashContainer =
  dk_Name :: string
  dk_Image :: string
  dk_Ports :: "ContainerPort list"
  dk_Env :: "EnvVar list"
  dk_VolumeMounts :: "VolumeMount list"
  dk_LivenessProbe :: "HTTPProbe option"
  dk_ReadinessProbe :: "HTTPProbe option"
  dk_SecurityContext :: "SecurityContext option"
  dk_Resources :: "'q ResourceRequirements"

record PodSecurityContext =
  py_RunAsNonRoot :: "bool option"
  py_RunAsUser :: "int64 option"
  py_SeccompProfile :: string

record 'q DashPodSpec =
  dp_ServiceAccountName :: string
  dp_SecurityContext :: "PodSecurityContext option"
  dp_Containers :: "'q DashContainer list"
  dp_Volumes :: "DashVolume list"
  dp_TerminationGracePeriodSeconds :: "int64 option"

record 'q DashDeployment =
  dd_Meta :: DashMeta
  dd_Replicas :: "int32 option"
  dd_Selector :: "(string, string) gomap"
  dd_TemplateLabels :: "(string, string) gomap"
  dd_Pod :: "'q DashPodSpec"

record ServicePort =
  sq_Name :: string
  sq_Port :: int32
  sq_TargetPort :: int32
  sq_Protocol :: string

record DashService =
  ds_Meta :: DashMeta
  ds_Selector :: "(string, string) gomap"
  ds_Ports :: "ServicePort list"

record DashSecret =
  dt_Meta :: DashMeta
  dt_Type :: string
  dt_Data :: "(string, string) gomap"

section \<open>Typed objects\<close>

definition BuildServiceAccount :: "Config \<Rightarrow> ServiceAccount" where
  "BuildServiceAccount cfg =
     \<lparr>sa_Meta = \<lparr>dm_Name = Name, dm_Namespace = cfg_Namespace cfg, dm_Labels = Labels, dm_OwnerReferences = []\<rparr>\<rparr>"

definition BuildClusterRole :: ClusterRole where
  "BuildClusterRole =
     \<lparr>clr_Meta = \<lparr>dm_Name = Name, dm_Namespace = '''', dm_Labels = Labels, dm_OwnerReferences = []\<rparr>,
      clr_Rules =
        [\<lparr>pl_APIGroups = [''pacto.trianalab.io''], pl_Resources = [''pactos'', ''pactorevisions''],
          pl_Verbs = [''get'', ''list'', ''watch'']\<rparr>,
         \<lparr>pl_APIGroups = [''''], pl_Resources = [''services''], pl_Verbs = [''get'', ''list'', ''watch'']\<rparr>]\<rparr>"

definition BuildClusterRoleBinding :: "Config \<Rightarrow> ClusterRoleBinding" where
  "BuildClusterRoleBinding cfg =
     \<lparr>crb_Meta = \<lparr>dm_Name = Name, dm_Namespace = '''', dm_Labels = Labels, dm_OwnerReferences = []\<rparr>,
      crb_Subjects = [\<lparr>sj_Kind = ''ServiceAccount'', sj_Name = Name, sj_Namespace = cfg_Namespace cfg\<rparr>],
      crb_RoleRef = \<lparr>rf_APIGroup = ''rbac.authorization.k8s.io'', rf_Kind = ''ClusterRole'', rf_Name = Name\<rparr>\<rparr>"

definition BuildDeployment :: "'q parser \<Rightarrow> Config \<Rightarrow> 'q DashDeployment go" where
  "BuildDeployment pq cfg =
     (let env = [\<lparr>en_Name = ''PACTO_DASHBOARD_PORT'', en_Value = ''3000''\<rparr>,
                 \<lparr>en_Name = ''PACTO_NO_UPDATE_CHECK'', en_Value = ''1''\<rparr>];
          env = (if cfg_WatchNamespace cfg \<noteq> '''' then
                   env @ [\<lparr>en_Name = ''PACTO_WATCH_NAMESPACE'', en_Value = cfg_WatchNamespace cfg\<rparr>]
                 else env);
          volumeMounts = [\<lparr>vm_Name = ''cache'', vm_MountPath = ''/home/pacto/.cache/pacto'', vm_ReadOnly = False\<rparr>];
          volumes = [\<lparr>vo_Name = ''cache'', vo_EmptyDir = Some (), vo_Secret = None\<rparr>];
          (volumeMounts, volumes) =
            (if 0 < length (EffectiveOCISecrets cfg) then
               (volumeMounts @ [\<lparr>vm_Name = ''oci-creds'', vm_MountPath = ''/home/pacto/.docker'', vm_ReadOnly = True\<rparr>],
                volumes @ [\<lparr>vo_Name = ''oci-creds'', vo_EmptyDir = None,
                  vo_Secret = Some \<lparr>sx_SecretName = ManagedSecretName,
                    sx_Items = [\<lparr>kp_Key = DockerConfigJsonKey, kp_Path = ''config.json''\<rparr>], sx_Optional = Some True\<rparr>\<rparr>])
             else (volumeMounts, volumes))
      in case BuildResources pq (cfg_Resources cfg) of
           Panic \<Rightarrow> Panic
         | Ret res \<Rightarrow>
             Ret \<lparr>dd_Meta = \<lparr>dm_Name = Name, dm_Namespace = cfg_Namespace cfg, dm_Labels = Labels, dm_OwnerReferences = []\<rparr>,
                  dd_Replicas = Some 1, dd_Selector = SelectorLabels, dd_TemplateLabels = Labels,
                  dd_Pod =
                    \<lparr>dp_ServiceAccountName = Name,
                     dp_SecurityContext = Some \<lparr>py_RunAsNonRoot = Some True, py_RunAsUser = Some 65532,
                       py_SeccompProfile = ''RuntimeDefault''\<rparr>,
                     dp_Containers =
                       [\<lparr>dk_Name = ''dashboard'', dk_Image = cfg_Image cfg,
                         dk_Ports = [\<lparr>cp_Name = ''http'', cp_ContainerPort = DashboardPort, cp_Protocol = ''TCP''\<rparr>],
                         dk_Env = env, dk_VolumeMounts = volumeMounts,
                         dk_LivenessProbe = Some \<lparr>hp_Path = HealthPath, hp_Port = DashboardPort,
                           hp_InitialDelaySeconds = 10, hp_PeriodSeconds = 30\<rparr>,
                         dk_ReadinessProbe = Some \<lparr>hp_Path = HealthPath, hp_Port = DashboardPort,
                           hp_InitialDelaySeconds = 5, hp_PeriodSeconds = 10\<rparr>,
                         dk_SecurityContext = Some \<lparr>sy_ReadOnlyRootFilesystem = Some True,
                           sy_AllowPrivilegeEscalation = Some False, sy_DropCapabilities = [''ALL'']\<rparr>,
                         dk_Resources = res\<rparr>],
                     dp_Volumes = volumes, dp_TerminationGracePeriodSeconds = Some 10\<rparr>\<rparr>)"

definition BuildService :: "Config \<Rightarrow> DashService" where
  "BuildService cfg =
     \<lparr>ds_Meta = \<lparr>dm_Name = Name, dm_Namespace = cfg_Namespace cfg, dm_Labels = Labels, dm_OwnerReferences = []\<rparr>,
      ds_Selector = SelectorLabels,
      ds_Ports = [\<lparr>sq_Name = ''http'', sq_Port = DashboardPort, sq_TargetPort = DashboardPort, sq_Protocol = ''TCP''\<rparr>]\<rparr>"

section \<open>Apply configurations\<close>

text \<open>
  The constructors and setters of the apply configurations: a constructor sets the identity and
  leaves every other field unset, \<open>WithLabels\<close> and its relatives put the entries of a map, the
  setters of list fields append.
\<close>

definition put_entries :: "(string, 'v) gomap \<Rightarrow> (string, 'v) gomap \<Rightarrow> (string, 'v) gomap" where
  "put_entries entries m = fold (\<lambda>(k, v). AList.update k v) entries m"

definition ac_meta :: "string \<Rightarrow> string \<Rightarrow> DashMeta" where
  "ac_meta name namespace = \<lparr>dm_Name = name, dm_Namespace = namespace, dm_Labels = [], dm_OwnerReferences = []\<rparr>"

definition WithLabels :: "(string, string) gomap \<Rightarrow> DashMeta \<Rightarrow> DashMeta" where
  "WithLabels entries m = m\<lparr>dm_Labels := put_entries entries (dm_Labels m)\<rparr>"

definition with_owner :: "Config \<Rightarrow> DashMeta \<Rightarrow> DashMeta" where
  "with_owner cfg m =
     (case cfg_OwnerRef cfg of
        None \<Rightarrow> m | Some ref \<Rightarrow> m\<lparr>dm_OwnerReferences := dm_OwnerReferences m @ [ref]\<rparr>)"

definition serviceAccountAC :: "Config \<Rightarrow> ServiceAccount" where
  "serviceAccountAC cfg = \<lparr>sa_Meta = with_owner cfg (WithLabels Labels (ac_meta Name (cfg_Namespace cfg)))\<rparr>"

definition ac_rule :: PolicyRule where
  "ac_rule = \<lparr>pl_APIGroups = [], pl_Resources = [], pl_Verbs = []\<rparr>"

definition clusterRoleAC :: ClusterRole where
  "clusterRoleAC =
     \<lparr>clr_Meta = WithLabels Labels (ac_meta Name ''''),
      clr_Rules =
        [ac_rule\<lparr>pl_APIGroups := [''pacto.trianalab.io''], pl_Resources := [''pactos'', ''pactorevisions''],
           pl_Verbs := [''get'', ''list'', ''watch'']\<rparr>,
         ac_rule\<lparr>pl_APIGroups := [''''], pl_Resources := [''services''], pl_Verbs := [''get'', ''list'', ''watch'']\<rparr>]\<rparr>"

definition clusterRoleBindingAC :: "Config \<Rightarrow> ClusterRoleBinding" where
  "clusterRoleBindingAC cfg =
     \<lparr>crb_Meta = WithLabels Labels (ac_meta Name ''''),
      crb_Subjects = [\<lparr>sj_Kind = ''ServiceAccount'', sj_Name = Name, sj_Namespace = cfg_Namespace cfg\<rparr>],
      crb_RoleRef = \<lparr>rf_APIGroup = ''rbac.authorization.k8s.io'', rf_Kind = ''ClusterRole'', rf_Name = Name\<rparr>\<rparr>"

definition ac_env :: "string \<Rightarrow> string \<Rightarrow> EnvVar" where
  "ac_env name val = \<lparr>en_Name = name, en_Value = val\<rparr>"

definition ac_mount :: "string \<Rightarrow> string \<Rightarrow> VolumeMount" where
  "ac_mount name path = \<lparr>vm_Name = name, vm_MountPath = path, vm_ReadOnly = False\<rparr>"

definition ac_volume :: "string \<Rightarrow> DashVolume" where
  "ac_volume name = \<lparr>vo_Name = name, vo_EmptyDir = None, vo_Secret = None\<rparr>"

definition ac_probe :: "int32 \<Rightarrow> int32 \<Rightarrow> HTTPProbe" where
  "ac_probe delay period =
     \<lparr>hp_Path = HealthPath, hp_Port = DashboardPort, hp_InitialDelaySeconds = delay, hp_PeriodSeconds = period\<rparr>"

definition ac_resources :: "'q ResourceRequirements" where
  "ac_resources = \<lparr>rq_Requests = [], rq_Limits = []\<rparr>"

definition ac_container :: "'q DashContainer" where
  "ac_container =
     \<lparr>dk_Name = '''', dk_Image = '''', dk_Ports = [], dk_Env = [], dk_VolumeMounts = [], dk_LivenessProbe = None,
      dk_ReadinessProbe = None, dk_SecurityContext = None, dk_Resources = ac_resources\<rparr>"

definition ac_pod :: "'q DashPodSpec" where
  "ac_pod =
     \<lparr>dp_ServiceAccountName = '''', dp_SecurityContext = None, dp_Containers = [], dp_Volumes = [],
      dp_TerminationGracePeriodSeconds = None\<rparr>"

definition deploymentAC :: "'q parser \<Rightarrow> Config \<Rightarrow> 'q DashDeployment go" where
  "deploymentAC pq cfg =
     (let env = [ac_env ''PACTO_DASHBOARD_PORT'' ''3000'', ac_env ''PACTO_NO_UPDATE_CHECK'' ''1''];
          env = (if cfg_WatchNamespace cfg \<noteq> '''' then env @ [ac_env ''PACTO_WATCH_NAMESPACE'' (cfg_WatchNamespace cfg)]
                 else env);
          volumeMounts = [ac_mount ''cache'' ''/home/pacto/.cache/pacto''];
          volumes = [(ac_volume ''cache'')\<lparr>vo_EmptyDir := Some ()\<rparr>];
          (volumeMounts, volumes) =
            (if 0 < length (EffectiveOCISecrets cfg) then
               (volumeMounts @ [(ac_mount ''oci-creds'' ''/home/pacto/.docker'')\<lparr>vm_ReadOnly := True\<rparr>],
                volumes @ [(ac_volume ''oci-creds'')\<lparr>vo_Secret := Some
                  \<lparr>sx_SecretName = ManagedSecretName,
                   sx_Items = [\<lparr>kp_Key = DockerConfigJsonKey, kp_Path = ''config.json''\<rparr>], sx_Optional = Some True\<rparr>\<rparr>])
             else (volumeMounts, volumes))
      in case BuildResources pq (cfg_Resources cfg) of
           Panic \<Rightarrow> Panic
         | Ret res \<Rightarrow>
             (let container = ac_container;
                  container = container
                    \<lparr>dk_Name := ''dashboard'', dk_Image := cfg_Image cfg,
                     dk_Ports := dk_Ports container @
                       [\<lparr>cp_Name = ''http'', cp_ContainerPort = DashboardPort, cp_Protocol = ''TCP''\<rparr>],
                     dk_Env := dk_Env container @ env,
                     dk_VolumeMounts := dk_VolumeMounts container @ volumeMounts,
                     dk_LivenessProbe := Some (ac_probe 10 30), dk_ReadinessProbe := Some (ac_probe 5 10),
                     dk_SecurityContext := Some \<lparr>sy_ReadOnlyRootFilesystem = Some True,
                       sy_AllowPrivilegeEscalation = Some False, sy_DropCapabilities = [''ALL'']\<rparr>,
                     dk_Resources := ac_resources
                       \<lparr>rq_Requests := rq_Requests res, rq_Limits := rq_Limits res\<rparr>\<rparr>;
                  pod = ac_pod;
                  pod = pod
                    \<lparr>dp_ServiceAccountName := Name,
                     dp_SecurityContext := Some \<lparr>py_RunAsNonRoot = Some True, py_RunAsUser = Some 65532,
                       py_SeccompProfile = ''RuntimeDefault''\<rparr>,
                     dp_Containers := dp_Containers pod @ [container],
                     dp_Volumes := dp_Volumes pod @ volumes,
                     dp_TerminationGracePeriodSeconds := Some 10\<rparr>
              in Ret \<lparr>dd_Meta = with_owner cfg (WithLabels Labels (ac_meta Name (cfg_Namespace cfg))),
                      dd_Replicas = Some 1, dd_Selector = put_entries SelectorLabels [],
                      dd_TemplateLabels = put_entries Labels [], dd_Pod = pod\<rparr>))"

definition serviceAC :: "Config \<Rightarrow> DashService" where
  "serviceAC cfg =
     \<lparr>ds_Meta = with_owner cfg (WithLabels Labels (ac_meta Name (cfg_Namespace cfg))),
      ds_Selector = put_entries SelectorLabels [],
      ds_Ports = [\<lparr>sq_Name = ''http'', sq_Port = DashboardPort, sq_TargetPort = DashboardPort, sq_Protocol = ''TCP''\<rparr>]\<rparr>"

definition ociSecretAC :: "Config \<Rightarrow> string \<Rightarrow> DashSecret" where
  "ociSecretAC cfg data =
     \<lparr>dt_Meta = with_owner cfg (WithLabels Labels (ac_meta ManagedSecretName (cfg_Namespace cfg))),
      dt_Type = SecretTypeDockerConfigJson, dt_Data = put_entries [(DockerConfigJsonKey, data)] []\<rparr>"


section \<open>What is applied is what is tested\<close>

lemma put_labels [simp]: "put_entries Labels [] = Labels" "put_entries SelectorLabels [] = SelectorLabels"
  by (simp_all add: put_entries_def Labels_def SelectorLabels_def dashboard_names)

lemma ac_labelled: "WithLabels Labels (ac_meta n ns) = \<lparr>dm_Name = n, dm_Namespace = ns, dm_Labels = Labels, dm_OwnerReferences = []\<rparr>"
  by (simp add: WithLabels_def ac_meta_def)

lemma with_owner_sel [simp]:
  "dm_Name (with_owner cfg m) = dm_Name m" "dm_Namespace (with_owner cfg m) = dm_Namespace m"
  "dm_Labels (with_owner cfg m) = dm_Labels m"
  by (simp_all add: with_owner_def split: option.split)

lemma resources_collapse: "\<lparr>rq_Requests = rq_Requests res, rq_Limits = rq_Limits res\<rparr> = (res :: 'q ResourceRequirements)"
  by simp

lemma deploymentAC_eq:
  "deploymentAC pq cfg =
     (case BuildDeployment pq cfg of Panic \<Rightarrow> Panic | Ret d \<Rightarrow> Ret (d\<lparr>dd_Meta := with_owner cfg (dd_Meta d)\<rparr>))"
  by (cases "BuildResources pq (cfg_Resources cfg)")
     (simp_all add: deploymentAC_def BuildDeployment_def Let_def ac_env_def ac_mount_def ac_volume_def ac_probe_def
       ac_container_def ac_resources_def ac_pod_def ac_labelled)

lemma deploymentAC_returns: "BuildResources pq (cfg_Resources cfg) = Ret res \<Longrightarrow> \<exists>d. deploymentAC pq cfg = Ret d"
  by (simp add: deploymentAC_def Let_def split: prod.split)

text \<open>
  C39. The two descriptions of the dashboard agree: every object that the reconciler applies is the
  typed object that the unit tests examine, with the owner reference of the operator's Deployment
  added to the namespaced ones, and building one panics exactly when building the other does.
\<close>

theorem applied_equals_built:
  "serviceAccountAC cfg = (BuildServiceAccount cfg)\<lparr>sa_Meta := with_owner cfg (sa_Meta (BuildServiceAccount cfg))\<rparr> \<and>
   clusterRoleAC = BuildClusterRole \<and> clusterRoleBindingAC cfg = BuildClusterRoleBinding cfg \<and>
   deploymentAC pq cfg =
     (case BuildDeployment pq cfg of Panic \<Rightarrow> Panic | Ret d \<Rightarrow> Ret (d\<lparr>dd_Meta := with_owner cfg (dd_Meta d)\<rparr>)) \<and>
   serviceAC cfg = (BuildService cfg)\<lparr>ds_Meta := with_owner cfg (ds_Meta (BuildService cfg))\<rparr>"
  by (simp add: deploymentAC_eq)
     (simp add: serviceAccountAC_def BuildServiceAccount_def clusterRoleAC_def BuildClusterRole_def ac_rule_def
       clusterRoleBindingAC_def BuildClusterRoleBinding_def serviceAC_def BuildService_def ac_labelled)

text \<open>
  C40. The objects are wired together: the Service and the Deployment select exactly pods of the
  template, the Service targets the container port, both probes go to that port, every volume mount
  names a declared volume, the managed credentials are mounted exactly when secrets are configured,
  and the pod runs under the service account that the role binding gives the read-only role.
\<close>

theorem dashboard_wired:
  assumes "deploymentAC pq cfg = Ret d"
  shows "set (dd_Selector d) \<subseteq> set (dd_TemplateLabels d) \<and> ds_Selector (serviceAC cfg) = dd_Selector d \<and>
    dm_Namespace (dd_Meta d) = cfg_Namespace cfg \<and> dm_Namespace (ds_Meta (serviceAC cfg)) = cfg_Namespace cfg \<and>
    (\<exists>k. dp_Containers (dd_Pod d) = [k] \<and> dk_Image k = cfg_Image cfg \<and>
       map cp_ContainerPort (dk_Ports k) = map sq_TargetPort (ds_Ports (serviceAC cfg)) \<and>
       (\<forall>pr\<in>set_option (dk_LivenessProbe k) \<union> set_option (dk_ReadinessProbe k). hp_Port pr \<in> cp_ContainerPort ` set (dk_Ports k)) \<and>
       vm_Name ` set (dk_VolumeMounts k) \<subseteq> vo_Name ` set (dp_Volumes (dd_Pod d)) \<and>
       BuildResources pq (cfg_Resources cfg) = Ret (dk_Resources k)) \<and>
    ((\<exists>v\<in>set (dp_Volumes (dd_Pod d)). \<exists>s. vo_Secret v = Some s \<and> sx_SecretName s = ManagedSecretName) \<longleftrightarrow>
       EffectiveOCISecrets cfg \<noteq> []) \<and>
    crb_Subjects (clusterRoleBindingAC cfg) =
      [\<lparr>sj_Kind = ''ServiceAccount'', sj_Name = dp_ServiceAccountName (dd_Pod d), sj_Namespace = cfg_Namespace cfg\<rparr>] \<and>
    rf_Name (crb_RoleRef (clusterRoleBindingAC cfg)) = dm_Name (clr_Meta clusterRoleAC) \<and>
    (\<forall>rule\<in>set (clr_Rules clusterRoleAC). set (pl_Verbs rule) \<subseteq> {''get'', ''list'', ''watch''})"
proof -
  obtain res where res: "BuildResources pq (cfg_Resources cfg) = Ret res"
    using assms by (cases "BuildResources pq (cfg_Resources cfg)") (auto simp: deploymentAC_def Let_def)
  have labels: "set SelectorLabels \<subseteq> set Labels"
    by (simp add: SelectorLabels_def Labels_def)
  show ?thesis
    using assms labels
    by (auto simp: deploymentAC_eq BuildDeployment_def res serviceAC_def clusterRoleBindingAC_def clusterRoleAC_def
        ac_rule_def ac_labelled Let_def split: if_splits)
qed

theorem dashboard_wired_witness:
  "\<exists>d. deploymentAC sample_quantity sample_config = Ret d \<and> ds_Selector (serviceAC sample_config) = dd_Selector d"
proof -
  have "\<exists>res. BuildResources sample_quantity (cfg_Resources sample_config) = Ret res"
    by (simp add: BuildResources_def DefaultResources_def set_request_def set_limit_def MustParse_def sample_quantity_def
        sample_config_def)
  then obtain d where "deploymentAC sample_quantity sample_config = Ret d"
    using deploymentAC_returns by blast
  with dashboard_wired[OF this] show ?thesis
    by blast
qed

end
