(* ===== verification/Dashboard.thy ===== *)
theory Dashboard
  imports Dashboard_Resources Reconcile
begin

text \<open>
  The dashboard reconciler (\<^verbatim>\<open>internal/dashboard/reconciler.go\<close>): it applies the objects of the
  dashboard when the feature is enabled, and deletes them when it is not. The Kubernetes client is a
  parameter over an abstract world; an object is identified by its kind and key, and a read gives its
  labels. \<open>d_Apply\<close> is a server-side apply with the field owner \<open>FieldManager\<close> and forced ownership, as
  every call of the code makes it; \<open>d_CreateNamespace\<close> creates a namespace with labels. The interval of
  the ticker only decides how many ticks there are.
\<close>

section \<open>The client\<close>

type_synonym obj_id = "string \<times> key"

datatype 'q applied =
    ApplyServiceAccount ServiceAccount
  | ApplyClusterRole ClusterRole
  | ApplyClusterRoleBinding ClusterRoleBinding
  | ApplyDeployment "'q DashDeployment"
  | ApplyService DashService
  | ApplySecret DashSecret

fun applied_kind :: "'q applied \<Rightarrow> string" where
  "applied_kind (ApplyServiceAccount _) = ''ServiceAccount''"
| "applied_kind (ApplyClusterRole _) = ''ClusterRole''"
| "applied_kind (ApplyClusterRoleBinding _) = ''ClusterRoleBinding''"
| "applied_kind (ApplyDeployment _) = ''Deployment''"
| "applied_kind (ApplyService _) = ''Service''"
| "applied_kind (ApplySecret _) = ''Secret''"

fun applied_meta :: "'q applied \<Rightarrow> DashMeta" where
  "applied_meta (ApplyServiceAccount a) = sa_Meta a"
| "applied_meta (ApplyClusterRole a) = clr_Meta a"
| "applied_meta (ApplyClusterRoleBinding a) = crb_Meta a"
| "applied_meta (ApplyDeployment a) = dd_Meta a"
| "applied_meta (ApplyService a) = ds_Meta a"
| "applied_meta (ApplySecret a) = dt_Meta a"

definition applied_id :: "'q applied \<Rightarrow> obj_id" where
  "applied_id a = (applied_kind a, (dm_Namespace (applied_meta a), dm_Name (applied_meta a)))"

record ('w, 'q) dash_client =
  d_Get :: "obj_id \<Rightarrow> 'w \<Rightarrow> api_error + (string, string) gomap"
  d_GetSecret :: "key \<Rightarrow> 'w \<Rightarrow> api_error + Secret"
  d_CreateNamespace :: "string \<Rightarrow> (string, string) gomap \<Rightarrow> 'w \<Rightarrow> api_error option \<times> 'w"
  d_Apply :: "'q applied \<Rightarrow> 'w \<Rightarrow> api_error option \<times> 'w"
  d_Delete :: "obj_id \<Rightarrow> 'w \<Rightarrow> api_error option \<times> 'w"

record ('w, 'q) Reconciler =
  dr_Client :: "('w, 'q) dash_client"
  dr_Config :: Config
  dr_ParseQuantity :: "'q parser"
  dr_JSON :: json_codec
  dr_Base64Error :: "string \<Rightarrow> string"

section \<open>The steps\<close>

definition failed :: "api_error option \<times> 'w \<Rightarrow> string option \<times> 'w" where
  "failed r = (map_option error_text (fst r), snd r)"

definition ensureNamespace :: "('w, 'q) Reconciler \<Rightarrow> 'w \<Rightarrow> string option \<times> 'w" where
  "ensureNamespace r w =
     (let ns = cfg_Namespace (dr_Config r)
      in case d_Get (dr_Client r) (''Namespace'', ('''', ns)) w of
           Inr _ \<Rightarrow> (None, w)
         | Inl err \<Rightarrow>
             if \<not> IsNotFound err then (Some (error_text err), w)
             else failed (d_CreateNamespace (dr_Client r) ns Labels w))"

definition reconcileServiceAccount :: "('w, 'q) Reconciler \<Rightarrow> 'w \<Rightarrow> string option \<times> 'w" where
  "reconcileServiceAccount r w = failed (d_Apply (dr_Client r) (ApplyServiceAccount (serviceAccountAC (dr_Config r))) w)"

definition reconcileClusterRole :: "('w, 'q) Reconciler \<Rightarrow> 'w \<Rightarrow> string option \<times> 'w" where
  "reconcileClusterRole r w = failed (d_Apply (dr_Client r) (ApplyClusterRole clusterRoleAC) w)"

definition reconcileClusterRoleBinding :: "('w, 'q) Reconciler \<Rightarrow> 'w \<Rightarrow> string option \<times> 'w" where
  "reconcileClusterRoleBinding r w =
     failed (d_Apply (dr_Client r) (ApplyClusterRoleBinding (clusterRoleBindingAC (dr_Config r))) w)"

fun read_secrets :: "('w, 'q) Reconciler \<Rightarrow> string list \<Rightarrow> 'w \<Rightarrow> string + Secret list" where
  "read_secrets r [] w = Inr []"
| "read_secrets r (name # names) w =
     (case d_GetSecret (dr_Client r) (cfg_Namespace (dr_Config r), name) w of
        Inl err \<Rightarrow> Inl (''reading OCI secret '' @ show_q name @ '': '' @ error_text err)
      | Inr secret \<Rightarrow> (case read_secrets r names w of Inl e \<Rightarrow> Inl e | Inr secrets \<Rightarrow> Inr (secret # secrets)))"

definition reconcileOCICredentials :: "('w, 'q) Reconciler \<Rightarrow> 'w \<Rightarrow> string option \<times> 'w" where
  "reconcileOCICredentials r w =
     (let secretNames = EffectiveOCISecrets (dr_Config r);
          managed = (cfg_Namespace (dr_Config r), ManagedSecretName)
      in if length secretNames = 0 then
           (case d_GetSecret (dr_Client r) managed w of
              Inl err \<Rightarrow> if IsNotFound err then (None, w) else (Some (error_text err), w)
            | Inr existing \<Rightarrow> failed (d_Delete (dr_Client r) (''Secret'', managed) w))
         else
           (case read_secrets r secretNames w of
              Inl err \<Rightarrow> (Some err, w)
            | Inr sources \<Rightarrow>
                (case MergeToDockerConfigJSON (dr_JSON r) sources of
                   Inl err \<Rightarrow> (Some (''merging OCI credentials: '' @ cred_error_text (dr_Base64Error r) err), w)
                 | Inr merged \<Rightarrow> failed (d_Apply (dr_Client r) (ApplySecret (ociSecretAC (dr_Config r) merged)) w))))"

definition reconcileDeployment :: "('w, 'q) Reconciler \<Rightarrow> 'w \<Rightarrow> (string option \<times> 'w) go" where
  "reconcileDeployment r w =
     (case deploymentAC (dr_ParseQuantity r) (dr_Config r) of
        Panic \<Rightarrow> Panic | Ret d \<Rightarrow> Ret (failed (d_Apply (dr_Client r) (ApplyDeployment d) w)))"

definition reconcileService :: "('w, 'q) Reconciler \<Rightarrow> 'w \<Rightarrow> string option \<times> 'w" where
  "reconcileService r w = failed (d_Apply (dr_Client r) (ApplyService (serviceAC (dr_Config r))) w)"

section \<open>Cleaning up\<close>

definition cleanup_resources :: "Config \<Rightarrow> (string \<times> obj_id) list" where
  "cleanup_resources cfg =
     (let ns = cfg_Namespace cfg
      in [(''Service'', (''Service'', (ns, Name))), (''Deployment'', (''Deployment'', (ns, Name))),
          (''Secret'', (''Secret'', (ns, ManagedSecretName))),
          (''ClusterRoleBinding'', (''ClusterRoleBinding'', ('''', Name))),
          (''ClusterRole'', (''ClusterRole'', ('''', Name))),
          (''ServiceAccount'', (''ServiceAccount'', (ns, Name)))])"

definition label_value :: "(string, string) gomap \<Rightarrow> string \<Rightarrow> string" where
  "label_value labels k = (case map_of labels k of None \<Rightarrow> '''' | Some v \<Rightarrow> v)"

fun cleanup_loop :: "('w, 'q) dash_client \<Rightarrow> (string \<times> obj_id) list \<Rightarrow> 'w \<Rightarrow> string option \<times> 'w" where
  "cleanup_loop d [] w = (None, w)"
| "cleanup_loop d ((name, key) # resources) w =
     (case d_Get d key w of
        Inl err \<Rightarrow>
          if IsNotFound err then cleanup_loop d resources w
          else (Some (''failed to get '' @ name @ '': '' @ error_text err), w)
      | Inr labels \<Rightarrow>
          if label_value labels LabelManagedBy \<noteq> ManagedByValue \<or> label_value labels LabelComponent \<noteq> ComponentValue
          then cleanup_loop d resources w
          else
            (case d_Delete d key w of
               (None, w) \<Rightarrow> cleanup_loop d resources w
             | (Some err, w) \<Rightarrow>
                 if \<not> IsNotFound err then (Some (''failed to delete '' @ name @ '': '' @ error_text err), w)
                 else cleanup_loop d resources w))"

definition cleanup :: "('w, 'q) Reconciler \<Rightarrow> 'w \<Rightarrow> string option \<times> 'w" where
  "cleanup r w = cleanup_loop (dr_Client r) (cleanup_resources (dr_Config r)) w"

section \<open>Reconcile and Start\<close>

type_synonym dash_result = "ctrl_Result \<times> string option"

text \<open>One step of the handler: its error, with the name of the step, ends the attempt.\<close>

definition dash_step ::
  "string \<Rightarrow> (string option \<times> 'w) go \<Rightarrow> ('w \<Rightarrow> (dash_result \<times> 'w) go) \<Rightarrow> (dash_result \<times> 'w) go" where
  "dash_step name result rest =
     (case result of
        Panic \<Rightarrow> Panic
      | Ret (Some err, w) \<Rightarrow> Ret ((no_requeue, Some (name @ '': '' @ err)), w)
      | Ret (None, w) \<Rightarrow> rest w)"

definition dash_Reconcile :: "('w, 'q) Reconciler \<Rightarrow> 'w \<Rightarrow> (dash_result \<times> 'w) go" where
  "dash_Reconcile r w =
     (if \<not> cfg_Enabled (dr_Config r) then
        (case cleanup r w of
           (Some err, w) \<Rightarrow> Ret ((\<lparr>RequeueAfter = word_of_int Minute\<rparr>, Some err), w)
         | (None, w) \<Rightarrow> Ret ((no_requeue, None), w))
      else
        dash_step ''namespace'' (Ret (ensureNamespace r w)) (\<lambda>w.
        dash_step ''service account'' (Ret (reconcileServiceAccount r w)) (\<lambda>w.
        dash_step ''cluster role'' (Ret (reconcileClusterRole r w)) (\<lambda>w.
        dash_step ''cluster role binding'' (Ret (reconcileClusterRoleBinding r w)) (\<lambda>w.
        dash_step ''oci credentials'' (Ret (reconcileOCICredentials r w)) (\<lambda>w.
        dash_step ''deployment'' (reconcileDeployment r w) (\<lambda>w.
        dash_step ''service'' (Ret (reconcileService r w)) (\<lambda>w.
          Ret ((\<lparr>RequeueAfter = 5 * word_of_int Minute\<rparr>, None), w)))))))))"

text \<open>
  \<open>Start\<close> as run by the manager: the initial attempt, then one attempt per tick until the context is
  done; \<open>ticks\<close> is the number of ticks before that. Between two attempts the world changes by itself:
  \<open>env i\<close> is what happens before the tick that leaves \<open>i\<close> more.
\<close>

fun run_ticks :: "('w, 'q) Reconciler \<Rightarrow> (nat \<Rightarrow> 'w \<Rightarrow> 'w) \<Rightarrow> nat \<Rightarrow> 'w \<Rightarrow> 'w go" where
  "run_ticks r env 0 w = Ret w"
| "run_ticks r env (Suc n) w =
     (case dash_Reconcile r (env n w) of
        Panic \<Rightarrow> Panic
      | Ret (res, w) \<Rightarrow> run_ticks r env n w)"

definition Start :: "('w, 'q) Reconciler \<Rightarrow> (nat \<Rightarrow> 'w \<Rightarrow> 'w) \<Rightarrow> nat \<Rightarrow> 'w \<Rightarrow> (string option \<times> 'w) go" where
  "Start r env ticks w =
     (case dash_Reconcile r w of
        Panic \<Rightarrow> Panic
      | Ret ((_, Some err), w) \<Rightarrow> Ret (Some (''initial dashboard reconciliation failed: '' @ err), w)
      | Ret ((_, None), w) \<Rightarrow>
          if cfg_Enabled (dr_Config r) then
            (case run_ticks r env ticks w of Panic \<Rightarrow> Panic | Ret w \<Rightarrow> Ret (None, w))
          else Ret (None, w))"


section \<open>Cleaning up removes what is ours and nothing else\<close>

text \<open>
  What a delete call does: it touches no other object; after success, or when there was nothing to
  delete, the object is gone or terminating (\<open>gone\<close>), and stays so while other objects are deleted.
\<close>

definition ours :: "(string, string) gomap \<Rightarrow> bool" where
  "ours labels \<longleftrightarrow>
     label_value labels LabelManagedBy = ManagedByValue \<and> label_value labels LabelComponent = ComponentValue"

definition delete_api :: "('w, 'q) dash_client \<Rightarrow> (obj_id \<Rightarrow> 'w \<Rightarrow> bool) \<Rightarrow> bool" where
  "delete_api d gone \<longleftrightarrow>
     (\<forall>key key' w. key' \<noteq> key \<longrightarrow> d_Get d key' (snd (d_Delete d key w)) = d_Get d key' w) \<and>
     (\<forall>key w w'. d_Delete d key w = (None, w') \<longrightarrow> gone key w') \<and>
     (\<forall>key w e w'. d_Delete d key w = (Some e, w') \<and> IsNotFound e \<longrightarrow> gone key w') \<and>
     (\<forall>key w e. d_Get d key w = Inl e \<and> IsNotFound e \<longrightarrow> gone key w) \<and>
     (\<forall>key key' w. key' \<noteq> key \<longrightarrow> gone key' w \<longrightarrow> gone key' (snd (d_Delete d key w)))"

lemma delete_api_rules:
  assumes "delete_api d gone"
  shows "d_Delete d key w = (e, w') \<Longrightarrow> key' \<noteq> key \<Longrightarrow> d_Get d key' w' = d_Get d key' w"
    "d_Delete d key w = (None, w') \<Longrightarrow> gone key w'"
    "d_Delete d key w = (Some err, w') \<Longrightarrow> IsNotFound err \<Longrightarrow> gone key w'"
    "d_Get d key w = Inl err \<Longrightarrow> IsNotFound err \<Longrightarrow> gone key w"
    "d_Delete d key w = (e, w') \<Longrightarrow> key' \<noteq> key \<Longrightarrow> gone key' w \<Longrightarrow> gone key' w'"
  using assms unfolding delete_api_def by (metis snd_conv, metis, metis, metis, metis snd_conv)

text \<open>One round of the loop: either the object is left alone, or it is deleted.\<close>

lemma cleanup_loop_round:
  obtains (error) e where "\<And>rest. cleanup_loop d ((n, key) # rest) w = (Some e, w)"
  | (kept) "\<And>rest. cleanup_loop d ((n, key) # rest) w = cleanup_loop d rest w"
      "(\<exists>e. d_Get d key w = Inl e \<and> IsNotFound e) \<or> (\<exists>labels. d_Get d key w = Inr labels \<and> \<not> ours labels)"
  | (refused) labels e w' e' where "\<And>rest. cleanup_loop d ((n, key) # rest) w = (Some e', w')" "d_Get d key w = Inr labels"
      "ours labels" "d_Delete d key w = (Some e, w')"
  | (deleted) labels e w' where "\<And>rest. cleanup_loop d ((n, key) # rest) w = cleanup_loop d rest w'"
      "d_Get d key w = Inr labels" "ours labels" "d_Delete d key w = (e, w')" "e = None \<or> (\<exists>err. e = Some err \<and> IsNotFound err)"
proof (cases "d_Get d key w")
  case (Inl e)
  show ?thesis
  proof (cases "IsNotFound e")
    case True
    then show ?thesis
      using Inl by (intro kept) simp_all
  qed (use Inl in \<open>intro error, simp\<close>)
next
  case (Inr labels)
  show ?thesis
  proof (cases "ours labels")
    case False
    then show ?thesis
      using Inr by (intro kept) (auto simp: ours_def)
  next
    case True
    obtain e w' where del: "d_Delete d key w = (e, w')"
      by fastforce
    note own = True[unfolded ours_def]
    show ?thesis
    proof (cases "e = None \<or> (\<exists>err. e = Some err \<and> IsNotFound err)")
      case fine: True
      then show ?thesis
        using Inr del own by (intro deleted[OF _ Inr True del]) auto
    next
      case False
      then obtain err where "e = Some err" "\<not> IsNotFound err"
        by auto
      then show ?thesis
        using Inr del own by (intro refused[OF _ Inr True]) auto
    qed
  qed
qed

declare cleanup_loop.simps(2) [simp del]

lemma cleanup_loop_keeps:
  assumes "delete_api d gone" "distinct (map snd rs)"
    and "key \<notin> snd ` set rs \<or> (\<forall>labels. d_Get d key w = Inr labels \<longrightarrow> \<not> ours labels)"
  shows "d_Get d key (snd (cleanup_loop d rs w)) = d_Get d key w"
  using assms(2,3)
proof (induction rs arbitrary: w)
  case (Cons r rs)
  obtain n key' where r: "r = (n, key')"
    by (cases r)
  note del = delete_api_rules(1)[OF assms(1)]
  show ?case
  proof (cases rule: cleanup_loop_round[of d n key' w])
    case (deleted labels e w')
    then have "d_Get d key w' = d_Get d key w"
      using Cons.prems(2) by (intro del) (auto simp: r)
    then show ?thesis
      using Cons.IH[of w'] Cons.prems deleted(1) by (auto simp: r)
  next
    case (refused labels e w' e')
    then show ?thesis
      using Cons.prems(2) del[of key' w _ w' key] by (auto simp: r)
  next
    case kept
    then show ?thesis
      using Cons.IH[of w] Cons.prems by (auto simp: r)
  qed (simp add: r)
qed simp

lemma cleanup_loop_gone:
  assumes "delete_api d gone" "key \<notin> snd ` set rs" "gone key w"
  shows "gone key (snd (cleanup_loop d rs w))"
  using assms(2,3)
proof (induction rs arbitrary: w)
  case (Cons r rs)
  obtain n key' where r: "r = (n, key')"
    by (cases r)
  note stays = delete_api_rules(5)[OF assms(1)]
  show ?case
  proof (cases rule: cleanup_loop_round[of d n key' w])
    case (deleted labels e w')
    then show ?thesis
      using Cons.IH[of w'] Cons.prems stays[OF deleted(4), of key] by (simp add: r)
  next
    case (refused labels e w' e')
    then show ?thesis
      using Cons.prems stays[OF refused(4), of key] by (simp add: r)
  qed (use Cons in \<open>simp_all add: r\<close>)
qed simp

lemma cleanup_loop_removes:
  assumes "delete_api d gone" "distinct (map snd rs)" "cleanup_loop d rs w = (None, w')" "key \<in> snd ` set rs"
  shows "gone key w' \<or> (\<exists>labels. d_Get d key w = Inr labels \<and> \<not> ours labels)"
  using assms(2-4)
proof (induction rs arbitrary: w)
  case (Cons r rs)
  obtain n key' where r: "r = (n, key')"
    by (cases r)
  note rules = delete_api_rules[OF assms(1)]
  have later: "gone key' w'" if "gone key' v" "cleanup_loop d rs v = (None, w')" for v
    using cleanup_loop_gone[OF assms(1), of key' rs v] Cons.prems(1) that by (simp add: r)
  show ?case
  proof (cases rule: cleanup_loop_round[of d n key' w])
    case (deleted labels e w1)
    then have rest: "cleanup_loop d rs w1 = (None, w')"
      using Cons.prems(2) by (simp add: r)
    show ?thesis
    proof (cases "key = key'")
      case True
      have "gone key' w1"
        using deleted(4,5) rules(2,3) by blast
      with later rest True show ?thesis
        by simp
    next
      case False
      with Cons.IH[OF _ rest] Cons.prems rules(1)[OF deleted(4), of key] show ?thesis
        by (simp add: r)
    qed
  next
    case kept
    then have rest: "cleanup_loop d rs w = (None, w')"
      using Cons.prems(2) by (simp add: r)
    show ?thesis
      using kept(2) Cons.IH[OF _ rest] Cons.prems rules(4)[of key' w] later[OF _ rest] by (auto simp: r)
  qed (use Cons.prems in \<open>simp_all add: r\<close>)
qed simp

text \<open>
  C24. Cleaning up is safe and complete. Whatever happens on the way, an object that is not one of the
  six dashboard objects, or that does not carry both management labels, is left exactly as it was.
  When it reports success, each of the six is gone (deleted or already absent) or is a foreign object
  of the same name.
\<close>

theorem cleanup_removes_only_own:
  assumes "delete_api (dr_Client r) gone" "cleanup r w = (err, w')"
  shows "(\<forall>key. key \<notin> snd ` set (cleanup_resources (dr_Config r)) \<or>
        (\<forall>labels. d_Get (dr_Client r) key w = Inr labels \<longrightarrow> \<not> ours labels) \<longrightarrow>
        d_Get (dr_Client r) key w' = d_Get (dr_Client r) key w) \<and>
    (err = None \<longrightarrow> (\<forall>key\<in>snd ` set (cleanup_resources (dr_Config r)).
        gone key w' \<or> (\<exists>labels. d_Get (dr_Client r) key w = Inr labels \<and> \<not> ours labels)))"
proof -
  have dist: "distinct (map snd (cleanup_resources (dr_Config r)))"
    by (simp add: cleanup_resources_def Let_def)
  have run: "cleanup_loop (dr_Client r) (cleanup_resources (dr_Config r)) w = (err, w')"
    using assms(2) by (simp add: cleanup_def)
  show ?thesis
    using cleanup_loop_keeps[OF assms(1) dist, of _ w] cleanup_loop_removes[OF assms(1) dist] run by auto
qed

section \<open>An attempt brings every object into force\<close>

text \<open>
  What the calls of an attempt do. After a successful apply the configuration is in force (\<open>holds\<close>)
  and stays so while other objects are applied or deleted; an object that was not found or was
  deleted is \<open>gone\<close> until it is applied again; reading a secret is not affected by applying objects
  of other kinds or by creating a namespace.
\<close>

definition apply_api ::
  "('w, 'q) dash_client \<Rightarrow> ('q applied \<Rightarrow> 'w \<Rightarrow> bool) \<Rightarrow> (obj_id \<Rightarrow> 'w \<Rightarrow> bool) \<Rightarrow> bool" where
  "apply_api d holds gone \<longleftrightarrow>
     (\<forall>a w w'. d_Apply d a w = (None, w') \<longrightarrow> holds a w') \<and>
     (\<forall>a b w. applied_id a \<noteq> applied_id b \<longrightarrow> holds a w \<longrightarrow> holds a (snd (d_Apply d b w))) \<and>
     (\<forall>a key w. applied_id a \<noteq> key \<longrightarrow> holds a w \<longrightarrow> holds a (snd (d_Delete d key w))) \<and>
     (\<forall>key w w'. d_Delete d key w = (None, w') \<longrightarrow> gone key w') \<and>
     (\<forall>key w e. d_GetSecret d key w = Inl e \<and> IsNotFound e \<longrightarrow> gone (''Secret'', key) w) \<and>
     (\<forall>a key w. applied_id a \<noteq> key \<longrightarrow> gone key w \<longrightarrow> gone key (snd (d_Apply d a w))) \<and>
     (\<forall>a key w. applied_kind a \<noteq> ''Secret'' \<longrightarrow> d_GetSecret d key (snd (d_Apply d a w)) = d_GetSecret d key w) \<and>
     (\<forall>ns labels key w. d_GetSecret d key (snd (d_CreateNamespace d ns labels w)) = d_GetSecret d key w)"

lemma failed_None [simp]: "failed r = (None, w) \<longleftrightarrow> r = (None, w)"
  by (cases r) (simp add: failed_def)

lemma apply_api_rules:
  assumes "apply_api d holds gone"
  shows "d_Apply d a w = (None, w') \<Longrightarrow> holds a w'"
    "d_Apply d b w = (e, w') \<Longrightarrow> holds a w \<Longrightarrow> applied_id a \<noteq> applied_id b \<Longrightarrow> holds a w'"
    "d_Delete d key w = (e, w') \<Longrightarrow> holds a w \<Longrightarrow> applied_id a \<noteq> key \<Longrightarrow> holds a w'"
    "d_Delete d key w = (None, w') \<Longrightarrow> gone key w'"
    "d_GetSecret d k w = Inl err \<Longrightarrow> IsNotFound err \<Longrightarrow> gone (''Secret'', k) w"
    "d_Apply d b w = (e, w') \<Longrightarrow> gone key w \<Longrightarrow> applied_id b \<noteq> key \<Longrightarrow> gone key w'"
    "d_Apply d b w = (e, w') \<Longrightarrow> applied_kind b \<noteq> ''Secret'' \<Longrightarrow> d_GetSecret d k w' = d_GetSecret d k w"
    "d_CreateNamespace d ns labels w = (e, w') \<Longrightarrow> d_GetSecret d k w' = d_GetSecret d k w"
  using assms unfolding apply_api_def
  by (metis, metis snd_conv, metis snd_conv, metis, metis, metis snd_conv, metis snd_conv, metis snd_conv)

lemma read_secrets_cong:
  "(\<And>k. d_GetSecret (dr_Client r) k w = d_GetSecret (dr_Client r) k v) \<Longrightarrow> read_secrets r names w = read_secrets r names v"
  by (induction names) (simp_all split: sum.split)

lemma dash_step_ok:
  assumes "dash_step n result rest = Ret ((res, None), w')"
  obtains w where "result = Ret (None, w)" "rest w = Ret ((res, None), w')"
  using assms by (auto simp: dash_step_def split: go.splits option.splits prod.splits)

text \<open>The objects of an enabled dashboard, apart from the managed credentials.\<close>

definition desired :: "Config \<Rightarrow> 'q DashDeployment \<Rightarrow> 'q applied list" where
  "desired cfg d =
     [ApplyServiceAccount (serviceAccountAC cfg), ApplyClusterRole clusterRoleAC,
      ApplyClusterRoleBinding (clusterRoleBindingAC cfg), ApplyDeployment d, ApplyService (serviceAC cfg)]"

text \<open>Objects that cleaning up will find and recognise.\<close>

definition managed :: "Config \<Rightarrow> 'q applied \<Rightarrow> bool" where
  "managed cfg a \<longleftrightarrow>
     applied_id a \<in> snd ` set (cleanup_resources cfg) \<and> ours (dm_Labels (applied_meta a))"

lemma ours_Labels [simp]: "ours Labels"
  by (simp add: ours_def label_value_def Labels_def dashboard_names)

lemma deploymentAC_meta:
  "deploymentAC pq cfg = Ret d \<Longrightarrow> dd_Meta d = with_owner cfg (WithLabels Labels (ac_meta Name (cfg_Namespace cfg)))"
  by (auto simp: deploymentAC_def Let_def split: go.splits prod.splits)

lemma applied_ids:
  "applied_id (ApplyServiceAccount (serviceAccountAC cfg)) = (''ServiceAccount'', (cfg_Namespace cfg, Name))"
  "applied_id (ApplyClusterRole clusterRoleAC) = (''ClusterRole'', ('''', Name))"
  "applied_id (ApplyClusterRoleBinding (clusterRoleBindingAC cfg)) = (''ClusterRoleBinding'', ('''', Name))"
  "deploymentAC pq cfg = Ret d \<Longrightarrow> applied_id (ApplyDeployment d) = (''Deployment'', (cfg_Namespace cfg, Name))"
  "applied_id (ApplyService (serviceAC cfg)) = (''Service'', (cfg_Namespace cfg, Name))"
  "applied_id (ApplySecret (ociSecretAC cfg data)) = (''Secret'', (cfg_Namespace cfg, ManagedSecretName))"
  by (simp_all add: applied_id_def serviceAccountAC_def clusterRoleAC_def clusterRoleBindingAC_def deploymentAC_meta
      serviceAC_def ociSecretAC_def ac_labelled)

lemma desired_managed:
  fixes d :: "'q DashDeployment"
  assumes "deploymentAC pq cfg = Ret d"
  shows "list_all (managed cfg) (desired cfg d)" "managed cfg (ApplySecret (ociSecretAC cfg data) :: 'q applied)"
  unfolding desired_def list.pred_inject managed_def applied_ids applied_ids(4)[OF assms]
  by (simp_all add: cleanup_resources_def Let_def serviceAccountAC_def clusterRoleAC_def clusterRoleBindingAC_def
      serviceAC_def ociSecretAC_def deploymentAC_meta[OF assms] ac_labelled)

text \<open>The step that merges the credentials, when it succeeds.\<close>

definition credentials_ready ::
  "('w, 'q) Reconciler \<Rightarrow> ('q applied \<Rightarrow> 'w \<Rightarrow> bool) \<Rightarrow> (obj_id \<Rightarrow> 'w \<Rightarrow> bool) \<Rightarrow> 'w \<Rightarrow> 'w \<Rightarrow> bool" where
  "credentials_ready r holds gone w w' \<longleftrightarrow>
     (case EffectiveOCISecrets (dr_Config r) of
        [] \<Rightarrow> gone (''Secret'', (cfg_Namespace (dr_Config r), ManagedSecretName)) w'
      | names \<Rightarrow>
          (\<exists>sources data. read_secrets r names w = Inr sources \<and> MergeToDockerConfigJSON (dr_JSON r) sources = Inr data \<and>
             holds (ApplySecret (ociSecretAC (dr_Config r) data)) w'))"

lemma credentials_ready_step:
  assumes "apply_api (dr_Client r) holds gone" "reconcileOCICredentials r w = (None, w')"
  shows "credentials_ready r holds gone w w'"
proof (cases "EffectiveOCISecrets (dr_Config r)")
  case Nil
  then show ?thesis
    using assms(2) apply_api_rules(4,5)[OF assms(1)]
    by (auto simp: reconcileOCICredentials_def credentials_ready_def Let_def split: sum.splits if_splits)
next
  case (Cons n ns)
  then show ?thesis
    using assms(2) apply_api_rules(1)[OF assms(1)]
    by (auto simp: reconcileOCICredentials_def credentials_ready_def Let_def split: sum.splits)
qed

lemma reconcileOCICredentials_keeps:
  assumes "apply_api (dr_Client r) holds gone" "reconcileOCICredentials r w = (None, w')" "holds a w"
    "applied_id a \<noteq> (''Secret'', (cfg_Namespace (dr_Config r), ManagedSecretName))"
  shows "holds a w'"
  using assms(2-4) apply_api_rules(2)[OF assms(1), of _ w None w' a] apply_api_rules(3)[OF assms(1), of _ w None w' a]
  by (auto simp: reconcileOCICredentials_def Let_def applied_ids split: sum.splits if_splits)

lemma credentials_ready_later:
  assumes "apply_api (dr_Client r) holds gone" "d_Apply (dr_Client r) b v = (e, w')" "applied_kind b \<noteq> ''Secret''"
    "credentials_ready r holds gone w v"
  shows "credentials_ready r holds gone w w'"
proof -
  have id: "applied_id b \<noteq> (''Secret'', k)" for k
    using assms(3) by (simp add: applied_id_def)
  have "holds (ApplySecret (ociSecretAC (dr_Config r) data)) w'"
    if "holds (ApplySecret (ociSecretAC (dr_Config r) data)) v" for data
  proof (rule apply_api_rules(2)[OF assms(1,2) that])
    show "applied_id (ApplySecret (ociSecretAC (dr_Config r) data)) \<noteq> applied_id b"
      unfolding applied_ids by (rule not_sym[OF id])
  qed
  moreover have "gone (''Secret'', k) w'" if "gone (''Secret'', k) v" for k
    using apply_api_rules(6)[OF assms(1,2), of "(''Secret'', k)"] that id by blast
  ultimately show ?thesis
    using assms(4) unfolding credentials_ready_def
    by (cases "EffectiveOCISecrets (dr_Config r)") (simp_all del: read_secrets.simps, blast)
qed

lemma credentials_ready_start:
  assumes "\<And>k. d_GetSecret (dr_Client r) k w = d_GetSecret (dr_Client r) k v"
  shows "credentials_ready r holds gone v w' = credentials_ready r holds gone w w'"
  unfolding credentials_ready_def read_secrets_cong[OF assms] ..

lemma ensureNamespace_secrets:
  assumes "apply_api (dr_Client r) holds gone" "ensureNamespace r w = (None, w')"
  shows "d_GetSecret (dr_Client r) k w' = d_GetSecret (dr_Client r) k w"
  using assms(2) apply_api_rules(8)[OF assms(1)]
  by (auto simp: ensureNamespace_def Let_def split: sum.splits if_splits)


lemma dash_Reconcile_steps:
  assumes "cfg_Enabled (dr_Config r)" "dash_Reconcile r w = Ret ((res, None), w')"
  obtains (steps) w1 w2 w3 w4 w5 w6 d where "ensureNamespace r w = (None, w1)"
    "d_Apply (dr_Client r) (ApplyServiceAccount (serviceAccountAC (dr_Config r))) w1 = (None, w2)"
    "d_Apply (dr_Client r) (ApplyClusterRole clusterRoleAC) w2 = (None, w3)"
    "d_Apply (dr_Client r) (ApplyClusterRoleBinding (clusterRoleBindingAC (dr_Config r))) w3 = (None, w4)"
    "reconcileOCICredentials r w4 = (None, w5)"
    "deploymentAC (dr_ParseQuantity r) (dr_Config r) = Ret d" "d_Apply (dr_Client r) (ApplyDeployment d) w5 = (None, w6)"
    "d_Apply (dr_Client r) (ApplyService (serviceAC (dr_Config r))) w6 = (None, w')"
    "res = \<lparr>RequeueAfter = 5 * word_of_int Minute\<rparr>"
  using assms that
  by (auto simp: dash_Reconcile_def reconcileServiceAccount_def reconcileClusterRole_def reconcileClusterRoleBinding_def
      reconcileDeployment_def reconcileService_def elim!: dash_step_ok split: go.splits)

lemma desired_in_force:
  assumes "apply_api (dr_Client r) holds gone" "cfg_Enabled (dr_Config r)" "dash_Reconcile r w = Ret ((res, None), w')"
  shows "\<exists>d. deploymentAC (dr_ParseQuantity r) (dr_Config r) = Ret d \<and>
    list_all (\<lambda>a. holds a w') (desired (dr_Config r) d)"
  using assms(2,3)
proof (cases rule: dash_Reconcile_steps)
  case (steps w1 w2 w3 w4 w5 w6 d)
  note rules = apply_api_rules[OF assms(1)]
  note ids = applied_ids applied_ids(4)[OF steps(6)]
  have last: "holds a w'" if "holds a w4" "applied_kind a \<notin> {''Secret'', ''Deployment'', ''Service''}" for a
  proof -
    have id: "applied_id a \<noteq> (k, key)" if "k \<in> {''Secret'', ''Deployment'', ''Service''}" for k key
      using that \<open>applied_kind a \<notin> _\<close> by (auto simp only: applied_id_def prod.inject)
    have "holds a w5"
      by (rule reconcileOCICredentials_keeps[OF assms(1) steps(5) that(1) id]) simp
    then have "holds a w6"
      by (rule rules(2)[OF steps(7), unfolded ids, OF _ id]) simp
    then show ?thesis
      by (rule rules(2)[OF steps(8), unfolded ids, OF _ id]) simp
  qed
  have "holds (ApplyService (serviceAC (dr_Config r))) w'"
    by (rule rules(1)[OF steps(8)])
  moreover have "holds (ApplyDeployment d) w'"
    using rules(2)[OF steps(8) rules(1)[OF steps(7)]] by (simp add: ids)
  moreover have "holds (ApplyClusterRoleBinding (clusterRoleBindingAC (dr_Config r))) w'"
    using last[OF rules(1)[OF steps(4)]] by simp
  moreover have "holds (ApplyClusterRole clusterRoleAC) w'"
    using last[OF rules(2)[OF steps(4) rules(1)[OF steps(3)]]] by (simp add: ids)
  moreover have "holds (ApplyServiceAccount (serviceAccountAC (dr_Config r))) w'"
    using last[OF rules(2)[OF steps(4) rules(2)[OF steps(3) rules(1)[OF steps(2)]]]] by (simp add: ids)
  ultimately show ?thesis
    using steps(6) by (simp add: desired_def)
qed

lemma credentials_in_force:
  assumes "apply_api (dr_Client r) holds gone" "cfg_Enabled (dr_Config r)" "dash_Reconcile r w = Ret ((res, None), w')"
  shows "credentials_ready r holds gone w w' \<and> res = \<lparr>RequeueAfter = 5 * word_of_int Minute\<rparr>"
  using assms(2,3)
proof (cases rule: dash_Reconcile_steps)
  case (steps w1 w2 w3 w4 w5 w6 d)
  note rules = apply_api_rules[OF assms(1)]
  have "credentials_ready r holds gone w4 w'"
    using credentials_ready_later[OF assms(1) steps(8) _ credentials_ready_later[OF assms(1) steps(7) _
        credentials_ready_step[OF assms(1) steps(5)]]] by simp
  moreover have "d_GetSecret (dr_Client r) k w = d_GetSecret (dr_Client r) k w4" for k
    using ensureNamespace_secrets[OF assms(1) steps(1), of k] rules(7)[OF steps(2), of k] rules(7)[OF steps(3), of k]
      rules(7)[OF steps(4), of k] by simp
  ultimately show ?thesis
    using credentials_ready_start[of r w w4 holds gone w'] steps(9) by blast
qed

text \<open>
  C20. An attempt that reports success has brought the whole dashboard into force: the service account,
  role, binding, Deployment and Service are as described, all at the same time; the managed
  credentials are the merge of the configured secrets as they were when the attempt began, or are gone
  when none is configured; each of these objects is one that cleaning up will find and recognise by
  its labels; and the next attempt is due in five minutes.
\<close>

theorem dash_Reconcile_converges:
  fixes r :: "('w, 'q) Reconciler"
  assumes "apply_api (dr_Client r) holds gone" "cfg_Enabled (dr_Config r)" "dash_Reconcile r w = Ret ((res, None), w')"
  shows "(\<exists>d. deploymentAC (dr_ParseQuantity r) (dr_Config r) = Ret d \<and>
            list_all (\<lambda>a. holds a w' \<and> managed (dr_Config r) a) (desired (dr_Config r) d)) \<and>
         credentials_ready r holds gone w w' \<and>
         (\<forall>data. managed (dr_Config r) (ApplySecret (ociSecretAC (dr_Config r) data) :: 'q applied)) \<and>
         uint (RequeueAfter res) = 5 * 60 * 1000000000"
proof -
  obtain d where d: "deploymentAC (dr_ParseQuantity r) (dr_Config r) = Ret d"
    "list_all (\<lambda>a. holds a w') (desired (dr_Config r) d)"
    using desired_in_force[OF assms] by blast
  with credentials_in_force[OF assms] desired_managed[OF d(1)] show ?thesis
    by (simp add: desired_def Minute_def Second_def)
qed


section \<open>Running under the manager\<close>

lemma dash_step_returns:
  assumes "\<exists>x. result = Ret x" "\<And>w. \<exists>x. rest w = Ret x"
  shows "\<exists>x. dash_step name result rest = Ret x"
proof -
  obtain e w where "result = Ret (e, w)"
    using assms(1) by auto
  with assms(2)[of w] show ?thesis
    by (cases e) (simp_all add: dash_step_def)
qed

lemma dash_Reconcile_returns:
  assumes "cfg_Enabled (dr_Config r) \<Longrightarrow> \<exists>res. BuildResources (dr_ParseQuantity r) (cfg_Resources (dr_Config r)) = Ret res"
  shows "\<exists>res err w'. dash_Reconcile r w = Ret ((res, err), w')"
proof (cases "cfg_Enabled (dr_Config r)")
  case True
  then obtain d where d: "deploymentAC (dr_ParseQuantity r) (dr_Config r) = Ret d"
    using assms deploymentAC_returns by blast
  have "\<exists>x. dash_Reconcile r w = Ret x"
    using True unfolding dash_Reconcile_def reconcileDeployment_def d go.case
    by (simp only: not_True_eq_False if_False) (intro dash_step_returns; rule exI; rule refl)
  then show ?thesis
    by auto
next
  case False
  then show ?thesis
    by (cases "cleanup r w") (simp add: dash_Reconcile_def split: option.split)
qed

lemma main_config_builds:
  assumes "quantity_api pq" "main_config pq f img getenv getDeployment = Inr cfg" "cfg_Enabled cfg"
  shows "\<exists>res. BuildResources pq (cfg_Resources cfg) = Ret res"
proof -
  have "Config_Validate pq cfg = None"
    using assms(2) by (auto simp: main_config_def Let_def split: if_splits option.splits)
  then have "ResourcesConfig_Validate pq (cfg_Resources cfg) = None"
    using assms(3) by (auto simp: Config_Validate_def split: if_splits)
  from BuildResources_ok[OF assms(1) this] show ?thesis
    by blast
qed

lemma run_ticks_returns:
  assumes "\<And>w. \<exists>res err w'. dash_Reconcile r w = Ret ((res, err), w')"
  shows "\<exists>w'. run_ticks r env n w = Ret w' \<and>
    (0 < n \<longrightarrow> (\<exists>v res err. dash_Reconcile r (env 0 v) = Ret ((res, err), w')))"
proof (induction n arbitrary: w)
  case (Suc n)
  obtain res err w1 where step: "dash_Reconcile r (env n w) = Ret ((res, err), w1)"
    using assms by blast
  from Suc.IH[of w1] step show ?case
    by (cases n) auto
qed simp

text \<open>
  C25. Under the manager, with a configuration that \<open>main\<close> accepted, \<open>Start\<close> never panics and its
  result is that of the first attempt alone: it fails exactly when the first attempt fails, with that
  error, and no number of failing periodic attempts, whatever happens to the cluster between them,
  makes it fail. While the dashboard is enabled the last tick makes an attempt of its own, so whatever
  that attempt leaves is what remains; a disabled dashboard makes no further attempt.
\<close>

theorem Start_survives:
  assumes "quantity_api (dr_ParseQuantity r)"
    "main_config (dr_ParseQuantity r) f img getenv getDeployment = Inr (dr_Config r)"
  shows "\<exists>res err w1 w'. dash_Reconcile r w = Ret ((res, err), w1) \<and>
    Start r env ticks w = Ret (map_option (\<lambda>e. ''initial dashboard reconciliation failed: '' @ e) err, w') \<and>
    (if err = None \<and> cfg_Enabled (dr_Config r) \<and> 0 < ticks
     then \<exists>v res' err'. dash_Reconcile r (env 0 v) = Ret ((res', err'), w')
     else w' = w1)"
proof -
  have attempt: "\<exists>res err w'. dash_Reconcile r w = Ret ((res, err), w')" for w
    by (rule dash_Reconcile_returns[OF main_config_builds[OF assms]])
  then obtain res err w1 where first: "dash_Reconcile r w = Ret ((res, err), w1)"
    by blast
  obtain w2 where ticks: "run_ticks r env ticks w1 = Ret w2"
    "0 < ticks \<longrightarrow> (\<exists>v res err. dash_Reconcile r (env 0 v) = Ret ((res, err), w2))"
    using run_ticks_returns[OF attempt, of env ticks w1] by auto
  have "w2 = w1" if "ticks = 0"
    using ticks(1) that by simp
  with first ticks show ?thesis
    by (cases err) (simp_all add: Start_def)
qed


section \<open>A concrete cluster\<close>

text \<open>The labels of the objects that exist, and the configurations in force; every call succeeds.\<close>

record dash_world =
  dw_Labels :: "(obj_id, (string, string) gomap) gomap"
  dw_Applied :: "string applied list"

definition sample_dash_client :: "(dash_world, string) dash_client" where
  "sample_dash_client =
     \<lparr>d_Get = \<lambda>key w. (case map_of (dw_Labels w) key of None \<Rightarrow> Inl (NotFound ''not found'') | Some labels \<Rightarrow> Inr labels),
      d_GetSecret = \<lambda>key w.
        (case map_of (dw_Labels w) (''Secret'', key) of
           None \<Rightarrow> Inl (NotFound ''not found'')
         | Some _ \<Rightarrow> Inr \<lparr>sec_Name = snd key, sec_Type = ''Opaque'', sec_Data = []\<rparr>),
      d_CreateNamespace = \<lambda>ns labels w. (None, w\<lparr>dw_Labels := AList.update (''Namespace'', ('''', ns)) labels (dw_Labels w)\<rparr>),
      d_Apply = \<lambda>a w.
        (None, w\<lparr>dw_Labels := AList.update (applied_id a) (dm_Labels (applied_meta a)) (dw_Labels w),
                 dw_Applied := a # filter (\<lambda>b. applied_id b \<noteq> applied_id a) (dw_Applied w)\<rparr>),
      d_Delete = \<lambda>key w.
        (if map_of (dw_Labels w) key = None then (Some (NotFound ''not found''), w)
         else (None, w\<lparr>dw_Labels := AList.delete key (dw_Labels w),
                       dw_Applied := filter (\<lambda>b. applied_id b \<noteq> key) (dw_Applied w)\<rparr>))\<rparr>"

definition absent :: "obj_id \<Rightarrow> dash_world \<Rightarrow> bool" where
  "absent key w \<longleftrightarrow> map_of (dw_Labels w) key = None"

lemma delete_api_sample: "delete_api sample_dash_client absent"
  unfolding delete_api_def by (simp add: sample_dash_client_def absent_def delete_conv' split: option.split)

lemma apply_api_sample: "apply_api sample_dash_client (\<lambda>a w. a \<in> set (dw_Applied w)) absent"
  unfolding apply_api_def
  by (simp add: sample_dash_client_def absent_def delete_conv' update_conv' applied_id_def split: option.split)

definition sample_dash :: "bool \<Rightarrow> (dash_world, string) Reconciler" where
  "sample_dash enabled =
     \<lparr>dr_Client = sample_dash_client, dr_Config = sample_config\<lparr>cfg_Enabled := enabled, cfg_OCISecrets := []\<rparr>,
      dr_ParseQuantity = sample_quantity, dr_JSON = \<lparr>j_Unmarshal = \<lambda>_. Inl ''invalid'', j_Marshal = \<lambda>_. ''''\<rparr>,
      dr_Base64Error = \<lambda>_. ''''\<rparr>"


lemma sample_deployment: "\<exists>d. deploymentAC sample_quantity (dr_Config (sample_dash True)) = Ret d"
  by (intro deploymentAC_returns[of _ _ "_ :: string ResourceRequirements"])
     (simp add: sample_dash_def sample_config_def BuildResources_def DefaultResources_def set_request_def set_limit_def
       MustParse_def sample_quantity_def)

lemma sample_calls [simp]:
  "fst (d_Apply sample_dash_client a w) = None" "fst (d_CreateNamespace sample_dash_client ns labels w) = None"
  by (simp_all add: sample_dash_client_def)

text \<open>With no secrets configured an attempt on a cluster that has no managed secret succeeds.\<close>

lemma sample_dash_attempt: "\<exists>res w'. dash_Reconcile (sample_dash True) \<lparr>dw_Labels = [], dw_Applied = []\<rparr> = Ret ((res, None), w')"
proof -
  obtain d where d: "deploymentAC sample_quantity (dr_Config (sample_dash True)) = Ret d"
    using sample_deployment by blast
  then show ?thesis
    using d[unfolded sample_dash_def, simplified]
    by (simp add: dash_Reconcile_def dash_step_def ensureNamespace_def reconcileServiceAccount_def reconcileClusterRole_def
        reconcileClusterRoleBinding_def reconcileOCICredentials_def reconcileDeployment_def reconcileService_def failed_def
        sample_dash_def sample_dash_client_def update_conv' applied_ids EffectiveOCISecrets_def sample_config_def Let_def)
qed


theorem dash_Reconcile_converges_witness:
  "\<exists>res w' d. dash_Reconcile (sample_dash True) \<lparr>dw_Labels = [], dw_Applied = []\<rparr> = Ret ((res, None), w') \<and>
     ApplyDeployment d \<in> set (dw_Applied w') \<and> ApplyService (serviceAC (dr_Config (sample_dash True))) \<in> set (dw_Applied w')"
proof -
  obtain res w' where run: "dash_Reconcile (sample_dash True) \<lparr>dw_Labels = [], dw_Applied = []\<rparr> = Ret ((res, None), w')"
    using sample_dash_attempt by blast
  have api: "apply_api (dr_Client (sample_dash True)) (\<lambda>a w. a \<in> set (dw_Applied w)) absent"
    "cfg_Enabled (dr_Config (sample_dash True))"
    using apply_api_sample by (simp_all add: sample_dash_def)
  from dash_Reconcile_converges[OF api run] obtain d where
    "list_all (\<lambda>a. a \<in> set (dw_Applied w') \<and> managed (dr_Config (sample_dash True)) a) (desired (dr_Config (sample_dash True)) d)"
    by blast
  with run show ?thesis
    by (auto simp: desired_def)
qed

text \<open>A labelled Service is removed, a Deployment of the same name that someone else made is not.\<close>

definition mixed_world :: dash_world where
  "mixed_world =
     \<lparr>dw_Labels = [((''Service'', (''pacto-system'', Name)), Labels), ((''Deployment'', (''pacto-system'', Name)), [])],
      dw_Applied = []\<rparr>"

theorem cleanup_removes_only_own_witness:
  "\<exists>w'. cleanup (sample_dash False) mixed_world = (None, w') \<and> absent (''Service'', (''pacto-system'', Name)) w' \<and>
     d_Get sample_dash_client (''Deployment'', (''pacto-system'', Name)) w' = Inr []"
proof -
  have [simp]: "\<not> ours []"
    by (simp add: ours_def label_value_def dashboard_names)
  have "fst (cleanup (sample_dash False) mixed_world) = None"
    by (simp add: cleanup_def cleanup_loop.simps cleanup_resources_def sample_dash_def sample_dash_client_def sample_config_def
        mixed_world_def label_value_def Labels_def dashboard_names Let_def)
  then obtain w' where run: "cleanup (sample_dash False) mixed_world = (None, w')"
    by (metis prod.collapse)
  have api: "delete_api (dr_Client (sample_dash False)) absent" and client: "dr_Client (sample_dash False) = sample_dash_client"
    using delete_api_sample by (simp_all add: sample_dash_def)
  have get: "d_Get sample_dash_client (''Service'', (''pacto-system'', Name)) mixed_world = Inr Labels"
    "d_Get sample_dash_client (''Deployment'', (''pacto-system'', Name)) mixed_world = Inr []"
    by (simp_all add: sample_dash_client_def mixed_world_def)
  have member: "(''Service'', (''pacto-system'', Name)) \<in> snd ` set (cleanup_resources (dr_Config (sample_dash False)))"
    by (simp add: cleanup_resources_def sample_dash_def sample_config_def Let_def)
  note result = cleanup_removes_only_own[OF api run, unfolded client]
  have "absent (''Service'', (''pacto-system'', Name)) w'"
    using bspec[OF mp[OF conjunct2[OF result] refl] member] get(1) by simp
  moreover have "d_Get sample_dash_client (''Deployment'', (''pacto-system'', Name)) w' = Inr []"
    using spec[OF conjunct1[OF result], of "(''Deployment'', (''pacto-system'', Name))"] get(2) by simp
  ultimately show ?thesis
    using run by blast
qed

theorem Start_survives_witness:
  "\<exists>r :: (dash_world, string) Reconciler. \<exists>w'. dr_Client r = sample_dash_client \<and> dr_Config r = sample_config \<and>
     Start r (\<lambda>_ w. w) 3 \<lparr>dw_Labels = [], dw_Applied = []\<rparr> =
       Ret (Some ''initial dashboard reconciliation failed: oci credentials: reading OCI secret \"ghcr\": not found'', w')"
proof -
  define r where "r = (sample_dash True)\<lparr>dr_Config := sample_config\<rparr>"
  have start: "quantity_api (dr_ParseQuantity r)"
    "main_config (dr_ParseQuantity r) sample_flags ''ghcr.io/org/dash:1.2.0''
       (\<lambda>v. if v = ''POD_NAMESPACE'' then ''pacto-system'' else '''') (\<lambda>_. Inl (NotFound '''')) = Inr (dr_Config r)"
    using quantity_api_sample sample_start by (simp_all add: r_def sample_dash_def)
  have "\<exists>res w1. dash_Reconcile r \<lparr>dw_Labels = [], dw_Applied = []\<rparr> =
    Ret ((res, Some ''oci credentials: reading OCI secret \"ghcr\": not found''), w1)"
    by (simp add: r_def dash_Reconcile_def dash_step_def ensureNamespace_def reconcileServiceAccount_def reconcileClusterRole_def
        reconcileClusterRoleBinding_def reconcileOCICredentials_def failed_def sample_dash_def sample_dash_client_def
        update_conv' applied_ids EffectiveOCISecrets_def sample_config_def show_q_def quote_byte_def Let_def)
  with Start_survives[OF start, of "\<lparr>dw_Labels = [], dw_Applied = []\<rparr>" "\<lambda>_ w. w" 3] show ?thesis
    by (intro exI[of _ r]) (auto simp: r_def sample_dash_def)
qed

end
