(* ===== verification/Entry_Point.thy ===== *)
theory Entry_Point
  imports Dashboard Event_Handler
begin

text \<open>
  The entry point (\<^verbatim>\<open>cmd/main.go\<close>): the flags, the options of the servers and of the manager, and the
  set-up steps in their order with their exits. Flags are parsed as the standard library's \<open>flag\<close>
  package parses them. The manager, its client, the API server, the environment and the flags that
  other packages register are parameters.
\<close>

section \<open>Flags\<close>

record main_flags = flags +
  fl_MetricsAddr :: string
  fl_MetricsCertPath :: string
  fl_MetricsCertName :: string
  fl_MetricsCertKey :: string
  fl_WebhookCertPath :: string
  fl_WebhookCertName :: string
  fl_WebhookCertKey :: string
  fl_EnableLeaderElection :: bool
  fl_ProbeAddr :: string
  fl_SecureMetrics :: bool
  fl_EnableHTTP2 :: bool
  fl_ShowVersion :: bool

text \<open>Go's zero values, before any flag is registered.\<close>

definition zero_flags :: main_flags where
  "zero_flags =
     \<lparr>fl_EnableDashboard = False, fl_WatchNamespace = '''', fl_DashboardOCISecret = '''', fl_DashboardOCISecrets = '''',
      fl_DashboardCPURequest = '''', fl_DashboardCPULimit = '''', fl_DashboardMemoryRequest = '''',
      fl_DashboardMemoryLimit = '''', fl_MetricsAddr = '''', fl_MetricsCertPath = '''', fl_MetricsCertName = '''',
      fl_MetricsCertKey = '''', fl_WebhookCertPath = '''', fl_WebhookCertName = '''', fl_WebhookCertKey = '''',
      fl_EnableLeaderElection = False, fl_ProbeAddr = '''', fl_SecureMetrics = False, fl_EnableHTTP2 = False,
      fl_ShowVersion = False\<rparr>"

text \<open>
  A flag of \<open>main\<close> is the variable it sets and its default; a flag of another package (\<open>zap\<close>, the
  kubeconfig flag) is whether it is boolean and the error its value is refused with.
\<close>

datatype flag_var =
    StringVar "string \<Rightarrow> main_flags \<Rightarrow> main_flags" string
  | BoolVar "bool \<Rightarrow> main_flags \<Rightarrow> main_flags" bool
  | OtherVar bool "string \<Rightarrow> string option"

definition CommandLine :: "(string \<times> flag_var) list" where
  "CommandLine =
     [(''metrics-bind-address'', StringVar (\<lambda>v. fl_MetricsAddr_update (\<lambda>_. v)) '':8080''),
      (''health-probe-bind-address'', StringVar (\<lambda>v. fl_ProbeAddr_update (\<lambda>_. v)) '':8081''),
      (''leader-elect'', BoolVar (\<lambda>v. fl_EnableLeaderElection_update (\<lambda>_. v)) False),
      (''metrics-secure'', BoolVar (\<lambda>v. fl_SecureMetrics_update (\<lambda>_. v)) False),
      (''webhook-cert-path'', StringVar (\<lambda>v. fl_WebhookCertPath_update (\<lambda>_. v)) ''''),
      (''webhook-cert-name'', StringVar (\<lambda>v. fl_WebhookCertName_update (\<lambda>_. v)) ''tls.crt''),
      (''webhook-cert-key'', StringVar (\<lambda>v. fl_WebhookCertKey_update (\<lambda>_. v)) ''tls.key''),
      (''metrics-cert-path'', StringVar (\<lambda>v. fl_MetricsCertPath_update (\<lambda>_. v)) ''''),
      (''metrics-cert-name'', StringVar (\<lambda>v. fl_MetricsCertName_update (\<lambda>_. v)) ''tls.crt''),
      (''metrics-cert-key'', StringVar (\<lambda>v. fl_MetricsCertKey_update (\<lambda>_. v)) ''tls.key''),
      (''enable-http2'', BoolVar (\<lambda>v. fl_EnableHTTP2_update (\<lambda>_. v)) False),
      (''enable-dashboard'', BoolVar (\<lambda>v. fl_EnableDashboard_update (\<lambda>_. v)) False),
      (''watch-namespace'', StringVar (\<lambda>v. fl_WatchNamespace_update (\<lambda>_. v)) ''''),
      (''dashboard-oci-secret'', StringVar (\<lambda>v. fl_DashboardOCISecret_update (\<lambda>_. v)) ''''),
      (''dashboard-oci-secrets'', StringVar (\<lambda>v. fl_DashboardOCISecrets_update (\<lambda>_. v)) ''''),
      (''dashboard-cpu-request'', StringVar (\<lambda>v. fl_DashboardCPURequest_update (\<lambda>_. v)) ''''),
      (''dashboard-cpu-limit'', StringVar (\<lambda>v. fl_DashboardCPULimit_update (\<lambda>_. v)) ''''),
      (''dashboard-memory-request'', StringVar (\<lambda>v. fl_DashboardMemoryRequest_update (\<lambda>_. v)) ''''),
      (''dashboard-memory-limit'', StringVar (\<lambda>v. fl_DashboardMemoryLimit_update (\<lambda>_. v)) ''''),
      (''version'', BoolVar (\<lambda>v. fl_ShowVersion_update (\<lambda>_. v)) False)]"

text \<open>Registering a flag assigns its default to its variable.\<close>

fun register :: "flag_var \<Rightarrow> main_flags \<Rightarrow> main_flags" where
  "register (StringVar upd v) f = upd v f"
| "register (BoolVar upd v) f = upd v f"
| "register (OtherVar _ _) f = f"

definition default_flags :: main_flags where
  "default_flags = fold (\<lambda>(name, var). register var) CommandLine zero_flags"

definition ParseBool :: "string \<Rightarrow> bool option" where
  "ParseBool s =
     (if s \<in> set [''1'', ''t'', ''T'', ''true'', ''TRUE'', ''True''] then Some True
      else if s \<in> set [''0'', ''f'', ''F'', ''false'', ''FALSE'', ''False''] then Some False
      else None)"

fun IsBoolFlag :: "flag_var \<Rightarrow> bool" where
  "IsBoolFlag (StringVar _ _) = False"
| "IsBoolFlag (BoolVar _ _) = True"
| "IsBoolFlag (OtherVar b _) = b"

fun Set_flag :: "flag_var \<Rightarrow> string \<Rightarrow> main_flags \<Rightarrow> string + main_flags" where
  "Set_flag (StringVar upd _) v f = Inr (upd v f)"
| "Set_flag (BoolVar upd _) v f = (case ParseBool v of None \<Rightarrow> Inl ''parse error'' | Some b \<Rightarrow> Inr (upd b f))"
| "Set_flag (OtherVar _ accept) v f = (case accept v of Some err \<Rightarrow> Inl err | None \<Rightarrow> Inr f)"

text \<open>The name and the value after the first equals sign, which cannot be the first character.\<close>

fun split_value :: "string \<Rightarrow> string \<times> string option" where
  "split_value [] = ([], None)"
| "split_value (c # cs) =
     (let (name, rest) = (takeWhile (\<lambda>d. d \<noteq> CHR ''='') cs, dropWhile (\<lambda>d. d \<noteq> CHR ''='') cs)
      in (c # name, case rest of [] \<Rightarrow> None | _ # v \<Rightarrow> Some v))"

datatype flag_stop = ErrHelp | FlagError string

fun Parse :: "(string \<times> flag_var) list \<Rightarrow> string list \<Rightarrow> main_flags \<Rightarrow> flag_stop + main_flags" where
  "Parse formal [] f = Inr f"
| "Parse formal (s # args) f =
     (if length s < 2 \<or> s ! 0 \<noteq> CHR ''-'' then Inr f
      else if s = ''--'' then Inr f
      else
        (let flagText = (if s ! 1 = CHR ''-'' then drop 2 s else drop 1 s)
         in if flagText = '''' \<or> hd flagText = CHR ''-'' \<or> hd flagText = CHR ''='' then
              Inl (FlagError (''bad flag syntax: '' @ s))
            else
              (case split_value flagText of
                 (name, val) \<Rightarrow>
                   (case map_of formal name of
                      None \<Rightarrow>
                        Inl (if name = ''help'' \<or> name = ''h'' then ErrHelp
                             else FlagError (''flag provided but not defined: -'' @ name))
                    | Some var \<Rightarrow>
                        if IsBoolFlag var then
                          (case val of
                             Some v \<Rightarrow>
                               (case Set_flag var v f of
                                  Inl err \<Rightarrow>
                                    Inl (FlagError (''invalid boolean value '' @ show_q v @ '' for -'' @ name @ '': '' @ err))
                                | Inr f \<Rightarrow> Parse formal args f)
                           | None \<Rightarrow>
                               (case Set_flag var ''true'' f of
                                  Inl err \<Rightarrow> Inl (FlagError (''invalid boolean flag '' @ name @ '': '' @ err))
                                | Inr f \<Rightarrow> Parse formal args f))
                        else
                          (case val of
                             Some v \<Rightarrow>
                               (case Set_flag var v f of
                                  Inl err \<Rightarrow>
                                    Inl (FlagError (''invalid value '' @ show_q v @ '' for flag -'' @ name @ '': '' @ err))
                                | Inr f \<Rightarrow> Parse formal args f)
                           | None \<Rightarrow>
                               (case args of
                                  [] \<Rightarrow> Inl (FlagError (''flag needs an argument: -'' @ name))
                                | v # args \<Rightarrow>
                                    (case Set_flag var v f of
                                       Inl err \<Rightarrow>
                                         Inl (FlagError (''invalid value '' @ show_q v @ '' for flag -'' @ name @ '': '' @ err))
                                     | Inr f \<Rightarrow> Parse formal args f)))))))"

section \<open>The scheme\<close>

text \<open>
  The kinds that the clients know: those of client-go, which is a parameter (its registration may
  fail), and those that \<^verbatim>\<open>api/v1alpha1\<close> registers. \<open>utilruntime.Must\<close> panics on an error.
\<close>

type_synonym scheme = "(string \<times> string \<times> string) list"

definition GroupVersion :: "string \<times> string" where
  "GroupVersion = (''pacto.trianalab.io'', ''v1alpha1'')"

definition registered_kinds :: "string list" where
  "registered_kinds = [''Pacto'', ''PactoList'', ''PactoRevision'', ''PactoRevisionList'']"

definition AddToScheme :: "scheme \<Rightarrow> scheme" where
  "AddToScheme s = s @ map (\<lambda>kind. (fst GroupVersion, snd GroupVersion, kind)) registered_kinds"

definition init :: "(scheme \<Rightarrow> string + scheme) \<Rightarrow> scheme go" where
  "init clientgo = (case clientgo [] of Inl err \<Rightarrow> Panic | Inr s \<Rightarrow> Ret (AddToScheme s))"

section \<open>Options\<close>

record tls_Config =
  tls_NextProtos :: "string list"

type_synonym tls_option = "tls_Config \<Rightarrow> tls_Config"

definition disableHTTP2 :: tls_option where
  "disableHTTP2 c = c\<lparr>tls_NextProtos := [''http/1.1'']\<rparr>"

definition tlsOpts :: "main_flags \<Rightarrow> tls_option list" where
  "tlsOpts f = (if \<not> fl_EnableHTTP2 f then [disableHTTP2] else [])"

record webhook_Options =
  wo_TLSOpts :: "tls_option list"
  wo_CertDir :: string
  wo_CertName :: string
  wo_KeyName :: string

definition webhookServerOptions :: "main_flags \<Rightarrow> webhook_Options" where
  "webhookServerOptions f =
     (let opts = \<lparr>wo_TLSOpts = tlsOpts f, wo_CertDir = '''', wo_CertName = '''', wo_KeyName = ''''\<rparr>
      in if 0 < length (fl_WebhookCertPath f) then
           opts\<lparr>wo_CertDir := fl_WebhookCertPath f, wo_CertName := fl_WebhookCertName f,
                wo_KeyName := fl_WebhookCertKey f\<rparr>
         else opts)"

datatype filter_provider = WithAuthenticationAndAuthorization

record metrics_Options =
  mo_BindAddress :: string
  mo_SecureServing :: bool
  mo_TLSOpts :: "tls_option list"
  mo_FilterProvider :: "filter_provider option"
  mo_CertDir :: string
  mo_CertName :: string
  mo_KeyName :: string

definition metricsServerOptions :: "main_flags \<Rightarrow> metrics_Options" where
  "metricsServerOptions f =
     (let opts = \<lparr>mo_BindAddress = fl_MetricsAddr f, mo_SecureServing = fl_SecureMetrics f, mo_TLSOpts = tlsOpts f,
                  mo_FilterProvider = None, mo_CertDir = '''', mo_CertName = '''', mo_KeyName = ''''\<rparr>;
          opts = (if fl_SecureMetrics f then opts\<lparr>mo_FilterProvider := Some WithAuthenticationAndAuthorization\<rparr> else opts)
      in if 0 < length (fl_MetricsCertPath f) then
           opts\<lparr>mo_CertDir := fl_MetricsCertPath f, mo_CertName := fl_MetricsCertName f,
                mo_KeyName := fl_MetricsCertKey f\<rparr>
         else opts)"

text \<open>The namespaces of the cache: none given means all of them.\<close>

record ctrl_Options =
  co_Scheme :: scheme
  co_Metrics :: metrics_Options
  co_WebhookServer :: webhook_Options
  co_HealthProbeBindAddress :: string
  co_LeaderElection :: bool
  co_LeaderElectionID :: string
  co_DefaultNamespaces :: "string list"

definition mgrOpts :: "scheme \<Rightarrow> main_flags \<Rightarrow> ctrl_Options" where
  "mgrOpts scheme f =
     (let opts = \<lparr>co_Scheme = scheme, co_Metrics = metricsServerOptions f, co_WebhookServer = webhookServerOptions f,
                  co_HealthProbeBindAddress = fl_ProbeAddr f, co_LeaderElection = fl_EnableLeaderElection f,
                  co_LeaderElectionID = ''a4917283.pacto.io'', co_DefaultNamespaces = []\<rparr>
      in if fl_WatchNamespace f \<noteq> '''' then opts\<lparr>co_DefaultNamespaces := [fl_WatchNamespace f]\<rparr> else opts)"

section \<open>Set-up\<close>

record build_info =
  bi_version :: string
  bi_gitCommit :: string
  bi_buildDate :: string
  bi_dashboardImage :: string

text \<open>What the builder of the controller is told: its name, the kind it is for, those it owns and watches.\<close>

record controller =
  ct_Name :: string
  ct_For :: string
  ct_Owns :: "string list"
  ct_Watches :: "string list"

definition pacto_controller :: controller where
  "pacto_controller =
     \<lparr>ct_Name = ''pacto'', ct_For = ''Pacto'', ct_Owns = [''PactoRevision''], ct_Watches = map fst SetupWithManager\<rparr>"

text \<open>
  What \<open>main\<close> relies on: the environment, the manager and its calls, the client it hands out (which
  depends on the options the manager was made with), and the codecs the dashboard uses. A call gives
  its error, if any. \<open>pl_GetConfig\<close> is \<open>GetConfigOrDie\<close>, which exits itself when it fails.
\<close>

record ('w, 'q) platform =
  pl_Getenv :: "string \<Rightarrow> string"
  pl_ClientGo :: "scheme \<Rightarrow> string + scheme"
  pl_OtherFlags :: "(string \<times> flag_var) list"
  pl_GetConfig :: "'w \<Rightarrow> bool \<times> 'w"
  pl_NewManager :: "ctrl_Options \<Rightarrow> 'w \<Rightarrow> string option \<times> 'w"
  pl_Complete :: "controller \<Rightarrow> 'w \<Rightarrow> string option \<times> 'w"
  pl_GetDeployment :: "key \<Rightarrow> 'w \<Rightarrow> api_error + string \<times> string"
  pl_Client :: "ctrl_Options \<Rightarrow> ('w, 'q) dash_client"
  pl_Add :: "('w, 'q) Reconciler \<Rightarrow> 'w \<Rightarrow> string option \<times> 'w"
  pl_AddHealthzCheck :: "string \<Rightarrow> 'w \<Rightarrow> string option \<times> 'w"
  pl_AddReadyzCheck :: "string \<Rightarrow> 'w \<Rightarrow> string option \<times> 'w"
  pl_Start :: "ctrl_Options \<Rightarrow> ('w, 'q) Reconciler \<Rightarrow> 'w \<Rightarrow> string option \<times> 'w"
  pl_ParseQuantity :: "'q parser"
  pl_JSON :: json_codec
  pl_Base64Error :: "string \<Rightarrow> string"

text \<open>How the process ends: by the flag package, after printing the version, with a logged error, or by returning.\<close>

datatype ending =
    Stopped flag_stop
  | Printed string
  | Fatal string
  | Finished

fun exit_status :: "ending \<Rightarrow> nat" where
  "exit_status (Stopped ErrHelp) = 0"
| "exit_status (Stopped (FlagError _)) = 2"
| "exit_status (Printed _) = 0"
| "exit_status (Fatal _) = 1"
| "exit_status Finished = 0"

definition version_text :: "build_info \<Rightarrow> string" where
  "version_text b =
     ''pacto-operator '' @ bi_version b @ '' (commit: '' @ bi_gitCommit b @ '', built: '' @ bi_buildDate b @ '')'' @ [CHR 0x0A] @
     ''dashboard-image: '' @ bi_dashboardImage b @ [CHR 0x0A]"

definition or_exit :: "string option \<times> 'w \<Rightarrow> string \<Rightarrow> ('w \<Rightarrow> ending \<times> 'w) \<Rightarrow> ending \<times> 'w" where
  "or_exit result msg rest =
     (case result of (Some err, w) \<Rightarrow> (Fatal (msg @ '': '' @ err), w) | (None, w) \<Rightarrow> rest w)"

definition dashReconciler :: "('w, 'q) platform \<Rightarrow> ctrl_Options \<Rightarrow> Config \<Rightarrow> ('w, 'q) Reconciler" where
  "dashReconciler p opts dashCfg =
     \<lparr>dr_Client = pl_Client p opts, dr_Config = dashCfg, dr_ParseQuantity = pl_ParseQuantity p, dr_JSON = pl_JSON p,
      dr_Base64Error = pl_Base64Error p\<rparr>"

definition run_manager :: "('w, 'q) platform \<Rightarrow> ctrl_Options \<Rightarrow> Config \<Rightarrow> 'w \<Rightarrow> ending \<times> 'w" where
  "run_manager p opts dashCfg w =
     (let dash = dashReconciler p opts dashCfg
      in or_exit (pl_Add p dash w) ''Failed to add dashboard reconciler'' (\<lambda>w.
         or_exit (pl_AddHealthzCheck p ''healthz'' w) ''Failed to set up health check'' (\<lambda>w.
         or_exit (pl_AddReadyzCheck p ''readyz'' w) ''Failed to set up ready check'' (\<lambda>w.
         or_exit (pl_Start p opts dash w) ''Failed to run manager'' (\<lambda>w. (Finished, w))))))"

definition main :: "('w, 'q) platform \<Rightarrow> scheme \<Rightarrow> build_info \<Rightarrow> string list \<Rightarrow> 'w \<Rightarrow> ending \<times> 'w" where
  "main p scheme b args w =
     (case Parse (CommandLine @ pl_OtherFlags p) args default_flags of
        Inl stop \<Rightarrow> (Stopped stop, w)
      | Inr f \<Rightarrow>
          if fl_ShowVersion f then (Printed (version_text b), w)
          else
            (let opts = mgrOpts scheme f
             in case pl_GetConfig p w of
                  (False, w) \<Rightarrow> (Fatal ''unable to get kubeconfig'', w)
                | (True, w) \<Rightarrow>
                    or_exit (pl_NewManager p opts w) ''Failed to start manager'' (\<lambda>w.
                    or_exit (pl_Complete p pacto_controller w) ''Failed to create controller'' (\<lambda>w.
                      case main_config (pl_ParseQuantity p) (flags.truncate f) (bi_dashboardImage b) (pl_Getenv p)
                             (\<lambda>key. pl_GetDeployment p key w) of
                        Inl msg \<Rightarrow> (Fatal msg, w)
                      | Inr dashCfg \<Rightarrow> run_manager p opts dashCfg w))))"

text \<open>The program: the package initialisation, then \<open>main\<close>.\<close>

definition program :: "('w, 'q) platform \<Rightarrow> build_info \<Rightarrow> string list \<Rightarrow> 'w \<Rightarrow> (ending \<times> 'w) go" where
  "program p b args w = (case init (pl_ClientGo p) of Panic \<Rightarrow> Panic | Ret scheme \<Rightarrow> Ret (main p scheme b args w))"

section \<open>Every configuration can be given on the command line\<close>

text \<open>The four ways to write a flag with its value; a boolean flag takes its value only after an equals sign.\<close>

datatype spelling = EqualsTwo | EqualsOne | NextTwo | NextOne

fun spell :: "spelling \<Rightarrow> string \<Rightarrow> string \<Rightarrow> string list" where
  "spell EqualsTwo name v = [''--'' @ name @ ''='' @ v]"
| "spell EqualsOne name v = [''-'' @ name @ ''='' @ v]"
| "spell NextTwo name v = [''--'' @ name, v]"
| "spell NextOne name v = [''-'' @ name, v]"

definition spell_bool :: "spelling \<Rightarrow> string \<Rightarrow> bool \<Rightarrow> string list" where
  "spell_bool sp name v =
     spell (case sp of NextTwo \<Rightarrow> EqualsTwo | NextOne \<Rightarrow> EqualsOne | _ \<Rightarrow> sp) name (if v then ''true'' else ''false'')"

definition command_line :: "(string \<Rightarrow> spelling) \<Rightarrow> main_flags \<Rightarrow> string list" where
  "command_line sp f =
     (let str = \<lambda>name. spell (sp name) name; bool = \<lambda>name. spell_bool (sp name) name
      in str ''metrics-bind-address'' (fl_MetricsAddr f) @ str ''health-probe-bind-address'' (fl_ProbeAddr f) @
         bool ''leader-elect'' (fl_EnableLeaderElection f) @ bool ''metrics-secure'' (fl_SecureMetrics f) @
         str ''webhook-cert-path'' (fl_WebhookCertPath f) @ str ''webhook-cert-name'' (fl_WebhookCertName f) @
         str ''webhook-cert-key'' (fl_WebhookCertKey f) @ str ''metrics-cert-path'' (fl_MetricsCertPath f) @
         str ''metrics-cert-name'' (fl_MetricsCertName f) @ str ''metrics-cert-key'' (fl_MetricsCertKey f) @
         bool ''enable-http2'' (fl_EnableHTTP2 f) @ bool ''enable-dashboard'' (fl_EnableDashboard f) @
         str ''watch-namespace'' (fl_WatchNamespace f) @ str ''dashboard-oci-secret'' (fl_DashboardOCISecret f) @
         str ''dashboard-oci-secrets'' (fl_DashboardOCISecrets f) @
         str ''dashboard-cpu-request'' (fl_DashboardCPURequest f) @ str ''dashboard-cpu-limit'' (fl_DashboardCPULimit f) @
         str ''dashboard-memory-request'' (fl_DashboardMemoryRequest f) @
         str ''dashboard-memory-limit'' (fl_DashboardMemoryLimit f) @ bool ''version'' (fl_ShowVersion f))"

definition flag_name :: "string \<Rightarrow> bool" where
  "flag_name name \<longleftrightarrow> name \<noteq> '''' \<and> CHR ''='' \<notin> set name \<and> hd name \<noteq> CHR ''-''"

lemma cut_at:
  assumes "c \<notin> set xs"
  shows "takeWhile (\<lambda>d. d \<noteq> c) xs = xs" "dropWhile (\<lambda>d. d \<noteq> c) xs = []"
    "takeWhile (\<lambda>d. d \<noteq> c) (xs @ c # ys) = xs" "dropWhile (\<lambda>d. d \<noteq> c) (xs @ c # ys) = c # ys"
  using assms by (induction xs) auto

lemma split_value_plain: "flag_name name \<Longrightarrow> split_value name = (name, None)"
  by (cases name) (auto simp: flag_name_def cut_at)

lemma split_value_assigned: "flag_name name \<Longrightarrow> split_value (name @ CHR ''='' # v) = (name, Some v)"
  by (cases name) (auto simp: flag_name_def cut_at)

lemma flag_name_parts:
  assumes "flag_name name"
  obtains c cs where "name = c # cs" "c \<noteq> CHR ''-''" "c \<noteq> CHR ''=''"
  using assms by (cases name) (auto simp: flag_name_def)

lemma Parse_assigned:
  assumes "flag_name name" "map_of formal name = Some var" "Set_flag var v f = Inr f'" "sp = EqualsTwo \<or> sp = EqualsOne"
  shows "Parse formal (spell sp name v @ args) f = Parse formal args f'"
proof -
  obtain c cs where name: "name = c # cs" "c \<noteq> CHR ''-''" "c \<noteq> CHR ''=''"
    using flag_name_parts[OF assms(1)] .
  with assms split_value_assigned[OF assms(1), of v] show ?thesis
    by (auto simp del: split_value.simps)
qed

lemma Parse_separate:
  assumes "flag_name name" "map_of formal name = Some var" "Set_flag var v f = Inr f'" "\<not> IsBoolFlag var"
    "sp = NextTwo \<or> sp = NextOne"
  shows "Parse formal (spell sp name v @ args) f = Parse formal args f'"
proof -
  obtain c cs where name: "name = c # cs" "c \<noteq> CHR ''-''" "c \<noteq> CHR ''=''"
    using flag_name_parts[OF assms(1)] .
  with assms split_value_plain[OF assms(1)] show ?thesis
    by (auto simp del: split_value.simps)
qed

lemma Parse_string:
  assumes "flag_name name" "map_of formal name = Some (StringVar upd d)"
  shows "Parse formal (spell sp name v @ args) f = Parse formal args (upd v f)"
  by (cases sp) (simp_all only: Parse_assigned[OF assms] Parse_separate[OF assms] Set_flag.simps IsBoolFlag.simps simp_thms)

lemma Parse_bool:
  assumes "flag_name name" "map_of formal name = Some (BoolVar upd d)"
  shows "Parse formal (spell_bool sp name v @ args) f = Parse formal args (upd v f)"
proof -
  have "Set_flag (BoolVar upd d) (if v then ''true'' else ''false'') f = Inr (upd v f)"
    by (simp add: ParseBool_def)
  from Parse_assigned[OF assms this] show ?thesis
    by (cases sp) (simp_all only: spell_bool_def spelling.case simp_thms)
qed

lemma flag_vars:
  "map_of CommandLine ''metrics-bind-address'' = Some (StringVar (\<lambda>v. fl_MetricsAddr_update (\<lambda>_. v)) '':8080'')"
  "map_of CommandLine ''health-probe-bind-address'' = Some (StringVar (\<lambda>v. fl_ProbeAddr_update (\<lambda>_. v)) '':8081'')"
  "map_of CommandLine ''leader-elect'' = Some (BoolVar (\<lambda>v. fl_EnableLeaderElection_update (\<lambda>_. v)) False)"
  "map_of CommandLine ''metrics-secure'' = Some (BoolVar (\<lambda>v. fl_SecureMetrics_update (\<lambda>_. v)) False)"
  "map_of CommandLine ''webhook-cert-path'' = Some (StringVar (\<lambda>v. fl_WebhookCertPath_update (\<lambda>_. v)) '''')"
  "map_of CommandLine ''webhook-cert-name'' = Some (StringVar (\<lambda>v. fl_WebhookCertName_update (\<lambda>_. v)) ''tls.crt'')"
  "map_of CommandLine ''webhook-cert-key'' = Some (StringVar (\<lambda>v. fl_WebhookCertKey_update (\<lambda>_. v)) ''tls.key'')"
  "map_of CommandLine ''metrics-cert-path'' = Some (StringVar (\<lambda>v. fl_MetricsCertPath_update (\<lambda>_. v)) '''')"
  "map_of CommandLine ''metrics-cert-name'' = Some (StringVar (\<lambda>v. fl_MetricsCertName_update (\<lambda>_. v)) ''tls.crt'')"
  "map_of CommandLine ''metrics-cert-key'' = Some (StringVar (\<lambda>v. fl_MetricsCertKey_update (\<lambda>_. v)) ''tls.key'')"
  "map_of CommandLine ''enable-http2'' = Some (BoolVar (\<lambda>v. fl_EnableHTTP2_update (\<lambda>_. v)) False)"
  "map_of CommandLine ''enable-dashboard'' = Some (BoolVar (\<lambda>v. fl_EnableDashboard_update (\<lambda>_. v)) False)"
  "map_of CommandLine ''watch-namespace'' = Some (StringVar (\<lambda>v. fl_WatchNamespace_update (\<lambda>_. v)) '''')"
  "map_of CommandLine ''dashboard-oci-secret'' = Some (StringVar (\<lambda>v. fl_DashboardOCISecret_update (\<lambda>_. v)) '''')"
  "map_of CommandLine ''dashboard-oci-secrets'' = Some (StringVar (\<lambda>v. fl_DashboardOCISecrets_update (\<lambda>_. v)) '''')"
  "map_of CommandLine ''dashboard-cpu-request'' = Some (StringVar (\<lambda>v. fl_DashboardCPURequest_update (\<lambda>_. v)) '''')"
  "map_of CommandLine ''dashboard-cpu-limit'' = Some (StringVar (\<lambda>v. fl_DashboardCPULimit_update (\<lambda>_. v)) '''')"
  "map_of CommandLine ''dashboard-memory-request'' = Some (StringVar (\<lambda>v. fl_DashboardMemoryRequest_update (\<lambda>_. v)) '''')"
  "map_of CommandLine ''dashboard-memory-limit'' = Some (StringVar (\<lambda>v. fl_DashboardMemoryLimit_update (\<lambda>_. v)) '''')"
  "map_of CommandLine ''version'' = Some (BoolVar (\<lambda>v. fl_ShowVersion_update (\<lambda>_. v)) False)"
  by (simp_all add: CommandLine_def)

lemma flag_names:
  "list_all flag_name (map fst CommandLine)"
  by (simp add: CommandLine_def flag_name_def)

lemma registered:
  assumes "map_of CommandLine name = Some var"
  shows "flag_name name" "map_of (CommandLine @ other) name = Some var"
  using flag_names map_of_SomeD[OF assms] assms by (auto simp: list_all_iff map_add_def)

lemma Parse_own_string:
  "map_of CommandLine name = Some (StringVar upd d) \<Longrightarrow>
     Parse (CommandLine @ other) (spell sp name v @ args) f = Parse (CommandLine @ other) args (upd v f)"
  by (rule Parse_string[OF registered])

lemma Parse_own_bool:
  "map_of CommandLine name = Some (BoolVar upd d) \<Longrightarrow>
     Parse (CommandLine @ other) (spell_bool sp name v @ args) f = Parse (CommandLine @ other) args (upd v f)"
  by (rule Parse_bool[OF registered])

lemmas parse_flag = flag_vars(1,2,5-10,13-19)[THEN Parse_own_string] flag_vars(3,4,11,12,20)[THEN Parse_own_bool]

text \<open>
  C29. Every configuration can be given on the command line, in any of the ways the flag package
  accepts: for any values of the flags, and any choice of spelling for each (one or two dashes, the
  value after an equals sign or, unless the flag is boolean, as the next argument), parsing gives
  exactly these values, whatever the flags were before and whatever flags other packages register;
  arguments that follow are parsed after that. In particular no value of one flag is taken for another
  flag, and no flag is missing from the command line or connected to the wrong variable.
\<close>

theorem flags_roundtrip:
  "Parse (CommandLine @ other) (command_line sp f @ args) f0 = Parse (CommandLine @ other) args f"
  unfolding command_line_def Let_def append_assoc parse_flag
  by (rule arg_cong[where f = "Parse _ _"], rule main_flags.equality) simp_all

section \<open>What the manager is started with\<close>

lemma or_exit_Finished:
  "or_exit result msg rest = (Finished, w') \<longleftrightarrow> (\<exists>u. result = (None, u) \<and> rest u = (Finished, w'))"
  by (cases result; cases "fst result") (auto simp: or_exit_def)

definition apply_tls :: "tls_option list \<Rightarrow> tls_Config \<Rightarrow> tls_Config" where
  "apply_tls opts c = fold (\<lambda>opt. opt) opts c"

text \<open>The options that a set of flags asks for.\<close>

definition asked_for :: "main_flags \<Rightarrow> ctrl_Options \<Rightarrow> bool" where
  "asked_for f opts \<longleftrightarrow>
     (\<forall>c. apply_tls (mo_TLSOpts (co_Metrics opts)) c = (if fl_EnableHTTP2 f then c else c\<lparr>tls_NextProtos := [''http/1.1'']\<rparr>)) \<and>
     (\<forall>c. apply_tls (wo_TLSOpts (co_WebhookServer opts)) c = (if fl_EnableHTTP2 f then c else c\<lparr>tls_NextProtos := [''http/1.1'']\<rparr>)) \<and>
     mo_SecureServing (co_Metrics opts) = fl_SecureMetrics f \<and>
     (mo_SecureServing (co_Metrics opts) \<longleftrightarrow> mo_FilterProvider (co_Metrics opts) \<noteq> None) \<and>
     mo_BindAddress (co_Metrics opts) = fl_MetricsAddr f \<and> co_HealthProbeBindAddress opts = fl_ProbeAddr f \<and>
     co_LeaderElection opts = fl_EnableLeaderElection f \<and>
     (\<forall>ns. ns \<in> set (co_DefaultNamespaces opts) \<longleftrightarrow> fl_WatchNamespace f \<noteq> '''' \<and> ns = fl_WatchNamespace f) \<and>
     (fl_MetricsCertPath f \<noteq> '''' \<longrightarrow>
        (mo_CertDir (co_Metrics opts), mo_CertName (co_Metrics opts), mo_KeyName (co_Metrics opts)) =
          (fl_MetricsCertPath f, fl_MetricsCertName f, fl_MetricsCertKey f)) \<and>
     (fl_WebhookCertPath f \<noteq> '''' \<longrightarrow>
        (wo_CertDir (co_WebhookServer opts), wo_CertName (co_WebhookServer opts), wo_KeyName (co_WebhookServer opts)) =
          (fl_WebhookCertPath f, fl_WebhookCertName f, fl_WebhookCertKey f))"

lemma mgrOpts_asked_for: "asked_for f (mgrOpts scheme f)"
  by (simp add: asked_for_def mgrOpts_def metricsServerOptions_def webhookServerOptions_def tlsOpts_def disableHTTP2_def
      apply_tls_def Let_def)

lemma run_manager_Finished:
  "run_manager p opts cfg w = (Finished, w') \<longleftrightarrow>
     (\<exists>w1 w2 w3. pl_Add p (dashReconciler p opts cfg) w = (None, w1) \<and> pl_AddHealthzCheck p ''healthz'' w1 = (None, w2) \<and>
        pl_AddReadyzCheck p ''readyz'' w2 = (None, w3) \<and> pl_Start p opts (dashReconciler p opts cfg) w3 = (None, w'))"
  by (simp add: run_manager_def Let_def or_exit_Finished)

lemma main_Finished:
  "main p scheme b args w = (Finished, w') \<longleftrightarrow>
     (\<exists>f cfg w1 w2 w3. Parse (CommandLine @ pl_OtherFlags p) args default_flags = Inr f \<and> \<not> fl_ShowVersion f \<and>
        pl_GetConfig p w = (True, w1) \<and> pl_NewManager p (mgrOpts scheme f) w1 = (None, w2) \<and>
        pl_Complete p pacto_controller w2 = (None, w3) \<and>
        main_config (pl_ParseQuantity p) (flags.truncate f) (bi_dashboardImage b) (pl_Getenv p)
          (\<lambda>key. pl_GetDeployment p key w3) = Inr cfg \<and> run_manager p (mgrOpts scheme f) cfg w3 = (Finished, w'))"
proof (cases "Parse (CommandLine @ pl_OtherFlags p) args default_flags")
  case (Inl stop)
  then show ?thesis
    by (simp add: main_def)
next
  case (Inr f)
  have config: "(case main_config pq g img env dep of Inl msg \<Rightarrow> (Fatal msg, u) | Inr cfg \<Rightarrow> run_manager p opts cfg u) = (Finished, w') \<longleftrightarrow>
      (\<exists>cfg. main_config pq g img env dep = Inr cfg \<and> run_manager p opts cfg u = (Finished, w'))" for pq g img env dep opts u
    by (cases "main_config pq g img env dep") simp_all
  have kube: "(case pl_GetConfig p w of (False, w) \<Rightarrow> (Fatal msg, w) | (True, w) \<Rightarrow> k w) = (Finished, w') \<longleftrightarrow>
      (\<exists>w1. pl_GetConfig p w = (True, w1) \<and> k w1 = (Finished, w'))" for msg k
    by (cases "pl_GetConfig p w") (auto split: bool.split)
  show ?thesis
    by (simp add: main_def Inr Let_def kube or_exit_Finished config) blast
qed

lemma init_registers:
  assumes "init clientgo = Ret scheme"
  shows "(''pacto.trianalab.io'', ''v1alpha1'', ct_For pacto_controller) \<in> set scheme"
    "\<forall>kind\<in>set (ct_Owns pacto_controller). (''pacto.trianalab.io'', ''v1alpha1'', kind) \<in> set scheme"
  using assms
  by (auto simp: init_def AddToScheme_def GroupVersion_def registered_kinds_def pacto_controller_def split: sum.splits)


section \<open>A watched namespace other than the operator's own\<close>

text \<open>
  What the manager promises. Its client reads namespaced objects from a cache; when the cache is
  restricted to one namespace, a read in another one fails, and not as an object that is not found.
  A runnable that returns an error stops the manager, with an error.
\<close>

definition namespaced_kinds :: "string list" where
  "namespaced_kinds = [''Service'', ''Deployment'', ''Secret'', ''ServiceAccount'']"

definition cache_scoped :: "('w, 'q) dash_client \<Rightarrow> string \<Rightarrow> bool" where
  "cache_scoped d watched \<longleftrightarrow>
     (\<forall>ns name w. ns \<noteq> watched \<longrightarrow>
        (\<forall>kind\<in>set namespaced_kinds. \<exists>err. d_Get d (kind, (ns, name)) w = Inl err \<and> \<not> IsNotFound err) \<and>
        (\<exists>err. d_GetSecret d (ns, name) w = Inl err \<and> \<not> IsNotFound err))"

definition manager_api :: "('w, 'q) platform \<Rightarrow> bool" where
  "manager_api p \<longleftrightarrow>
     (\<forall>opts ns. co_DefaultNamespaces opts = [ns] \<longrightarrow> cache_scoped (pl_Client p opts) ns) \<and>
     (\<forall>opts r w. (\<forall>env ticks u. \<exists>err u'. Start r env ticks u = Ret (Some err, u')) \<longrightarrow>
        (\<exists>err w'. pl_Start p opts r w = (Some err, w')))"

lemma cache_scopedD:
  assumes "cache_scoped d watched" "ns \<noteq> watched" "kind \<in> set namespaced_kinds"
  obtains err where "d_Get d (kind, (ns, name)) w = Inl err" "\<not> IsNotFound err"
  using assms unfolding cache_scoped_def by blast

lemma foreign_cleanup:
  assumes "cache_scoped (dr_Client r) watched" "cfg_Namespace (dr_Config r) \<noteq> watched"
  shows "\<exists>err. cleanup r w = (Some err, w)"
proof -
  obtain err where "d_Get (dr_Client r) (''Service'', (cfg_Namespace (dr_Config r), Name)) w = Inl err" "\<not> IsNotFound err"
    using cache_scopedD[OF assms, of "''Service''"] by (auto simp: namespaced_kinds_def)
  then show ?thesis
    by (simp add: cleanup_def cleanup_resources_def cleanup_loop.simps Let_def)
qed

lemma foreign_credentials:
  assumes "cache_scoped (dr_Client r) watched" "cfg_Namespace (dr_Config r) \<noteq> watched"
  shows "\<exists>err. reconcileOCICredentials r w = (Some err, w)"
proof -
  have "\<exists>err. d_GetSecret (dr_Client r) (cfg_Namespace (dr_Config r), name) w = Inl err \<and> \<not> IsNotFound err" for name
    using assms unfolding cache_scoped_def by blast
  note refused = this
  show ?thesis
  proof (cases "EffectiveOCISecrets (dr_Config r)")
    case Nil
    with refused[of ManagedSecretName] show ?thesis
      by (auto simp: reconcileOCICredentials_def Let_def)
  next
    case (Cons name names)
    with refused[of name] show ?thesis
      by (auto simp: reconcileOCICredentials_def Let_def)
  qed
qed

lemma dash_step_error:
  "(\<And>u. \<exists>res err u'. rest u = Ret ((res, Some err), u')) \<Longrightarrow>
     \<exists>res err u'. dash_step name (Ret result) rest = Ret ((res, Some err), u')"
  by (cases result; cases "fst result") (auto simp: dash_step_def)

lemma foreign_Reconcile:
  assumes "cache_scoped (dr_Client r) watched" "cfg_Namespace (dr_Config r) \<noteq> watched"
  shows "\<exists>res err w'. dash_Reconcile r w = Ret ((res, Some err), w')"
proof (cases "cfg_Enabled (dr_Config r)")
  case True
  have oci: "\<exists>res err u'. dash_step name (Ret (reconcileOCICredentials r u)) rest = Ret ((res, Some err), u')" for name u rest
    using foreign_credentials[OF assms, of u] by (auto simp: dash_step_def)
  show ?thesis
    unfolding dash_Reconcile_def using True by (simp only: not_True_eq_False if_False) (rule oci | rule dash_step_error)+
next
  case False
  with foreign_cleanup[OF assms, of w] show ?thesis
    by (auto simp: dash_Reconcile_def)
qed

lemma foreign_Start:
  assumes "cache_scoped (dr_Client r) watched" "cfg_Namespace (dr_Config r) \<noteq> watched"
  shows "\<exists>err w'. Start r env ticks w = Ret (Some err, w')"
  using foreign_Reconcile[OF assms, of w] by (auto simp: Start_def)

lemma main_config_namespace:
  "main_config pq f img getenv getDeployment = Inr cfg \<Longrightarrow> cfg_Namespace cfg = getenv ''POD_NAMESPACE''"
  by (auto simp: main_config_def Let_def split: if_splits option.splits)

definition exits_1 :: "ending \<times> 'w \<Rightarrow> bool" where
  "exits_1 r \<longleftrightarrow> exit_status (fst r) = 1"

lemma or_exit_exits: "(\<And>u. exits_1 (rest u)) \<Longrightarrow> exits_1 (or_exit result msg rest)"
  by (cases result; cases "fst result") (auto simp: or_exit_def exits_1_def)

lemma or_exit_failing: "\<exists>err u. result = (Some err, u) \<Longrightarrow> exits_1 (or_exit result msg rest)"
  by (auto simp: or_exit_def exits_1_def)

lemma exits_1_Fatal: "exits_1 (Fatal msg, u)"
  by (simp add: exits_1_def)

lemma foreign_run:
  assumes "manager_api p" "co_DefaultNamespaces opts = [watched]" "cfg_Namespace cfg \<noteq> watched"
  shows "exits_1 (run_manager p opts cfg w)"
proof -
  let ?dash = "dashReconciler p opts cfg"
  have "cache_scoped (dr_Client ?dash) watched" "cfg_Namespace (dr_Config ?dash) \<noteq> watched"
    using assms by (auto simp: manager_api_def dashReconciler_def)
  note foreign_Start[OF this]
  then have "\<exists>err u'. pl_Start p opts ?dash u = (Some err, u')" for u
    using assms(1) unfolding manager_api_def by blast
  then show ?thesis
    unfolding run_manager_def Let_def by (intro or_exit_exits or_exit_failing)
qed

text \<open>
  C27. The operator cannot watch a namespace other than its own. With \<open>--watch-namespace\<close> set to
  anything but the namespace it runs in, the process always exits with status 1, whether the dashboard
  is enabled or not: the dashboard reconciler reads its objects in the operator's namespace through the
  manager's client, whose cache is restricted to the watched namespace; the read fails, the initial
  reconciliation returns the error, and the manager stops.
\<close>

theorem watch_namespace_exits:
  assumes "manager_api p" "Parse (CommandLine @ pl_OtherFlags p) args default_flags = Inr f" "\<not> fl_ShowVersion f"
    and "fl_WatchNamespace f \<noteq> ''''" "fl_WatchNamespace f \<noteq> pl_Getenv p ''POD_NAMESPACE''"
  shows "exit_status (fst (main p scheme b args w)) = 1"
proof -
  have opts: "co_DefaultNamespaces (mgrOpts scheme f) = [fl_WatchNamespace f]"
    using assms(4) by (simp add: mgrOpts_def Let_def)
  have run: "exits_1 (run_manager p (mgrOpts scheme f) cfg u)"
    if "main_config pq g img (pl_Getenv p) dep = Inr cfg" for pq g img dep cfg u
    using foreign_run[OF assms(1) opts, of cfg u] main_config_namespace[OF that] assms(5) by simp
  have "exits_1 (case main_config pq g img (pl_Getenv p) dep of
      Inl msg \<Rightarrow> (Fatal msg, u) | Inr cfg \<Rightarrow> run_manager p (mgrOpts scheme f) cfg u)" for pq g img dep u
    using run exits_1_Fatal by (auto split: sum.split)
  then have steps: "exits_1 (or_exit (pl_NewManager p (mgrOpts scheme f) u) m1 (\<lambda>u. or_exit (pl_Complete p pacto_controller u) m2 (\<lambda>u.
      case main_config pq g img (pl_Getenv p) (dep u) of
        Inl msg \<Rightarrow> (Fatal msg, u) | Inr cfg \<Rightarrow> run_manager p (mgrOpts scheme f) cfg u)))" for pq g img dep u m1 m2
    by (intro or_exit_exits)
  obtain found u where config: "pl_GetConfig p w = (found, u)"
    by fastforce
  have "exits_1 (main p scheme b args w)"
    using steps exits_1_Fatal by (cases found) (simp_all add: main_def assms(2,3) Let_def config)
  then show ?thesis
    by (simp add: exits_1_def)
qed

section \<open>A concrete platform\<close>

text \<open>Every call succeeds, the client serves the namespace of the cache, and the manager runs the dashboard reconciler once.\<close>

definition scoped_client :: "string list \<Rightarrow> (dash_world, string) dash_client" where
  "scoped_client served =
     sample_dash_client
       \<lparr>d_Get := (\<lambda>(kind, (ns, name)) w.
            if kind \<in> set namespaced_kinds \<and> served \<noteq> [] \<and> ns \<notin> set served then Inl (OtherError ''unknown namespace for the cache'')
            else d_Get sample_dash_client (kind, (ns, name)) w),
         d_GetSecret := (\<lambda>(ns, name) w.
            if served \<noteq> [] \<and> ns \<notin> set served then Inl (OtherError ''unknown namespace for the cache'')
            else d_GetSecret sample_dash_client (ns, name) w)\<rparr>"

definition sample_platform :: "(dash_world, string) platform" where
  "sample_platform =
     \<lparr>pl_Getenv = (\<lambda>v. if v = ''POD_NAMESPACE'' then ''pacto-system'' else ''''), pl_ClientGo = Inr, pl_OtherFlags = [],
      pl_GetConfig = Pair True, pl_NewManager = (\<lambda>_. Pair None), pl_Complete = (\<lambda>_. Pair None),
      pl_GetDeployment = (\<lambda>_ _. Inl (NotFound '''')), pl_Client = (\<lambda>opts. scoped_client (co_DefaultNamespaces opts)),
      pl_Add = (\<lambda>_. Pair None), pl_AddHealthzCheck = (\<lambda>_. Pair None), pl_AddReadyzCheck = (\<lambda>_. Pair None),
      pl_Start = (\<lambda>_ r w. case Start r (\<lambda>_ u. u) 1 w of Panic \<Rightarrow> (Some ''panic'', w) | Ret (err, w') \<Rightarrow> (err, w')),
      pl_ParseQuantity = sample_quantity, pl_JSON = \<lparr>j_Unmarshal = \<lambda>_. Inl ''invalid'', j_Marshal = \<lambda>_. ''''\<rparr>,
      pl_Base64Error = \<lambda>_. ''''\<rparr>"

lemma manager_api_sample: "manager_api sample_platform"
proof -
  have "cache_scoped (scoped_client [ns]) ns" for ns
    by (auto simp: cache_scoped_def scoped_client_def)
  moreover have "\<exists>err w'. pl_Start sample_platform opts r w = (Some err, w')"
    if "\<forall>env ticks u. \<exists>err u'. Start r env ticks u = Ret (Some err, u')" for opts r w
    using that[rule_format, of "\<lambda>_ u. u" 1 w] by (auto simp: sample_platform_def)
  ultimately show ?thesis
    by (auto simp: manager_api_def sample_platform_def)
qed

lemma sample_args:
  "Parse (CommandLine @ pl_OtherFlags sample_platform) [''--watch-namespace=production''] default_flags =
     Inr (default_flags\<lparr>fl_WatchNamespace := ''production''\<rparr>)"
  using Parse_own_string[OF flag_vars(13), of "[]" EqualsTwo "''production''" "[]" default_flags]
  by (simp add: sample_platform_def del: Parse.simps(2))

theorem watch_namespace_exits_witness:
  "exit_status (fst (main sample_platform (AddToScheme [])
     \<lparr>bi_version = ''1.0.0'', bi_gitCommit = ''abc'', bi_buildDate = ''today'', bi_dashboardImage = ''ghcr.io/org/dash:1.2.0''\<rparr>
     [''--watch-namespace=production''] \<lparr>dw_Labels = [], dw_Applied = []\<rparr>)) = 1"
  by (rule watch_namespace_exits[OF manager_api_sample sample_args])
    (simp_all add: sample_platform_def default_flags_def CommandLine_def zero_flags_def)

end
