(* ===== verification/Go_Heap.thy ===== *)
theory Go_Heap
  imports Prelude
begin

text \<open>
  Go's memory, for the code whose subject is the sharing of memory: the deep copies of the API
  types. The other theories model objects as values; here a pointer, a slice and a map are
  references to cells of a heap, two of them may refer to the same cell, and a cell may be
  written through one and read through the other.

  The theory holds the memory and its laws, what a value stands for (the tree of data one
  reads by following its references), the cells this reading visits, and the frame property.
  Then come the statements that generated deep copies are made of and the contract they keep: the
  copy stands for the same tree as the original, consists of new cells only, no two of its
  references share a cell, and nothing but the destination is written.
\<close>

section \<open>Values, cells and types\<close>

text \<open>
  A value without references. A \<open>metav1.Time\<close> counts as one: the time API never changes
  what it holds.
\<close>

datatype gscalar = Str string | Int32 int32 | Int64 int64 | Bool bool | Time instant

datatype sel = Fld string | Idx nat

text \<open>
  A location is a cell with a path into it, so that \<open>&in.Spec\<close> and \<open>&(*out)[i]\<close> are
  locations.
\<close>

type_synonym addr = nat
type_synonym loc = "addr \<times> sel list"

text \<open>
  A nil pointer, slice or map is \<open>None\<close>. A slice is the window of an array that starts at an
  offset and has a length (no deep copy reads a capacity). \<open>Array\<close> is the array behind a slice
  and \<open>Entries\<close> the content of a map.
\<close>

datatype gval =
    Scalar gscalar
  | Ptr "loc option"
  | Slice "(addr \<times> nat \<times> nat) option"
  | MapRef "addr option"
  | Struct "(string \<times> gval) list"
  | Array "gval list"
  | Entries "(string, string) gomap"

text \<open>The heap: the cells in the order of their allocation.\<close>

type_synonym heap = "gval list"

datatype gkind = KStr | KInt32 | KInt64 | KBool | KTime

datatype gty =
    TyScalar gkind
  | TyPtr gty
  | TySlice gty
  | TyMap
  | TyStruct "(string \<times> gty) list"

fun kind_of :: "gscalar \<Rightarrow> gkind" where
  "kind_of (Str _) = KStr"
| "kind_of (Int32 _) = KInt32"
| "kind_of (Int64 _) = KInt64"
| "kind_of (Bool _) = KBool"
| "kind_of (Time _) = KTime"

fun zero_scalar :: "gkind \<Rightarrow> gscalar" where
  "zero_scalar KStr = Str []"
| "zero_scalar KInt32 = Int32 0"
| "zero_scalar KInt64 = Int64 0"
| "zero_scalar KBool = Bool False"
| "zero_scalar KTime = Time 0"

text \<open>The zero value of a type, which \<open>new\<close> and \<open>make\<close> store.\<close>

fun zero_value :: "gty \<Rightarrow> gval" where
  "zero_value (TyScalar k) = Scalar (zero_scalar k)"
| "zero_value (TyPtr _) = Ptr None"
| "zero_value (TySlice _) = Slice None"
| "zero_value TyMap = MapRef None"
| "zero_value (TyStruct fts) = Struct (map (\<lambda>(n, T). (n, zero_value T)) fts)"

fun is_nil :: "gval \<Rightarrow> bool" where
  "is_nil (Ptr None) = True"
| "is_nil (Slice None) = True"
| "is_nil (MapRef None) = True"
| "is_nil _ = False"

section \<open>Reading and writing\<close>

fun set_field :: "string \<Rightarrow> gval \<Rightarrow> (string \<times> gval) list \<Rightarrow> (string \<times> gval) list" where
  "set_field n w [] = []"
| "set_field n w ((m, v) # fs) = (if m = n then (m, w) # fs else (m, v) # set_field n w fs)"

fun get_at :: "gval \<Rightarrow> sel list \<Rightarrow> gval option" where
  "get_at v [] = Some v"
| "get_at (Struct fs) (Fld n # p) = Option.bind (map_of fs n) (\<lambda>v. get_at v p)"
| "get_at (Array vs) (Idx k # p) = (if k < length vs then get_at (vs ! k) p else None)"
| "get_at _ _ = None"

fun put_at :: "gval \<Rightarrow> sel list \<Rightarrow> gval \<Rightarrow> gval option" where
  "put_at v [] w = Some w"
| "put_at (Struct fs) (Fld n # p) w =
     Option.bind (map_of fs n) (\<lambda>v. map_option (\<lambda>v'. Struct (set_field n v' fs)) (put_at v p w))"
| "put_at (Array vs) (Idx k # p) w =
     (if k < length vs then map_option (\<lambda>v'. Array (vs[k := v'])) (put_at (vs ! k) p w) else None)"
| "put_at _ _ _ = None"

definition cell :: "heap \<Rightarrow> addr \<Rightarrow> gval option" where
  "cell h a = (if a < length h then Some (h ! a) else None)"

text \<open>Reading or writing through a location that does not exist is a panic: no result.\<close>

definition load :: "heap \<Rightarrow> loc \<Rightarrow> gval option" where
  "load h l = Option.bind (cell h (fst l)) (\<lambda>v. get_at v (snd l))"

definition store :: "heap \<Rightarrow> loc \<Rightarrow> gval \<Rightarrow> heap option" where
  "store h l w = Option.bind (cell h (fst l))
     (\<lambda>v. map_option (\<lambda>v'. h[fst l := v']) (put_at v (snd l) w))"

definition alloc :: "gval \<Rightarrow> heap \<Rightarrow> addr \<times> heap" where
  "alloc v h = (length h, h @ [v])"

definition child :: "loc \<Rightarrow> sel \<Rightarrow> loc" where
  "child l s = (fst l, snd l @ [s])"

lemma fst_child [simp]: "fst (child l s) = fst l"
  by (simp add: child_def)

lemma map_of_set_field [simp]:
  "map_of (set_field n w fs) m = (if m = n then map_option (\<lambda>_. w) (map_of fs n) else map_of fs m)"
  by (induction fs) auto

lemma set_field_twice [simp]: "set_field n x (set_field n w fs) = set_field n x fs"
  by (induction fs) auto

lemma set_field_same: "map_of fs n = Some v \<Longrightarrow> set_field n v fs = fs"
  by (induction fs) auto

lemma names_set_field [simp]: "map fst (set_field n w fs) = map fst fs"
  by (induction fs) auto

lemma get_put: "put_at v p w = Some v' \<Longrightarrow> get_at v' p = Some w"
  by (induction v p w arbitrary: v' rule: put_at.induct)
    (auto simp: bind_eq_Some_conv split: if_splits)

lemma put_some: "get_at v p = Some x \<Longrightarrow> \<exists>v'. put_at v p w = Some v'"
  by (induction v p arbitrary: x rule: get_at.induct)
    (auto simp: bind_eq_Some_conv split: if_splits)

lemma put_put: "put_at v p w = Some v' \<Longrightarrow> put_at v' p x = put_at v p x"
  by (induction v p w arbitrary: v' rule: put_at.induct)
    (auto simp: bind_eq_Some_conv split: if_splits)

lemma put_same: "get_at v p = Some w \<Longrightarrow> put_at v p w = Some v"
  by (induction v p rule: get_at.induct)
    (auto simp: bind_eq_Some_conv set_field_same split: if_splits)

lemma get_append: "get_at v (p @ q) = Option.bind (get_at v p) (\<lambda>u. get_at u q)"
  by (induction v p rule: get_at.induct) (auto split: bind_splits)

lemma put_append:
  "put_at v (p @ q) w = Option.bind (get_at v p) (\<lambda>u. Option.bind (put_at u q w) (put_at v p))"
  by (induction v p rule: get_at.induct)
    (auto simp: map_option_case split: bind_splits option.splits)

lemma load_cell: "load h l = Some v \<Longrightarrow> fst l < length h"
  by (auto simp: load_def cell_def split: if_splits)

lemma cell_append [simp]: "a < length h \<Longrightarrow> cell (h @ g) a = cell h a"
  by (simp add: cell_def nth_append)

lemma load_cong: "cell h' (fst l) = cell h (fst l) \<Longrightarrow> load h' l = load h l"
  by (simp add: load_def)

lemma load_child: "load h (child l s) = Option.bind (load h l) (\<lambda>u. get_at u [s])"
  by (auto simp: load_def child_def get_append split: bind_splits)

section \<open>What a value stands for\<close>

datatype gtree =
    TScalar gscalar
  | TNil
  | TPtr gtree
  | TSlice "gtree list"
  | TMap "string \<rightharpoonup> string"
  | TStruct "(string \<times> gtree) list"

text \<open>The elements of a slice.\<close>

definition elems :: "heap \<Rightarrow> addr \<Rightarrow> nat \<Rightarrow> nat \<Rightarrow> gval list option" where
  "elems h a off n = (case cell h a of
     Some (Array vs) \<Rightarrow> if off + n \<le> length vs then Some (take n (drop off vs)) else None
   | _ \<Rightarrow> None)"

text \<open>
  The tree that a value of a type stands for; no result when the value is not of the type or
  refers to something that is not there.
\<close>

fun tree :: "heap \<Rightarrow> gty \<Rightarrow> gval \<Rightarrow> gtree option"
  and tree_fields :: "heap \<Rightarrow> (string \<times> gty) list \<Rightarrow> (string \<times> gval) list \<Rightarrow> (string \<times> gtree) list option"
where
  "tree h (TyScalar k) (Scalar s) = (if kind_of s = k then Some (TScalar s) else None)"
| "tree h (TyPtr T) (Ptr None) = Some TNil"
| "tree h (TyPtr T) (Ptr (Some l)) =
     Option.bind (load h l) (\<lambda>v. map_option TPtr (tree h T v))"
| "tree h (TySlice T) (Slice None) = Some TNil"
| "tree h (TySlice T) (Slice (Some (a, off, n))) =
     Option.bind (elems h a off n) (\<lambda>vs. map_option TSlice (those (map (tree h T) vs)))"
| "tree h TyMap (MapRef None) = Some TNil"
| "tree h TyMap (MapRef (Some a)) = (case cell h a of
     Some (Entries es) \<Rightarrow> if distinct (map fst es) then Some (TMap (map_of es)) else None
   | _ \<Rightarrow> None)"
| "tree h (TyStruct fts) (Struct fs) = map_option TStruct (tree_fields h fts fs)"
| "tree h _ _ = None"
| "tree_fields h [] [] = Some []"
| "tree_fields h ((n, T) # fts) ((m, v) # fs) =
     (if n = m then Option.bind (tree h T v) (\<lambda>t. map_option ((#) (n, t)) (tree_fields h fts fs))
      else None)"
| "tree_fields h _ _ = None"

text \<open>The cells that reading a value visits.\<close>

fun foot :: "heap \<Rightarrow> gty \<Rightarrow> gval \<Rightarrow> addr set"
  and foot_fields :: "heap \<Rightarrow> (string \<times> gty) list \<Rightarrow> (string \<times> gval) list \<Rightarrow> addr set"
where
  "foot h (TyPtr T) (Ptr (Some l)) =
     insert (fst l) (case load h l of Some v \<Rightarrow> foot h T v | None \<Rightarrow> {})"
| "foot h (TySlice T) (Slice (Some (a, off, n))) =
     insert a (case elems h a off n of Some vs \<Rightarrow> \<Union> (set (map (foot h T) vs)) | None \<Rightarrow> {})"
| "foot h TyMap (MapRef (Some a)) = {a}"
| "foot h (TyStruct fts) (Struct fs) = foot_fields h fts fs"
| "foot h _ _ = {}"
| "foot_fields h ((n, T) # fts) ((m, v) # fs) = foot h T v \<union> foot_fields h fts fs"
| "foot_fields h _ _ = {}"

fun apart :: "'a set list \<Rightarrow> bool" where
  "apart [] = True"
| "apart (A # As) = (A \<inter> \<Union> (set As) = {} \<and> apart As)"

text \<open>No two references in what a value stands for lead to the same cell.\<close>

fun unshared :: "heap \<Rightarrow> gty \<Rightarrow> gval \<Rightarrow> bool"
  and unshared_fields :: "heap \<Rightarrow> (string \<times> gty) list \<Rightarrow> (string \<times> gval) list \<Rightarrow> bool"
where
  "unshared h (TyPtr T) (Ptr (Some l)) = (case load h l of
     Some v \<Rightarrow> fst l \<notin> foot h T v \<and> unshared h T v | None \<Rightarrow> True)"
| "unshared h (TySlice T) (Slice (Some (a, off, n))) = (case elems h a off n of
     Some vs \<Rightarrow> apart ({a} # map (foot h T) vs) \<and> list_all (unshared h T) vs | None \<Rightarrow> True)"
| "unshared h (TyStruct fts) (Struct fs) = unshared_fields h fts fs"
| "unshared h _ _ = True"
| "unshared_fields h ((n, T) # fts) ((m, v) # fs) =
     (foot h T v \<inter> foot_fields h fts fs = {} \<and> unshared h T v \<and> unshared_fields h fts fs)"
| "unshared_fields h _ _ = True"

lemma elems_cong: "cell h' a = cell h a \<Longrightarrow> elems h' a off n = elems h a off n"
  by (simp add: elems_def)

lemma those_eq_Some: "those xs = Some ys \<longleftrightarrow> xs = map Some ys"
proof (induction xs arbitrary: ys)
  case (Cons x xs)
  then show ?case by (cases ys) (auto split: option.splits)
qed auto

lemma map_eq_map_Some: "map f xs = map Some ys \<Longrightarrow> x \<in> set xs \<Longrightarrow> \<exists>y. f x = Some y"
  by (induction xs arbitrary: ys) auto

text \<open>
  The frame property: what a value stands for depends only on the cells of its footprint.
\<close>

lemma frame_tree:
  "\<lbrakk>\<forall>a \<in> foot h T v. cell h' a = cell h a\<rbrakk> \<Longrightarrow> tree h' T v = tree h T v"
  "\<lbrakk>\<forall>a \<in> foot_fields h fts fs. cell h' a = cell h a\<rbrakk> \<Longrightarrow>
    tree_fields h' fts fs = tree_fields h fts fs"
proof (induction h T v and h fts fs rule: tree_tree_fields.induct)
  case (3 h T l)
  have "load h' l = load h l" using "3.prems" by (intro load_cong) simp
  with 3 show ?case by (cases "load h l") auto
next
  case (5 h T a off n)
  have e: "elems h' a off n = elems h a off n" using "5.prems" by (intro elems_cong) simp
  show ?case
  proof (cases "elems h a off n")
    case (Some vs)
    with 5 have "map (tree h' T) vs = map (tree h T) vs" by auto
    with e Some show ?thesis by (simp del: map_eq_conv)
  qed (use e in simp)
qed (auto split: bind_splits)

lemma foot_MapRef: "foot h T (MapRef r) = (if T = TyMap then set_option r else {})"
  by (cases T; cases r) auto

lemma foot_TyMap: "foot h TyMap v = (case v of MapRef r \<Rightarrow> set_option r | _ \<Rightarrow> {})"
  by (cases v) (auto simp: foot_MapRef)

lemma frame_foot_unshared:
  "\<lbrakk>\<forall>a \<in> foot h T v. cell h' a = cell h a\<rbrakk> \<Longrightarrow>
    foot h' T v = foot h T v \<and> unshared h' T v = unshared h T v"
  "\<lbrakk>\<forall>a \<in> foot_fields h fts fs. cell h' a = cell h a\<rbrakk> \<Longrightarrow>
    foot_fields h' fts fs = foot_fields h fts fs \<and> unshared_fields h' fts fs = unshared_fields h fts fs"
proof (induction h T v and h fts fs rule: unshared_unshared_fields.induct)
  case (1 h T l)
  have "load h' l = load h l" using "1.prems" by (intro load_cong) simp
  with 1 show ?case by (cases "load h l") auto
next
  case (2 h T a off n)
  have e: "elems h' a off n = elems h a off n" using "2.prems" by (intro elems_cong) simp
  show ?case
  proof (cases "elems h a off n")
    case (Some vs)
    with 2 have "map (foot h' T) vs = map (foot h T) vs"
      "list_all (unshared h' T) vs = list_all (unshared h T) vs"
      by (auto intro!: list.pred_cong)
    with e Some show ?thesis by (simp del: map_eq_conv add: image_set del: set_map)
  qed (use e in simp)
qed (auto simp: foot_MapRef foot_TyMap)

lemma frame_eq:
  assumes "\<And>a. a \<in> foot h T v \<Longrightarrow> cell h' a = cell h a"
  shows "tree h' T v = tree h T v" "foot h' T v = foot h T v" "unshared h' T v = unshared h T v"
  using assms frame_tree(1) frame_foot_unshared(1) by blast+

text \<open>A value that stands for a tree refers to allocated cells only.\<close>

lemma foot_allocated:
  "tree h T v = Some t \<Longrightarrow> foot h T v \<subseteq> {..<length h}"
  "tree_fields h fts fs = Some ts \<Longrightarrow> foot_fields h fts fs \<subseteq> {..<length h}"
proof (induction h T v and h fts fs arbitrary: t and ts rule: foot_foot_fields.induct)
  case (1 h T l)
  then show ?case by (force simp: bind_eq_Some_conv dest: load_cell)
next
  case (2 h T a off n)
  then have "a < length h" by (auto simp: elems_def cell_def bind_eq_Some_conv split: if_splits)
  with 2 show ?case by (fastforce simp: bind_eq_Some_conv those_eq_Some dest: map_eq_map_Some)
qed (auto simp: bind_eq_Some_conv cell_def split: option.splits gval.splits if_splits)

text \<open>Values of a type without references.\<close>

fun flat :: "gty \<Rightarrow> bool" where
  "flat (TyScalar _) = True"
| "flat (TyStruct fts) = list_all (\<lambda>(n, T). flat T) fts"
| "flat _ = False"

lemma flat_foot: 
  "flat T \<Longrightarrow> foot h T v = {}"
  "list_all (\<lambda>(n, T). flat T) fts \<Longrightarrow> foot_fields h fts fs = {}"
  by (induction h T v and h fts fs rule: foot_foot_fields.induct) auto

lemma flat_unshared:
  "flat T \<Longrightarrow> unshared h T v"
  "list_all (\<lambda>(n, T). flat T) fts \<Longrightarrow> unshared_fields h fts fs"
  by (induction h T v and h fts fs rule: unshared_unshared_fields.induct) (auto simp: flat_foot)

section \<open>Copying\<close>

text \<open>
  The statements of a deep copy: each takes the locations \<open>in\<close> and \<open>out\<close> and has the heap
  after it as its result, or none for a panic.
\<close>

type_synonym copier = "loc \<Rightarrow> loc \<Rightarrow> heap \<Rightarrow> heap option"

text \<open>\<open>*out = *in\<close>.\<close>

definition assign :: copier where
  "assign inp out h = Option.bind (load h inp) (store h out)"

text \<open>A sequence of copies of parts of \<open>in\<close> to parts of \<open>out\<close>.\<close>

fun parts :: "(sel \<times> sel \<times> copier) list \<Rightarrow> copier" where
  "parts [] inp out h = Some h"
| "parts ((s, s', c) # ss) inp out h =
     Option.bind (c (child inp s) (child out s') h) (parts ss inp out)"

text \<open>
  The body of a \<open>DeepCopyInto\<close>: \<open>*out = *in\<close> and then the statements about single fields, in
  their order.
\<close>

definition copy_struct :: "(string \<times> copier) list \<Rightarrow> copier" where
  "copy_struct steps inp out h =
     Option.bind (assign inp out h) (parts (map (\<lambda>(n, c). (Fld n, Fld n, c)) steps) inp out)"

text \<open>\<open>if *in != nil \<dots>\<close>.\<close>

definition unless_nil :: "copier \<Rightarrow> copier" where
  "unless_nil c inp out h =
     Option.bind (load h inp) (\<lambda>v. if is_nil v then Some h else c inp out h)"

text \<open>\<open>*out = new(T)\<close>, and then a copy of \<open>**in\<close> to \<open>**out\<close>.\<close>

definition new_pointer :: "gty \<Rightarrow> copier \<Rightarrow> copier" where
  "new_pointer T c inp out h = (case load h inp of
     Some (Ptr (Some l)) \<Rightarrow>
       (let (a, h1) = alloc (zero_value T) h
        in Option.bind (store h1 out (Ptr (Some (a, [])))) (c l (a, [])))
   | _ \<Rightarrow> None)"

text \<open>
  \<open>*out = make([]T, len(*in))\<close>, and then a copy of each element: a loop that calls
  \<open>DeepCopyInto\<close> on it, or the built-in \<open>copy\<close>, which assigns it.
\<close>

definition make_slice :: "gty \<Rightarrow> copier \<Rightarrow> copier" where
  "make_slice T c inp out h = (case load h inp of
     Some (Slice (Some (a, off, n))) \<Rightarrow>
       (let (b, h1) = alloc (Array (replicate n (zero_value T))) h
        in Option.bind (store h1 out (Slice (Some (b, 0, n))))
             (parts (map (\<lambda>k. (Idx (off + k), Idx k, c)) [0..<n]) (a, []) (b, [])))
   | _ \<Rightarrow> None)"

text \<open>
  \<open>*out = make(map[string]string, len(*in))\<close>, and then \<open>(*out)[key] = val\<close> for each entry of
  \<open>*in\<close>.
\<close>

definition map_insert :: "addr \<Rightarrow> string \<Rightarrow> string \<Rightarrow> heap \<Rightarrow> heap option" where
  "map_insert b k v h = (case cell h b of
     Some (Entries es) \<Rightarrow> Some (h[b := Entries (AList.update k v es)])
   | _ \<Rightarrow> None)"

fun insert_entries :: "addr \<Rightarrow> (string, string) gomap \<Rightarrow> heap \<Rightarrow> heap option" where
  "insert_entries b [] h = Some h"
| "insert_entries b ((k, v) # es) h = Option.bind (map_insert b k v h) (insert_entries b es)"

definition make_map :: copier where
  "make_map inp out h = (case load h inp of
     Some (MapRef (Some a)) \<Rightarrow>
       (let (b, h1) = alloc (Entries []) h
        in Option.bind (store h1 out (MapRef (Some b)))
             (\<lambda>h2. case cell h2 a of Some (Entries es) \<Rightarrow> insert_entries b es h2 | _ \<Rightarrow> None))
   | _ \<Rightarrow> None)"

text \<open>
  The body of a \<open>DeepCopy\<close>: nil for nil, otherwise a new value of the type with the receiver
  copied into it.
\<close>

definition deep_copy :: "gty \<Rightarrow> copier \<Rightarrow> loc option \<Rightarrow> heap \<Rightarrow> (loc option \<times> heap) option" where
  "deep_copy T c inp h = (case inp of
     None \<Rightarrow> Some (None, h)
   | Some l \<Rightarrow>
       (let (a, h1) = alloc (zero_value T) h
        in map_option (Pair (Some (a, []))) (c l (a, []) h1)))"

text \<open>\<open>*out = (*in).DeepCopy()\<close>.\<close>

definition copy_by :: "(loc option \<Rightarrow> heap \<Rightarrow> (loc option \<times> heap) option) \<Rightarrow> copier" where
  "copy_by f inp out h = (case load h inp of
     Some (Ptr p) \<Rightarrow> Option.bind (f p h) (\<lambda>(q, h1). store h1 out (Ptr q))
   | _ \<Rightarrow> None)"

section \<open>The contract of a copy\<close>

definition only_writes :: "addr \<Rightarrow> heap \<Rightarrow> heap \<Rightarrow> bool" where
  "only_writes b h h' \<longleftrightarrow> length h \<le> length h' \<and> (\<forall>a < length h. a \<noteq> b \<longrightarrow> h' ! a = h ! a)"

text \<open>A value that stands for the tree, in cells allocated since the heap had \<open>n\<close> of them.\<close>

definition fresh_copy :: "nat \<Rightarrow> gty \<Rightarrow> gtree \<Rightarrow> heap \<Rightarrow> gval \<Rightarrow> bool" where
  "fresh_copy n T t h v \<longleftrightarrow>
     tree h T v = Some t \<and> foot h T v \<subseteq> {n..<length h} \<and> unshared h T v"

definition copied :: "gty \<Rightarrow> gtree \<Rightarrow> loc \<Rightarrow> heap \<Rightarrow> heap \<Rightarrow> bool" where
  "copied T t out h h' \<longleftrightarrow> only_writes (fst out) h h' \<and>
     (\<exists>v. put_at (h ! fst out) (snd out) v = Some (h' ! fst out) \<and> fresh_copy (length h) T t h' v)"

text \<open>
  What a copy may assume: \<open>in\<close> holds a value that stands for a tree, and the cell of \<open>out\<close>
  is not one of those that reading it visits.
\<close>

definition source :: "gty \<Rightarrow> gtree \<Rightarrow> addr \<Rightarrow> heap \<Rightarrow> loc \<Rightarrow> gval \<Rightarrow> bool" where
  "source T t b h inp v \<longleftrightarrow>
     load h inp = Some v \<and> tree h T v = Some t \<and> b \<noteq> fst inp \<and> b \<notin> foot h T v"

text \<open>
  A deep copy of values of a type, and a statement that makes a deep copy out of what
  \<open>*out = *in\<close> has left in a field.
\<close>

definition deep :: "gty \<Rightarrow> copier \<Rightarrow> bool" where
  "deep T c \<longleftrightarrow> (\<forall>h inp out v t. source T t (fst out) h inp v \<longrightarrow> load h out \<noteq> None \<longrightarrow>
     (\<exists>h'. c inp out h = Some h' \<and> copied T t out h h'))"

definition deepens :: "gty \<Rightarrow> copier \<Rightarrow> bool" where
  "deepens T c \<longleftrightarrow> (\<forall>h inp out v t. source T t (fst out) h inp v \<longrightarrow> load h out = Some v \<longrightarrow>
     (\<exists>h'. c inp out h = Some h' \<and> copied T t out h h'))"

text \<open>A function from a pointer to a pointer that leads to a deep copy, nil for nil.\<close>

definition deep_pointer :: "gty \<Rightarrow> (loc option \<Rightarrow> heap \<Rightarrow> (loc option \<times> heap) option) \<Rightarrow> bool" where
  "deep_pointer T f \<longleftrightarrow> (\<forall>h. f None h = Some (None, h)) \<and>
     (\<forall>h l v t. load h l = Some v \<longrightarrow> tree h T v = Some t \<longrightarrow>
        (\<exists>q h'. f (Some l) h = Some (Some q, h') \<and> take (length h) h' = h \<and>
           fresh_copy (length h) (TyPtr T) (TPtr t) h' (Ptr (Some q))))"

lemma deep_deepens: "deep T c \<Longrightarrow> deepens T c"
  by (simp add: deep_def deepens_def)

lemma only_writes_cell: "only_writes b h h' \<Longrightarrow> a < length h \<Longrightarrow> a \<noteq> b \<Longrightarrow> cell h' a = cell h a"
  by (simp add: only_writes_def cell_def)

lemma only_writes_refl [simp]: "only_writes b h h"
  by (simp add: only_writes_def)

lemma only_writes_trans:
  "only_writes b h h1 \<Longrightarrow> only_writes b h1 h2 \<Longrightarrow> only_writes b h h2"
  by (simp add: only_writes_def)

text \<open>A source stays one and a fresh copy stays one while other cells are written.\<close>

lemma source_mono:
  assumes "source T t b h inp v" "only_writes b h h'"
  shows "source T t b h' inp v"
proof -
  have f: "foot h T v \<subseteq> {..<length h}" and i: "fst inp < length h"
    using assms(1) by (auto simp: source_def dest: foot_allocated(1) load_cell)
  have "cell h' a = cell h a" if "a \<in> foot h T v" for a
    using that f assms by (intro only_writes_cell [of b]) (auto simp: source_def)
  note e = frame_eq [OF this]
  have "load h' inp = load h inp"
    using i assms by (intro load_cong only_writes_cell [of b]) (auto simp: source_def)
  with assms(1) e show ?thesis by (simp add: source_def)
qed

lemma fresh_copy_mono:
  assumes "fresh_copy n T t h v" "only_writes b h h'" "b < n"
  shows "fresh_copy n T t h' v" "foot h' T v = foot h T v"
proof -
  have "cell h' a = cell h a" if "a \<in> foot h T v" for a
    using that assms by (intro only_writes_cell [of b]) (auto simp: fresh_copy_def)
  note e = frame_eq [OF this]
  show "foot h' T v = foot h T v" by (rule e)
  then show "fresh_copy n T t h' v"
    using assms e by (auto simp: fresh_copy_def only_writes_def)
qed

text \<open>The field names of a struct and the length of an array, which writing to a part keeps.\<close>

fun outline :: "gval \<Rightarrow> (string list + nat) option" where
  "outline (Struct fs) = Some (Inl (map fst fs))"
| "outline (Array vs) = Some (Inr (length vs))"
| "outline _ = None"

lemma put_part:
  assumes "put_at u [s] w = Some u'"
  shows "outline u' = outline u" "get_at u' [s] = Some w" "r \<noteq> s \<Longrightarrow> get_at u' [r] = get_at u [r]"
proof -
  show "get_at u' [s] = Some w" using assms by (rule get_put)
  show "outline u' = outline u"
    using assms by (cases u; cases s) (auto simp: bind_eq_Some_conv split: if_splits)
  show "r \<noteq> s \<Longrightarrow> get_at u' [r] = get_at u [r]"
    using assms by (cases u; cases s; cases r) (auto simp: bind_eq_Some_conv split: if_splits)
qed

text \<open>
  A copy of parts: each part of \<open>out\<close> named in \<open>S\<close> has become a fresh copy, no two of these share
  a cell, and the other parts are as they were.
\<close>

definition renewed ::
  "(sel \<Rightarrow> gty) \<Rightarrow> (sel \<Rightarrow> gtree) \<Rightarrow> sel set \<Rightarrow> nat \<Rightarrow> gval \<Rightarrow> heap \<Rightarrow> gval \<Rightarrow> bool" where
  "renewed T t S n u h u' \<longleftrightarrow> outline u' = outline u \<and>
     (\<forall>s. s \<notin> S \<longrightarrow> get_at u' [s] = get_at u [s]) \<and>
     (\<forall>s \<in> S. \<exists>v. get_at u' [s] = Some v \<and> fresh_copy n (T s) (t s) h v) \<and>
     (\<forall>s \<in> S. \<forall>s' \<in> S. \<forall>v v'. s \<noteq> s' \<longrightarrow> get_at u' [s] = Some v \<longrightarrow> get_at u' [s'] = Some v' \<longrightarrow>
        foot h (T s) v \<inter> foot h (T s') v' = {})"

lemma renewed_apart:
  "\<lbrakk>renewed T t S n u h u'; s \<in> S; s' \<in> S; s \<noteq> s'; get_at u' [s] = Some v; get_at u' [s'] = Some v'\<rbrakk> \<Longrightarrow>
    foot h (T s) v \<inter> foot h (T s') v' = {}"
  unfolding renewed_def by blast

lemma renewed_cons:
  assumes one: "put_at u [s] w = Some u1" "fresh_copy n (T s) (t s) h1 w"
    and rest: "renewed T t S (length h1) u1 h2 u2" "s \<notin> S"
    and heap: "only_writes b h1 h2" "b < n" "n \<le> length h1"
  shows "renewed T t (insert s S) n u h2 u2"
proof -
  have w: "fresh_copy n (T s) (t s) h2 w" "foot h2 (T s) w = foot h1 (T s) w" "get_at u2 [s] = Some w"
    using fresh_copy_mono [OF one(2) heap(1,2)] rest put_part [OF one(1)] by (auto simp: renewed_def)
  then have lt: "foot h2 (T s) w \<subseteq> {..<length h1}"
    using one(2) by (auto simp: fresh_copy_def)
  have ge: "foot h2 (T r) v \<subseteq> {length h1..}" if "r \<in> S" "get_at u2 [r] = Some v" for r v
    using rest that by (fastforce simp: renewed_def fresh_copy_def)
  have "foot h2 (T s) w \<inter> foot h2 (T r) v = {}" if "r \<in> S" "get_at u2 [r] = Some v" for r v
    using lt ge [OF that] by fastforce
  moreover have "\<exists>v. get_at u2 [r] = Some v \<and> fresh_copy n (T r) (t r) h2 v" if "r \<in> S" for r
    using rest(1) that heap(3) by (fastforce simp: renewed_def fresh_copy_def)
  ultimately show ?thesis
    using rest(1) w put_part [OF one(1)] unfolding renewed_def by (auto; blast)
qed

lemma parts_renewed:
  assumes "distinct (map (fst \<circ> snd) ss)" "load h out = Some u"
    and "\<And>s s' c. (s, s', c) \<in> set ss \<Longrightarrow>
      source (T s') (t s') (fst out) h (child inp s) (x s') \<and>
      (deep (T s') c \<and> get_at u [s'] \<noteq> None \<or> deepens (T s') c \<and> get_at u [s'] = Some (x s'))"
  shows "\<exists>h' u'. parts ss inp out h = Some h' \<and> only_writes (fst out) h h' \<and>
    put_at (h ! fst out) (snd out) u' = Some (h' ! fst out) \<and>
    renewed T t (set (map (fst \<circ> snd) ss)) (length h) u h' u'"
  using assms
proof (induction ss arbitrary: h u)
  case Nil
  then have "put_at (h ! fst out) (snd out) u = Some (h ! fst out)"
    by (auto simp: load_def cell_def put_same split: if_splits)
  then show ?case by (auto simp: renewed_def)
next
  case (Cons a ss)
  obtain s s' c where a: "a = (s, s', c)" by (cases a)
  have b: "fst out < length h" "get_at (h ! fst out) (snd out) = Some u"
    using Cons.prems(2) by (auto simp: load_def cell_def split: if_splits)
  have "source (T s') (t s') (fst out) h (child inp s) (x s')"
    "load h (child out s') \<noteq> None \<and> deep (T s') c \<or> load h (child out s') = Some (x s') \<and> deepens (T s') c"
    using Cons.prems(2) Cons.prems(3) [of s s' c] by (auto simp: a load_child)
  then obtain h1 w where h1: "c (child inp s) (child out s') h = Some h1"
      "only_writes (fst out) h h1" "fresh_copy (length h) (T s') (t s') h1 w"
      "put_at (h ! fst out) (snd out @ [s']) w = Some (h1 ! fst out)"
    unfolding deep_def deepens_def copied_def by (fastforce simp: child_def)
  then obtain u1 where u1: "put_at u [s'] w = Some u1" "put_at (h ! fst out) (snd out) u1 = Some (h1 ! fst out)"
    using b by (auto simp: put_append bind_eq_Some_conv)
  have l1: "load h1 out = Some u1"
    using b h1(2) get_put [OF u1(2)] by (auto simp: load_def cell_def only_writes_def)
  have "source (T r') (t r') (fst out) h1 (child inp r) (x r') \<and>
      (deep (T r') d \<and> get_at u1 [r'] \<noteq> None \<or> deepens (T r') d \<and> get_at u1 [r'] = Some (x r'))"
    if "(r, r', d) \<in> set ss" for r r' d
  proof -
    have "r' \<noteq> s'" using that Cons.prems(1) by (force simp: a)
    then show ?thesis
      using Cons.prems(3) [of r r' d] that source_mono [OF _ h1(2)] put_part(3) [OF u1(1)] by simp
  qed
  then obtain h2 u2 where h2: "parts ss inp out h1 = Some h2" "only_writes (fst out) h1 h2"
      "put_at (h1 ! fst out) (snd out) u2 = Some (h2 ! fst out)"
      "renewed T t (set (map (fst \<circ> snd) ss)) (length h1) u1 h2 u2"
    using Cons.IH [OF _ l1] Cons.prems(1) by auto
  have "renewed T t (insert s' (set (map (fst \<circ> snd) ss))) (length h) u h2 u2"
    using u1(1) h1(2,3) h2 Cons.prems(1) b(1)
    by (intro renewed_cons [of u s' w u1 _ T t h1 _ h2 u2 "fst out"]) (auto simp: a only_writes_def)
  moreover have "put_at (h ! fst out) (snd out) u2 = Some (h2 ! fst out)"
    using h2(3) put_put [OF u1(2)] by simp
  moreover have "only_writes (fst out) h h2" using h1(2) h2(2) by (rule only_writes_trans)
  ultimately show ?case using h1(1) h2(1) by (auto simp: a)
qed

section \<open>The statements keep the contract\<close>

lemma store_written:
  assumes "load h out \<noteq> None"
  shows "\<exists>h'. store h out w = Some h' \<and> length h' = length h \<and> only_writes (fst out) h h' \<and>
    put_at (h ! fst out) (snd out) w = Some (h' ! fst out)"
proof -
  from assms obtain v where "fst out < length h" "get_at (h ! fst out) (snd out) = Some v"
    by (auto simp: load_def cell_def split: if_splits)
  with put_some [OF this(2), of w] show ?thesis
    by (auto simp: store_def cell_def only_writes_def)
qed

lemma store_after_alloc:
  assumes "load h out \<noteq> None"
  shows "\<exists>h'. store (h @ [z]) out w = Some h' \<and> length h' = Suc (length h) \<and> h' ! length h = z \<and>
    only_writes (fst out) h h' \<and> put_at (h ! fst out) (snd out) w = Some (h' ! fst out)"
proof -
  have b: "fst out < length h" using assms load_cell by blast
  then have "load (h @ [z]) out \<noteq> None" using assms by (simp add: load_def)
  from store_written [OF this, of w] show ?thesis
    using b by (auto simp: only_writes_def nth_append)
qed

lemma source_new:
  assumes "source T t b h inp v" "only_writes b h h'" "length h \<le> a"
  shows "source T t a h' inp v"
proof -
  have "foot h' T v = foot h T v"
  proof (rule frame_eq)
    show "cell h' a = cell h a" if "a \<in> foot h T v" for a
      using that assms(1,2) foot_allocated(1) [of h T v t]
      by (intro only_writes_cell [of b]) (auto simp: source_def)
  qed
  with source_mono [OF assms(1,2)] assms show ?thesis
    by (auto simp: source_def dest!: foot_allocated(1) load_cell)
qed

lemma deep_assign: "flat T \<Longrightarrow> deep T assign"
  unfolding deep_def
proof (intro allI impI)
  fix h inp out v t
  assume f: "flat T" and s: "source T t (fst out) h inp v" and l: "load h out \<noteq> None"
  obtain h' where h': "store h out v = Some h'" "only_writes (fst out) h h'"
      "put_at (h ! fst out) (snd out) v = Some (h' ! fst out)"
    using store_written [OF l] by blast
  then have "tree h' T v = Some t"
    using source_mono [OF s] by (simp add: source_def)
  then show "\<exists>h'. assign inp out h = Some h' \<and> copied T t out h h'"
    using f s h' by (auto simp: assign_def source_def copied_def fresh_copy_def flat_foot flat_unshared)
qed

text \<open>A statement about a field that is a reference: nothing is done for nil.\<close>

lemma deepens_unless_nil:
  assumes "\<And>h inp out v t. source T t (fst out) h inp v \<Longrightarrow> load h out = Some v \<Longrightarrow> \<not> is_nil v \<Longrightarrow>
      \<exists>h'. c inp out h = Some h' \<and> copied T t out h h'"
  shows "deepens T (unless_nil c)"
  unfolding deepens_def
proof (intro allI impI)
  fix h inp out v t
  assume s: "source T t (fst out) h inp v" and l: "load h out = Some v"
  show "\<exists>h'. unless_nil c inp out h = Some h' \<and> copied T t out h h'"
  proof (cases "is_nil v")
    case True
    then have "foot h T v = {}" "unshared h T v"
      by (cases v rule: is_nil.cases; cases T; simp)+
    moreover have "put_at (h ! fst out) (snd out) v = Some (h ! fst out)"
      using l by (auto simp: load_def cell_def put_same split: if_splits)
    ultimately show ?thesis
      using True s by (auto simp: unless_nil_def source_def copied_def fresh_copy_def)
  next
    case False
    with assms [OF s l] s show ?thesis by (simp add: unless_nil_def source_def)
  qed
qed

lemma deepens_pointer:
  assumes "deep T c"
  shows "deepens (TyPtr T) (unless_nil (new_pointer T c))"
proof (rule deepens_unless_nil)
  fix h inp out v t
  assume s: "source (TyPtr T) t (fst out) h inp v" and l: "load h out = Some v" and "\<not> is_nil v"
  then obtain p y t' where v: "v = Ptr (Some p)" "load h p = Some y" "tree h T y = Some t'" "t = TPtr t'"
    by (cases v rule: is_nil.cases) (auto simp: source_def bind_eq_Some_conv)
  obtain h1 where h1: "store (h @ [zero_value T]) out (Ptr (Some (length h, []))) = Some h1"
      "length h1 = Suc (length h)" "only_writes (fst out) h h1"
      "put_at (h ! fst out) (snd out) (Ptr (Some (length h, []))) = Some (h1 ! fst out)"
    using store_after_alloc [of h out] l by auto
  have b: "fst out < length h" using l by (rule load_cell)
  have "source T t' (fst out) h p y"
    using s v by (auto simp: source_def)
  then have "source T t' (length h) h1 p y"
    using h1(3) by (rule source_new) simp
  moreover have "load h1 (length h, []) \<noteq> None" using h1(2) by (simp add: load_def cell_def)
  ultimately obtain h2 where h2: "c p (length h, []) h1 = Some h2" "copied T t' (length h, []) h1 h2"
    using assms unfolding deep_def by fastforce
  then have w: "only_writes (length h) h1 h2" "fresh_copy (length h1) T t' h2 (h2 ! length h)"
    by (auto simp: copied_def)
  have "load h2 (length h, []) = Some (h2 ! length h)"
    using w(1) h1(2) by (auto simp: load_def cell_def only_writes_def)
  then have "fresh_copy (length h) (TyPtr T) t h2 (Ptr (Some (length h, [])))"
    using w h1(2) v(4) by (auto simp: fresh_copy_def only_writes_def)
  moreover have "only_writes (fst out) h h2" "h2 ! fst out = h1 ! fst out"
    using w(1) h1(2,3) b by (auto simp: only_writes_def)
  ultimately show "\<exists>h'. new_pointer T c inp out h = Some h' \<and> copied (TyPtr T) t out h h'"
    using h1(1,4) h2(1) s v by (auto simp: new_pointer_def alloc_def source_def copied_def)
qed

text \<open>
  \<open>make\<close> for slices and maps alike: a new cell \<open>a\<close>, a reference to it at \<open>out\<close>, and then code
  that writes this cell and new ones only.
\<close>

lemma copied_new_cell:
  assumes "load h out \<noteq> None"
    and "\<And>h1. \<lbrakk>length h1 = Suc (length h); h1 ! length h = z; only_writes (fst out) h h1\<rbrakk> \<Longrightarrow>
      \<exists>h2. f h1 = Some h2 \<and> only_writes (length h) h1 h2 \<and> fresh_copy (length h) T t h2 r"
  shows "\<exists>h'. Option.bind (store (h @ [z]) out r) f = Some h' \<and> copied T t out h h'"
proof -
  obtain h1 where h1: "store (h @ [z]) out r = Some h1" "length h1 = Suc (length h)"
      "h1 ! length h = z" "only_writes (fst out) h h1"
      "put_at (h ! fst out) (snd out) r = Some (h1 ! fst out)"
    using store_after_alloc [OF assms(1)] by metis
  then obtain h2 where h2: "f h1 = Some h2" "only_writes (length h) h1 h2" "fresh_copy (length h) T t h2 r"
    using assms(2) by blast
  have "fst out < length h" using assms(1) load_cell by blast
  with h1 h2 have "only_writes (fst out) h h2" "h2 ! fst out = h1 ! fst out"
    by (auto simp: only_writes_def)
  with h1 h2 show ?thesis by (auto simp: copied_def)
qed

lemma apart_nth:
  "(\<And>i j. i < j \<Longrightarrow> j < length As \<Longrightarrow> As ! i \<inter> As ! j = {}) \<Longrightarrow> apart As"
proof (induction As)
  case (Cons A As)
  have "apart As"
  proof (rule Cons.IH)
    show "As ! i \<inter> As ! j = {}" if "i < j" "j < length As" for i j
      using Cons.prems [of "Suc i" "Suc j"] that by simp
  qed
  moreover have "A \<inter> B = {}" if "B \<in> set As" for B
    using Cons.prems [of 0 "Suc k" for k] that by (auto simp: in_set_conv_nth)
  ultimately show ?case by auto
qed simp

lemma renewed_array:
  assumes "renewed (\<lambda>_. T) t (Idx ` {..<n}) m (Array vs) h u" "length vs = n"
    and "h ! b = u" "b < m" "m \<le> length h" "p \<le> b"
  shows "fresh_copy p (TySlice T) (TSlice (map (t \<circ> Idx) [0..<n])) h (Slice (Some (b, 0, n)))"
proof -
  obtain us where us: "u = Array us" "length us = n"
    using assms(1,2) by (cases u) (auto simp: renewed_def)
  have e: "elems h b 0 n = Some us" using assms us by (simp add: elems_def cell_def)
  have f: "fresh_copy m T (t (Idx k)) h (us ! k)" if "k < n" for k
    using assms(1) that us by (force simp: renewed_def)
  have d: "foot h T (us ! i) \<inter> foot h T (us ! j) = {}" if "i < j" "j < n" for i j
    using renewed_apart [OF assms(1), of "Idx i" "Idx j"] that us by simp
  have "map (tree h T) us = map Some (map (t \<circ> Idx) [0..<n])"
    using f us by (intro nth_equalityI) (auto simp: fresh_copy_def)
  then have "tree h (TySlice T) (Slice (Some (b, 0, n))) = Some (TSlice (map (t \<circ> Idx) [0..<n]))"
    using e by (simp add: those_eq_Some [THEN iffD2])
  moreover have s: "\<Union> (foot h T ` set us) \<subseteq> {m..<length h}"
    using f us by (fastforce simp: in_set_conv_nth fresh_copy_def)
  moreover have "apart (map (foot h T) us)"
    using d us by (intro apart_nth) auto
  moreover have "list_all (unshared h T) us"
    using f us by (auto simp: list_all_length fresh_copy_def)
  ultimately show ?thesis
    using e assms(4-6) by (auto simp: fresh_copy_def)
qed

lemma slice_elements:
  fixes T n and h :: heap
  defines "zs \<equiv> Array (replicate n (zero_value T))"
  assumes c: "deep T c"
    and src: "\<And>k. k < n \<Longrightarrow> source T (ts ! k) b h (child (a, []) (Idx (off + k))) (xs ! k)"
    and h1: "length h1 = Suc (length h)" "h1 ! length h = zs" "only_writes b h h1" and "length ts = n"
  shows "\<exists>h2. parts (map (\<lambda>k. (Idx (off + k), Idx k, c)) [0..<n]) (a, []) (length h, []) h1 = Some h2 \<and>
    only_writes (length h) h1 h2 \<and>
    fresh_copy (length h) (TySlice T) (TSlice ts) h2 (Slice (Some (length h, 0, n)))"
proof -
  let ?t = "\<lambda>s. case s of Idx k \<Rightarrow> ts ! k" and ?x = "\<lambda>s. case s of Idx k \<Rightarrow> xs ! k"
  let ?steps = "map (\<lambda>k. (Idx (off + k), Idx k, c)) [0..<n]" and ?out = "(length h, []) :: loc"
  have "\<exists>h' u'. parts ?steps (a, []) ?out h1 = Some h' \<and> only_writes (fst ?out) h1 h' \<and>
      put_at (h1 ! fst ?out) (snd ?out) u' = Some (h' ! fst ?out) \<and>
      renewed (\<lambda>_. T) ?t (set (map (fst \<circ> snd) ?steps)) (length h1) zs h' u'"
    using h1(1,2) source_new [OF src h1(3)] c
    by (intro parts_renewed [where x = ?x])
      (auto simp: load_def cell_def distinct_map inj_on_def zs_def)
  then obtain h2 u where h2: "parts ?steps (a, []) ?out h1 = Some h2" "only_writes (length h) h1 h2"
      "h2 ! length h = u" "renewed (\<lambda>_. T) ?t (Idx ` {..<n}) (length h1) zs h2 u"
    by (auto simp: image_image atLeast0LessThan comp_def)
  have "map (?t \<circ> Idx) [0..<n] = ts" using assms(7) by (auto intro: nth_equalityI)
  with renewed_array [OF h2(4) [unfolded zs_def] _ h2(3), of "length h"] h1(1) h2(1,2) show ?thesis
    by (auto simp: only_writes_def)
qed

lemma deepens_slice:
  assumes "deep T c"
  shows "deepens (TySlice T) (unless_nil (make_slice T c))"
proof (rule deepens_unless_nil)
  fix h inp out v t
  assume s: "source (TySlice T) t (fst out) h inp v" and l: "load h out = Some v" and "\<not> is_nil v"
  then obtain a off n ys ts where v: "v = Slice (Some (a, off, n))" "elems h a off n = Some ys"
      "map (tree h T) ys = map Some ts" "t = TSlice ts"
    by (cases v rule: is_nil.cases) (auto simp: source_def bind_eq_Some_conv those_eq_Some)
  then obtain vs where vs: "a < length h" "h ! a = Array vs" "off + n \<le> length vs" "ys = take n (drop off vs)"
    by (auto simp: elems_def cell_def split: if_splits gval.splits)
  have ts: "length ts = n" "\<And>k. k < n \<Longrightarrow> tree h T (ys ! k) = Some (ts ! k)"
    using v(3) vs map_eq_imp_length_eq [OF v(3)] by (auto simp: list_eq_iff_nth_eq)
  have src: "source T (ts ! k) (fst out) h (child (a, []) (Idx (off + k))) (ys ! k)" if "k < n" for k
  proof -
    have "ys ! k \<in> set ys" using that vs by (auto simp: in_set_conv_nth)
    then show ?thesis
      using that s v ts vs by (auto simp: source_def load_def cell_def child_def)
  qed
  from copied_new_cell [OF _ slice_elements [OF assms src _ _ _ ts(1)]] l
  show "\<exists>h'. make_slice T c inp out h = Some h' \<and> copied (TySlice T) t out h h'"
    using s v by (simp add: make_slice_def alloc_def source_def)
qed

lemma insert_entries_map:
  assumes "cell h b = Some (Entries ds)" "distinct (map fst ds)" "distinct (map fst es)"
  shows "\<exists>ds'. insert_entries b es h = Some (h[b := Entries ds']) \<and> distinct (map fst ds') \<and>
    map_of ds' = map_of ds ++ map_of es"
  using assms
proof (induction es arbitrary: h ds)
  case Nil
  then have "h[b := Entries ds] = h" by (auto simp: cell_def list_update_same_conv split: if_splits)
  with Nil show ?case by (auto intro!: exI [of _ ds])
next
  case (Cons e es)
  obtain k v where e: "e = (k, v)" by (cases e)
  let ?ds = "AList.update k v ds"
  let ?h = "h[b := Entries ?ds]"
  have "cell ?h b = Some (Entries ?ds)" "map_insert b k v h = Some ?h"
    using Cons.prems(1) by (auto simp: cell_def map_insert_def split: if_splits)
  moreover have "map_of ?ds ++ map_of es = map_of ds ++ map_of (e # es)"
    using Cons.prems(3) by (simp add: e update_conv' map_add_upd_left dom_map_of_conv_image_fst)
  moreover obtain ds' where "insert_entries b es ?h = Some (?h[b := Entries ds'])" "distinct (map fst ds')"
      "map_of ds' = map_of ?ds ++ map_of es"
    using Cons.IH [of ?h ?ds] Cons.prems calculation(1) by (auto simp: distinct_update)
  ultimately show ?case by (intro exI [of _ ds']) (simp add: e map_add_def fun_eq_iff)
qed

lemma deepens_map: "deepens TyMap (unless_nil make_map)"
proof (rule deepens_unless_nil)
  fix h inp out v t
  assume s: "source TyMap t (fst out) h inp v" and l: "load h out = Some v" and "\<not> is_nil v"
  then obtain a es where v: "v = MapRef (Some a)" "cell h a = Some (Entries es)" "distinct (map fst es)"
      "t = TMap (map_of es)"
    by (cases v rule: is_nil.cases) (auto simp: source_def split: option.splits gval.splits if_splits)
  let ?f = "\<lambda>h2. case cell h2 a of Some (Entries es) \<Rightarrow> insert_entries (length h) es h2 | _ \<Rightarrow> None"
  have "\<exists>h2. ?f h1 = Some h2 \<and> only_writes (length h) h1 h2 \<and>
      fresh_copy (length h) TyMap t h2 (MapRef (Some (length h)))"
    if h1: "length h1 = Suc (length h)" "h1 ! length h = Entries []" "only_writes (fst out) h h1" for h1
  proof -
    have "cell h1 a = Some (Entries es)"
      using source_mono [OF s h1(3)] s v h1(3) only_writes_cell [OF h1(3), of a]
      by (auto simp: source_def cell_def split: if_splits)
    with insert_entries_map [of h1 "length h" "[]" es] v h1 show ?thesis
      by (auto simp: cell_def only_writes_def fresh_copy_def)
  qed
  from copied_new_cell [OF _ this] l
  show "\<exists>h'. make_map inp out h = Some h' \<and> copied TyMap t out h h'"
    using s v by (simp add: make_map_def alloc_def source_def)
qed

lemma tree_fields_parts:
  "tree_fields h fts fs = Some ts \<Longrightarrow> distinct (map fst fts) \<Longrightarrow>
    map fst fs = map fst fts \<and> map fst ts = map fst fts \<and>
    (\<forall>(n, T) \<in> set fts. \<exists>v t. map_of fs n = Some v \<and> map_of ts n = Some t \<and> tree h T v = Some t \<and>
       foot h T v \<subseteq> foot_fields h fts fs)"
proof (induction fts arbitrary: fs ts)
  case Nil
  then show ?case by (cases fs) auto
next
  case (Cons f fts)
  obtain n T where f: "f = (n, T)" by (cases f)
  with Cons.prems obtain v t fs' ts' where *: "fs = (n, v) # fs'" "ts = (n, t) # ts'" "tree h T v = Some t"
      "tree_fields h fts fs' = Some ts'"
    by (cases fs) (auto simp: bind_eq_Some_conv split: if_splits)
  have "m \<noteq> n" if "(m, S) \<in> set fts" for m S
    using that Cons.prems(2) f by force
  with Cons.IH [OF *(4)] Cons.prems(2) * f show ?case by (fastforce split: if_splits)
qed

lemma fresh_fields:
  assumes "distinct (map fst fts)" "map fst fs = map fst fts" "map fst ts = map fst fts"
    and "\<And>n T. (n, T) \<in> set fts \<Longrightarrow> fresh_copy m T (the (map_of ts n)) h (the (map_of fs n))"
    and "\<And>n T n' T'. (n, T) \<in> set fts \<Longrightarrow> (n', T') \<in> set fts \<Longrightarrow> n \<noteq> n' \<Longrightarrow>
      foot h T (the (map_of fs n)) \<inter> foot h T' (the (map_of fs n')) = {}"
  shows "tree_fields h fts fs = Some ts \<and> foot_fields h fts fs = (\<Union>(n, T) \<in> set fts. foot h T (the (map_of fs n))) \<and>
    unshared_fields h fts fs"
  using assms
proof (induction fts arbitrary: fs ts)
  case (Cons f fts)
  obtain n T where f: "f = (n, T)" by (cases f)
  with Cons.prems obtain v t fs' ts' where *: "fs = (n, v) # fs'" "ts = (n, t) # ts'"
    by (cases fs; cases ts) auto
  have ne: "k \<noteq> n" if "(k, S) \<in> set fts" for k S
    using that Cons.prems(1) f by force
  have IH: "tree_fields h fts fs' = Some ts' \<and>
      foot_fields h fts fs' = (\<Union>(n, T) \<in> set fts. foot h T (the (map_of fs' n))) \<and> unshared_fields h fts fs'"
  proof (rule Cons.IH)
    show "fresh_copy m S (the (map_of ts' k)) h (the (map_of fs' k))" if "(k, S) \<in> set fts" for k S
      using Cons.prems(4) [of k S] that ne [OF that] by (simp add: * f)
    show "foot h S (the (map_of fs' k)) \<inter> foot h S' (the (map_of fs' k')) = {}"
      if "(k, S) \<in> set fts" "(k', S') \<in> set fts" "k \<noteq> k'" for k S k' S'
      using Cons.prems(5) [of k S k' S'] that ne [OF that(1)] ne [OF that(2)] by (simp add: * f)
  qed (use Cons.prems * f in auto)
  have "fresh_copy m T t h v" using Cons.prems(4) [of n T] by (simp add: * f)
  moreover have "foot h T v \<inter> foot h S (the (map_of fs' k)) = {}" if "(k, S) \<in> set fts" for k S
    using Cons.prems(5) [of n T k S] that ne [OF that] by (simp add: * f)
  moreover have "(\<Union>(k, S) \<in> set fts. foot h S (the (map_of fs k))) = (\<Union>(k, S) \<in> set fts. foot h S (the (map_of fs' k)))"
    using ne by (auto simp: *)
  ultimately show ?case using IH by (auto simp: * f fresh_copy_def)
qed simp

text \<open>
  The body of a \<open>DeepCopyInto\<close> makes a deep copy if each field with references has a statement
  that deepens it.
\<close>

definition covered :: "(string \<times> gty) list \<Rightarrow> (string \<times> copier) list \<Rightarrow> bool" where
  "covered fts steps \<longleftrightarrow> distinct (map fst fts) \<and> distinct (map fst steps) \<and>
     fst ` set steps \<subseteq> fst ` set fts \<and>
     (\<forall>(n, T) \<in> set fts. case map_of steps n of Some c \<Rightarrow> deepens T c | None \<Rightarrow> flat T)"

text \<open>The same, for statements in the order of the fields.\<close>

fun matches :: "(string \<times> gty) list \<Rightarrow> (string \<times> copier) list \<Rightarrow> bool" where
  "matches [] steps = (steps = [])"
| "matches ((n, T) # fts) [] = (flat T \<and> matches fts [])"
| "matches ((n, T) # fts) ((m, c) # steps) =
     (if n = m then deepens T c \<and> matches fts steps else flat T \<and> matches fts ((m, c) # steps))"

lemma matches_covered: "distinct (map fst fts) \<Longrightarrow> matches fts steps \<Longrightarrow> covered fts steps"
proof (induction fts steps rule: matches.induct)
  case (2 n T fts)
  then show ?case by (auto simp: covered_def)
next
  case (3 n T fts m c steps)
  have ne: "k \<noteq> n" if "(k, S) \<in> set fts" for k S using that 3(3) by force
  show ?case
  proof (cases "n = m")
    case True
    with 3 have c: "covered fts steps" "deepens T c" by auto
    then have "(case map_of ((m, c) # steps) k of Some d \<Rightarrow> deepens S d | None \<Rightarrow> flat S)"
      if "(k, S) \<in> set fts" for k S
      using that ne [OF that] True by (auto simp: covered_def)
    with c 3(3) True show ?thesis by (auto simp: covered_def)
  next
    case False
    with 3 have c: "covered fts ((m, c) # steps)" "flat T" by auto
    then have "n \<notin> fst ` set steps" using 3(3) by (auto simp: covered_def)
    then have "map_of ((m, c) # steps) n = None" using False by (simp add: map_of_eq_None_iff)
    with c 3(3) show ?thesis unfolding covered_def by auto
  qed
qed (simp add: covered_def)

lemma renewed_struct:
  assumes cov: "covered fts steps" and ts: "tree_fields h fts fs = Some ts"
    and r: "renewed (\<lambda>s. case s of Fld n \<Rightarrow> the (map_of fts n)) (\<lambda>s. case s of Fld n \<Rightarrow> the (map_of ts n))
      (Fld ` fst ` set steps) m (Struct fs) h' u"
  shows "fresh_copy m (TyStruct fts) (TStruct ts) h' u"
proof -
  have names: "distinct (map fst fts)" "map fst fs = map fst fts" "map fst ts = map fst fts"
    using cov tree_fields_parts [OF ts] by (auto simp: covered_def)
  obtain us where us: "u = Struct us" "map fst us = map fst fts"
    using r names by (cases u) (auto simp: renewed_def)
  have keys: "n \<in> fst ` set fts \<Longrightarrow> \<exists>v. map_of us n = Some v" for n
    using us(2) by (metis list.set_map map_of_eq_None_iff not_Some_eq)
  have ty: "(n, T) \<in> set fts \<Longrightarrow> map_of fts n = Some T" for n T
    using names(1) by simp
  have one: "fresh_copy m T (the (map_of ts n)) h' (the (map_of us n)) \<and>
      (n \<in> fst ` set steps \<or> foot h' T (the (map_of us n)) = {})" if nT: "(n, T) \<in> set fts" for n T
  proof (cases "n \<in> fst ` set steps")
    case True
    with r ty [OF nT] us(1) show ?thesis by (force simp: renewed_def bind_eq_Some_conv)
  next
    case False
    then have "flat T" using cov nT by (auto simp: covered_def map_of_eq_None_iff dest!: bspec split: option.splits)
    moreover have "map_of us n = map_of fs n"
      using False r us(1) unfolding renewed_def by (auto dest!: spec [of _ "Fld n"] split: bind_splits)
    moreover have "tree h T (the (map_of fs n)) = Some (the (map_of ts n))"
      using tree_fields_parts [OF ts names(1)] nT by force
    ultimately show ?thesis
      using frame_eq(1) [of h T "the (map_of fs n)" h'] by (simp add: fresh_copy_def flat_foot flat_unshared)
  qed
  have "foot h' T (the (map_of us n)) \<inter> foot h' T' (the (map_of us n')) = {}"
    if nT: "(n, T) \<in> set fts" "(n', T') \<in> set fts" "n \<noteq> n'" for n T n' T'
  proof (cases "n \<in> fst ` set steps \<and> n' \<in> fst ` set steps")
    case True
    obtain v v' where "map_of us n = Some v" "map_of us n' = Some v'"
      using keys nT(1,2) by (metis fst_conv imageI)
    moreover have "get_at u [Fld k] = map_of us k" for k
      by (cases "map_of us k") (auto simp: us(1))
    ultimately show ?thesis
      using True nT(3) ty [OF nT(1)] ty [OF nT(2)] renewed_apart [OF r, of "Fld n" "Fld n'" v v'] by simp
  next
    case False
    with one [OF nT(1)] one [OF nT(2)] show ?thesis by blast
  qed
  from fresh_fields [OF names(1) us(2) names(3) conjunct1 [OF one] this] one show ?thesis
    by (fastforce simp: fresh_copy_def us(1))
qed

lemma distinct_map_Fld: "distinct (map fst xs) \<Longrightarrow> distinct (map (\<lambda>x. Fld (fst x)) xs)"
  by (induction xs) auto

lemma deep_struct:
  assumes cov: "covered fts steps"
  shows "deep (TyStruct fts) (copy_struct steps)"
  unfolding deep_def
proof (intro allI impI)
  fix h inp out v t
  assume s: "source (TyStruct fts) t (fst out) h inp v" and l: "load h out \<noteq> None"
  then obtain fs ts where v: "v = Struct fs" "tree_fields h fts fs = Some ts" "t = TStruct ts"
    by (cases v) (auto simp: source_def)
  obtain h1 where h1: "store h out v = Some h1" "length h1 = length h" "only_writes (fst out) h h1"
      "put_at (h ! fst out) (snd out) v = Some (h1 ! fst out)"
    using store_written [OF l] by blast
  have b: "fst out < length h" using l load_cell by blast
  let ?T = "\<lambda>s. case s of Fld n \<Rightarrow> the (map_of fts n)" and ?t = "\<lambda>s. case s of Fld n \<Rightarrow> the (map_of ts n)"
  let ?x = "\<lambda>s. case s of Fld n \<Rightarrow> the (map_of fs n)"
  let ?steps = "map (\<lambda>(n, c). (Fld n, Fld n, c)) steps"
  have step: "source (?T (Fld n)) (?t (Fld n)) (fst out) h (child inp (Fld n)) (?x (Fld n)) \<and>
      deepens (?T (Fld n)) c \<and> map_of fs n = Some (?x (Fld n))" if "(n, c) \<in> set steps" for n c
  proof -
    have "map_of steps n = Some c" using that cov by (simp add: covered_def)
    moreover have d: "distinct (map fst fts)" using cov by (simp add: covered_def)
    moreover have "fst (n, c) \<in> fst ` set fts"
      using cov imageI [OF that, of fst] unfolding covered_def by blast
    then obtain T where T: "(n, T) \<in> set fts" by auto
    ultimately have "map_of fts n = Some T" "deepens T c"
      using cov by (auto simp: covered_def dest!: bspec)
    moreover obtain x t' where "map_of fs n = Some x" "map_of ts n = Some t'" "tree h T x = Some t'"
        "foot h T x \<subseteq> foot_fields h fts fs"
      using tree_fields_parts [OF v(2) d] T by blast
    ultimately show ?thesis
      using s v by (auto simp: source_def load_child)
  qed
  have "\<exists>h' u'. parts ?steps inp out h1 = Some h' \<and> only_writes (fst out) h1 h' \<and>
      put_at (h1 ! fst out) (snd out) u' = Some (h' ! fst out) \<and>
      renewed ?T ?t (set (map (fst \<circ> snd) ?steps)) (length h1) v h' u'"
  proof (rule parts_renewed [where x = ?x])
    show "distinct (map (fst \<circ> snd) ?steps)"
      using cov by (simp add: covered_def comp_def case_prod_unfold distinct_map_Fld)
    show "load h1 out = Some v"
      using b h1(2) get_put [OF h1(4)] by (simp add: load_def cell_def)
    show "source (?T r') (?t r') (fst out) h1 (child inp r) (?x r') \<and>
        (deep (?T r') c \<and> get_at v [r'] \<noteq> None \<or> deepens (?T r') c \<and> get_at v [r'] = Some (?x r'))"
      if part: "(r, r', c) \<in> set ?steps" for r r' c
    proof -
      obtain n where "r = Fld n" "r' = Fld n" "(n, c) \<in> set steps" using part by auto
      with step [of n c] source_mono [OF _ h1(3)] v(1) show ?thesis by simp
    qed
  qed
  then obtain h2 u where h2: "parts ?steps inp out h1 = Some h2" "only_writes (fst out) h1 h2"
      "put_at (h1 ! fst out) (snd out) u = Some (h2 ! fst out)"
      "renewed ?T ?t (Fld ` fst ` set steps) (length h) (Struct fs) h2 u"
    using h1(2) v(1) by (auto simp: image_image comp_def case_prod_unfold)
  have "copied (TyStruct fts) t out h h2"
    using renewed_struct [OF cov v(2) h2(4)] h2(2,3) only_writes_trans [OF h1(3)] put_put [OF h1(4)] v(3)
    by (auto simp: copied_def)
  then show "\<exists>h'. copy_struct steps inp out h = Some h' \<and> copied (TyStruct fts) t out h h'"
    using s h1(1) h2(1) by (simp add: copy_struct_def assign_def source_def)
qed

lemma take_only_writes: "take (length h) h' = h \<Longrightarrow> only_writes b h h'"
  unfolding only_writes_def by (metis length_take min.absorb_iff2 nat_le_linear nth_take)

lemma deep_pointer_deep_copy:
  assumes "deep T c"
  shows "deep_pointer T (deep_copy T c)"
  unfolding deep_pointer_def
proof (intro conjI allI impI)
  fix h l v t
  assume l: "load h l = Some v" "tree h T v = Some t"
  let ?h = "h @ [zero_value T]"
  have "only_writes (length h) h ?h" by (simp add: only_writes_def nth_append)
  moreover have "source T t (length h) h l v"
    using l load_cell [OF l(1)] foot_allocated(1) [OF l(2)] by (auto simp: source_def)
  ultimately have "source T t (length h) ?h l v" by (rule source_mono [rotated])
  moreover have "load ?h (length h, []) \<noteq> None" by (simp add: load_def cell_def)
  ultimately obtain h' where h': "c l (length h, []) ?h = Some h'" "copied T t (length h, []) ?h h'"
    using assms unfolding deep_def by fastforce
  then have w: "only_writes (length h) ?h h'" "fresh_copy (Suc (length h)) T t h' (h' ! length h)"
    by (auto simp: copied_def)
  have "load h' (length h, []) = Some (h' ! length h)"
    using w(1) by (auto simp: load_def cell_def only_writes_def)
  then have "fresh_copy (length h) (TyPtr T) (TPtr t) h' (Ptr (Some (length h, [])))"
    using w by (auto simp: fresh_copy_def only_writes_def)
  moreover have "take (length h) h' = h"
    using w(1) by (intro nth_equalityI) (auto simp: only_writes_def nth_append)
  ultimately show "\<exists>q h'. deep_copy T c (Some l) h = Some (Some q, h') \<and> take (length h) h' = h \<and>
      fresh_copy (length h) (TyPtr T) (TPtr t) h' (Ptr (Some q))"
    using h'(1) by (auto simp: deep_copy_def alloc_def)
qed (simp add: deep_copy_def)

lemma deepens_copy_by:
  assumes "deep_pointer T f"
  shows "deepens (TyPtr T) (unless_nil (copy_by f))"
proof (rule deepens_unless_nil)
  fix h inp out v t
  assume s: "source (TyPtr T) t (fst out) h inp v" and l: "load h out = Some v" and "\<not> is_nil v"
  then obtain p y t' where v: "v = Ptr (Some p)" "load h p = Some y" "tree h T y = Some t'" "t = TPtr t'"
    by (cases v rule: is_nil.cases) (auto simp: source_def bind_eq_Some_conv)
  then obtain q h1 where h1: "f (Some p) h = Some (Some q, h1)" "take (length h) h1 = h"
      "fresh_copy (length h) (TyPtr T) t h1 (Ptr (Some q))"
    using assms unfolding deep_pointer_def by blast
  have b: "fst out < length h" using l by (rule load_cell)
  have old: "h1 ! fst out = h ! fst out" "length h \<le> length h1"
    using take_only_writes [OF h1(2), of "length h"] b by (auto simp: only_writes_def)
  then have "load h1 out \<noteq> None" using l b by (simp add: load_def cell_def)
  from store_written [OF this, of "Ptr (Some q)"] obtain h2 where h2: "store h1 out (Ptr (Some q)) = Some h2"
      "only_writes (fst out) h1 h2" "put_at (h ! fst out) (snd out) (Ptr (Some q)) = Some (h2 ! fst out)"
    by (auto simp: old)
  have "only_writes (fst out) h h2"
    using take_only_writes [OF h1(2)] h2(2) by (rule only_writes_trans)
  moreover have "fresh_copy (length h) (TyPtr T) t h2 (Ptr (Some q))"
    using h1(3) h2(2) b by (rule fresh_copy_mono)
  ultimately show "\<exists>h'. copy_by f inp out h = Some h' \<and> copied (TyPtr T) t out h h'"
    using s v(1) h1(1) h2(1,3) by (auto simp: copy_by_def source_def copied_def)
qed

text \<open>
  The copy and the original are independent: whatever is written to the cells of the one, the
  other stands for the same tree as before.
\<close>

lemma deep_pointer_independent:
  assumes "deep_pointer T f" "tree h (TyPtr T) (Ptr (Some l)) = Some t"
  shows "\<exists>q h'. f (Some l) h = Some (Some q, h') \<and> take (length h) h' = h \<and>
    unshared h' (TyPtr T) (Ptr (Some q)) \<and>
    (\<forall>g. (\<forall>a \<ge> length h. cell g a = cell h' a) \<longrightarrow> tree g (TyPtr T) (Ptr (Some q)) = Some t) \<and>
    (\<forall>g. (\<forall>a < length h. cell g a = cell h' a) \<longrightarrow> tree g (TyPtr T) (Ptr (Some l)) = Some t)"
proof -
  obtain v t' where "load h l = Some v" "tree h T v = Some t'" "t = TPtr t'"
    using assms(2) by (auto simp: bind_eq_Some_conv)
  with assms(1) obtain q h' where f: "f (Some l) h = Some (Some q, h')" "take (length h) h' = h"
      "fresh_copy (length h) (TyPtr T) t h' (Ptr (Some q))"
    unfolding deep_pointer_def by blast
  have "tree g (TyPtr T) (Ptr (Some q)) = Some t" if g: "\<forall>a \<ge> length h. cell g a = cell h' a" for g
  proof -
    have "cell g a = cell h' a" if "a \<in> foot h' (TyPtr T) (Ptr (Some q))" for a
      using g that f(3) unfolding fresh_copy_def by (meson atLeastLessThan_iff subsetD)
    with frame_eq(1) f(3) show ?thesis unfolding fresh_copy_def by metis
  qed
  moreover have "tree g (TyPtr T) (Ptr (Some l)) = Some t" if g: "\<forall>a < length h. cell g a = cell h' a" for g
  proof -
    have "cell g a = cell h a" if "a \<in> foot h (TyPtr T) (Ptr (Some l))" for a
      using g that foot_allocated(1) [OF assms(2)] only_writes_cell [OF take_only_writes [OF f(2)], of a "length h"]
      by auto
    with frame_eq(1) assms(2) show ?thesis by metis
  qed
  ultimately show ?thesis using f by (auto simp: fresh_copy_def)
qed

end
