(* ===== verification/Deep_Copy.thy ===== *)
theory Deep_Copy
  imports Go_Heap
begin

text \<open>
  The generated deep copies (\<open>api/v1alpha1/zz_generated.deepcopy.go\<close>): for each of the 36
  types of the API its layout in memory, from the struct declarations, and its \<open>DeepCopyInto\<close>
  and \<open>DeepCopy\<close>; for the four kinds of object also \<open>DeepCopyObject\<close>, by which the client
  and the cache copy the objects they hand out. The statements of each body stand in the order of the code.

  The theorem: every one of these functions makes a deep copy. The hard part of a hand-changed
  or outdated copy, a field with a reference that \<open>*out = *in\<close> shares and no statement replaces, is
  what the contract of \<open>Go_Heap\<close> rules out, also where a value is shared inside the original.

  The types of the package \<open>metav1\<close> and their copies are not part of the repository: they
  are parameters, the fields of \<open>metav1\<close>.
\<close>

named_theorems deep_facts

type_synonym deep_copier = "loc option \<Rightarrow> heap \<Rightarrow> (loc option \<times> heap) option"

text \<open>An object of the interface type \<open>runtime.Object\<close>: its dynamic type and the pointer.\<close>

type_synonym runtime_Object = "string \<times> loc"
type_synonym object_copier = "loc option \<Rightarrow> heap \<Rightarrow> (runtime_Object option \<times> heap) option"

record metav1 =
  TypeMeta_type :: gty
  ObjectMeta_type :: gty
  ListMeta_type :: gty
  Condition_type :: gty
  Time_type :: gty
  ObjectMeta_DeepCopyInto :: copier
  ListMeta_DeepCopyInto :: copier
  Condition_DeepCopyInto :: copier
  Time_DeepCopy :: deep_copier

text \<open>
  What the package documents: \<open>TypeMeta\<close> consists of plain strings, and the copies of the
  other types are deep.
\<close>

definition metav1_deep :: "metav1 \<Rightarrow> bool" where
  "metav1_deep M \<longleftrightarrow> flat (TypeMeta_type M) \<and>
     deep (ObjectMeta_type M) (ObjectMeta_DeepCopyInto M) \<and>
     deep (ListMeta_type M) (ListMeta_DeepCopyInto M) \<and>
     deep (Condition_type M) (Condition_DeepCopyInto M) \<and>
     deep_pointer (Time_type M) (Time_DeepCopy M)"

text \<open>
  \<open>DeepCopyObject\<close>: a nil receiver gives the nil interface, not an interface that holds a nil
  pointer.
\<close>

definition copy_object :: "string \<Rightarrow> deep_copier \<Rightarrow> object_copier" where
  "copy_object kind copy inp h = Option.bind (copy inp h) (\<lambda>(c, h'). case c of
     Some p \<Rightarrow> Some (Some (kind, p), h')
   | None \<Rightarrow> Some (None, h'))"

section \<open>The types\<close>

definition ContractRef_type :: gty where
  "ContractRef_type = TyStruct [
     (''OCI'', TyScalar KStr),
     (''Inline'', TyScalar KStr),
     (''PullSecretRef'', TyScalar KStr)]"

definition WorkloadRef_type :: gty where
  "WorkloadRef_type = TyStruct [
     (''Name'', TyScalar KStr),
     (''Kind'', TyScalar KStr)]"

definition TargetRef_type :: gty where
  "TargetRef_type = TyStruct [
     (''ServiceName'', TyScalar KStr),
     (''WorkloadRef'', TyPtr WorkloadRef_type)]"

definition ConfigurationOverride_type :: gty where
  "ConfigurationOverride_type = TyStruct [
     (''Name'', TyScalar KStr),
     (''Values'', TyMap)]"

definition ContractOverrides_type :: gty where
  "ContractOverrides_type = TyStruct [
     (''Configurations'', TySlice ConfigurationOverride_type)]"

definition PactoSpec_type :: gty where
  "PactoSpec_type = TyStruct [
     (''ContractRef'', ContractRef_type),
     (''Target'', TargetRef_type),
     (''Overrides'', TyPtr ContractOverrides_type),
     (''CheckIntervalSeconds'', TyScalar KInt32)]"

definition ResourceStatus_type :: gty where
  "ResourceStatus_type = TyStruct [
     (''Name'', TyScalar KStr),
     (''Kind'', TyScalar KStr),
     (''Exists'', TyScalar KBool)]"

definition PortStatus_type :: gty where
  "PortStatus_type = TyStruct [
     (''Expected'', TySlice (TyScalar KInt32)),
     (''Observed'', TySlice (TyScalar KInt32)),
     (''Missing'', TySlice (TyScalar KInt32)),
     (''Unexpected'', TySlice (TyScalar KInt32))]"

definition CheckSummary_type :: gty where
  "CheckSummary_type = TyStruct [
     (''Total'', TyScalar KInt32),
     (''Passed'', TyScalar KInt32),
     (''Failed'', TyScalar KInt32)]"

definition ReadinessRevisionStatus_type :: gty where
  "ReadinessRevisionStatus_type = TyStruct [
     (''Date'', TyScalar KStr),
     (''Version'', TyScalar KStr),
     (''Author'', TyScalar KStr),
     (''Description'', TyScalar KStr)]"

definition ReadinessCheckStatus_type :: gty where
  "ReadinessCheckStatus_type = TyStruct [
     (''ID'', TyScalar KStr),
     (''Type'', TyScalar KStr),
     (''Category'', TyScalar KStr),
     (''Status'', TyScalar KStr),
     (''Evidence'', TyScalar KStr),
     (''Description'', TyScalar KStr),
     (''Weight'', TyScalar KInt32),
     (''EarnedWeight'', TyScalar KInt32),
     (''Excluded'', TyScalar KBool)]"

definition ReadinessStatus_type :: gty where
  "ReadinessStatus_type = TyStruct [
     (''Score'', TyScalar KInt32),
     (''MinScore'', TyScalar KInt32),
     (''Passing'', TyScalar KBool),
     (''TotalWeight'', TyScalar KInt32),
     (''EarnedWeight'', TyScalar KInt32),
     (''Expires'', TyScalar KStr),
     (''Expired'', TyScalar KBool),
     (''DaysRemaining'', TyPtr (TyScalar KInt32)),
     (''DoneCount'', TyScalar KInt32),
     (''PartialCount'', TyScalar KInt32),
     (''NotDoneCount'', TyScalar KInt32),
     (''DeferredCount'', TyScalar KInt32),
     (''Revisions'', TySlice ReadinessRevisionStatus_type),
     (''Checks'', TySlice ReadinessCheckStatus_type)]"

definition ResourcesStatus_type :: gty where
  "ResourcesStatus_type = TyStruct [
     (''Service'', TyPtr ResourceStatus_type),
     (''Workload'', TyPtr ResourceStatus_type)]"

definition OwnerContact_type :: gty where
  "OwnerContact_type = TyStruct [
     (''Type'', TyScalar KStr),
     (''Value'', TyScalar KStr),
     (''Purpose'', TyScalar KStr)]"

definition OwnerInfo_type :: gty where
  "OwnerInfo_type = TyStruct [
     (''Team'', TyScalar KStr),
     (''DRI'', TyScalar KStr),
     (''Contacts'', TySlice OwnerContact_type)]"

definition ContractInfo_type :: gty where
  "ContractInfo_type = TyStruct [
     (''ServiceName'', TyScalar KStr),
     (''Version'', TyScalar KStr),
     (''Owner'', TyPtr OwnerInfo_type),
     (''OwnerDisplay'', TyScalar KStr),
     (''ImageRef'', TyScalar KStr),
     (''ResolvedRef'', TyScalar KStr)]"

definition InterfaceInfo_type :: gty where
  "InterfaceInfo_type = TyStruct [
     (''Name'', TyScalar KStr),
     (''Type'', TyScalar KStr),
     (''Port'', TyPtr (TyScalar KInt32)),
     (''Visibility'', TyScalar KStr),
     (''HasContractFile'', TyScalar KBool)]"

definition SchemaProperty_type :: gty where
  "SchemaProperty_type = TyStruct [
     (''Key'', TyScalar KStr),
     (''Value'', TyScalar KStr),
     (''Type'', TyScalar KStr)]"

definition ConfigurationInfo_type :: gty where
  "ConfigurationInfo_type = TyStruct [
     (''Name'', TyScalar KStr),
     (''HasSchema'', TyScalar KBool),
     (''Ref'', TyScalar KStr),
     (''ValueKeys'', TySlice (TyScalar KStr)),
     (''SecretKeys'', TySlice (TyScalar KStr)),
     (''OverriddenKeys'', TySlice (TyScalar KStr)),
     (''Properties'', TySlice SchemaProperty_type)]"

definition DependencyInfo_type :: gty where
  "DependencyInfo_type = TyStruct [
     (''Name'', TyScalar KStr),
     (''Ref'', TyScalar KStr),
     (''Required'', TyScalar KBool),
     (''Compatibility'', TyScalar KStr)]"

definition PolicyInfo_type :: gty where
  "PolicyInfo_type = TyStruct [
     (''Name'', TyScalar KStr),
     (''HasSchema'', TyScalar KBool),
     (''Schema'', TyScalar KStr),
     (''Ref'', TyScalar KStr),
     (''Title'', TyScalar KStr),
     (''Description'', TyScalar KStr),
     (''Properties'', TySlice SchemaProperty_type)]"

definition RuntimeInfo_type :: gty where
  "RuntimeInfo_type = TyStruct [
     (''Workload'', TyScalar KStr),
     (''StateType'', TyScalar KStr),
     (''PersistenceScope'', TyScalar KStr),
     (''PersistenceDurability'', TyScalar KStr),
     (''DataCriticality'', TyScalar KStr),
     (''UpgradeStrategy'', TyScalar KStr),
     (''GracefulShutdownSeconds'', TyPtr (TyScalar KInt32)),
     (''HealthInterface'', TyScalar KStr),
     (''HealthPath'', TyScalar KStr),
     (''MetricsInterface'', TyScalar KStr),
     (''MetricsPath'', TyScalar KStr),
     (''HealthInitialDelaySeconds'', TyPtr (TyScalar KInt32))]"

definition ObservedRuntime_type :: gty where
  "ObservedRuntime_type = TyStruct [
     (''WorkloadKind'', TyScalar KStr),
     (''DeploymentStrategy'', TyScalar KStr),
     (''PodManagementPolicy'', TyScalar KStr),
     (''TerminationGracePeriodSeconds'', TyPtr (TyScalar KInt64)),
     (''ContainerImages'', TySlice (TyScalar KStr)),
     (''HasPVC'', TyScalar KBool),
     (''HasEmptyDir'', TyScalar KBool),
     (''HealthProbeInitialDelaySeconds'', TyPtr (TyScalar KInt32))]"

definition ScalingInfo_type :: gty where
  "ScalingInfo_type = TyStruct [
     (''Replicas'', TyPtr (TyScalar KInt32)),
     (''Min'', TyPtr (TyScalar KInt32)),
     (''Max'', TyPtr (TyScalar KInt32))]"

definition EndpointCheckResult_type :: gty where
  "EndpointCheckResult_type = TyStruct [
     (''URL'', TyScalar KStr),
     (''Reachable'', TyScalar KBool),
     (''StatusCode'', TyScalar KInt32),
     (''LatencyMs'', TyScalar KInt64),
     (''Error'', TyScalar KStr)]"

definition EndpointsStatus_type :: gty where
  "EndpointsStatus_type = TyStruct [
     (''Health'', TyPtr EndpointCheckResult_type),
     (''Metrics'', TyPtr EndpointCheckResult_type)]"

definition ValidationIssue_type :: gty where
  "ValidationIssue_type = TyStruct [
     (''Code'', TyScalar KStr),
     (''Path'', TyScalar KStr),
     (''Message'', TyScalar KStr)]"

definition ValidationResult_type :: gty where
  "ValidationResult_type = TyStruct [
     (''Valid'', TyScalar KBool),
     (''Errors'', TySlice ValidationIssue_type),
     (''Warnings'', TySlice ValidationIssue_type)]"

definition PactoStatus_type :: "metav1 \<Rightarrow> gty" where
  "PactoStatus_type M = TyStruct [
     (''ContractStatus'', TyScalar KStr),
     (''ResolutionPolicy'', TyScalar KStr),
     (''Summary'', TyPtr CheckSummary_type),
     (''ContractVersion'', TyScalar KStr),
     (''Contract'', TyPtr ContractInfo_type),
     (''Validation'', TyPtr ValidationResult_type),
     (''Resources'', TyPtr ResourcesStatus_type),
     (''Ports'', TyPtr PortStatus_type),
     (''Endpoints'', TyPtr EndpointsStatus_type),
     (''Interfaces'', TySlice InterfaceInfo_type),
     (''Configurations'', TySlice ConfigurationInfo_type),
     (''Dependencies'', TySlice DependencyInfo_type),
     (''Policies'', TySlice PolicyInfo_type),
     (''Runtime'', TyPtr RuntimeInfo_type),
     (''ObservedRuntime'', TyPtr ObservedRuntime_type),
     (''Scaling'', TyPtr ScalingInfo_type),
     (''Readiness'', TyPtr ReadinessStatus_type),
     (''Metadata'', TyMap),
     (''Conditions'', TySlice (Condition_type M)),
     (''CurrentRevision'', TyScalar KStr),
     (''LastReconciledAt'', TyPtr (Time_type M)),
     (''ObservedGeneration'', TyScalar KInt64)]"

definition Pacto_type :: "metav1 \<Rightarrow> gty" where
  "Pacto_type M = TyStruct [
     (''TypeMeta'', TypeMeta_type M),
     (''ObjectMeta'', ObjectMeta_type M),
     (''Spec'', PactoSpec_type),
     (''Status'', PactoStatus_type M)]"

definition PactoList_type :: "metav1 \<Rightarrow> gty" where
  "PactoList_type M = TyStruct [
     (''TypeMeta'', TypeMeta_type M),
     (''ListMeta'', ListMeta_type M),
     (''Items'', TySlice (Pacto_type M))]"

definition RevisionSource_type :: gty where
  "RevisionSource_type = TyStruct [
     (''OCI'', TyScalar KStr),
     (''Digest'', TyScalar KStr),
     (''Inline'', TyScalar KBool)]"

definition PactoRevisionSpec_type :: gty where
  "PactoRevisionSpec_type = TyStruct [
     (''Version'', TyScalar KStr),
     (''Source'', RevisionSource_type),
     (''PactoRef'', TyScalar KStr),
     (''ServiceName'', TyScalar KStr)]"

definition PactoRevisionStatus_type :: "metav1 \<Rightarrow> gty" where
  "PactoRevisionStatus_type M = TyStruct [
     (''Resolved'', TyScalar KBool),
     (''ContractHash'', TyScalar KStr),
     (''CreatedAt'', TyPtr (Time_type M)),
     (''Conditions'', TySlice (Condition_type M))]"

definition PactoRevision_type :: "metav1 \<Rightarrow> gty" where
  "PactoRevision_type M = TyStruct [
     (''TypeMeta'', TypeMeta_type M),
     (''ObjectMeta'', ObjectMeta_type M),
     (''Spec'', PactoRevisionSpec_type),
     (''Status'', PactoRevisionStatus_type M)]"

definition PactoRevisionList_type :: "metav1 \<Rightarrow> gty" where
  "PactoRevisionList_type M = TyStruct [
     (''TypeMeta'', TypeMeta_type M),
     (''ListMeta'', ListMeta_type M),
     (''Items'', TySlice (PactoRevision_type M))]"

section \<open>The functions\<close>

definition ContractRef_DeepCopyInto :: copier where
  "ContractRef_DeepCopyInto = copy_struct []"

definition ContractRef_DeepCopy :: deep_copier where
  "ContractRef_DeepCopy = deep_copy ContractRef_type ContractRef_DeepCopyInto"

definition WorkloadRef_DeepCopyInto :: copier where
  "WorkloadRef_DeepCopyInto = copy_struct []"

definition WorkloadRef_DeepCopy :: deep_copier where
  "WorkloadRef_DeepCopy = deep_copy WorkloadRef_type WorkloadRef_DeepCopyInto"

definition TargetRef_DeepCopyInto :: copier where
  "TargetRef_DeepCopyInto = copy_struct [
     (''WorkloadRef'', unless_nil (new_pointer WorkloadRef_type assign))]"

definition TargetRef_DeepCopy :: deep_copier where
  "TargetRef_DeepCopy = deep_copy TargetRef_type TargetRef_DeepCopyInto"

definition ConfigurationOverride_DeepCopyInto :: copier where
  "ConfigurationOverride_DeepCopyInto = copy_struct [
     (''Values'', unless_nil make_map)]"

definition ConfigurationOverride_DeepCopy :: deep_copier where
  "ConfigurationOverride_DeepCopy = deep_copy ConfigurationOverride_type ConfigurationOverride_DeepCopyInto"

definition ContractOverrides_DeepCopyInto :: copier where
  "ContractOverrides_DeepCopyInto = copy_struct [
     (''Configurations'', unless_nil (make_slice ConfigurationOverride_type ConfigurationOverride_DeepCopyInto))]"

definition ContractOverrides_DeepCopy :: deep_copier where
  "ContractOverrides_DeepCopy = deep_copy ContractOverrides_type ContractOverrides_DeepCopyInto"

definition PactoSpec_DeepCopyInto :: copier where
  "PactoSpec_DeepCopyInto = copy_struct [
     (''ContractRef'', assign),
     (''Target'', TargetRef_DeepCopyInto),
     (''Overrides'', unless_nil (new_pointer ContractOverrides_type ContractOverrides_DeepCopyInto))]"

definition PactoSpec_DeepCopy :: deep_copier where
  "PactoSpec_DeepCopy = deep_copy PactoSpec_type PactoSpec_DeepCopyInto"

definition ResourceStatus_DeepCopyInto :: copier where
  "ResourceStatus_DeepCopyInto = copy_struct []"

definition ResourceStatus_DeepCopy :: deep_copier where
  "ResourceStatus_DeepCopy = deep_copy ResourceStatus_type ResourceStatus_DeepCopyInto"

definition PortStatus_DeepCopyInto :: copier where
  "PortStatus_DeepCopyInto = copy_struct [
     (''Expected'', unless_nil (make_slice (TyScalar KInt32) assign)),
     (''Observed'', unless_nil (make_slice (TyScalar KInt32) assign)),
     (''Missing'', unless_nil (make_slice (TyScalar KInt32) assign)),
     (''Unexpected'', unless_nil (make_slice (TyScalar KInt32) assign))]"

definition PortStatus_DeepCopy :: deep_copier where
  "PortStatus_DeepCopy = deep_copy PortStatus_type PortStatus_DeepCopyInto"

definition CheckSummary_DeepCopyInto :: copier where
  "CheckSummary_DeepCopyInto = copy_struct []"

definition CheckSummary_DeepCopy :: deep_copier where
  "CheckSummary_DeepCopy = deep_copy CheckSummary_type CheckSummary_DeepCopyInto"

definition ReadinessRevisionStatus_DeepCopyInto :: copier where
  "ReadinessRevisionStatus_DeepCopyInto = copy_struct []"

definition ReadinessRevisionStatus_DeepCopy :: deep_copier where
  "ReadinessRevisionStatus_DeepCopy = deep_copy ReadinessRevisionStatus_type ReadinessRevisionStatus_DeepCopyInto"

definition ReadinessCheckStatus_DeepCopyInto :: copier where
  "ReadinessCheckStatus_DeepCopyInto = copy_struct []"

definition ReadinessCheckStatus_DeepCopy :: deep_copier where
  "ReadinessCheckStatus_DeepCopy = deep_copy ReadinessCheckStatus_type ReadinessCheckStatus_DeepCopyInto"

definition ReadinessStatus_DeepCopyInto :: copier where
  "ReadinessStatus_DeepCopyInto = copy_struct [
     (''DaysRemaining'', unless_nil (new_pointer (TyScalar KInt32) assign)),
     (''Revisions'', unless_nil (make_slice ReadinessRevisionStatus_type assign)),
     (''Checks'', unless_nil (make_slice ReadinessCheckStatus_type assign))]"

definition ReadinessStatus_DeepCopy :: deep_copier where
  "ReadinessStatus_DeepCopy = deep_copy ReadinessStatus_type ReadinessStatus_DeepCopyInto"

definition ResourcesStatus_DeepCopyInto :: copier where
  "ResourcesStatus_DeepCopyInto = copy_struct [
     (''Service'', unless_nil (new_pointer ResourceStatus_type assign)),
     (''Workload'', unless_nil (new_pointer ResourceStatus_type assign))]"

definition ResourcesStatus_DeepCopy :: deep_copier where
  "ResourcesStatus_DeepCopy = deep_copy ResourcesStatus_type ResourcesStatus_DeepCopyInto"

definition OwnerContact_DeepCopyInto :: copier where
  "OwnerContact_DeepCopyInto = copy_struct []"

definition OwnerContact_DeepCopy :: deep_copier where
  "OwnerContact_DeepCopy = deep_copy OwnerContact_type OwnerContact_DeepCopyInto"

definition OwnerInfo_DeepCopyInto :: copier where
  "OwnerInfo_DeepCopyInto = copy_struct [
     (''Contacts'', unless_nil (make_slice OwnerContact_type assign))]"

definition OwnerInfo_DeepCopy :: deep_copier where
  "OwnerInfo_DeepCopy = deep_copy OwnerInfo_type OwnerInfo_DeepCopyInto"

definition ContractInfo_DeepCopyInto :: copier where
  "ContractInfo_DeepCopyInto = copy_struct [
     (''Owner'', unless_nil (new_pointer OwnerInfo_type OwnerInfo_DeepCopyInto))]"

definition ContractInfo_DeepCopy :: deep_copier where
  "ContractInfo_DeepCopy = deep_copy ContractInfo_type ContractInfo_DeepCopyInto"

definition InterfaceInfo_DeepCopyInto :: copier where
  "InterfaceInfo_DeepCopyInto = copy_struct [
     (''Port'', unless_nil (new_pointer (TyScalar KInt32) assign))]"

definition InterfaceInfo_DeepCopy :: deep_copier where
  "InterfaceInfo_DeepCopy = deep_copy InterfaceInfo_type InterfaceInfo_DeepCopyInto"

definition SchemaProperty_DeepCopyInto :: copier where
  "SchemaProperty_DeepCopyInto = copy_struct []"

definition SchemaProperty_DeepCopy :: deep_copier where
  "SchemaProperty_DeepCopy = deep_copy SchemaProperty_type SchemaProperty_DeepCopyInto"

definition ConfigurationInfo_DeepCopyInto :: copier where
  "ConfigurationInfo_DeepCopyInto = copy_struct [
     (''ValueKeys'', unless_nil (make_slice (TyScalar KStr) assign)),
     (''SecretKeys'', unless_nil (make_slice (TyScalar KStr) assign)),
     (''OverriddenKeys'', unless_nil (make_slice (TyScalar KStr) assign)),
     (''Properties'', unless_nil (make_slice SchemaProperty_type assign))]"

definition ConfigurationInfo_DeepCopy :: deep_copier where
  "ConfigurationInfo_DeepCopy = deep_copy ConfigurationInfo_type ConfigurationInfo_DeepCopyInto"

definition DependencyInfo_DeepCopyInto :: copier where
  "DependencyInfo_DeepCopyInto = copy_struct []"

definition DependencyInfo_DeepCopy :: deep_copier where
  "DependencyInfo_DeepCopy = deep_copy DependencyInfo_type DependencyInfo_DeepCopyInto"

definition PolicyInfo_DeepCopyInto :: copier where
  "PolicyInfo_DeepCopyInto = copy_struct [
     (''Properties'', unless_nil (make_slice SchemaProperty_type assign))]"

definition PolicyInfo_DeepCopy :: deep_copier where
  "PolicyInfo_DeepCopy = deep_copy PolicyInfo_type PolicyInfo_DeepCopyInto"

definition RuntimeInfo_DeepCopyInto :: copier where
  "RuntimeInfo_DeepCopyInto = copy_struct [
     (''GracefulShutdownSeconds'', unless_nil (new_pointer (TyScalar KInt32) assign)),
     (''HealthInitialDelaySeconds'', unless_nil (new_pointer (TyScalar KInt32) assign))]"

definition RuntimeInfo_DeepCopy :: deep_copier where
  "RuntimeInfo_DeepCopy = deep_copy RuntimeInfo_type RuntimeInfo_DeepCopyInto"

definition ObservedRuntime_DeepCopyInto :: copier where
  "ObservedRuntime_DeepCopyInto = copy_struct [
     (''TerminationGracePeriodSeconds'', unless_nil (new_pointer (TyScalar KInt64) assign)),
     (''ContainerImages'', unless_nil (make_slice (TyScalar KStr) assign)),
     (''HealthProbeInitialDelaySeconds'', unless_nil (new_pointer (TyScalar KInt32) assign))]"

definition ObservedRuntime_DeepCopy :: deep_copier where
  "ObservedRuntime_DeepCopy = deep_copy ObservedRuntime_type ObservedRuntime_DeepCopyInto"

definition ScalingInfo_DeepCopyInto :: copier where
  "ScalingInfo_DeepCopyInto = copy_struct [
     (''Replicas'', unless_nil (new_pointer (TyScalar KInt32) assign)),
     (''Min'', unless_nil (new_pointer (TyScalar KInt32) assign)),
     (''Max'', unless_nil (new_pointer (TyScalar KInt32) assign))]"

definition ScalingInfo_DeepCopy :: deep_copier where
  "ScalingInfo_DeepCopy = deep_copy ScalingInfo_type ScalingInfo_DeepCopyInto"

definition EndpointCheckResult_DeepCopyInto :: copier where
  "EndpointCheckResult_DeepCopyInto = copy_struct []"

definition EndpointCheckResult_DeepCopy :: deep_copier where
  "EndpointCheckResult_DeepCopy = deep_copy EndpointCheckResult_type EndpointCheckResult_DeepCopyInto"

definition EndpointsStatus_DeepCopyInto :: copier where
  "EndpointsStatus_DeepCopyInto = copy_struct [
     (''Health'', unless_nil (new_pointer EndpointCheckResult_type assign)),
     (''Metrics'', unless_nil (new_pointer EndpointCheckResult_type assign))]"

definition EndpointsStatus_DeepCopy :: deep_copier where
  "EndpointsStatus_DeepCopy = deep_copy EndpointsStatus_type EndpointsStatus_DeepCopyInto"

definition ValidationIssue_DeepCopyInto :: copier where
  "ValidationIssue_DeepCopyInto = copy_struct []"

definition ValidationIssue_DeepCopy :: deep_copier where
  "ValidationIssue_DeepCopy = deep_copy ValidationIssue_type ValidationIssue_DeepCopyInto"

definition ValidationResult_DeepCopyInto :: copier where
  "ValidationResult_DeepCopyInto = copy_struct [
     (''Errors'', unless_nil (make_slice ValidationIssue_type assign)),
     (''Warnings'', unless_nil (make_slice ValidationIssue_type assign))]"

definition ValidationResult_DeepCopy :: deep_copier where
  "ValidationResult_DeepCopy = deep_copy ValidationResult_type ValidationResult_DeepCopyInto"

definition PactoStatus_DeepCopyInto :: "metav1 \<Rightarrow> copier" where
  "PactoStatus_DeepCopyInto M = copy_struct [
     (''Summary'', unless_nil (new_pointer CheckSummary_type assign)),
     (''Contract'', unless_nil (new_pointer ContractInfo_type ContractInfo_DeepCopyInto)),
     (''Validation'', unless_nil (new_pointer ValidationResult_type ValidationResult_DeepCopyInto)),
     (''Resources'', unless_nil (new_pointer ResourcesStatus_type ResourcesStatus_DeepCopyInto)),
     (''Ports'', unless_nil (new_pointer PortStatus_type PortStatus_DeepCopyInto)),
     (''Endpoints'', unless_nil (new_pointer EndpointsStatus_type EndpointsStatus_DeepCopyInto)),
     (''Interfaces'', unless_nil (make_slice InterfaceInfo_type InterfaceInfo_DeepCopyInto)),
     (''Configurations'', unless_nil (make_slice ConfigurationInfo_type ConfigurationInfo_DeepCopyInto)),
     (''Dependencies'', unless_nil (make_slice DependencyInfo_type assign)),
     (''Policies'', unless_nil (make_slice PolicyInfo_type PolicyInfo_DeepCopyInto)),
     (''Runtime'', unless_nil (new_pointer RuntimeInfo_type RuntimeInfo_DeepCopyInto)),
     (''ObservedRuntime'', unless_nil (new_pointer ObservedRuntime_type ObservedRuntime_DeepCopyInto)),
     (''Scaling'', unless_nil (new_pointer ScalingInfo_type ScalingInfo_DeepCopyInto)),
     (''Readiness'', unless_nil (new_pointer ReadinessStatus_type ReadinessStatus_DeepCopyInto)),
     (''Metadata'', unless_nil make_map),
     (''Conditions'', unless_nil (make_slice (Condition_type M) (Condition_DeepCopyInto M))),
     (''LastReconciledAt'', unless_nil (copy_by (Time_DeepCopy M)))]"

definition PactoStatus_DeepCopy :: "metav1 \<Rightarrow> deep_copier" where
  "PactoStatus_DeepCopy M = deep_copy (PactoStatus_type M) (PactoStatus_DeepCopyInto M)"

definition Pacto_DeepCopyInto :: "metav1 \<Rightarrow> copier" where
  "Pacto_DeepCopyInto M = copy_struct [
     (''TypeMeta'', assign),
     (''ObjectMeta'', ObjectMeta_DeepCopyInto M),
     (''Spec'', PactoSpec_DeepCopyInto),
     (''Status'', PactoStatus_DeepCopyInto M)]"

definition Pacto_DeepCopy :: "metav1 \<Rightarrow> deep_copier" where
  "Pacto_DeepCopy M = deep_copy (Pacto_type M) (Pacto_DeepCopyInto M)"

definition Pacto_DeepCopyObject :: "metav1 \<Rightarrow> object_copier" where
  "Pacto_DeepCopyObject M = copy_object ''Pacto'' (Pacto_DeepCopy M)"

definition PactoList_DeepCopyInto :: "metav1 \<Rightarrow> copier" where
  "PactoList_DeepCopyInto M = copy_struct [
     (''TypeMeta'', assign),
     (''ListMeta'', ListMeta_DeepCopyInto M),
     (''Items'', unless_nil (make_slice (Pacto_type M) (Pacto_DeepCopyInto M)))]"

definition PactoList_DeepCopy :: "metav1 \<Rightarrow> deep_copier" where
  "PactoList_DeepCopy M = deep_copy (PactoList_type M) (PactoList_DeepCopyInto M)"

definition PactoList_DeepCopyObject :: "metav1 \<Rightarrow> object_copier" where
  "PactoList_DeepCopyObject M = copy_object ''PactoList'' (PactoList_DeepCopy M)"

definition RevisionSource_DeepCopyInto :: copier where
  "RevisionSource_DeepCopyInto = copy_struct []"

definition RevisionSource_DeepCopy :: deep_copier where
  "RevisionSource_DeepCopy = deep_copy RevisionSource_type RevisionSource_DeepCopyInto"

definition PactoRevisionSpec_DeepCopyInto :: copier where
  "PactoRevisionSpec_DeepCopyInto = copy_struct [
     (''Source'', assign)]"

definition PactoRevisionSpec_DeepCopy :: deep_copier where
  "PactoRevisionSpec_DeepCopy = deep_copy PactoRevisionSpec_type PactoRevisionSpec_DeepCopyInto"

definition PactoRevisionStatus_DeepCopyInto :: "metav1 \<Rightarrow> copier" where
  "PactoRevisionStatus_DeepCopyInto M = copy_struct [
     (''CreatedAt'', unless_nil (copy_by (Time_DeepCopy M))),
     (''Conditions'', unless_nil (make_slice (Condition_type M) (Condition_DeepCopyInto M)))]"

definition PactoRevisionStatus_DeepCopy :: "metav1 \<Rightarrow> deep_copier" where
  "PactoRevisionStatus_DeepCopy M = deep_copy (PactoRevisionStatus_type M) (PactoRevisionStatus_DeepCopyInto M)"

definition PactoRevision_DeepCopyInto :: "metav1 \<Rightarrow> copier" where
  "PactoRevision_DeepCopyInto M = copy_struct [
     (''TypeMeta'', assign),
     (''ObjectMeta'', ObjectMeta_DeepCopyInto M),
     (''Spec'', assign),
     (''Status'', PactoRevisionStatus_DeepCopyInto M)]"

definition PactoRevision_DeepCopy :: "metav1 \<Rightarrow> deep_copier" where
  "PactoRevision_DeepCopy M = deep_copy (PactoRevision_type M) (PactoRevision_DeepCopyInto M)"

definition PactoRevision_DeepCopyObject :: "metav1 \<Rightarrow> object_copier" where
  "PactoRevision_DeepCopyObject M = copy_object ''PactoRevision'' (PactoRevision_DeepCopy M)"

definition PactoRevisionList_DeepCopyInto :: "metav1 \<Rightarrow> copier" where
  "PactoRevisionList_DeepCopyInto M = copy_struct [
     (''TypeMeta'', assign),
     (''ListMeta'', ListMeta_DeepCopyInto M),
     (''Items'', unless_nil (make_slice (PactoRevision_type M) (PactoRevision_DeepCopyInto M)))]"

definition PactoRevisionList_DeepCopy :: "metav1 \<Rightarrow> deep_copier" where
  "PactoRevisionList_DeepCopy M = deep_copy (PactoRevisionList_type M) (PactoRevisionList_DeepCopyInto M)"

definition PactoRevisionList_DeepCopyObject :: "metav1 \<Rightarrow> object_copier" where
  "PactoRevisionList_DeepCopyObject M = copy_object ''PactoRevisionList'' (PactoRevisionList_DeepCopy M)"

text \<open>All of them, with their types.\<close>

definition api_types :: "metav1 \<Rightarrow> (string \<times> gty \<times> deep_copier) list" where
  "api_types M = [
     (''ContractRef'', ContractRef_type, ContractRef_DeepCopy),
     (''WorkloadRef'', WorkloadRef_type, WorkloadRef_DeepCopy),
     (''TargetRef'', TargetRef_type, TargetRef_DeepCopy),
     (''ConfigurationOverride'', ConfigurationOverride_type, ConfigurationOverride_DeepCopy),
     (''ContractOverrides'', ContractOverrides_type, ContractOverrides_DeepCopy),
     (''PactoSpec'', PactoSpec_type, PactoSpec_DeepCopy),
     (''ResourceStatus'', ResourceStatus_type, ResourceStatus_DeepCopy),
     (''PortStatus'', PortStatus_type, PortStatus_DeepCopy),
     (''CheckSummary'', CheckSummary_type, CheckSummary_DeepCopy),
     (''ReadinessRevisionStatus'', ReadinessRevisionStatus_type, ReadinessRevisionStatus_DeepCopy),
     (''ReadinessCheckStatus'', ReadinessCheckStatus_type, ReadinessCheckStatus_DeepCopy),
     (''ReadinessStatus'', ReadinessStatus_type, ReadinessStatus_DeepCopy),
     (''ResourcesStatus'', ResourcesStatus_type, ResourcesStatus_DeepCopy),
     (''OwnerContact'', OwnerContact_type, OwnerContact_DeepCopy),
     (''OwnerInfo'', OwnerInfo_type, OwnerInfo_DeepCopy),
     (''ContractInfo'', ContractInfo_type, ContractInfo_DeepCopy),
     (''InterfaceInfo'', InterfaceInfo_type, InterfaceInfo_DeepCopy),
     (''SchemaProperty'', SchemaProperty_type, SchemaProperty_DeepCopy),
     (''ConfigurationInfo'', ConfigurationInfo_type, ConfigurationInfo_DeepCopy),
     (''DependencyInfo'', DependencyInfo_type, DependencyInfo_DeepCopy),
     (''PolicyInfo'', PolicyInfo_type, PolicyInfo_DeepCopy),
     (''RuntimeInfo'', RuntimeInfo_type, RuntimeInfo_DeepCopy),
     (''ObservedRuntime'', ObservedRuntime_type, ObservedRuntime_DeepCopy),
     (''ScalingInfo'', ScalingInfo_type, ScalingInfo_DeepCopy),
     (''EndpointCheckResult'', EndpointCheckResult_type, EndpointCheckResult_DeepCopy),
     (''EndpointsStatus'', EndpointsStatus_type, EndpointsStatus_DeepCopy),
     (''ValidationIssue'', ValidationIssue_type, ValidationIssue_DeepCopy),
     (''ValidationResult'', ValidationResult_type, ValidationResult_DeepCopy),
     (''PactoStatus'', PactoStatus_type M, PactoStatus_DeepCopy M),
     (''Pacto'', Pacto_type M, Pacto_DeepCopy M),
     (''PactoList'', PactoList_type M, PactoList_DeepCopy M),
     (''RevisionSource'', RevisionSource_type, RevisionSource_DeepCopy),
     (''PactoRevisionSpec'', PactoRevisionSpec_type, PactoRevisionSpec_DeepCopy),
     (''PactoRevisionStatus'', PactoRevisionStatus_type M, PactoRevisionStatus_DeepCopy M),
     (''PactoRevision'', PactoRevision_type M, PactoRevision_DeepCopy M),
     (''PactoRevisionList'', PactoRevisionList_type M, PactoRevisionList_DeepCopy M)]"

definition api_objects :: "metav1 \<Rightarrow> (string \<times> gty \<times> object_copier) list" where
  "api_objects M = [
     (''Pacto'', Pacto_type M, Pacto_DeepCopyObject M),
     (''PactoList'', PactoList_type M, PactoList_DeepCopyObject M),
     (''PactoRevision'', PactoRevision_type M, PactoRevision_DeepCopyObject M),
     (''PactoRevisionList'', PactoRevisionList_type M, PactoRevisionList_DeepCopyObject M)]"

section \<open>They are deep copies\<close>

lemmas [deep_facts] = deepens_pointer deepens_slice deepens_map deepens_copy_by deep_assign deep_deepens

lemma metav1_facts [deep_facts]:
  assumes "metav1_deep M"
  shows "flat (TypeMeta_type M)" "deep (ObjectMeta_type M) (ObjectMeta_DeepCopyInto M)"
    "deep (ListMeta_type M) (ListMeta_DeepCopyInto M)" "deep (Condition_type M) (Condition_DeepCopyInto M)"
    "deep_pointer (Time_type M) (Time_DeepCopy M)"
  using assms by (simp_all add: metav1_deep_def)

lemma flat_ContractRef [deep_facts]: "flat ContractRef_type"
  by (simp add: ContractRef_type_def deep_facts)

lemma flat_WorkloadRef [deep_facts]: "flat WorkloadRef_type"
  by (simp add: WorkloadRef_type_def deep_facts)

lemma flat_ResourceStatus [deep_facts]: "flat ResourceStatus_type"
  by (simp add: ResourceStatus_type_def deep_facts)

lemma flat_CheckSummary [deep_facts]: "flat CheckSummary_type"
  by (simp add: CheckSummary_type_def deep_facts)

lemma flat_ReadinessRevisionStatus [deep_facts]: "flat ReadinessRevisionStatus_type"
  by (simp add: ReadinessRevisionStatus_type_def deep_facts)

lemma flat_ReadinessCheckStatus [deep_facts]: "flat ReadinessCheckStatus_type"
  by (simp add: ReadinessCheckStatus_type_def deep_facts)

lemma flat_OwnerContact [deep_facts]: "flat OwnerContact_type"
  by (simp add: OwnerContact_type_def deep_facts)

lemma flat_SchemaProperty [deep_facts]: "flat SchemaProperty_type"
  by (simp add: SchemaProperty_type_def deep_facts)

lemma flat_DependencyInfo [deep_facts]: "flat DependencyInfo_type"
  by (simp add: DependencyInfo_type_def deep_facts)

lemma flat_EndpointCheckResult [deep_facts]: "flat EndpointCheckResult_type"
  by (simp add: EndpointCheckResult_type_def deep_facts)

lemma flat_ValidationIssue [deep_facts]: "flat ValidationIssue_type"
  by (simp add: ValidationIssue_type_def deep_facts)

lemma flat_RevisionSource [deep_facts]: "flat RevisionSource_type"
  by (simp add: RevisionSource_type_def deep_facts)

lemma flat_PactoRevisionSpec [deep_facts]: "flat PactoRevisionSpec_type"
  by (simp add: PactoRevisionSpec_type_def deep_facts)

lemma deep_ContractRef [deep_facts]: "deep ContractRef_type ContractRef_DeepCopyInto"
  unfolding ContractRef_type_def ContractRef_DeepCopyInto_def
  by (rule deep_struct [OF matches_covered]) (simp_all add: deep_facts)

lemma deep_WorkloadRef [deep_facts]: "deep WorkloadRef_type WorkloadRef_DeepCopyInto"
  unfolding WorkloadRef_type_def WorkloadRef_DeepCopyInto_def
  by (rule deep_struct [OF matches_covered]) (simp_all add: deep_facts)

lemma deep_TargetRef [deep_facts]: "deep TargetRef_type TargetRef_DeepCopyInto"
  unfolding TargetRef_type_def TargetRef_DeepCopyInto_def
  by (rule deep_struct [OF matches_covered]) (simp_all add: deep_facts)

lemma deep_ConfigurationOverride [deep_facts]: "deep ConfigurationOverride_type ConfigurationOverride_DeepCopyInto"
  unfolding ConfigurationOverride_type_def ConfigurationOverride_DeepCopyInto_def
  by (rule deep_struct [OF matches_covered]) (simp_all add: deep_facts)

lemma deep_ContractOverrides [deep_facts]: "deep ContractOverrides_type ContractOverrides_DeepCopyInto"
  unfolding ContractOverrides_type_def ContractOverrides_DeepCopyInto_def
  by (rule deep_struct [OF matches_covered]) (simp_all add: deep_facts)

lemma deep_PactoSpec [deep_facts]: "deep PactoSpec_type PactoSpec_DeepCopyInto"
  unfolding PactoSpec_type_def PactoSpec_DeepCopyInto_def
  by (rule deep_struct [OF matches_covered]) (simp_all add: deep_facts)

lemma deep_ResourceStatus [deep_facts]: "deep ResourceStatus_type ResourceStatus_DeepCopyInto"
  unfolding ResourceStatus_type_def ResourceStatus_DeepCopyInto_def
  by (rule deep_struct [OF matches_covered]) (simp_all add: deep_facts)

lemma deep_PortStatus [deep_facts]: "deep PortStatus_type PortStatus_DeepCopyInto"
  unfolding PortStatus_type_def PortStatus_DeepCopyInto_def
  by (rule deep_struct [OF matches_covered]) (simp_all add: deep_facts)

lemma deep_CheckSummary [deep_facts]: "deep CheckSummary_type CheckSummary_DeepCopyInto"
  unfolding CheckSummary_type_def CheckSummary_DeepCopyInto_def
  by (rule deep_struct [OF matches_covered]) (simp_all add: deep_facts)

lemma deep_ReadinessRevisionStatus [deep_facts]: "deep ReadinessRevisionStatus_type ReadinessRevisionStatus_DeepCopyInto"
  unfolding ReadinessRevisionStatus_type_def ReadinessRevisionStatus_DeepCopyInto_def
  by (rule deep_struct [OF matches_covered]) (simp_all add: deep_facts)

lemma deep_ReadinessCheckStatus [deep_facts]: "deep ReadinessCheckStatus_type ReadinessCheckStatus_DeepCopyInto"
  unfolding ReadinessCheckStatus_type_def ReadinessCheckStatus_DeepCopyInto_def
  by (rule deep_struct [OF matches_covered]) (simp_all add: deep_facts)

lemma deep_ReadinessStatus [deep_facts]: "deep ReadinessStatus_type ReadinessStatus_DeepCopyInto"
  unfolding ReadinessStatus_type_def ReadinessStatus_DeepCopyInto_def
  by (rule deep_struct [OF matches_covered]) (simp_all add: deep_facts)

lemma deep_ResourcesStatus [deep_facts]: "deep ResourcesStatus_type ResourcesStatus_DeepCopyInto"
  unfolding ResourcesStatus_type_def ResourcesStatus_DeepCopyInto_def
  by (rule deep_struct [OF matches_covered]) (simp_all add: deep_facts)

lemma deep_OwnerContact [deep_facts]: "deep OwnerContact_type OwnerContact_DeepCopyInto"
  unfolding OwnerContact_type_def OwnerContact_DeepCopyInto_def
  by (rule deep_struct [OF matches_covered]) (simp_all add: deep_facts)

lemma deep_OwnerInfo [deep_facts]: "deep OwnerInfo_type OwnerInfo_DeepCopyInto"
  unfolding OwnerInfo_type_def OwnerInfo_DeepCopyInto_def
  by (rule deep_struct [OF matches_covered]) (simp_all add: deep_facts)

lemma deep_ContractInfo [deep_facts]: "deep ContractInfo_type ContractInfo_DeepCopyInto"
  unfolding ContractInfo_type_def ContractInfo_DeepCopyInto_def
  by (rule deep_struct [OF matches_covered]) (simp_all add: deep_facts)

lemma deep_InterfaceInfo [deep_facts]: "deep InterfaceInfo_type InterfaceInfo_DeepCopyInto"
  unfolding InterfaceInfo_type_def InterfaceInfo_DeepCopyInto_def
  by (rule deep_struct [OF matches_covered]) (simp_all add: deep_facts)

lemma deep_SchemaProperty [deep_facts]: "deep SchemaProperty_type SchemaProperty_DeepCopyInto"
  unfolding SchemaProperty_type_def SchemaProperty_DeepCopyInto_def
  by (rule deep_struct [OF matches_covered]) (simp_all add: deep_facts)

lemma deep_ConfigurationInfo [deep_facts]: "deep ConfigurationInfo_type ConfigurationInfo_DeepCopyInto"
  unfolding ConfigurationInfo_type_def ConfigurationInfo_DeepCopyInto_def
  by (rule deep_struct [OF matches_covered]) (simp_all add: deep_facts)

lemma deep_DependencyInfo [deep_facts]: "deep DependencyInfo_type DependencyInfo_DeepCopyInto"
  unfolding DependencyInfo_type_def DependencyInfo_DeepCopyInto_def
  by (rule deep_struct [OF matches_covered]) (simp_all add: deep_facts)

lemma deep_PolicyInfo [deep_facts]: "deep PolicyInfo_type PolicyInfo_DeepCopyInto"
  unfolding PolicyInfo_type_def PolicyInfo_DeepCopyInto_def
  by (rule deep_struct [OF matches_covered]) (simp_all add: deep_facts)

lemma deep_RuntimeInfo [deep_facts]: "deep RuntimeInfo_type RuntimeInfo_DeepCopyInto"
  unfolding RuntimeInfo_type_def RuntimeInfo_DeepCopyInto_def
  by (rule deep_struct [OF matches_covered]) (simp_all add: deep_facts)

lemma deep_ObservedRuntime [deep_facts]: "deep ObservedRuntime_type ObservedRuntime_DeepCopyInto"
  unfolding ObservedRuntime_type_def ObservedRuntime_DeepCopyInto_def
  by (rule deep_struct [OF matches_covered]) (simp_all add: deep_facts)

lemma deep_ScalingInfo [deep_facts]: "deep ScalingInfo_type ScalingInfo_DeepCopyInto"
  unfolding ScalingInfo_type_def ScalingInfo_DeepCopyInto_def
  by (rule deep_struct [OF matches_covered]) (simp_all add: deep_facts)

lemma deep_EndpointCheckResult [deep_facts]: "deep EndpointCheckResult_type EndpointCheckResult_DeepCopyInto"
  unfolding EndpointCheckResult_type_def EndpointCheckResult_DeepCopyInto_def
  by (rule deep_struct [OF matches_covered]) (simp_all add: deep_facts)

lemma deep_EndpointsStatus [deep_facts]: "deep EndpointsStatus_type EndpointsStatus_DeepCopyInto"
  unfolding EndpointsStatus_type_def EndpointsStatus_DeepCopyInto_def
  by (rule deep_struct [OF matches_covered]) (simp_all add: deep_facts)

lemma deep_ValidationIssue [deep_facts]: "deep ValidationIssue_type ValidationIssue_DeepCopyInto"
  unfolding ValidationIssue_type_def ValidationIssue_DeepCopyInto_def
  by (rule deep_struct [OF matches_covered]) (simp_all add: deep_facts)

lemma deep_ValidationResult [deep_facts]: "deep ValidationResult_type ValidationResult_DeepCopyInto"
  unfolding ValidationResult_type_def ValidationResult_DeepCopyInto_def
  by (rule deep_struct [OF matches_covered]) (simp_all add: deep_facts)

lemma deep_PactoStatus [deep_facts]: "metav1_deep M \<Longrightarrow> deep (PactoStatus_type M) (PactoStatus_DeepCopyInto M)"
  unfolding PactoStatus_type_def PactoStatus_DeepCopyInto_def
  by (rule deep_struct [OF matches_covered]) (simp_all add: deep_facts)

lemma deep_Pacto [deep_facts]: "metav1_deep M \<Longrightarrow> deep (Pacto_type M) (Pacto_DeepCopyInto M)"
  unfolding Pacto_type_def Pacto_DeepCopyInto_def
  by (rule deep_struct [OF matches_covered]) (simp_all add: deep_facts)

lemma deep_PactoList [deep_facts]: "metav1_deep M \<Longrightarrow> deep (PactoList_type M) (PactoList_DeepCopyInto M)"
  unfolding PactoList_type_def PactoList_DeepCopyInto_def
  by (rule deep_struct [OF matches_covered]) (simp_all add: deep_facts)

lemma deep_RevisionSource [deep_facts]: "deep RevisionSource_type RevisionSource_DeepCopyInto"
  unfolding RevisionSource_type_def RevisionSource_DeepCopyInto_def
  by (rule deep_struct [OF matches_covered]) (simp_all add: deep_facts)

lemma deep_PactoRevisionSpec [deep_facts]: "deep PactoRevisionSpec_type PactoRevisionSpec_DeepCopyInto"
  unfolding PactoRevisionSpec_type_def PactoRevisionSpec_DeepCopyInto_def
  by (rule deep_struct [OF matches_covered]) (simp_all add: deep_facts)

lemma deep_PactoRevisionStatus [deep_facts]: "metav1_deep M \<Longrightarrow> deep (PactoRevisionStatus_type M) (PactoRevisionStatus_DeepCopyInto M)"
  unfolding PactoRevisionStatus_type_def PactoRevisionStatus_DeepCopyInto_def
  by (rule deep_struct [OF matches_covered]) (simp_all add: deep_facts)

lemma deep_PactoRevision [deep_facts]: "metav1_deep M \<Longrightarrow> deep (PactoRevision_type M) (PactoRevision_DeepCopyInto M)"
  unfolding PactoRevision_type_def PactoRevision_DeepCopyInto_def
  by (rule deep_struct [OF matches_covered]) (simp_all add: deep_facts)

lemma deep_PactoRevisionList [deep_facts]: "metav1_deep M \<Longrightarrow> deep (PactoRevisionList_type M) (PactoRevisionList_DeepCopyInto M)"
  unfolding PactoRevisionList_type_def PactoRevisionList_DeepCopyInto_def
  by (rule deep_struct [OF matches_covered]) (simp_all add: deep_facts)

lemmas DeepCopy_defs =
  ContractRef_DeepCopy_def WorkloadRef_DeepCopy_def TargetRef_DeepCopy_def
  ConfigurationOverride_DeepCopy_def ContractOverrides_DeepCopy_def PactoSpec_DeepCopy_def
  ResourceStatus_DeepCopy_def PortStatus_DeepCopy_def CheckSummary_DeepCopy_def
  ReadinessRevisionStatus_DeepCopy_def ReadinessCheckStatus_DeepCopy_def
  ReadinessStatus_DeepCopy_def ResourcesStatus_DeepCopy_def OwnerContact_DeepCopy_def
  OwnerInfo_DeepCopy_def ContractInfo_DeepCopy_def InterfaceInfo_DeepCopy_def
  SchemaProperty_DeepCopy_def ConfigurationInfo_DeepCopy_def DependencyInfo_DeepCopy_def
  PolicyInfo_DeepCopy_def RuntimeInfo_DeepCopy_def ObservedRuntime_DeepCopy_def
  ScalingInfo_DeepCopy_def EndpointCheckResult_DeepCopy_def EndpointsStatus_DeepCopy_def
  ValidationIssue_DeepCopy_def ValidationResult_DeepCopy_def PactoStatus_DeepCopy_def
  Pacto_DeepCopy_def PactoList_DeepCopy_def RevisionSource_DeepCopy_def
  PactoRevisionSpec_DeepCopy_def PactoRevisionStatus_DeepCopy_def PactoRevision_DeepCopy_def
  PactoRevisionList_DeepCopy_def

lemmas DeepCopyObject_defs =
  Pacto_DeepCopyObject_def PactoList_DeepCopyObject_def PactoRevision_DeepCopyObject_def PactoRevisionList_DeepCopyObject_def

lemma api_types_deep:
  assumes "metav1_deep M" "(name, T, copy) \<in> set (api_types M)"
  shows "deep_pointer T copy"
proof -
  have "list_all (\<lambda>(name, T, copy). deep_pointer T copy) (api_types M)"
    using assms(1) unfolding api_types_def
    by (simp add: DeepCopy_defs deep_pointer_deep_copy deep_facts)
  with assms(2) show ?thesis by (auto simp: list_all_iff)
qed

text \<open>
  C30. The generated deep copies are deep copies. For every type of the API, and a pointer to a
  value of it that stands for a tree of data (in which references may share memory), \<open>DeepCopy\<close>
  returns a pointer to a new value, without a panic, and changes no memory that existed before.
  The new value stands for the same tree whatever is written afterwards to the memory that existed before, the
  original keeps its own whatever is written to the memory the copy allocated, and no two
  references in the copy lead to the same memory. A nil pointer gives nil.
\<close>

theorem deep_copies_independent:
  assumes "metav1_deep M" "(name, T, copy) \<in> set (api_types M)"
    and "tree h (TyPtr T) (Ptr (Some l)) = Some t"
  shows "copy None h = Some (None, h) \<and>
    (\<exists>q h'. copy (Some l) h = Some (Some q, h') \<and> take (length h) h' = h \<and>
       unshared h' (TyPtr T) (Ptr (Some q)) \<and>
       (\<forall>g. (\<forall>a \<ge> length h. cell g a = cell h' a) \<longrightarrow> tree g (TyPtr T) (Ptr (Some q)) = Some t) \<and>
       (\<forall>g. (\<forall>a < length h. cell g a = cell h' a) \<longrightarrow> tree g (TyPtr T) (Ptr (Some l)) = Some t))"
  using api_types_deep [OF assms(1,2)] deep_pointer_independent [OF _ assms(3)]
  by (auto simp: deep_pointer_def)

text \<open>
  A package \<open>metav1\<close> with a few of its fields, and overrides of two configurations that share
  one map.
\<close>

definition sample_metav1 :: metav1 where
  "sample_metav1 =
     (let ObjectMeta = [(''Name'', TyScalar KStr), (''Labels'', TyMap)];
          Condition = [(''Type'', TyScalar KStr), (''LastTransitionTime'', TyScalar KTime)]
      in \<lparr>TypeMeta_type = TyStruct [(''Kind'', TyScalar KStr), (''APIVersion'', TyScalar KStr)],
          ObjectMeta_type = TyStruct ObjectMeta,
          ListMeta_type = TyStruct [(''ResourceVersion'', TyScalar KStr)],
          Condition_type = TyStruct Condition,
          Time_type = TyScalar KTime,
          ObjectMeta_DeepCopyInto = copy_struct [(''Labels'', unless_nil make_map)],
          ListMeta_DeepCopyInto = copy_struct [],
          Condition_DeepCopyInto = copy_struct [],
          Time_DeepCopy = deep_copy (TyScalar KTime) assign\<rparr>)"

lemma sample_metav1_deep: "metav1_deep sample_metav1"
  by (auto simp: metav1_deep_def sample_metav1_def covered_def deep_facts
      intro!: deep_struct deep_pointer_deep_copy)

definition shared_map :: heap where
  "shared_map =
    [Struct [(''Configurations'', Slice (Some (1, 0, 2)))],
     Array [Struct [(''Name'', Scalar (Str ''app'')), (''Values'', MapRef (Some 2))],
            Struct [(''Name'', Scalar (Str ''db'')), (''Values'', MapRef (Some 2))]],
     Entries [(''replicas'', ''3'')]]"

definition shared_map_tree :: gtree where
  "shared_map_tree = TPtr (TStruct [(''Configurations'', TSlice
     [TStruct [(''Name'', TScalar (Str ''app'')), (''Values'', TMap [''replicas'' \<mapsto> ''3''])],
      TStruct [(''Name'', TScalar (Str ''db'')), (''Values'', TMap [''replicas'' \<mapsto> ''3''])]])])"

lemma length_shared_map: "length shared_map = 3"
  by (simp add: shared_map_def)

lemma shared_map_reads:
  "tree shared_map (TyPtr ContractOverrides_type) (Ptr (Some (0, []))) = Some shared_map_tree"
  by (simp add: shared_map_def shared_map_tree_def ContractOverrides_type_def ConfigurationOverride_type_def
      load_def cell_def elems_def)

theorem deep_copies_independent_witness:
  "\<not> unshared shared_map (TyPtr ContractOverrides_type) (Ptr (Some (0, []))) \<and>
   (\<exists>q h'. ContractOverrides_DeepCopy (Some (0, [])) shared_map = Some (Some q, h') \<and>
      take 3 h' = shared_map \<and> unshared h' (TyPtr ContractOverrides_type) (Ptr (Some q)) \<and>
      (\<forall>g. (\<forall>a \<ge> 3. cell g a = cell h' a) \<longrightarrow>
         tree g (TyPtr ContractOverrides_type) (Ptr (Some q)) = Some shared_map_tree))"
proof
  show "\<not> unshared shared_map (TyPtr ContractOverrides_type) (Ptr (Some (0, [])))"
    by (simp add: shared_map_def ContractOverrides_type_def ConfigurationOverride_type_def
        load_def cell_def elems_def)
  have "(''ContractOverrides'', ContractOverrides_type, ContractOverrides_DeepCopy) \<in> set (api_types sample_metav1)"
    by (simp add: api_types_def)
  from deep_copies_independent [OF sample_metav1_deep this shared_map_reads]
  show "\<exists>q h'. ContractOverrides_DeepCopy (Some (0, [])) shared_map = Some (Some q, h') \<and>
      take 3 h' = shared_map \<and> unshared h' (TyPtr ContractOverrides_type) (Ptr (Some q)) \<and>
      (\<forall>g. (\<forall>a \<ge> 3. cell g a = cell h' a) \<longrightarrow>
         tree g (TyPtr ContractOverrides_type) (Ptr (Some q)) = Some shared_map_tree)"
    unfolding length_shared_map by blast
qed

text \<open>
  \<open>DeepCopyObject\<close> of the four kinds: the object has the dynamic type of the kind and its
  pointer leads to a deep copy; a nil receiver gives no object.
\<close>

definition deep_object :: "string \<Rightarrow> gty \<Rightarrow> object_copier \<Rightarrow> bool" where
  "deep_object kind T f \<longleftrightarrow> (\<forall>h. f None h = Some (None, h)) \<and>
     (\<forall>h l v t. load h l = Some v \<longrightarrow> tree h T v = Some t \<longrightarrow>
        (\<exists>q h'. f (Some l) h = Some (Some (kind, q), h') \<and> take (length h) h' = h \<and>
           fresh_copy (length h) (TyPtr T) (TPtr t) h' (Ptr (Some q))))"

lemma deep_object_copy_object: "deep_pointer T f \<Longrightarrow> deep_object kind T (copy_object kind f)"
  by (force simp: deep_object_def deep_pointer_def copy_object_def)

lemma api_objects_deep:
  assumes "metav1_deep M" "(kind, T, copy) \<in> set (api_objects M)"
  shows "deep_object kind T copy"
proof -
  have "list_all (\<lambda>(kind, T, copy). deep_object kind T copy) (api_objects M)"
    using assms(1) unfolding api_objects_def
    by (simp add: DeepCopyObject_defs DeepCopy_defs deep_object_copy_object deep_pointer_deep_copy deep_facts)
  with assms(2) show ?thesis by (auto simp: list_all_iff)
qed

end
