(* ===== verification/Spec2Isabelle.thy ===== *)
theory Spec2Isabelle
  imports Prelude Api Contract Observer Image_Ref Compliance Validator Conditions Prober Endpoints Metrics
    Readiness Overrides Loader Loader_Concurrent Contract_Status Credentials Revisions Reconcile_Guarantees Schema
    Operator Event_Handler Dashboard Entry_Point Deep_Copy
begin

text \<open>
  A verification of pacto-operator, a Kubernetes operator that checks running services against their
  Pacto contracts.

  \<^bold>\<open>The program.\<close> A \<open>Pacto\<close> object names a contract (an OCI reference or inline YAML) and the Service and
  workload it is about. The reconciler is called with the key of a Pacto. It reads the object, resets
  the derived status, reads the pull secret, loads the contract through a caching loader, merges the
  configuration overrides, has the contract validated by the contract library, writes the
  contract-derived status, evaluates the readiness gate, records a \<open>PactoRevision\<close> for the version (and
  one for every tag of the repository), observes the runtime, validates the observed state against the
  contract, probes the declared endpoints, computes the status from the conditions, stores it, emits
  events and gauges and asks to be called again after an interval. Watches on Services, workloads and
  Secrets call it in between. A second reconciler keeps a dashboard deployed, or removes it. \<open>main\<close> parses
  the flags, makes the manager and starts both.

  \<^bold>\<open>Theories and sources.\<close>
  \<^item> \<^verbatim>\<open>Prelude\<close>: Go maps as association lists, strings, formatting, durations, \<open>int32\<close>/\<open>int64\<close> as words.
  \<^item> \<^verbatim>\<open>Api\<close> (\<^verbatim>\<open>api/v1alpha1\<close>: types, constants, \<open>IsReference\<close>, \<open>ResolvedWorkload\<close>); \<^verbatim>\<open>Contract\<close>: the data types
    of the third-party contract library with the functions the operator calls on them as a record of
    parameters \<open>externals\<close>.
  \<^item> \<^verbatim>\<open>Go_Heap\<close>: memory as a heap of cells with pointers, slices and maps that may share them, what a value
    stands for, the statements of a deep copy and their contract; \<^verbatim>\<open>Deep_Copy\<close>
    (\<^verbatim>\<open>api/v1alpha1/zz_generated.deepcopy.go\<close>): the layout of the 36 API types and their generated copies.
  \<^item> \<^verbatim>\<open>Observer\<close> (\<^verbatim>\<open>internal/observer/runtime.go\<close>): \<open>Observe\<close> and one reader per workload kind.
  \<^item> \<^verbatim>\<open>Image_Ref\<close>, \<^verbatim>\<open>Compliance\<close>, \<^verbatim>\<open>Validator\<close> (\<^verbatim>\<open>internal/validator\<close>): image references, the locale of
    status scans, every check and \<open>Validate\<close>.
  \<^item> \<^verbatim>\<open>Conditions\<close>, \<^verbatim>\<open>Endpoints\<close>, \<^verbatim>\<open>Overrides\<close>, \<^verbatim>\<open>Contract_Status\<close>, \<^verbatim>\<open>Readiness\<close>, \<^verbatim>\<open>Revisions\<close>
    (\<^verbatim>\<open>internal/controller\<close>): the helpers that write the status, endpoint probing, configuration
    overrides (by value, and over a store of maps with the aliasing of the code), the contract-derived
    status, the readiness gate with its events, revisions and tag synchronisation.
  \<^item> \<^verbatim>\<open>Prober\<close> (\<^verbatim>\<open>internal/prober\<close>), \<^verbatim>\<open>Metrics\<close> (\<^verbatim>\<open>internal/metrics\<close>), \<^verbatim>\<open>Loader\<close> (\<^verbatim>\<open>internal/loader\<close>: both caches,
    their keys, the OCI puller), \<^verbatim>\<open>Loader_Concurrent\<close> (the same calls as threads: what \<open>Load\<close> and \<open>ListTags\<close>
    do under the read lock, without a lock, and under the write lock of their mutex is one step each),
    \<^verbatim>\<open>Credentials\<close> (\<^verbatim>\<open>internal/credentials\<close>, with base64).
  \<^item> \<^verbatim>\<open>Reconcile\<close> (\<open>Reconcile\<close> of \<^verbatim>\<open>internal/controller/pacto_controller.go\<close>): \<open>Reconcile\<close> is split at its
    numbered steps into \<open>pull_credentials\<close> (3), \<open>load_contract\<close> (4), \<open>populate_status\<close> (6),
    \<open>record_revisions\<close> (7), \<open>reference_phase\<close> (8), \<open>unobserved_phase\<close> and \<open>runtime_phase\<close> (9 to 15), with
    \<open>failReconciliation\<close> and \<open>finishReconciliation\<close> as the two ends; \<^verbatim>\<open>Reconcile_Guarantees\<close> has the theorems
    about a whole attempt, \<^verbatim>\<open>Schema\<close> the schema of the status (the markers of \<^verbatim>\<open>api/v1alpha1/pacto_types.go\<close>
    and the generated definition in \<^verbatim>\<open>config/crd/bases\<close>), \<^verbatim>\<open>Operator\<close> the reconciler with its loader, as
    \<open>main\<close> puts them together, in runs of attempts and changes of the cluster.
  \<^item> \<^verbatim>\<open>Event_Handler\<close> (\<^verbatim>\<open>internal/controller/event_handler.go\<close>, \<open>SetupWithManager\<close>): the watches.
  \<^item> \<^verbatim>\<open>Dashboard_Config\<close> (\<^verbatim>\<open>internal/dashboard/config.go\<close> and the end of \<^verbatim>\<open>cmd/main.go\<close>), \<^verbatim>\<open>Dashboard_Resources\<close>
    (\<^verbatim>\<open>resources.go\<close>, \<^verbatim>\<open>apply.go\<close>), \<^verbatim>\<open>Dashboard\<close> (\<^verbatim>\<open>reconciler.go\<close>).
  \<^item> \<^verbatim>\<open>Entry_Point\<close> (\<^verbatim>\<open>cmd/main.go\<close>): the table of flags and the parsing of Go's \<open>flag\<close> package, the options of
    the servers and the manager, the scheme, and the set-up steps with their exits.

  \<^bold>\<open>State, effects and errors.\<close> Structs are records, pointers to values options, Go maps association lists
  with a lemma that their order does not matter where the code ranges over one. The Kubernetes client,
  the HTTP client, the clock and the OCI client are records of functions over an abstract world \<open>'w\<close>
  that every call passes on. Events and gauges are an \<open>outputs\<close> record. Errors are the left summand or
  an option; a slice out of range in the tag synchronisation and \<open>resource.MustParse\<close> are the value
  \<open>Panic\<close> of the datatype \<open>go\<close>. Instants and durations are integers of nanoseconds; the requeue interval
  is computed in 64-bit words, counters in 32-bit words.

  \<^bold>\<open>What is shown.\<close>
  \<^item> A whole attempt: the stored status is the one of a specification that does not mention conditions
    (\<open>expected_status\<close>), it is coherent with its conditions, summary, generation and gauge; failures
    are reported completely; nothing stale survives the reset; the next attempt is scheduled without
    overflow; existing revisions never change; the submitted status satisfies the schema exactly when
    no condition message is too long; and the condition under which the handler returns at all instead
    of panicking.
  \<^item> Runs: in every run of the operator each stored status is blank or belongs to one attempt. Under any
    interleaving of loader calls the caches are not raced and serve nothing older than their time to
    live, every call can return, and a call that runs alone does what the sequential definition says.
  \<^item> The parts: \<open>Validate\<close> decides conformance and compares ports and images exactly, and health delays
    modulo 2^32; a snapshot
    describes the objects read; probing makes one check per endpoint; overrides do not mutate the
    loaded contract and refine the merge by value; the status does not depend on map order; the loader
    refines an abstract cache with a time to live and keeps credentials apart; merged credentials read
    back; readiness events alternate; gauges are one-hot; revision names and URLs identify what they
    name.
  \<^item> The watches enqueue a Pacto for every change that could alter what an attempt observes.
  \<^item> The dashboard: an accepted configuration is safe to reconcile, what is applied equals what the
    typed builders describe and is wired together, a successful attempt brings all of it into force,
    cleaning up removes exactly what carries the labels, and \<open>Start\<close> survives failing attempts.
  \<^item> The entry point: every assignment of the flags can be given on the command line and parses back,
    the program finishes exactly when every step succeeds with the options the flags ask for, and it
    cannot run with a watched namespace other than its own.
  \<^item> The deep copies: each reads as its original, consists of new cells that nothing else refers to, and
    is not affected by later writes to the original, nor the original by writes to the copy. This is
    what lets the other theories treat the objects they are handed as values.

  \<^bold>\<open>Interfaces.\<close> Locales state what one part relies on: \<open>workload_observer\<close> (one reader per kind, \<^verbatim>\<open>Observer\<close>),
  \<open>runtime_check\<close> (\<^verbatim>\<open>Validator\<close>), \<open>compliance_scan\<close> (the status scans over checks and over conditions,
  \<^verbatim>\<open>Compliance\<close>), \<open>one_hot_recorder\<close> (the status gauges, \<^verbatim>\<open>Metrics\<close>), \<open>ttl_cache\<close> (both caches, \<^verbatim>\<open>Loader\<close>),
  \<open>request_mapper\<close> (\<^verbatim>\<open>Event_Handler\<close>); each is interpreted on the definitions of the model. Properties of
  third-party code enter as named hypotheses: \<open>hash_api\<close> (SHA-256), \<open>condition_api\<close> (\<open>meta.SetStatusCondition\<close>), \<open>status_api\<close>, \<open>revision_api\<close>,
  \<open>loader_api\<close>, \<open>runtime_api\<close>, \<open>delete_api\<close>, \<open>apply_api\<close> (the Kubernetes API), \<open>json_api\<close>,
  \<open>quantity_api\<close>, \<open>contract_api\<close> (the contract library), \<open>cluster_api\<close>, \<open>manager_api\<close>,
  \<open>metav1_deep\<close> (the copies of the package \<open>metav1\<close>); every theorem that has one comes with a witness on a concrete instance.

  \<^bold>\<open>Bounds.\<close> All loops of the code range over finite lists, so there is no fuel, except the ticks of \<open>Start\<close>:
  their number until the context is done is a parameter, and the theorem holds for every number.

  \<^bold>\<open>Not modelled.\<close> The registration of the gauges with the exporter and the construction of the default OCI keychain, which
  only call third-party code; logging; the helpers of the end-to-end tests. Reconciliation attempts do
  not overlap, as with the default of one worker; the loader is also covered under overlapping calls.
\<close>

end
